(* ===== verification/Prelude.thy ===== *)
theory Prelude
  imports "HOL-Library.Sublist" "HOL-Library.AList" "HOL-Library.Word"
begin

text \<open>
  What every theory of the development shares: the theorem collections that carry the
  component proofs, the byte-string functions of the Rust standard library the code uses
  (a Rust \<open>String\<close> is modelled by its UTF-8 bytes, one \<open>char\<close> per byte), decimal
  rendering, and lemmas on them.  Byte-level search, splitting and prefix tests agree with
  Rust's on UTF-8, because no ASCII byte occurs inside a multi-byte sequence.
\<close>

section \<open>Theorem collections\<close>

named_theorems gate_simps \<open>defining equations of the access predicates\<close>
named_theorems str_simps \<open>equations of the string functions on a known prefix\<close>
named_theorems monad_simps \<open>equations of the world monad\<close>
named_theorems keeps_intros \<open>syntax-directed rules: a statement keeps an invariant\<close>

type_synonym uuid = nat
type_synonym timestamp = int

section \<open>Bytes\<close>

abbreviation byte :: "char \<Rightarrow> nat" where
  "byte c \<equiv> of_char c"

definition ascii_lower :: "char \<Rightarrow> char" where
  "ascii_lower c = (if 65 \<le> byte c \<and> byte c \<le> 90 then char_of (byte c + 32) else c)"

definition to_ascii_lowercase :: "string \<Rightarrow> string" where
  "to_ascii_lowercase s = map ascii_lower s"

definition eq_ignore_ascii_case :: "string \<Rightarrow> string \<Rightarrow> bool" where
  "eq_ignore_ascii_case a b = (to_ascii_lowercase a = to_ascii_lowercase b)"

definition is_ascii_digit :: "char \<Rightarrow> bool" where
  "is_ascii_digit c = (48 \<le> byte c \<and> byte c \<le> 57)"

definition is_ascii_alphabetic :: "char \<Rightarrow> bool" where
  "is_ascii_alphabetic c = ((65 \<le> byte c \<and> byte c \<le> 90) \<or> (97 \<le> byte c \<and> byte c \<le> 122))"

definition is_ascii_alphanumeric :: "char \<Rightarrow> bool" where
  "is_ascii_alphanumeric c = (is_ascii_alphabetic c \<or> is_ascii_digit c)"

definition is_ascii_hexdigit :: "char \<Rightarrow> bool" where
  "is_ascii_hexdigit c = (is_ascii_digit c \<or> (65 \<le> byte c \<and> byte c \<le> 70)
     \<or> (97 \<le> byte c \<and> byte c \<le> 102))"

definition CRLF :: string where
  "CRLF = [CHR 0x0D, CHR 0x0A]"

lemma ascii_lower_idem [simp]: "ascii_lower (ascii_lower c) = ascii_lower c"
proof (cases "65 \<le> byte c \<and> byte c \<le> 90")
  case True
  then have "byte (char_of (byte c + 32) :: char) = byte c + 32"
    by (simp add: of_char_of)
  with True show ?thesis
    by (simp add: ascii_lower_def)
qed (auto simp: ascii_lower_def)

lemma to_ascii_lowercase_idem [simp]:
  "to_ascii_lowercase (to_ascii_lowercase s) = to_ascii_lowercase s"
  by (simp add: to_ascii_lowercase_def)

lemma length_to_ascii_lowercase [simp]: "length (to_ascii_lowercase s) = length s"
  by (simp add: to_ascii_lowercase_def)

lemma to_ascii_lowercase_append [simp]:
  "to_ascii_lowercase (a @ b) = to_ascii_lowercase a @ to_ascii_lowercase b"
  by (simp add: to_ascii_lowercase_def)

lemma eq_ignore_ascii_case_refl [simp]: "eq_ignore_ascii_case a a"
  by (simp add: eq_ignore_ascii_case_def)

section \<open>White space and control characters of UTF-8 text\<close>

text \<open>
  \<open>ws_len s\<close> is the number of bytes of the white-space character \<open>s\<close> begins with, 0 when
  it begins with none: \<open>char::is_whitespace\<close> on the UTF-8 encoding.
\<close>

definition ws_len :: "string \<Rightarrow> nat" where
  "ws_len s = (case s of
      [] \<Rightarrow> 0
    | a # r \<Rightarrow>
        if byte a = 32 \<or> (9 \<le> byte a \<and> byte a \<le> 13) then 1
        else case r of
          [] \<Rightarrow> 0
        | b # r' \<Rightarrow>
            if byte a = 0xC2 \<and> (byte b = 0x85 \<or> byte b = 0xA0) then 2
            else case r' of
              [] \<Rightarrow> 0
            | c # _ \<Rightarrow>
                if (byte a = 0xE1 \<and> byte b = 0x9A \<and> byte c = 0x80)
                 \<or> (byte a = 0xE2 \<and> byte b = 0x80
                     \<and> ((0x80 \<le> byte c \<and> byte c \<le> 0x8A) \<or> byte c = 0xA8
                         \<or> byte c = 0xA9 \<or> byte c = 0xAF))
                 \<or> (byte a = 0xE2 \<and> byte b = 0x81 \<and> byte c = 0x9F)
                 \<or> (byte a = 0xE3 \<and> byte b = 0x80 \<and> byte c = 0x80)
                then 3 else 0)"

definition control_at :: "string \<Rightarrow> bool" where
  "control_at s = (case s of
      [] \<Rightarrow> False
    | a # r \<Rightarrow> byte a < 32 \<or> byte a = 127
        \<or> (byte a = 0xC2 \<and> (case r of [] \<Rightarrow> False | b # _ \<Rightarrow> 0x80 \<le> byte b \<and> byte b \<le> 0x9F)))"

fun any_whitespace_or_control :: "string \<Rightarrow> bool" where
  "any_whitespace_or_control [] = False"
| "any_whitespace_or_control (c # s) =
     (0 < ws_len (c # s) \<or> control_at (c # s) \<or> any_whitespace_or_control s)"

function trim_start :: "string \<Rightarrow> string" where
  "trim_start s = (if ws_len s = 0 then s else trim_start (drop (ws_len s) s))"
  by auto
termination
proof (relation "measure length")
  fix s :: string assume "ws_len s \<noteq> 0"
  then have "s \<noteq> []" by (auto simp: ws_len_def)
  with \<open>ws_len s \<noteq> 0\<close> show "(drop (ws_len s) s, s) \<in> measure length" by simp
qed simp

declare trim_start.simps [simp del]

text \<open>\<open>trim_end\<close> looks for a white-space encoding that is a suffix of the text.\<close>

definition ws_suffix_len :: "string \<Rightarrow> nat" where
  "ws_suffix_len s = (if s \<noteq> [] \<and> ws_len (drop (length s - 1) s) = 1 then 1
     else if 2 \<le> length s \<and> ws_len (drop (length s - 2) s) = 2 then 2
     else if 3 \<le> length s \<and> ws_len (drop (length s - 3) s) = 3 then 3 else 0)"

function trim_end :: "string \<Rightarrow> string" where
  "trim_end s = (if ws_suffix_len s = 0 then s else trim_end (take (length s - ws_suffix_len s) s))"
  by auto
termination
proof (relation "measure length")
  fix s :: string assume "ws_suffix_len s \<noteq> 0"
  then have "0 < length s" "0 < ws_suffix_len s"
    by (auto simp: ws_suffix_len_def split: if_splits)
  then show "(take (length s - ws_suffix_len s) s, s) \<in> measure length" by simp
qed simp

declare trim_end.simps [simp del]

definition trim :: "string \<Rightarrow> string" where
  "trim s = trim_end (trim_start s)"

section \<open>UTF-8 (\<open>String::from_utf8\<close>, \<open>from_utf8_lossy\<close>)\<close>

definition cont_byte :: "char \<Rightarrow> bool" where
  "cont_byte c = (0x80 \<le> byte c \<and> byte c \<le> 0xBF)"

fun valid_utf8 :: "string \<Rightarrow> bool" where
  "valid_utf8 [] = True"
| "valid_utf8 (a # s) =
    (if byte a < 0x80 then valid_utf8 s
     else case s of
       [] \<Rightarrow> False
     | b # s1 \<Rightarrow>
         if 0xC2 \<le> byte a \<and> byte a \<le> 0xDF then cont_byte b \<and> valid_utf8 s1
         else case s1 of
           [] \<Rightarrow> False
         | c # s2 \<Rightarrow>
             if 0xE0 \<le> byte a \<and> byte a \<le> 0xEF then
               cont_byte b \<and> cont_byte c
               \<and> (byte a = 0xE0 \<longrightarrow> 0xA0 \<le> byte b) \<and> (byte a = 0xED \<longrightarrow> byte b \<le> 0x9F) \<and> valid_utf8 s2
             else case s2 of
               [] \<Rightarrow> False
             | d # s3 \<Rightarrow>
                 0xF0 \<le> byte a \<and> byte a \<le> 0xF4 \<and> cont_byte b \<and> cont_byte c \<and> cont_byte d
                 \<and> (byte a = 0xF0 \<longrightarrow> 0x90 \<le> byte b) \<and> (byte a = 0xF4 \<longrightarrow> byte b \<le> 0x8F)
                 \<and> valid_utf8 s3)"

text \<open>
  The character or maximal invalid sequence the bytes begin with: whether it is a character, and
  its length.
\<close>

definition byte_within :: "string \<Rightarrow> nat \<Rightarrow> nat \<Rightarrow> nat \<Rightarrow> bool" where
  "byte_within s i lo hi = (i < length s \<and> lo \<le> byte (s ! i) \<and> byte (s ! i) \<le> hi)"

definition utf8_head :: "string \<Rightarrow> bool \<times> nat" where
  "utf8_head s = (case s of [] \<Rightarrow> (True, 0) | c # _ \<Rightarrow> let a = byte c in
     if a < 0x80 then (True, 1)
     else if 0xC2 \<le> a \<and> a \<le> 0xDF then (if byte_within s 1 0x80 0xBF then (True, 2) else (False, 1))
     else if 0xE0 \<le> a \<and> a \<le> 0xEF then
       if \<not> byte_within s 1 (if a = 0xE0 then 0xA0 else 0x80) (if a = 0xED then 0x9F else 0xBF) then (False, 1)
       else if byte_within s 2 0x80 0xBF then (True, 3) else (False, 2)
     else if 0xF0 \<le> a \<and> a \<le> 0xF4 then
       if \<not> byte_within s 1 (if a = 0xF0 then 0x90 else 0x80) (if a = 0xF4 then 0x8F else 0xBF) then (False, 1)
       else if \<not> byte_within s 2 0x80 0xBF then (False, 2)
       else if byte_within s 3 0x80 0xBF then (True, 4) else (False, 3)
     else (False, 1))"

lemma utf8_head_pos: "s \<noteq> [] \<Longrightarrow> 0 < snd (utf8_head s)"
  by (cases s) (auto simp: utf8_head_def Let_def)

definition replacement_char :: string where
  "replacement_char = [CHR 0xEF, CHR 0xBF, CHR 0xBD]"

function from_utf8_lossy :: "string \<Rightarrow> string" where
  "from_utf8_lossy s = (if s = [] then []
     else (if fst (utf8_head s) then take (snd (utf8_head s)) s else replacement_char)
       @ from_utf8_lossy (drop (snd (utf8_head s)) s))"
  by auto
termination by (relation "measure length") (auto simp: utf8_head_pos)

declare from_utf8_lossy.simps [simp del]

lemma from_utf8_lossy_Nil [simp]: "from_utf8_lossy [] = []"
  by (simp add: from_utf8_lossy.simps)

lemma from_utf8_lossy_ascii: "list_all (\<lambda>c. byte c < 0x80) s \<Longrightarrow> from_utf8_lossy s = s"
  by (induction s) (simp_all add: from_utf8_lossy.simps [of "_ # _"] utf8_head_def)

section \<open>Character boundaries\<close>

text \<open>A byte offset is a character boundary unless the byte there is a continuation byte.\<close>

definition is_char_boundary :: "string \<Rightarrow> nat \<Rightarrow> bool" where
  "is_char_boundary s n = (n = 0 \<or> n = length s \<or> (n < length s \<and> \<not> cont_byte (s ! n)))"

text \<open>\<open>get(n..)\<close> of a string slice.\<close>

definition str_from :: "nat \<Rightarrow> string \<Rightarrow> string option" where
  "str_from n s = (if n \<le> length s \<and> is_char_boundary s n then Some (drop n s) else None)"

definition ascii_upper :: "char \<Rightarrow> char" where
  "ascii_upper c = (if 97 \<le> byte c \<and> byte c \<le> 122 then char_of (byte c - 32) else c)"

definition to_ascii_uppercase :: "string \<Rightarrow> string" where
  "to_ascii_uppercase s = map ascii_upper s"

text \<open>\<open>split_whitespace().next().unwrap_or_default()\<close>\<close>

fun take_word :: "string \<Rightarrow> string" where
  "take_word [] = []"
| "take_word (c # s) = (if 0 < ws_len (c # s) then [] else c # take_word s)"

definition first_word :: "string \<Rightarrow> string" where
  "first_word s = take_word (trim_start s)"

section \<open>Splitting and searching\<close>

fun split_on :: "char \<Rightarrow> string \<Rightarrow> string list" where
  "split_on c [] = [[]]"
| "split_on c (x # xs) = (if x = c then [] # split_on c xs
     else (case split_on c xs of [] \<Rightarrow> [[x]] | p # ps \<Rightarrow> (x # p) # ps))"

fun join_with :: "char \<Rightarrow> string list \<Rightarrow> string" where
  "join_with c [] = []"
| "join_with c [p] = p"
| "join_with c (p # q # ps) = p @ c # join_with c (q # ps)"

definition split_once :: "char \<Rightarrow> string \<Rightarrow> (string \<times> string) option" where
  "split_once c s = (case dropWhile (\<lambda>x. x \<noteq> c) s of
     [] \<Rightarrow> None | _ # r \<Rightarrow> Some (takeWhile (\<lambda>x. x \<noteq> c) s, r))"

definition rsplit_once :: "char \<Rightarrow> string \<Rightarrow> (string \<times> string) option" where
  "rsplit_once c s = map_option (\<lambda>(b, a). (rev a, rev b)) (split_once c (rev s))"

definition strip_prefix :: "string \<Rightarrow> string \<Rightarrow> string option" where
  "strip_prefix p s = (if prefix p s then Some (drop (length p) s) else None)"

definition strip_suffix :: "string \<Rightarrow> string \<Rightarrow> string option" where
  "strip_suffix p s = (if suffix p s then Some (take (length s - length p) s) else None)"

fun contains_str :: "string \<Rightarrow> string \<Rightarrow> bool" where
  "contains_str p [] = (p = [])"
| "contains_str p (c # s) = (prefix p (c # s) \<or> contains_str p s)"

text \<open>\<open>split_inclusive\<close> keeps the separator with the piece before it.\<close>

fun split_inclusive :: "char \<Rightarrow> string \<Rightarrow> string list" where
  "split_inclusive c [] = []"
| "split_inclusive c (x # xs) = (if x = c then [x] # split_inclusive c xs
     else (case split_inclusive c xs of [] \<Rightarrow> [[x]] | p # ps \<Rightarrow> (x # p) # ps))"

definition str_lines :: "string \<Rightarrow> string list" where
  "str_lines s = map (\<lambda>l. case strip_suffix [CHR 0x0A] l of None \<Rightarrow> l
     | Some l \<Rightarrow> (case strip_suffix [CHR 0x0D] l of None \<Rightarrow> l | Some l \<Rightarrow> l)) (split_inclusive (CHR 0x0A) s)"

text \<open>The index of the first and of the last occurrence of a byte.\<close>

fun find_byte :: "char \<Rightarrow> string \<Rightarrow> nat option" where
  "find_byte c [] = None"
| "find_byte c (x # xs) = (if x = c then Some 0 else map_option Suc (find_byte c xs))"

fun rfind_byte :: "char \<Rightarrow> string \<Rightarrow> nat option" where
  "rfind_byte c [] = None"
| "rfind_byte c (x # xs) = (case rfind_byte c xs of Some n \<Rightarrow> Some (Suc n)
     | None \<Rightarrow> if x = c then Some 0 else None)"

lemma split_on_ne [simp]: "split_on c s \<noteq> []"
  by (induction s) (auto split: list.splits)

lemma join_split_on [simp]: "join_with c (split_on c s) = s"
proof (induction s)
  case (Cons x xs)
  show ?case
  proof (cases "split_on c xs")
    case Nil
    then show ?thesis by simp
  next
    case (Cons p ps)
    then show ?thesis using Cons.IH by (cases ps) auto
  qed
qed simp

lemma split_on_pieces: "p \<in> set (split_on c s) \<Longrightarrow> c \<notin> set p"
  by (induction s arbitrary: p) (auto split: list.splits if_splits)

lemma length_split_on: "length (split_on c s) = Suc (count_list s c)"
  by (induction s) (auto split: list.splits)

lemma split_on_no_sep: "c \<notin> set s \<Longrightarrow> split_on c s = [s]"
  by (induction s) auto

lemma split_on_append_sep: "c \<notin> set a \<Longrightarrow> split_on c (a @ c # b) = a # split_on c b"
  by (induction a) auto

lemma split_on_two_iff:
  "split_on c s = [a, b] \<longleftrightarrow> s = a @ c # b \<and> c \<notin> set a \<and> c \<notin> set b"
proof
  assume eq: "split_on c s = [a, b]"
  then have "s = join_with c [a, b]" by (metis join_split_on)
  moreover have "c \<notin> set a" "c \<notin> set b" using eq split_on_pieces [of _ c s] by auto
  ultimately show "s = a @ c # b \<and> c \<notin> set a \<and> c \<notin> set b" by simp
next
  assume "s = a @ c # b \<and> c \<notin> set a \<and> c \<notin> set b"
  then show "split_on c s = [a, b]" by (simp add: split_on_append_sep split_on_no_sep)
qed

lemma split_once_Some_iff:
  "split_once c s = Some (a, b) \<longleftrightarrow> s = a @ c # b \<and> c \<notin> set a"
proof
  assume h: "split_once c s = Some (a, b)"
  then obtain y r where d: "dropWhile (\<lambda>x. x \<noteq> c) s = y # r" and
    a: "a = takeWhile (\<lambda>x. x \<noteq> c) s" and b: "b = r"
    by (auto simp: split_once_def split: list.splits)
  from d have "y = c" using hd_dropWhile [of "\<lambda>x. x \<noteq> c" s] by auto
  moreover have "s = a @ dropWhile (\<lambda>x. x \<noteq> c) s" using a by simp
  moreover have "c \<notin> set a" using a by (auto dest: set_takeWhileD)
  ultimately show "s = a @ c # b \<and> c \<notin> set a" using d b by simp
next
  assume h: "s = a @ c # b \<and> c \<notin> set a"
  have "takeWhile (\<lambda>x. x \<noteq> c) (a @ c # b) = a"
    using h by (subst takeWhile_append2) auto
  moreover have "dropWhile (\<lambda>x. x \<noteq> c) (a @ c # b) = c # b"
    using h by (subst dropWhile_append2) auto
  ultimately show "split_once c s = Some (a, b)" using h by (simp add: split_once_def)
qed

lemma strip_prefix_Some_iff: "strip_prefix p s = Some r \<longleftrightarrow> s = p @ r"
  by (auto simp: strip_prefix_def prefix_def)

lemma strip_prefix_append [simp]: "strip_prefix p (p @ r) = Some r"
  by (simp add: strip_prefix_Some_iff)

lemma strip_prefix_Cons [simp]: "strip_prefix [c] (c # r) = Some r"
  by (simp add: strip_prefix_Some_iff)

lemma contains_str_iff: "contains_str p s \<longleftrightarrow> (\<exists>a b. s = a @ p @ b)"
proof (induction s)
  case (Cons c s)
  have "(\<exists>a b. c # s = a @ p @ b) \<longleftrightarrow> prefix p (c # s) \<or> (\<exists>a b. s = a @ p @ b)"
    by (auto simp: prefix_def Cons_eq_append_conv)
  with Cons.IH show ?case by simp
qed auto

section \<open>Decimal rendering\<close>

fun show_nat :: "nat \<Rightarrow> string" where
  "show_nat n = (if n < 10 then [char_of (48 + n)]
     else show_nat (n div 10) @ [char_of (48 + n mod 10)])"

declare show_nat.simps [simp del]

definition show_int :: "int \<Rightarrow> string" where
  "show_int i = (if i < 0 then ''-'' @ show_nat (nat (- i)) else show_nat (nat i))"

fun read_nat_from :: "nat \<Rightarrow> string \<Rightarrow> nat option" where
  "read_nat_from acc [] = Some acc"
| "read_nat_from acc (c # s) =
     (if is_ascii_digit c then read_nat_from (acc * 10 + (byte c - 48)) s else None)"

definition read_nat :: "string \<Rightarrow> nat option" where
  "read_nat s = (if s = [] then None else read_nat_from 0 s)"

text \<open>\<open>parse\<close> of an unsigned integer type: an optional plus sign, digits, no overflow.\<close>

definition parse_uint :: "nat \<Rightarrow> string \<Rightarrow> nat option" where
  "parse_uint limit s = (case read_nat (case strip_prefix ''+'' s of None \<Rightarrow> s | Some r \<Rightarrow> r) of
     None \<Rightarrow> None | Some n \<Rightarrow> if n \<le> limit then Some n else None)"

lemma show_nat_ne [simp]: "show_nat n \<noteq> []"
  by (subst show_nat.simps) simp

lemma byte_digit [simp]: "d < 10 \<Longrightarrow> byte (char_of (48 + d) :: char) = 48 + d"
  by (simp add: of_char_of)

lemma read_nat_from_append:
  "read_nat_from acc (s @ t) = Option.bind (read_nat_from acc s) (\<lambda>a. read_nat_from a t)"
  by (induction s arbitrary: acc) auto

lemma read_nat_show_nat [simp]: "read_nat (show_nat n) = Some n"
proof -
  have "read_nat_from 0 (show_nat n) = Some n"
  proof (induction n rule: show_nat.induct)
    case (1 n)
    show ?case
    proof (cases "n < 10")
      case True
      then show ?thesis by (simp add: show_nat.simps [of n] is_ascii_digit_def)
    next
      case False
      have "n mod 10 < 10" by simp
      then have "byte (char_of (48 + n mod 10) :: char) = 48 + n mod 10" by (rule byte_digit)
      with False 1 show ?thesis
        by (simp add: show_nat.simps [of n] read_nat_from_append is_ascii_digit_def)
    qed
  qed
  then show ?thesis by (simp add: read_nat_def)
qed

section \<open>Sums, options and association lists\<close>

lemma sum_case_isl: "(case x of Inl e \<Rightarrow> False | Inr _ \<Rightarrow> True) = (\<not> isl x)"
  by (cases x) auto

lemma list_ex_set: "list_ex P xs = (\<exists>x\<in>set xs. P x)"
  by (induction xs) auto

lemma map_of_update [simp]: "map_of (AList.update k v al) = (map_of al)(k \<mapsto> v)"
  by (simp add: update_conv')

lemma find_SomeD: "List.find P xs = Some x \<Longrightarrow> x \<in> set xs \<and> P x"
  by (induction xs) (auto split: if_splits)

lemma find_unique:
  assumes "x \<in> set xs" "P x" and "\<And>y. y \<in> set xs \<Longrightarrow> P y \<Longrightarrow> y = x"
  shows "List.find P xs = Some x"
proof (cases "List.find P xs")
  case None
  then show ?thesis using assms(1,2) by (simp add: find_None_iff)
next
  case (Some y)
  then show ?thesis using find_SomeD [OF Some] assms(3) by simp
qed

lemma find_None_iff': "List.find P xs = None \<longleftrightarrow> (\<forall>x\<in>set xs. \<not> P x)"
  by (induction xs) auto

end
