(* ===== verification/CoreModel.thy ===== *)
theory CoreModel
  imports Prelude
begin

text \<open>
  \<open>noombat-core\<close>: the actor record and its enumerations (\<open>actor.rs\<close>), the privacy
  settings (\<open>privacy.rs\<close>) and the application's error type (\<open>error.rs\<close>).  Every
  enumeration the database stores has a spelling function (\<open>as_str\<close>) and a reader; the
  contract between the two is the locale \<open>stored_enum\<close>, interpreted on each pair.
\<close>

section \<open>Errors\<close>

text \<open>
  \<open>sqlx::Error\<close> and \<open>serde_json::Error\<close> are opaque to the program, so \<open>Database\<close> and
  \<open>Serialisation\<close> carry nothing.
\<close>

datatype noombat_error =
    ActorNotFound string
  | ActorAlreadyExists string
  | Database
  | Serialisation
  | Federation string
  | SignatureVerification
  | NotFound string uuid
  | Forbidden
  | MoveRejected string
  | BadRequest string
  | Internal string
  | ServiceUnavailable string
  | QuotaExceeded string

type_synonym 'a result = "noombat_error + 'a"

section \<open>Actor enumerations\<close>

datatype actor_type = Individual | Organization | Group | Application

definition ap_type :: "actor_type \<Rightarrow> string" where
  "ap_type t = (case t of Individual \<Rightarrow> ''Person'' | Organization \<Rightarrow> ''Organization''
     | Group \<Rightarrow> ''Group'' | Application \<Rightarrow> ''Application'')"

definition actor_type_as_str :: "actor_type \<Rightarrow> string" where
  "actor_type_as_str t = (case t of Individual \<Rightarrow> ''individual''
     | Organization \<Rightarrow> ''organization'' | Group \<Rightarrow> ''group'' | Application \<Rightarrow> ''application'')"

definition from_ap_type :: "string \<Rightarrow> actor_type" where
  "from_ap_type s = (if s = ''Organization'' then Organization
     else if s = ''Group'' then Group
     else if s = ''Application'' then Application
     else Individual)"

datatype instance_role = RoleUser | RoleModerator | RoleAdmin

datatype org_kind = Employer | Agency

definition org_kind_as_str :: "org_kind \<Rightarrow> string" where
  "org_kind_as_str k = (case k of Employer \<Rightarrow> ''employer'' | Agency \<Rightarrow> ''agency'')"

definition org_kind_parse :: "string \<Rightarrow> org_kind option" where
  "org_kind_parse raw = (if raw = ''employer'' then Some Employer
     else if raw = ''agency'' then Some Agency else None)"

datatype actor_status = StatusPending | StatusActive | StatusSilenced | StatusSuspended

definition actor_status_as_str :: "actor_status \<Rightarrow> string" where
  "actor_status_as_str s = (case s of StatusPending \<Rightarrow> ''pending'' | StatusActive \<Rightarrow> ''active''
     | StatusSilenced \<Rightarrow> ''silenced'' | StatusSuspended \<Rightarrow> ''suspended'')"

section \<open>Privacy settings\<close>

datatype cv_download = CvPublic | CvFollowers | CvSelfOnly
datatype section_visibility = SecPublic | SecFollowers | SecConnections | SecPrivate
datatype post_visibility = PostPublic | PostUnlisted | PostFollowers | PostConnections
datatype list_visibility = ListPublic | ListFollowers | ListConnections | ListPrivate

record actor_privacy =
  discoverable :: bool
  indexable :: bool
  require_follow_approval :: bool
  federate_profile :: bool
  chatmail_visible :: bool
  show_followers_count :: bool
  priv_cv_download :: cv_download

definition default_privacy :: actor_privacy where
  "default_privacy = \<lparr> discoverable = True, indexable = True, require_follow_approval = False,
     federate_profile = True, chatmail_visible = True, show_followers_count = True,
     priv_cv_download = CvPublic \<rparr>"

definition post_visibility_as_str :: "post_visibility \<Rightarrow> string" where
  "post_visibility_as_str v = (case v of PostPublic \<Rightarrow> ''public'' | PostUnlisted \<Rightarrow> ''unlisted''
     | PostFollowers \<Rightarrow> ''followers'' | PostConnections \<Rightarrow> ''connections'')"

definition post_visibility_from_stored :: "string \<Rightarrow> post_visibility" where
  "post_visibility_from_stored s = (if s = ''public'' then PostPublic
     else if s = ''unlisted'' then PostUnlisted
     else if s = ''followers'' then PostFollowers
     else PostConnections)"

definition section_visibility_as_str :: "section_visibility \<Rightarrow> string" where
  "section_visibility_as_str v = (case v of SecPublic \<Rightarrow> ''public'' | SecFollowers \<Rightarrow> ''followers''
     | SecConnections \<Rightarrow> ''connections'' | SecPrivate \<Rightarrow> ''private'')"

definition section_visibility_from_stored :: "string \<Rightarrow> section_visibility" where
  "section_visibility_from_stored s = (if s = ''public'' then SecPublic
     else if s = ''followers'' then SecFollowers
     else if s = ''connections'' then SecConnections
     else SecPrivate)"

section \<open>The actor record\<close>

record actor =
  a_id :: uuid
  a_type :: actor_type
  a_org_kind :: "org_kind option"
  a_ap_id :: string
  a_username :: string
  a_display_name :: "string option"
  a_headline :: "string option"
  a_location :: "string option"
  a_avatar_url :: "string option"
  a_header_url :: "string option"
  a_summary_md :: "string option"
  a_summary_html :: "string option"
  a_public_key_pem :: string
  a_public_key_id :: "string option"
  a_private_key_pem :: "string option"
  a_ed25519_public_key :: "string option"
  a_ed25519_private_key :: "string option"
  a_domain :: string
  a_is_local :: bool
  a_inbox_url :: "string option"
  a_instance_role :: instance_role
  a_status :: actor_status
  a_chat_requires_reprovisioning :: bool
  a_chatmail_addr :: "string option"
  a_orcid :: "string option"
  a_moved_to :: "string option"
  a_privacy :: actor_privacy
  a_created_at :: timestamp
  a_updated_at :: timestamp

section \<open>Stored spellings\<close>

text \<open>
  What the code promises of a stored enumeration: reading what was written gives it back,
  and any other text reads as one fixed value, which the code chooses so that it admits the
  least.
\<close>

locale stored_enum =
  fixes enc :: "'a \<Rightarrow> string" and dec :: "string \<Rightarrow> 'b" and lift :: "'a \<Rightarrow> 'b" and fallback :: 'b
  assumes dec_enc: "dec (enc v) = lift v"
    and dec_unknown: "s \<notin> range enc \<Longrightarrow> dec s = fallback"
    and lift_inj: "lift v = lift w \<Longrightarrow> v = w"
begin

lemma enc_inj: "enc v = enc w \<Longrightarrow> v = w"
  by (metis dec_enc lift_inj)

lemma dec_eq_iff: "lift v \<noteq> fallback \<Longrightarrow> dec s = lift v \<longleftrightarrow> s = enc v"
  by (metis dec_enc dec_unknown lift_inj rangeE)

lemma dec_range: "dec s \<in> insert fallback (range lift)"
  using dec_enc dec_unknown by (cases "s \<in> range enc") auto

end

interpretation ap_type_enum: stored_enum ap_type from_ap_type "\<lambda>t. t" Individual
proof
  fix s assume "s \<notin> range ap_type"
  then have "s \<noteq> ap_type t" for t by auto
  from this [of Organization] this [of Group] this [of Application]
  show "from_ap_type s = Individual" by (simp add: ap_type_def from_ap_type_def)
qed (auto simp: ap_type_def from_ap_type_def split: actor_type.splits)

interpretation org_kind_enum: stored_enum org_kind_as_str org_kind_parse Some None
proof
  fix s assume "s \<notin> range org_kind_as_str"
  then have "s \<noteq> org_kind_as_str k" for k by auto
  from this [of Employer] this [of Agency]
  show "org_kind_parse s = None" by (simp add: org_kind_as_str_def org_kind_parse_def)
qed (auto simp: org_kind_as_str_def org_kind_parse_def split: org_kind.splits)

interpretation post_vis_enum:
  stored_enum post_visibility_as_str post_visibility_from_stored "\<lambda>v. v" PostConnections
proof
  fix s assume "s \<notin> range post_visibility_as_str"
  then have "s \<noteq> post_visibility_as_str v" for v by auto
  from this [of PostPublic] this [of PostUnlisted] this [of PostFollowers]
  show "post_visibility_from_stored s = PostConnections"
    by (simp add: post_visibility_as_str_def post_visibility_from_stored_def)
qed (auto simp: post_visibility_as_str_def post_visibility_from_stored_def
       split: post_visibility.splits)

interpretation section_vis_enum:
  stored_enum section_visibility_as_str section_visibility_from_stored "\<lambda>v. v" SecPrivate
proof
  fix s assume "s \<notin> range section_visibility_as_str"
  then have "s \<noteq> section_visibility_as_str v" for v by auto
  from this [of SecPublic] this [of SecFollowers] this [of SecConnections]
  show "section_visibility_from_stored s = SecPrivate"
    by (simp add: section_visibility_as_str_def section_visibility_from_stored_def)
qed (auto simp: section_visibility_as_str_def section_visibility_from_stored_def
       split: section_visibility.splits)

lemma actor_status_as_str_inj: "actor_status_as_str s = actor_status_as_str t \<Longrightarrow> s = t"
  by (simp add: actor_status_as_str_def split: actor_status.splits)

lemma actor_type_as_str_inj: "actor_type_as_str s = actor_type_as_str t \<Longrightarrow> s = t"
  by (simp add: actor_type_as_str_def split: actor_type.splits)

end
