(* ===== verification/Envelope.thy ===== *)
theory Envelope
  imports CoreModel
begin

text \<open>
  \<open>noombat-core/src/envelope.rs\<close>: secrets at rest under AES-256-GCM.  The cipher, Base64 and
  the operating system's randomness are not code of the repository: they are the fields of
  \<open>crypto\<close>, and \<open>aead_correct\<close> states what their documentation promises.  A key and a blob
  are byte strings.
\<close>

record crypto =
  c_key_ok :: "string \<Rightarrow> bool"
  c_encrypt :: "string \<Rightarrow> string \<Rightarrow> string \<Rightarrow> string option"
  c_decrypt :: "string \<Rightarrow> string \<Rightarrow> string \<Rightarrow> string option"
  c_b64_encode :: "string \<Rightarrow> string"
  c_b64_decode :: "string \<Rightarrow> string option"

section \<open>The key\<close>

definition hex_value :: "char \<Rightarrow> nat" where
  "hex_value c = (if is_ascii_digit c then byte c - 48
     else if byte c \<le> 70 then byte c - 55 else byte c - 87)"

fun hex_bytes :: "string \<Rightarrow> string" where
  "hex_bytes (h # l # s) = char_of (16 * hex_value h + hex_value l) # hex_bytes s"
| "hex_bytes _ = []"

definition from_hex :: "string \<Rightarrow> string result" where
  "from_hex hex =
    (if length hex \<noteq> 64 then Inl (Internal ''KEK must be 64 hex characters (32 bytes)'')
     else if \<not> list_all is_ascii_hexdigit hex then
       Inl (Internal ''KEK contains invalid hex characters'')
     else Inr (hex_bytes hex))"

section \<open>Sealing and opening\<close>

text \<open>
  \<open>nonce\<close> is what the operating system's generator returned: 12 bytes, or nothing.
\<close>

definition seal :: "crypto \<Rightarrow> string option \<Rightarrow> string \<Rightarrow> string \<Rightarrow> string result" where
  "seal C nonce key plaintext =
    (if \<not> c_key_ok C key then Inl (Internal ''AES-256-GCM key init failed'')
     else case nonce of
       None \<Rightarrow> Inl (Internal ''nonce generation failed'')
     | Some nonce_bytes \<Rightarrow>
         (case c_encrypt C key nonce_bytes plaintext of
            None \<Rightarrow> Inl (Internal ''envelope seal failed'')
          | Some ciphertext \<Rightarrow> Inr (c_b64_encode C (nonce_bytes @ ciphertext))))"

definition open_sealed :: "crypto \<Rightarrow> string \<Rightarrow> string \<Rightarrow> string result" where
  "open_sealed C key sealed_b64 =
    (case c_b64_decode C sealed_b64 of
       None \<Rightarrow> Inr sealed_b64
     | Some blob \<Rightarrow>
         if length blob < 12 + 16 then Inr sealed_b64
         else if \<not> c_key_ok C key then Inl (Internal ''AES-256-GCM key init failed'')
         else (case c_decrypt C key (take 12 blob) (drop 12 blob) of
             Some plaintext \<Rightarrow>
               if valid_utf8 plaintext then Inr plaintext
               else Inl (Internal ''envelope plaintext is not valid UTF-8'')
           | None \<Rightarrow> Inr sealed_b64))"

definition seal_opt :: "crypto \<Rightarrow> string option \<Rightarrow> string option \<Rightarrow> string \<Rightarrow> string result" where
  "seal_opt C nonce key plaintext =
    (case key of Some k \<Rightarrow> seal C nonce k plaintext | None \<Rightarrow> Inr plaintext)"

definition open_opt :: "crypto \<Rightarrow> string option \<Rightarrow> string \<Rightarrow> string result" where
  "open_opt C key sealed =
    (case key of Some k \<Rightarrow> open_sealed C k sealed | None \<Rightarrow> Inr sealed)"

definition open_opt_field ::
  "crypto \<Rightarrow> string option \<Rightarrow> string option \<Rightarrow> string option result" where
  "open_opt_field C key field =
    (case field of None \<Rightarrow> Inr None
     | Some v \<Rightarrow> (case open_opt C key v of Inl e \<Rightarrow> Inl e | Inr t \<Rightarrow> Inr (Some t)))"

section \<open>The documented behaviour of the cipher and of Base64\<close>

definition aead_correct :: "crypto \<Rightarrow> bool" where
  "aead_correct C \<longleftrightarrow>
     (\<forall>b. c_b64_decode C (c_b64_encode C b) = Some b)
   \<and> (\<forall>k n p c. c_encrypt C k n p = Some c \<longrightarrow> length c = length p + 16 \<and> c_decrypt C k n c = Some p)"

lemma open_seal:
  assumes "aead_correct C" and "valid_utf8 p" and "length n = 12" and "seal C (Some n) k p = Inr s"
  shows "open_sealed C k s = Inr p"
proof -
  from assms(4) obtain c where ok: "c_key_ok C k" and e: "c_encrypt C k n p = Some c"
    and s: "s = c_b64_encode C (n @ c)"
    by (auto simp: seal_def split: if_splits option.splits)
  with assms(1) have "length c = length p + 16" "c_decrypt C k n c = Some p"
    "c_b64_decode C s = Some (n @ c)"
    by (auto simp: aead_correct_def)
  with ok assms(2,3) show ?thesis by (simp add: open_sealed_def)
qed

lemma open_sealed_cases:
  assumes "open_sealed C k s = Inr t"
  shows "t = s \<or> (\<exists>blob. c_b64_decode C s = Some blob \<and> 28 \<le> length blob
     \<and> c_decrypt C k (take 12 blob) (drop 12 blob) = Some t \<and> valid_utf8 t)"
  using assms by (auto simp: open_sealed_def not_less split: option.splits if_splits)

lemma length_hex_bytes: "length (hex_bytes s) = length s div 2"
  by (induction s rule: hex_bytes.induct) auto

lemma from_hex_length: "from_hex hex = Inr k \<Longrightarrow> length k = 32"
  by (auto simp: from_hex_def length_hex_bytes split: if_splits)

end
