(* ===== verification/Json.thy ===== *)
theory Json
  imports Prelude
begin

text \<open>
  JSON values and the ActivityPub documents read from them: \<open>noombat-ap\<close>'s
  \<open>activity.rs\<close>, \<open>addressing.rs\<close>, \<open>object.rs\<close> and the constants of \<open>context.rs\<close>.
  Parsing text is \<open>serde_json\<close>'s and a parameter of later theories; what is modelled here
  is the derived deserialisation of the structs from a parsed value: a missing member of
  type \<open>Option\<close> is absent, a missing or ill-typed other member refuses the document, and a
  JSON array gives the members by position.
\<close>

section \<open>Values\<close>

datatype json =
    JNull
  | JBool bool
  | JNum string
  | JStr string
  | JArr "json list"
  | JObj "(string \<times> json) list"

fun get :: "string \<Rightarrow> json \<Rightarrow> json option" where
  "get k (JObj kvs) = map_of kvs k"
| "get k _ = None"

fun as_str :: "json \<Rightarrow> string option" where
  "as_str (JStr s) = Some s"
| "as_str _ = None"

fun as_bool :: "json \<Rightarrow> bool option" where
  "as_bool (JBool b) = Some b"
| "as_bool _ = None"

fun as_array :: "json \<Rightarrow> json list option" where
  "as_array (JArr xs) = Some xs"
| "as_array _ = None"

fun is_object :: "json \<Rightarrow> bool" where
  "is_object (JObj _) = True"
| "is_object _ = False"

definition get_str :: "string \<Rightarrow> json \<Rightarrow> string option" where
  "get_str k v = Option.bind (get k v) as_str"

definition get_str_or :: "string \<Rightarrow> string \<Rightarrow> json \<Rightarrow> string" where
  "get_str_or d k v = (case get_str k v of Some s \<Rightarrow> s | None \<Rightarrow> d)"

lemma as_str_Some [simp]: "as_str v = Some s \<longleftrightarrow> v = JStr s"
  by (cases v) auto

lemma as_array_Some [simp]: "as_array v = Some xs \<longleftrightarrow> v = JArr xs"
  by (cases v) auto

lemma get_str_Some_iff: "get_str k v = Some s \<longleftrightarrow> get k v = Some (JStr s)"
  by (auto simp: get_str_def Option.bind_eq_Some_conv)

section \<open>The constants of the vocabulary\<close>

definition AS_CONTEXT :: string where
  "AS_CONTEXT = ''https://www.w3.org/ns/activitystreams''"

definition AS_PUBLIC :: string where
  "AS_PUBLIC = ''https://www.w3.org/ns/activitystreams#Public''"

definition NOOMBAT_NS :: string where
  "NOOMBAT_NS = ''https://noombat.org/ns#''"

definition SECURITY_CONTEXT :: string where
  "SECURITY_CONTEXT = ''https://w3id.org/security/v1''"

definition MULTIKEY_CONTEXT :: string where
  "MULTIKEY_CONTEXT = ''https://w3id.org/security/multikey/v1''"

definition SCHEMA_NS :: string where
  "SCHEMA_NS = ''http://schema.org#''"

definition GTS_NS :: string where
  "GTS_NS = ''https://gotosocial.org/ns#''"

datatype ap_extension = ExtSecurity | ExtMultikey | ExtSchema | ExtMovedTo | ExtHashtag | ExtInteractionPolicy

fun ext_rank :: "ap_extension \<Rightarrow> nat" where
  "ext_rank ExtSecurity = 0"
| "ext_rank ExtMultikey = 1"
| "ext_rank ExtSchema = 2"
| "ext_rank ExtMovedTo = 3"
| "ext_rank ExtHashtag = 4"
| "ext_rank ExtInteractionPolicy = 5"

text \<open>What one extension adds: named contexts, and terms of the trailing map.\<close>

fun ext_entries :: "ap_extension \<Rightarrow> json list" where
  "ext_entries ExtSecurity = [JStr SECURITY_CONTEXT]"
| "ext_entries ExtMultikey = [JStr MULTIKEY_CONTEXT]"
| "ext_entries _ = []"

fun ext_terms :: "ap_extension \<Rightarrow> (string \<times> json) list" where
  "ext_terms ExtSchema = [(''schema'', JStr SCHEMA_NS), (''PropertyValue'', JStr ''schema:PropertyValue''),
     (''value'', JStr ''schema:value'')]"
| "ext_terms ExtMovedTo = [(''movedTo'', JObj [(''@id'', JStr ''as:movedTo''), (''@type'', JStr ''@id'')])]"
| "ext_terms ExtHashtag = [(''Hashtag'', JStr ''as:Hashtag'')]"
| "ext_terms ExtInteractionPolicy = [(''gts'', JStr GTS_NS),
     (''interactionPolicy'', JObj [(''@id'', JStr ''gts:interactionPolicy''), (''@type'', JStr ''@id'')])]"
| "ext_terms _ = []"

definition context_with :: "ap_extension list \<Rightarrow> json" where
  "context_with extensions =
    (let wanted = remdups_adj (sort_key ext_rank extensions)
     in JArr (JStr AS_CONTEXT # concat (map ext_entries wanted)
          @ [JObj (concat (map ext_terms wanted) @ [(''noombat'', JStr NOOMBAT_NS)])]))"

definition default_context :: json where
  "default_context = context_with []"

definition error_context :: json where
  "error_context = JArr [JStr AS_CONTEXT, JObj [(''noombat'', JStr NOOMBAT_NS)]]"

section \<open>Addressing\<close>

fun uri_of :: "json \<Rightarrow> string option" where
  "uri_of (JStr uri) = Some uri"
| "uri_of (JObj kvs) = get_str ''id'' (JObj kvs)"
| "uri_of _ = None"

fun one_or_many :: "json option \<Rightarrow> string list option" where
  "one_or_many None = None"
| "one_or_many (Some JNull) = None"
| "one_or_many (Some (JArr entries)) = Some (List.map_filter uri_of entries)"
| "one_or_many (Some single) = Some (case uri_of single of None \<Rightarrow> [] | Some u \<Rightarrow> [u])"

section \<open>Derived deserialisation\<close>

text \<open>The members of a struct with the given member names, or nothing for other values.\<close>

fun struct_fields :: "string list \<Rightarrow> json \<Rightarrow> (string \<Rightarrow> json option) option" where
  "struct_fields names (JObj kvs) = Some (map_of kvs)"
| "struct_fields names (JArr xs) =
     (if length xs = length names then Some (map_of (zip names xs)) else None)"
| "struct_fields names _ = None"

definition req_str :: "(string \<Rightarrow> json option) \<Rightarrow> string \<Rightarrow> string option" where
  "req_str fs k = Option.bind (fs k) as_str"

text \<open>An optional member: \<open>None\<close> refuses the document, \<open>Some None\<close> is absence.\<close>

definition opt_with :: "(json \<Rightarrow> 'a option) \<Rightarrow> (string \<Rightarrow> json option) \<Rightarrow> string \<Rightarrow> 'a option option" where
  "opt_with read fs k = (case fs k of None \<Rightarrow> Some None | Some JNull \<Rightarrow> Some None
     | Some v \<Rightarrow> (case read v of None \<Rightarrow> None | Some x \<Rightarrow> Some (Some x)))"

fun read_all :: "(json \<Rightarrow> 'a option) \<Rightarrow> json list \<Rightarrow> 'a list option" where
  "read_all read [] = Some []"
| "read_all read (x # xs) = (case read x of None \<Rightarrow> None
     | Some y \<Rightarrow> (case read_all read xs of None \<Rightarrow> None | Some ys \<Rightarrow> Some (y # ys)))"

definition vec_of :: "(json \<Rightarrow> 'a option) \<Rightarrow> json \<Rightarrow> 'a list option" where
  "vec_of read v = Option.bind (as_array v) (read_all read)"

section \<open>Activities\<close>

record activity =
  act_context :: "json option"
  act_id :: string
  act_type :: string
  act_actor :: string
  act_object :: json
  act_to :: "string list option"
  act_cc :: "string list option"
  act_published :: "string option"
  act_target :: "string option"
  act_content :: "string option"

definition activity_members :: "string list" where
  "activity_members = [''@context'', ''id'', ''type'', ''actor'', ''object'', ''to'', ''cc'',
     ''published'', ''target'', ''content'']"

definition activity_from_value :: "json \<Rightarrow> activity option" where
  "activity_from_value v = (case struct_fields activity_members v of None \<Rightarrow> None | Some fs \<Rightarrow>
     (case (opt_with Some fs ''@context'', req_str fs ''id'', req_str fs ''type'', req_str fs ''actor'',
            fs ''object'', opt_with as_str fs ''published'', opt_with as_str fs ''target'',
            opt_with as_str fs ''content'') of
        (Some ctx, Some i, Some t, Some a, Some obj, Some p, Some tgt, Some c) \<Rightarrow>
          Some \<lparr> act_context = ctx, act_id = i, act_type = t, act_actor = a, act_object = obj,
                 act_to = one_or_many (fs ''to''), act_cc = one_or_many (fs ''cc''),
                 act_published = p, act_target = tgt, act_content = c \<rparr>
      | _ \<Rightarrow> None))"

section \<open>Actor documents\<close>

record ap_multikey =
  mk_id :: string
  mk_key_type :: string
  mk_controller :: string
  mk_public_key_multibase :: string

record ap_public_key =
  pk_id :: string
  pk_owner :: string
  pk_public_key_pem :: string

record media_link =
  ml_media_type :: string
  ml_mime_type :: "string option"
  ml_url :: string

record ap_actor =
  apa_context :: "json option"
  apa_id :: string
  apa_type :: string
  apa_preferred_username :: string
  apa_name :: "string option"
  apa_summary :: "string option"
  apa_icon :: "media_link option"
  apa_image :: "media_link option"
  apa_inbox :: string
  apa_outbox :: string
  apa_followers :: "string option"
  apa_following :: "string option"
  apa_public_key :: ap_public_key
  apa_url :: "string option"
  apa_attachment :: "json list option"
  apa_endpoints :: "json option"
  apa_assertion_method :: "ap_multikey list option"
  apa_moved_to :: "string option"
  apa_also_known_as :: "string list option"
  apa_discoverable :: "bool option"
  apa_indexable :: "bool option"

definition multikey_from_value :: "json \<Rightarrow> ap_multikey option" where
  "multikey_from_value v =
    (case struct_fields [''id'', ''type'', ''controller'', ''publicKeyMultibase''] v of
       None \<Rightarrow> None
     | Some fs \<Rightarrow> (case (req_str fs ''id'', req_str fs ''type'', req_str fs ''controller'',
           req_str fs ''publicKeyMultibase'') of
         (Some i, Some t, Some c, Some k) \<Rightarrow>
           Some \<lparr> mk_id = i, mk_key_type = t, mk_controller = c, mk_public_key_multibase = k \<rparr>
       | _ \<Rightarrow> None))"

definition public_key_from_value :: "json \<Rightarrow> ap_public_key option" where
  "public_key_from_value v = (case struct_fields [''id'', ''owner'', ''publicKeyPem''] v of
       None \<Rightarrow> None
     | Some fs \<Rightarrow> (case (req_str fs ''id'', req_str fs ''owner'', req_str fs ''publicKeyPem'') of
         (Some i, Some ow, Some p) \<Rightarrow> Some \<lparr> pk_id = i, pk_owner = ow, pk_public_key_pem = p \<rparr>
       | _ \<Rightarrow> None))"

definition media_link_from_value :: "json \<Rightarrow> media_link option" where
  "media_link_from_value v = (case struct_fields [''type'', ''mediaType'', ''url''] v of
       None \<Rightarrow> None
     | Some fs \<Rightarrow> (case (req_str fs ''type'', opt_with as_str fs ''mediaType'', req_str fs ''url'') of
         (Some t, Some m, Some u) \<Rightarrow> Some \<lparr> ml_media_type = t, ml_mime_type = m, ml_url = u \<rparr>
       | _ \<Rightarrow> None))"

definition ap_actor_members :: "string list" where
  "ap_actor_members = [''@context'', ''id'', ''type'', ''preferredUsername'', ''name'', ''summary'',
     ''icon'', ''image'', ''inbox'', ''outbox'', ''followers'', ''following'', ''publicKey'', ''url'',
     ''attachment'', ''endpoints'', ''assertionMethod'', ''movedTo'', ''alsoKnownAs'',
     ''discoverable'', ''indexable'']"

definition ap_actor_from_value :: "json \<Rightarrow> ap_actor option" where
  "ap_actor_from_value v = (case struct_fields ap_actor_members v of None \<Rightarrow> None | Some fs \<Rightarrow>
     Option.bind (opt_with Some fs ''@context'') (\<lambda>ctx.
     Option.bind (req_str fs ''id'') (\<lambda>i.
     Option.bind (req_str fs ''type'') (\<lambda>t.
     Option.bind (req_str fs ''preferredUsername'') (\<lambda>u.
     Option.bind (opt_with as_str fs ''name'') (\<lambda>n.
     Option.bind (opt_with as_str fs ''summary'') (\<lambda>sm.
     Option.bind (opt_with media_link_from_value fs ''icon'') (\<lambda>ic.
     Option.bind (opt_with media_link_from_value fs ''image'') (\<lambda>im.
     Option.bind (req_str fs ''inbox'') (\<lambda>inb.
     Option.bind (req_str fs ''outbox'') (\<lambda>outb.
     Option.bind (opt_with as_str fs ''followers'') (\<lambda>frs.
     Option.bind (opt_with as_str fs ''following'') (\<lambda>fng.
     Option.bind (Option.bind (fs ''publicKey'') public_key_from_value) (\<lambda>pk.
     Option.bind (opt_with as_str fs ''url'') (\<lambda>ur.
     Option.bind (opt_with as_array fs ''attachment'') (\<lambda>att.
     Option.bind (opt_with Some fs ''endpoints'') (\<lambda>ep.
     Option.bind (opt_with (vec_of multikey_from_value) fs ''assertionMethod'') (\<lambda>am.
     Option.bind (opt_with as_str fs ''movedTo'') (\<lambda>mv.
     Option.bind (opt_with (vec_of as_str) fs ''alsoKnownAs'') (\<lambda>aka.
     Option.bind (opt_with as_bool fs ''discoverable'') (\<lambda>di.
     Option.bind (opt_with as_bool fs ''indexable'') (\<lambda>ix.
       Some \<lparr> apa_context = ctx, apa_id = i, apa_type = t, apa_preferred_username = u, apa_name = n,
         apa_summary = sm, apa_icon = ic, apa_image = im, apa_inbox = inb, apa_outbox = outb,
         apa_followers = frs, apa_following = fng, apa_public_key = pk, apa_url = ur,
         apa_attachment = att, apa_endpoints = ep, apa_assertion_method = am, apa_moved_to = mv,
         apa_also_known_as = aka, apa_discoverable = di, apa_indexable = ix \<rparr>))))))))))))))))))))))"

definition consents_to_discovery :: "ap_actor \<Rightarrow> bool" where
  "consents_to_discovery a = (apa_discoverable a = Some True)"

definition consents_to_indexing :: "ap_actor \<Rightarrow> bool" where
  "consents_to_indexing a = (apa_indexable a = Some True)"

section \<open>Facts about the readers\<close>

lemma opt_with_absent [simp]: "fs k = None \<Longrightarrow> opt_with r fs k = Some None"
  by (simp add: opt_with_def)

lemma one_or_many_Some_iff:
  "one_or_many v = None \<longleftrightarrow> v = None \<or> v = Some JNull"
  by (cases v rule: one_or_many.cases) auto

text \<open>Absence is not consent: only a document that says \<open>true\<close> is read as agreeing.\<close>

lemma consent_is_explicit:
  assumes "ap_actor_from_value (JObj kvs) = Some a"
  shows "consents_to_discovery a \<longleftrightarrow> map_of kvs ''discoverable'' = Some (JBool True)"
    and "consents_to_indexing a \<longleftrightarrow> map_of kvs ''indexable'' = Some (JBool True)"
proof -
  have b: "opt_with as_bool fs k = Some x \<Longrightarrow> x = Some True \<longleftrightarrow> fs k = Some (JBool True)" for fs k x
    by (auto simp: opt_with_def split: option.splits json.splits elim!: as_bool.elims)
  from assms show "consents_to_discovery a \<longleftrightarrow> map_of kvs ''discoverable'' = Some (JBool True)"
    "consents_to_indexing a \<longleftrightarrow> map_of kvs ''indexable'' = Some (JBool True)"
    unfolding ap_actor_from_value_def consents_to_discovery_def consents_to_indexing_def
    by (auto simp: Option.bind_eq_Some_conv b)
qed

end
