(* ===== verification/NetGuard.thy ===== *)
theory NetGuard
  imports Prelude
begin

text \<open>
  \<open>noombat-core/src/net.rs\<close>: the classification of addresses no outbound request may reach.
  The octets and segments keep their widths (\<open>u8\<close>, \<open>u16\<close>) and the masks are the code's.
  The reference is the list of CIDR blocks the comments name, \<open>refused_v4_blocks\<close>, over the
  address as one number.
\<close>

unbundle bit_operations_syntax

section \<open>Addresses\<close>

datatype ipv4 = Ipv4 "8 word" "8 word" "8 word" "8 word"
datatype ipv6 = Ipv6 "16 word" "16 word" "16 word" "16 word" "16 word" "16 word" "16 word" "16 word"
datatype ip_addr = V4 ipv4 | V6 ipv6

text \<open>The predicates of \<open>std::net::Ipv4Addr\<close> the code calls.\<close>

fun v4_is_loopback :: "ipv4 \<Rightarrow> bool" where
  "v4_is_loopback (Ipv4 a b c d) = (a = 127)"

fun v4_is_private :: "ipv4 \<Rightarrow> bool" where
  "v4_is_private (Ipv4 a b c d) = (a = 10 \<or> (a = 172 \<and> 16 \<le> b \<and> b \<le> 31) \<or> (a = 192 \<and> b = 168))"

fun v4_is_link_local :: "ipv4 \<Rightarrow> bool" where
  "v4_is_link_local (Ipv4 a b c d) = (a = 169 \<and> b = 254)"

fun v4_is_broadcast :: "ipv4 \<Rightarrow> bool" where
  "v4_is_broadcast (Ipv4 a b c d) = (a = 255 \<and> b = 255 \<and> c = 255 \<and> d = 255)"

fun v4_is_documentation :: "ipv4 \<Rightarrow> bool" where
  "v4_is_documentation (Ipv4 a b c d) =
     ((a = 192 \<and> b = 0 \<and> c = 2) \<or> (a = 198 \<and> b = 51 \<and> c = 100) \<or> (a = 203 \<and> b = 0 \<and> c = 113))"

fun v4_is_multicast :: "ipv4 \<Rightarrow> bool" where
  "v4_is_multicast (Ipv4 a b c d) = (224 \<le> a \<and> a \<le> 239)"

section \<open>The two checks\<close>

fun is_private_v4 :: "ipv4 \<Rightarrow> bool" where
  "is_private_v4 (Ipv4 a b c d) =
     (let v4 = Ipv4 a b c d in
      v4_is_loopback v4
      \<or> v4_is_private v4
      \<or> v4_is_link_local v4
      \<or> v4_is_broadcast v4
      \<or> a = 0
      \<or> v4_is_documentation v4
      \<or> (a = 192 \<and> b = 0 \<and> c = 0)
      \<or> (a = 198 \<and> (b AND 0xfe) = 18)
      \<or> v4_is_multicast v4
      \<or> (a = 100 \<and> (b AND 0xC0) = 64)
      \<or> (a AND 0xf0) = 240)"

definition octets_of :: "16 word \<Rightarrow> 16 word \<Rightarrow> ipv4" where
  "octets_of s t = Ipv4 (ucast (drop_bit 8 s)) (ucast s) (ucast (drop_bit 8 t)) (ucast t)"

fun to_ipv4_mapped :: "ipv6 \<Rightarrow> ipv4 option" where
  "to_ipv4_mapped (Ipv6 s0 s1 s2 s3 s4 s5 s6 s7) =
     (if s0 = 0 \<and> s1 = 0 \<and> s2 = 0 \<and> s3 = 0 \<and> s4 = 0 \<and> s5 = 0xffff
      then Some (octets_of s6 s7) else None)"

fun is_private_v6 :: "ipv6 \<Rightarrow> bool" where
  "is_private_v6 (Ipv6 s0 s1 s2 s3 s4 s5 s6 s7) =
     (let low = octets_of s6 s7;
          v6 = Ipv6 s0 s1 s2 s3 s4 s5 s6 s7 in
      v6 = Ipv6 0 0 0 0 0 0 0 1
      \<or> v6 = Ipv6 0 0 0 0 0 0 0 0
      \<or> (s0 AND 0xfe00) = 0xfc00
      \<or> (s0 AND 0xffc0) = 0xfe80
      \<or> (s0 AND 0xffc0) = 0xfec0
      \<or> (s0 AND 0xff00) = 0xff00
      \<or> (case to_ipv4_mapped v6 of Some m \<Rightarrow> is_private_v4 m | None \<Rightarrow> False)
      \<or> ([s0, s1, s2, s3, s4, s5] = [0, 0, 0, 0, 0, 0] \<and> is_private_v4 low)
      \<or> ([s0, s1, s2, s3, s4, s5] = [0x64, 0xff9b, 0, 0, 0, 0] \<and> is_private_v4 low)
      \<or> [s0, s1, s2] = [0x64, 0xff9b, 1]
      \<or> (s0 = 0x2002 \<and> is_private_v4 (octets_of s1 s2)))"

fun is_private_ip :: "ip_addr \<Rightarrow> bool" where
  "is_private_ip (V4 v4) = is_private_v4 v4"
| "is_private_ip (V6 v6) = is_private_v6 v6"

section \<open>The reference: CIDR blocks\<close>

fun addr_num :: "ipv4 \<Rightarrow> nat" where
  "addr_num (Ipv4 a b c d) = ((unat a * 256 + unat b) * 256 + unat c) * 256 + unat d"

definition in_block :: "ipv4 \<Rightarrow> nat \<Rightarrow> ipv4 \<Rightarrow> bool" where
  "in_block net len x = (addr_num x div 2 ^ (32 - len) = addr_num net div 2 ^ (32 - len))"

definition refused_v4_blocks :: "(ipv4 \<times> nat) list" where
  "refused_v4_blocks =
    [(Ipv4 127 0 0 0, 8), (Ipv4 10 0 0 0, 8), (Ipv4 172 16 0 0, 12), (Ipv4 192 168 0 0, 16),
     (Ipv4 169 254 0 0, 16), (Ipv4 0 0 0 0, 8), (Ipv4 192 0 2 0, 24), (Ipv4 198 51 100 0, 24),
     (Ipv4 203 0 113 0, 24), (Ipv4 192 0 0 0, 24), (Ipv4 198 18 0 0, 15), (Ipv4 224 0 0 0, 4),
     (Ipv4 100 64 0 0, 10), (Ipv4 240 0 0 0, 4)]"

section \<open>Masks as quotients\<close>

text \<open>Each octet mask keeps the high bits, so comparing under it compares quotients.\<close>

lemma octet_bound: "unat (w :: 8 word) < 256"
  using unsigned_less [of w, where ?'a = nat] by simp

lemma octet_all:
  assumes "\<forall>n\<in>set [0..<256]. P (of_nat n :: 8 word) n"
  shows "P w (unat w)"
proof -
  have "unat w \<in> set [0..<256]" using octet_bound [of w] by simp
  with assms have "P (of_nat (unat w)) (unat w)" by blast
  then show ?thesis by simp
qed

lemma and_fe_iff: "(w AND 0xfe) = (18 :: 8 word) \<longleftrightarrow> unat w div 2 = 9"
  by (rule octet_all) code_simp

lemma and_c0_iff: "(w AND 0xC0) = (64 :: 8 word) \<longleftrightarrow> unat w div 64 = 1"
  by (rule octet_all) code_simp

lemma and_f0_iff: "(w AND 0xf0) = (240 :: 8 word) \<longleftrightarrow> unat w div 16 = 15"
  by (rule octet_all) code_simp

section \<open>The refused IPv4 ranges\<close>

lemma quotients:
  fixes a b c d :: nat
  assumes "b < 256" "c < 256" "d < 256"
  defines "n \<equiv> ((a * 256 + b) * 256 + c) * 256 + d"
  shows "n div 2 ^ 24 = a" "n div 2 ^ 28 = a div 16" "n div 2 ^ 20 = a * 16 + b div 16"
    "n div 2 ^ 16 = a * 256 + b" "n div 2 ^ 8 = (a * 256 + b) * 256 + c"
    "n div 2 ^ 17 = a * 128 + b div 2" "n div 2 ^ 22 = a * 4 + b div 64"
  using assms(1-3) unfolding n_def by simp_all

lemma octet_eq_iff: "(w :: 8 word) = v \<longleftrightarrow> unat w = unat v"
  by (rule word_eq_iff_unsigned)

lemma digits_eq_iff:
  fixes a r m :: nat
  assumes "r < m" and "r' < m"
  shows "a * m + r = a' * m + r' \<longleftrightarrow> a = a' \<and> r = r'"
proof
  assume h: "a * m + r = a' * m + r'"
  have "a = (a * m + r) div m" using assms(1) by simp
  also have "\<dots> = a'" using h assms(2) by simp
  finally show "a = a' \<and> r = r'" using h by simp
qed simp

lemma quot_bounds: "unat (w :: 8 word) div 16 < 16" "unat w div 2 < 128" "unat w div 64 < 4"
  using octet_bound [of w] by simp_all

text \<open>A block of each length, read octet by octet.\<close>

lemma in_block_octets:
  "in_block (Ipv4 A B C D) 4 (Ipv4 a b c d) \<longleftrightarrow> unat a div 16 = unat A div 16"
  "in_block (Ipv4 A B C D) 8 (Ipv4 a b c d) \<longleftrightarrow> a = A"
  "in_block (Ipv4 A B C D) 10 (Ipv4 a b c d) \<longleftrightarrow> a = A \<and> unat b div 64 = unat B div 64"
  "in_block (Ipv4 A B C D) 12 (Ipv4 a b c d) \<longleftrightarrow> a = A \<and> unat b div 16 = unat B div 16"
  "in_block (Ipv4 A B C D) 15 (Ipv4 a b c d) \<longleftrightarrow> a = A \<and> unat b div 2 = unat B div 2"
  "in_block (Ipv4 A B C D) 16 (Ipv4 a b c d) \<longleftrightarrow> a = A \<and> b = B"
  "in_block (Ipv4 A B C D) 24 (Ipv4 a b c d) \<longleftrightarrow> a = A \<and> b = B \<and> c = C"
proof -
  have n: "(32::nat) - 4 = 28" "(32::nat) - 8 = 24" "(32::nat) - 10 = 22" "(32::nat) - 12 = 20"
    "(32::nat) - 15 = 17" "(32::nat) - 16 = 16" "(32::nat) - 24 = 8" by simp_all
  note q = in_block_def addr_num.simps n octet_eq_iff
    quotients [OF octet_bound octet_bound octet_bound]
  show "in_block (Ipv4 A B C D) 4 (Ipv4 a b c d) \<longleftrightarrow> unat a div 16 = unat A div 16" 
   "in_block (Ipv4 A B C D) 8 (Ipv4 a b c d) \<longleftrightarrow> a = A"
    by (simp_all only: q)
  show "in_block (Ipv4 A B C D) 10 (Ipv4 a b c d) \<longleftrightarrow> a = A \<and> unat b div 64 = unat B div 64"
   "in_block (Ipv4 A B C D) 12 (Ipv4 a b c d) \<longleftrightarrow> a = A \<and> unat b div 16 = unat B div 16"
  "in_block (Ipv4 A B C D) 15 (Ipv4 a b c d) \<longleftrightarrow> a = A \<and> unat b div 2 = unat B div 2"
  "in_block (Ipv4 A B C D) 16 (Ipv4 a b c d) \<longleftrightarrow> a = A \<and> b = B"
    by (simp_all only: q digits_eq_iff quot_bounds octet_bound)
  show "in_block (Ipv4 A B C D) 24 (Ipv4 a b c d) \<longleftrightarrow> a = A \<and> b = B \<and> c = C"
    by (simp only: q digits_eq_iff octet_bound conj_assoc)
qed

lemma nibble_nat:
  "16 \<le> n \<and> n \<le> 31 \<longleftrightarrow> n div 16 = (1::nat)"
  "224 \<le> n \<and> n \<le> 239 \<longleftrightarrow> n div 16 = (14::nat)"
  using mod_less_divisor [of 16 n] mult_div_mod_eq [of 16 n] by linarith+

lemma nibble_iff:
  "16 \<le> (b :: 8 word) \<and> b \<le> 31 \<longleftrightarrow> unat b div 16 = 1"
  "224 \<le> (b :: 8 word) \<and> b \<le> 239 \<longleftrightarrow> unat b div 16 = 14"
  using nibble_nat [of "unat b"] by (simp_all add: word_le_nat_alt)

lemma absorbed_disj:
  "(p \<Longrightarrow> e) \<Longrightarrow> (a1 \<or> a2 \<or> a3 \<or> p \<or> a4 \<or> a5 \<or> a6 \<or> a7 \<or> a8 \<or> a9 \<or> e)
     = (a1 \<or> a2 \<or> a3 \<or> a4 \<or> a5 \<or> a6 \<or> a7 \<or> a8 \<or> a9 \<or> e)"
  by blast

lemma private_v4_blocks:
  "is_private_v4 x \<longleftrightarrow> (\<exists>(net, len)\<in>set refused_v4_blocks. in_block net len x)"
proof (cases x)
  case (Ipv4 a b c d)
  have bc: "v4_is_broadcast (Ipv4 a b c d) \<Longrightarrow> unat a div 16 = 15" by simp
  have "is_private_v4 x \<longleftrightarrow> a = 127 \<or> (a = 10 \<or> (a = 172 \<and> unat b div 16 = 1) \<or> (a = 192 \<and> b = 168))
     \<or> (a = 169 \<and> b = 254) \<or> a = 0
     \<or> ((a = 192 \<and> b = 0 \<and> c = 2) \<or> (a = 198 \<and> b = 51 \<and> c = 100) \<or> (a = 203 \<and> b = 0 \<and> c = 113))
     \<or> (a = 192 \<and> b = 0 \<and> c = 0) \<or> (a = 198 \<and> unat b div 2 = 9)
     \<or> unat a div 16 = 14 \<or> (a = 100 \<and> unat b div 64 = 1) \<or> unat a div 16 = 15"
    unfolding Ipv4 is_private_v4.simps Let_def
      v4_is_loopback.simps v4_is_private.simps v4_is_link_local.simps
      v4_is_documentation.simps v4_is_multicast.simps and_fe_iff and_c0_iff and_f0_iff nibble_iff
    by (rule absorbed_disj) (rule bc)
  also have "\<dots> \<longleftrightarrow> (\<exists>(net, len)\<in>set refused_v4_blocks. in_block net len x)"
    by (simp add: Ipv4 refused_v4_blocks_def in_block_octets)
  finally show ?thesis .
qed

section \<open>IPv4 addresses carried by IPv6 ones\<close>

definition seg :: "8 word \<Rightarrow> 8 word \<Rightarrow> 16 word" where
  "seg a b = (push_bit 8 (ucast a) OR ucast b)"

text \<open>The four IPv6 forms of an IPv4 address the code decodes.\<close>

datatype v6_form = Mapped | Compatible | Nat64 | SixToFour "16 word" "16 word" "16 word" "16 word" "16 word"

fun embed :: "v6_form \<Rightarrow> ipv4 \<Rightarrow> ipv6" where
  "embed Mapped (Ipv4 a b c d) = Ipv6 0 0 0 0 0 0xffff (seg a b) (seg c d)"
| "embed Compatible (Ipv4 a b c d) = Ipv6 0 0 0 0 0 0 (seg a b) (seg c d)"
| "embed Nat64 (Ipv4 a b c d) = Ipv6 0x64 0xff9b 0 0 0 0 (seg a b) (seg c d)"
| "embed (SixToFour s3 s4 s5 s6 s7) (Ipv4 a b c d) = Ipv6 0x2002 (seg a b) (seg c d) s3 s4 s5 s6 s7"

lemma high_seg: "ucast (drop_bit 8 (seg a b)) = a"
  unfolding seg_def by (rule bit_word_eqI) (auto simp: bit_simps dest: bit_imp_le_length)

lemma low_seg: "ucast (seg a b) = b"
  unfolding seg_def by (rule bit_word_eqI) (auto simp: bit_simps)

lemma octets_of_seg [simp]: "octets_of (seg a b) (seg c d) = Ipv4 a b c d"
  by (simp add: octets_of_def high_seg low_seg)

lemma low_v4_private: "octets_of 0 0 = Ipv4 0 0 0 0" "octets_of 0 1 = Ipv4 0 0 0 1"
  by (simp_all add: octets_of_def)

lemma private_embed: "is_private_v6 (embed f x) \<longleftrightarrow> is_private_v4 x"
proof (cases x)
  case (Ipv4 a b c d)
  show ?thesis
  proof (cases f)
    case Mapped
    then show ?thesis by (simp add: Ipv4 Let_def)
  next
    case Compatible
    have "seg a b = 0 \<Longrightarrow> seg c d = 0 \<or> seg c d = 1 \<Longrightarrow> a = 0"
      using octets_of_seg [of a b c d] low_v4_private by auto
    then have h: "seg a b = 0 \<Longrightarrow> seg c d = 0 \<or> seg c d = 1 \<Longrightarrow> is_private_v4 (Ipv4 a b c d)"
      by (simp add: Let_def)
    have "is_private_v6 (embed f x) \<longleftrightarrow> (seg a b = 0 \<and> seg c d = 1) \<or> (seg a b = 0 \<and> seg c d = 0)
       \<or> is_private_v4 (Ipv4 a b c d)"
      using Compatible by (simp add: Ipv4 Let_def del: is_private_v4.simps)
    with h show ?thesis unfolding Ipv4 by blast
  next
    case Nat64
    then show ?thesis by (simp add: Ipv4 Let_def)
  next
    case SixToFour
    then show ?thesis by (simp add: Ipv4 Let_def)
  qed
qed
section \<open>Properties\<close>

text \<open>C21. The octet tests of \<open>is_private_v4\<close> refuse exactly the CIDR blocks the comments list,
  and each IPv6 form of an IPv4 address the code decodes is refused exactly when the address it
  carries is.\<close>

theorem private_ranges_are_the_listed_blocks:
  "(is_private_ip (V4 x) \<longleftrightarrow> (\<exists>(net, len)\<in>set refused_v4_blocks. in_block net len x))
   \<and> (is_private_ip (V6 (embed form x)) \<longleftrightarrow> is_private_ip (V4 x))"
  by (simp add: private_v4_blocks private_embed)

end
