(* ===== verification/FedWorld.thy ===== *)
theory FedWorld
  imports CoreModel Envelope Json NetGuard
begin

text \<open>
  The state the federation code works on and the way its functions are modelled.  A function
  that takes \<open>&PgPool\<close> and returns \<open>Result<T>\<close> is a \<open>prog\<close>: from a world to a result and the
  world after it, where the changes made before an error stay made (the handlers open no
  transaction).  Every SQL statement may fail: the world carries an oracle \<open>w_fault\<close> that
  decides it statement by statement.  The log \<open>w_log\<close> records every connection the process
  opens, which is what the guard against server-side request forgery is about.
\<close>

section \<open>Tables\<close>

record actor_row = actor +
  ar_shared_inbox_url :: "string option"
  ar_sanitiser_version :: nat
  ar_auth_key_hash :: "string option"
  ar_email :: "string option"
  ar_email_verified_at :: "timestamp option"
  ar_chatmail_cred :: "string option"
  ar_claimed_domain :: "string option"
  ar_connections_visibility :: string
  ar_following_visibility :: string
  ar_followers_visibility :: string
  ar_deletion_requested_at :: "timestamp option"
  ar_erased_at :: "timestamp option"
  ar_last_sign_in_at :: "timestamp option"
  ar_default_post_visibility :: string
  ar_blur_sensitive_media :: bool

record follow_row =
  f_follower :: uuid
  f_following :: uuid
  f_ap_id :: "string option"
  f_accepted :: bool

text \<open>A like or a boost.\<close>

record reaction_row =
  r_id :: uuid
  r_actor :: uuid
  r_post :: uuid
  r_ap_id :: string

record block_row =
  b_id :: uuid
  b_actor :: uuid
  b_target :: uuid

record mute_row = block_row +
  mu_expires_at :: "timestamp option"

record post_row =
  p_id :: uuid
  p_actor_id :: uuid
  p_ap_id :: string
  p_post_type :: string
  p_title :: "string option"
  p_featured_image_url :: "string option"
  p_featured_image_alt :: "string option"
  p_sensitive :: bool
  p_content_md :: "string option"
  p_content_html :: string
  p_sanitiser_version :: nat
  p_in_reply_to :: "string option"
  p_canonical_uri :: "string option"
  p_visibility :: string
  p_ap_object :: json
  p_integrity_proof_verified :: "bool option"
  p_relayed_unverified :: bool

record relay_row =
  rs_inbox_url :: string
  rs_status :: string
  rs_verification_policy :: "string option"

record delivery_row =
  d_id :: nat
  d_actor_id :: uuid
  d_payload :: json
  d_target_inbox :: string
  d_attempts :: nat
  d_next_retry :: timestamp

record search_op =
  so_index :: string
  so_document_id :: string
  so_operation :: string
  so_document :: "json option"
  so_state :: string
  so_attempts :: nat

record media_op =
  mo_post :: uuid
  mo_actor :: uuid
  mo_url :: string
  mo_alt :: "string option"
  mo_ordinal :: nat

record report_row =
  rp_id :: uuid
  rp_reporter :: uuid
  rp_target_actor :: "uuid option"
  rp_target_post :: "uuid option"
  rp_target_chat_addr :: "string option"
  rp_message :: "string option"
  rp_message_at :: "timestamp option"
  rp_reason :: string
  rp_comment :: "string option"
  rp_forwarded :: bool
  rp_status :: string
  rp_resolved_by :: "uuid option"
  rp_resolution_note :: "string option"
  rp_resolved_at :: "timestamp option"

text \<open>A media attachment: who uploaded it, the post it is on, where its bytes are, what is shown of it.\<close>

record media_row =
  ma_actor :: uuid
  ma_post :: "uuid option"
  ma_key :: string
  ma_id :: uuid
  ma_purpose :: string
  ma_url :: string
  ma_media_type :: string
  ma_alt_text :: "string option"
  ma_blurhash :: "string option"
  ma_ordinal :: int

text \<open>A mailbox that is owed deletion.\<close>

record chatmail_op =
  co_id :: uuid
  co_actor :: "uuid option"
  co_address :: string
  co_state :: string
  co_attempts :: int
  co_last_error :: "string option"
  co_next_attempt :: timestamp

record connection_row =
  cn_id :: uuid
  cn_requester :: uuid
  cn_addressee :: uuid
  cn_ap_id :: "string option"
  cn_accepted_at :: "timestamp option"
  cn_created_at :: timestamp

record alias_row =
  al_id :: uuid
  al_actor :: uuid
  al_alias :: string

section \<open>Tables of the accounts\<close>

record session_row =
  se_id :: uuid
  se_actor :: uuid
  se_refresh_token :: string
  se_expires_at :: timestamp
  se_revoked_at :: "timestamp option"

record challenge_row =
  ec_actor :: uuid
  ec_email :: string
  ec_token_hash :: string
  ec_expires_at :: timestamp
  ec_consumed_at :: "timestamp option"
  ec_created_at :: timestamp

record totp_row =
  tt_actor :: uuid
  tt_secret :: string
  tt_verified :: bool

record member_row =
  om_organization :: uuid
  om_member :: uuid
  om_role :: string
  om_accepted_at :: "timestamp option"

record enrolment_row =
  oe_owner :: uuid
  oe_organization :: "uuid option"
  oe_created_at :: timestamp

text \<open>The columns of the one row of \<open>instance_settings\<close> that accounts are about.\<close>

record settings_row =
  st_registration_mode :: string
  st_organization_enabled :: bool
  st_organization_rate_count :: int
  st_organization_rate_amount :: int
  st_organization_rate_unit :: string
  st_organization_concurrent_cap :: int
  st_organization_period_cap_count :: int
  st_organization_period_cap_amount :: int
  st_organization_period_cap_unit :: string

record account_tables =
  at_sessions :: "session_row list"
  at_challenges :: "challenge_row list"
  at_totp :: "totp_row list"
  at_members :: "member_row list"
  at_enrolments :: "enrolment_row list"
  at_settings :: "settings_row option"

section \<open>Tables of the job postings\<close>

record job_row =
  jb_id :: uuid
  jb_actor_id :: uuid
  jb_created_by :: "uuid option"
  jb_ap_id :: string
  jb_title :: string
  jb_description_md :: string
  jb_description_html :: string
  jb_location :: "string option"
  jb_remote :: bool
  jb_salary_min :: "int option"
  jb_salary_max :: "int option"
  jb_currency :: "string option"
  jb_requirements :: "json option"
  jb_published_at :: "timestamp option"
  jb_expires_at :: "timestamp option"
  jb_created_at :: timestamp
  jb_readers :: string

record application_row =
  ja_id :: uuid
  ja_applicant :: uuid
  ja_job :: "uuid option"
  ja_posting_title :: string
  ja_posting_organization :: string
  ja_applied_on :: int
  ja_ap_id :: string
  ja_cover_letter_md :: "string option"
  ja_cover_letter_html :: "string option"
  ja_include_cv :: bool
  ja_cv_snapshot :: "string option"
  ja_status :: string
  ja_created_at :: timestamp
  ja_updated_at :: timestamp

record grant_row =
  gr_id :: uuid
  gr_application :: uuid
  gr_token_hash :: string
  gr_audience_ap_id :: string
  gr_audience_origin :: string
  gr_state :: string
  gr_expires_at :: timestamp
  gr_document_uses :: int
  gr_cv_uses :: int
  gr_revoked_at :: "timestamp option"
  gr_revoked_reason :: "string option"

record access_row =
  ac_application :: uuid
  ac_grant :: "uuid option"
  ac_reader :: "uuid option"
  ac_kind :: string
  ac_outcome :: string
  ac_reason :: "string option"
  ac_occurred_at :: timestamp

record job_tables =
  jt_jobs :: "job_row list"
  jt_readers :: "(uuid \<times> uuid) list"
  jt_applications :: "application_row list"
  jt_grants :: "grant_row list"
  jt_accesses :: "access_row list"

section \<open>Tables of the profiles\<close>

text \<open>Dates are days, and \<open>sort_order\<close> is the integer of its column.\<close>

record section_row =
  sr_id :: uuid
  sr_actor :: uuid
  sr_description_md :: "string option"
  sr_description_html :: "string option"
  sr_sort_order :: int
  sr_visibility :: string
  sr_ap_object :: json

record work_row = section_row +
  wx_title :: string
  wx_organization :: string
  wx_organization_id :: "uuid option"
  wx_confirmed_at :: "timestamp option"
  wx_confirmed_via :: "string option"
  wx_start_date :: int
  wx_end_date :: "int option"

record education_row = section_row +
  ed_institution :: string
  ed_degree :: "string option"
  ed_field_of_study :: "string option"
  ed_start_date :: int
  ed_end_date :: "int option"

record skill_row =
  sk_id :: uuid
  sk_actor :: uuid
  sk_name :: string
  sk_visibility :: string

record article_row =
  sa_id :: uuid
  sa_actor :: uuid
  sa_doi :: string
  sa_title :: string
  sa_authors :: json
  sa_abstract_md :: "string option"
  sa_abstract_html :: "string option"
  sa_journal :: "string option"
  sa_publisher :: "string option"
  sa_published_date :: "int option"
  sa_doi_metadata :: json
  sa_fetched_at :: timestamp
  sa_visibility :: string
  sa_ap_object :: json

record custom_row = section_row +
  cs_section_type :: string
  cs_title :: string
  cs_data :: "json option"
  cs_created_at :: timestamp

record link_row =
  vl_id :: uuid
  vl_actor :: uuid
  vl_url :: string
  vl_verified_at :: "timestamp option"
  vl_last_checked :: timestamp
  vl_visibility :: string

record profile_tables =
  pt_work :: "work_row list"
  pt_education :: "education_row list"
  pt_skills :: "skill_row list"
  pt_articles :: "article_row list"
  pt_sections :: "custom_row list"
  pt_links :: "link_row list"

section \<open>The world\<close>

text \<open>A connection: the URL requested and the addresses the connector was given.\<close>

record contact =
  ct_url :: string
  ct_addrs :: "ip_addr list"

text \<open>
  \<open>w_owned\<close> holds, as table and owner, the rows of the tables that nothing modelled reads;
  \<open>w_chat_blocks\<close> the addresses an account blocked in chat; \<open>w_objects\<close> the keys of the media
  store; \<open>w_index\<close> the documents of the search backend, as index and id; \<open>w_sidecar\<close> the requests
  made to the mail relay's sidecar, as method and path; \<open>w_entropy\<close> is what the operating
  system's generator returns, draw by draw.
\<close>

record world =
  w_actors :: "actor_row list"
  w_follows :: "follow_row list"
  w_likes :: "reaction_row list"
  w_boosts :: "reaction_row list"
  w_blocks :: "block_row list"
  w_posts :: "post_row list"
  w_post_hashtags :: "(uuid \<times> string) list"
  w_tombstones :: "string list"
  w_relays :: "relay_row list"
  w_deliveries :: "delivery_row list"
  w_search_ops :: "search_op list"
  w_media_ops :: "media_op list"
  w_reports :: "report_row list"
  w_media :: "media_row list"
  w_chatmail_ops :: "chatmail_op list"
  w_restrictions :: "(string \<times> string) list"
  w_connections :: "connection_row list"
  w_mutes :: "mute_row list"
  w_aliases :: "alias_row list"
  w_owned :: "(string \<times> uuid) list"
  w_hashtag_follows :: "(uuid \<times> string) list"
  w_chat_blocks :: "(uuid \<times> string) list"
  w_objects :: "string list"
  w_index :: "(string \<times> string) list"
  w_sidecar :: "(string \<times> string) list"
  w_profile :: profile_tables
  w_accounts :: account_tables
  w_jobs :: job_tables
  w_queue_seq :: nat
  w_entropy :: "nat \<Rightarrow> string"
  w_index_remote_posts :: "bool option"
  w_next_id :: uuid
  w_now :: timestamp
  w_log :: "contact list"
  w_tick :: nat
  w_fault :: "nat \<Rightarrow> bool"
  w_permit :: "nat \<Rightarrow> bool"

section \<open>Programs\<close>

type_synonym 'a prog = "world \<Rightarrow> 'a result \<times> world"

definition ret :: "'a \<Rightarrow> 'a prog" where
  "ret x = (\<lambda>s. (Inr x, s))"

definition throw :: "noombat_error \<Rightarrow> 'a prog" where
  "throw e = (\<lambda>s. (Inl e, s))"

text \<open>\<open>bindE m f\<close> is Rust's \<open>m?\<close> followed by \<open>f\<close>: an error ends the function.\<close>

definition bindE :: "'a prog \<Rightarrow> ('a \<Rightarrow> 'b prog) \<Rightarrow> 'b prog" where
  "bindE m f = (\<lambda>s. case m s of (Inl e, s') \<Rightarrow> (Inl e, s') | (Inr x, s') \<Rightarrow> f x s')"

text \<open>\<open>attempt m\<close> hands the \<open>Result\<close> to the caller, for a \<open>match\<close> or an \<open>if let Err\<close>.\<close>

definition attempt :: "'a prog \<Rightarrow> 'a result prog" where
  "attempt m = (\<lambda>s. case m s of (r, s') \<Rightarrow> (Inr r, s'))"

definition of_result :: "'a result \<Rightarrow> 'a prog" where
  "of_result r = (\<lambda>s. (r, s))"

definition ok_or :: "noombat_error \<Rightarrow> 'a option \<Rightarrow> 'a prog" where
  "ok_or e x = (case x of None \<Rightarrow> throw e | Some y \<Rightarrow> ret y)"

definition gets :: "(world \<Rightarrow> 'a) \<Rightarrow> 'a prog" where
  "gets f = (\<lambda>s. (Inr (f s), s))"

text \<open>One SQL statement: it fails when the oracle says so, and otherwise answers and updates.\<close>

definition stmt :: "(world \<Rightarrow> 'a result \<times> world) \<Rightarrow> 'a prog" where
  "stmt f = (\<lambda>s. let s' = s\<lparr>w_tick := Suc (w_tick s)\<rparr> in
     if w_fault s (w_tick s) then (Inl Database, s') else f s')"

definition query :: "(world \<Rightarrow> 'a) \<Rightarrow> 'a prog" where
  "query f = stmt (\<lambda>s. (Inr (f s), s))"

definition execute :: "(world \<Rightarrow> world) \<Rightarrow> unit prog" where
  "execute f = stmt (\<lambda>s. (Inr (), f s))"

primrec for_each :: "('a \<Rightarrow> unit prog) \<Rightarrow> 'a list \<Rightarrow> unit prog" where
  "for_each f [] = ret ()"
| "for_each f (x # xs) = bindE (f x) (\<lambda>_. for_each f xs)"

text \<open>\<open>let _ = ...\<close> and \<open>if let Err(e) = ... { warn!(..) }\<close>.\<close>

definition ignore_errors :: "'a prog \<Rightarrow> unit prog" where
  "ignore_errors m = bindE (attempt m) (\<lambda>_. ret ())"

lemmas prog_defs = ret_def throw_def bindE_def attempt_def of_result_def gets_def stmt_def
  query_def execute_def ignore_errors_def

lemma bindE_ret [simp]: "bindE (ret x) f = f x"
  by (simp add: bindE_def ret_def)

lemma bindE_throw [simp]: "bindE (throw e) f = throw e"
  by (simp add: bindE_def throw_def)

lemma bindE_assoc: "bindE (bindE m f) g = bindE m (\<lambda>x. bindE (f x) g)"
  by (rule ext) (simp add: bindE_def split: prod.splits sum.splits)

lemma ok_or_simps [simp]: "ok_or e None = throw e" "ok_or e (Some x) = ret x"
  by (simp_all add: ok_or_def)

text \<open>One draw from the operating system's generator.\<close>

definition draw :: "string prog" where
  "draw = (\<lambda>s. (Inr (w_entropy s 0), s\<lparr>w_entropy := (\<lambda>n. w_entropy s (Suc n))\<rparr>))"

text \<open>
  A transaction: the statements between \<open>BEGIN\<close> and \<open>COMMIT\<close> take effect together or not at
  all.  What is outside the database stays as the body left it.
\<close>

definition transaction :: "'a prog \<Rightarrow> 'a prog" where
  "transaction m = (\<lambda>s.
     case bindE (execute id) (\<lambda>_. bindE m (\<lambda>x. bindE (execute id) (\<lambda>_. ret x))) s of
       (Inr x, t) \<Rightarrow> (Inr x, t)
     | (Inl e, t) \<Rightarrow> (Inl e, s\<lparr>w_tick := w_tick t, w_next_id := w_next_id t, w_entropy := w_entropy t,
         w_log := w_log t\<rparr>))"

section \<open>Preservation\<close>

definition keeps :: "(world \<Rightarrow> bool) \<Rightarrow> 'a prog \<Rightarrow> bool" where
  "keeps I m \<longleftrightarrow> (\<forall>s. I s \<longrightarrow> I (snd (m s)))"

lemma keepsI: "(\<And>s. I s \<Longrightarrow> I (snd (m s))) \<Longrightarrow> keeps I m"
  by (simp add: keeps_def)

lemma keepsD: "keeps I m \<Longrightarrow> I s \<Longrightarrow> I (snd (m s))"
  by (simp add: keeps_def)

lemma keeps_ret [keeps_intros]: "keeps I (ret x)"
  by (simp add: keeps_def ret_def)

lemma keeps_throw [keeps_intros]: "keeps I (throw e)"
  by (simp add: keeps_def throw_def)

lemma keeps_of_result [keeps_intros]: "keeps I (of_result r)"
  by (simp add: keeps_def of_result_def)

lemma keeps_gets [keeps_intros]: "keeps I (gets f)"
  by (simp add: keeps_def gets_def)

lemma keeps_ok_or [keeps_intros]: "keeps I (ok_or e x)"
  by (cases x) (auto intro: keeps_intros)

lemma keeps_bindE [keeps_intros]:
  assumes "keeps I m" and "\<And>x. keeps I (f x)"
  shows "keeps I (bindE m f)"
proof (rule keepsI)
  fix s assume "I s"
  obtain r s' where m: "m s = (r, s')" by (cases "m s")
  with assms(1) \<open>I s\<close> have "I s'" by (metis keepsD snd_conv)
  then show "I (snd (bindE m f s))"
    using assms(2) m by (cases r) (auto simp: bindE_def dest: keepsD)
qed

lemma keeps_attempt [keeps_intros]: "keeps I m \<Longrightarrow> keeps I (attempt m)"
  by (auto simp: keeps_def attempt_def split: prod.splits)

lemma keeps_ignore_errors [keeps_intros]: "keeps I m \<Longrightarrow> keeps I (ignore_errors m)"
  unfolding ignore_errors_def by (intro keeps_intros)

lemma keeps_if [keeps_intros]: "keeps I m \<Longrightarrow> keeps I n \<Longrightarrow> keeps I (if c then m else n)"
  by simp

lemma keeps_option [keeps_intros]:
  "keeps I m \<Longrightarrow> (\<And>x. keeps I (f x)) \<Longrightarrow> keeps I (case v of None \<Rightarrow> m | Some x \<Rightarrow> f x)"
  by (cases v) auto

lemma keeps_sum [keeps_intros]:
  "(\<And>x. keeps I (f x)) \<Longrightarrow> (\<And>x. keeps I (g x)) \<Longrightarrow> keeps I (case v of Inl x \<Rightarrow> f x | Inr x \<Rightarrow> g x)"
  by (cases v) auto

lemma keeps_prod [keeps_intros]:
  "(\<And>x y. keeps I (f x y)) \<Longrightarrow> keeps I (case v of (x, y) \<Rightarrow> f x y)"
  by (cases v) auto

lemma keeps_let [keeps_intros]: "keeps I (f x) \<Longrightarrow> keeps I (let y = x in f y)"
  by simp

lemma keeps_for_each [keeps_intros]: "(\<And>x. keeps I (f x)) \<Longrightarrow> keeps I (for_each f xs)"
  by (induction xs) (auto intro: keeps_intros)

text \<open>
  An invariant the statement counter does not enter.  Under it a query keeps the invariant
  and an update keeps it when the update itself does.
\<close>

locale world_invariant =
  fixes I :: "world \<Rightarrow> bool"
  assumes tick: "I s \<Longrightarrow> I (s\<lparr>w_tick := n\<rparr>)"
begin

lemma keeps_stmt: "(\<And>s. I s \<Longrightarrow> I (snd (f s))) \<Longrightarrow> keeps I (stmt f)"
  using tick by (auto simp: keeps_def stmt_def Let_def)

lemma keeps_query: "keeps I (query f)"
  unfolding query_def by (rule keeps_stmt) simp

lemma keeps_execute: "(\<And>s. I s \<Longrightarrow> I (f s)) \<Longrightarrow> keeps I (execute f)"
  unfolding execute_def by (rule keeps_stmt) simp

end

section \<open>Results\<close>

text \<open>\<open>yields P m Q\<close>: from a state satisfying \<open>P\<close>, a successful run ends with \<open>Q\<close>.\<close>

definition yields :: "(world \<Rightarrow> bool) \<Rightarrow> 'a prog \<Rightarrow> ('a \<Rightarrow> world \<Rightarrow> bool) \<Rightarrow> bool" where
  "yields P m Q \<longleftrightarrow> (\<forall>s x s'. P s \<longrightarrow> m s = (Inr x, s') \<longrightarrow> Q x s')"

lemma yieldsD: "yields P m Q \<Longrightarrow> P s \<Longrightarrow> m s = (Inr x, s') \<Longrightarrow> Q x s'"
  by (simp add: yields_def)

lemma yields_bindE:
  assumes "yields P m R" and "\<And>x. yields (R x) (f x) Q"
  shows "yields P (bindE m f) Q"
  using assms by (fastforce simp: yields_def bindE_def split: prod.splits sum.splits)

lemma yields_weaken: "yields P m Q \<Longrightarrow> (\<And>s. P' s \<Longrightarrow> P s) \<Longrightarrow> (\<And>x s. Q x s \<Longrightarrow> Q' x s) \<Longrightarrow> yields P' m Q'"
  unfolding yields_def by blast

lemma bindE_Inr: "bindE m f s = (Inr y, t) \<longleftrightarrow> (\<exists>x s'. m s = (Inr x, s') \<and> f x s' = (Inr y, t))"
  by (auto simp: bindE_def split: prod.splits sum.splits)

lemma bindE_run: "m s = (Inr x, t) \<Longrightarrow> bindE m f s = f x t"
  by (simp add: bindE_def)

lemma attempt_Inr [simp]: "attempt m s = (Inr r, s') \<longleftrightarrow> m s = (r, s')"
  by (auto simp: attempt_def split: prod.splits)

lemma ret_Inr [simp]: "ret x s = (Inr y, s') \<longleftrightarrow> y = x \<and> s' = s"
  by (auto simp: ret_def)

lemma throw_Inr [simp]: "throw e s \<noteq> (Inr y, s')"
  by (simp add: throw_def)

lemma gets_Inr [simp]: "gets f s = (Inr y, s') \<longleftrightarrow> y = f s \<and> s' = s"
  by (auto simp: gets_def)

lemma query_Inr: "query f s = (Inr y, s') \<longleftrightarrow>
    \<not> w_fault s (w_tick s) \<and> s' = s\<lparr>w_tick := Suc (w_tick s)\<rparr> \<and> y = f s'"
  by (auto simp: query_def stmt_def Let_def)

lemma execute_Inr: "execute f s = (Inr y, s') \<longleftrightarrow>
    \<not> w_fault s (w_tick s) \<and> s' = f (s\<lparr>w_tick := Suc (w_tick s)\<rparr>)"
  by (auto simp: execute_def stmt_def Let_def)

text \<open>A world whose database answers every statement.\<close>

definition no_fault :: "world \<Rightarrow> bool" where
  "no_fault s \<longleftrightarrow> (\<forall>n. \<not> w_fault s n)"

lemma query_ok: "no_fault s \<Longrightarrow> query f s = (Inr (f (s\<lparr>w_tick := Suc (w_tick s)\<rparr>)), s\<lparr>w_tick := Suc (w_tick s)\<rparr>)"
  by (simp add: query_def stmt_def no_fault_def Let_def)

lemma execute_ok: "no_fault s \<Longrightarrow> execute f s = (Inr (), f (s\<lparr>w_tick := Suc (w_tick s)\<rparr>))"
  by (simp add: execute_def stmt_def no_fault_def Let_def)

end
