(* ===== verification/HttpGuard.thy ===== *)
theory HttpGuard
  imports FedWorld
begin

text \<open>
  The outbound client of the federation code: \<open>http.rs\<close> (the guard against server-side
  request forgery) and \<open>signed_fetch.rs\<close>.  The url crate, the DNS, the peers' servers, the
  RSA signer and \<open>serde_json\<close>'s parser are the fields of \<open>env\<close>.  Peers are adaptive: what they
  answer may depend on every connection made before (the log).  The client reqwest builds is
  modelled as documented: an address literal is connected to directly, any other host goes
  through the resolver, and each redirect asks the policy.
\<close>

section \<open>The environment\<close>

datatype 'u net_reply =
    NetFail string
  | NetRedirect 'u
  | NetResponse nat "string list" bool

record 'u env =
  url_parse :: "string \<Rightarrow> string + 'u"
  url_scheme :: "'u \<Rightarrow> string"
  url_host_str :: "'u \<Rightarrow> string option"
  url_port :: "'u \<Rightarrow> nat option"
  url_path :: "'u \<Rightarrow> string"
  url_set_path :: "string \<Rightarrow> 'u \<Rightarrow> 'u"
  url_drop_fragment :: "'u \<Rightarrow> 'u"
  url_to_string :: "'u \<Rightarrow> string"
  url_username :: "'u \<Rightarrow> string"
  url_password :: "'u \<Rightarrow> string option"
  net_dns :: "contact list \<Rightarrow> string \<Rightarrow> string + ip_addr list"
  net_send :: "contact list \<Rightarrow> 'u \<Rightarrow> 'u net_reply"
  allow_local_targets :: bool
  allow_unsigned_fetch :: bool
  sign_request :: "string \<Rightarrow> string \<Rightarrow> string option"
  parse_value :: "string \<Rightarrow> string + json"
  parse_struct :: "string \<Rightarrow> string + json"
  show_ip :: "ip_addr \<Rightarrow> string"
  show_status :: "nat \<Rightarrow> string"
  debug_str :: "string \<Rightarrow> string"
  kek :: "string option"
  aead :: crypto
  clean_strict :: "string \<Rightarrow> string"
  to_lowercase :: "string \<Rightarrow> string"
  jcs :: "json \<Rightarrow> string option"
  json_text :: "json \<Rightarrow> string"
  sha256 :: "string \<Rightarrow> string"
  base58_encode :: "string \<Rightarrow> string"
  base58_decode :: "string \<Rightarrow> string option"
  ed25519_sign :: "string \<Rightarrow> string \<Rightarrow> string"
  ed25519_key_ok :: "string \<Rightarrow> bool"
  ed25519_verify :: "string \<Rightarrow> string \<Rightarrow> string \<Rightarrow> bool"
  parse_rfc3339 :: "string \<Rightarrow> timestamp option"
  default_relay_policy :: nat

text \<open>
  \<open>parse_value\<close> reads a \<open>serde_json::Value\<close>; \<open>parse_struct\<close> reads text for a derived struct,
  which refuses a duplicated member.  \<open>sign_request\<close> is \<open>None\<close> when signing succeeds.
\<close>

section \<open>Address literals (\<open>std::net::IpAddr::from_str\<close>)\<close>

definition digit_value :: "nat \<Rightarrow> char \<Rightarrow> nat option" where
  "digit_value radix c =
    (let v = (if is_ascii_digit c then byte c - 48
              else if 97 \<le> byte c \<and> byte c \<le> 102 then byte c - 87
              else if 65 \<le> byte c \<and> byte c \<le> 70 then byte c - 55 else 99)
     in if v < radix then Some v else None)"

definition digits_value :: "nat \<Rightarrow> string \<Rightarrow> nat" where
  "digits_value radix ds = foldl (\<lambda>a c. a * radix + the (digit_value radix c)) 0 ds"

definition read_number :: "nat \<Rightarrow> nat \<Rightarrow> bool \<Rightarrow> nat \<Rightarrow> string \<Rightarrow> (nat \<times> string) option" where
  "read_number radix max_digits zero_prefix max_value s =
    (let ds = takeWhile (\<lambda>c. digit_value radix c \<noteq> None) s; n = digits_value radix ds
     in if ds = [] \<or> max_digits < length ds \<or> (\<not> zero_prefix \<and> 1 < length ds \<and> hd ds = CHR ''0'')
           \<or> max_value < n
        then None else Some (n, drop (length ds) s))"

definition read_char :: "char \<Rightarrow> string \<Rightarrow> string option" where
  "read_char c s = (case s of [] \<Rightarrow> None | x # r \<Rightarrow> if x = c then Some r else None)"

definition read_octet :: "string \<Rightarrow> (8 word \<times> string) option" where
  "read_octet s = map_option (\<lambda>(n, r). (of_nat n, r)) (read_number 10 3 False 255 s)"

definition read_dot_octet :: "string \<Rightarrow> (8 word \<times> string) option" where
  "read_dot_octet s = Option.bind (read_char CHR ''.'' s) read_octet"

definition read_ipv4 :: "string \<Rightarrow> (ipv4 \<times> string) option" where
  "read_ipv4 s = Option.bind (read_octet s) (\<lambda>(a, s1).
     Option.bind (read_dot_octet s1) (\<lambda>(b, s2).
     Option.bind (read_dot_octet s2) (\<lambda>(c, s3).
     Option.bind (read_dot_octet s3) (\<lambda>(d, s4). Some (Ipv4 a b c d, s4)))))"

definition read_sep :: "nat \<Rightarrow> string \<Rightarrow> string option" where
  "read_sep i s = (if i = 0 then Some s else read_char CHR '':'' s)"

fun v4_segments :: "ipv4 \<Rightarrow> 16 word list" where
  "v4_segments (Ipv4 a b c d) = [seg a b, seg c d]"

text \<open>
  Up to \<open>limit\<close> groups from position \<open>i\<close>: the groups read, whether an IPv4 tail ended them,
  and the rest of the input.
\<close>

function read_groups :: "nat \<Rightarrow> nat \<Rightarrow> string \<Rightarrow> 16 word list \<times> bool \<times> string" where
  "read_groups limit i s =
    (if limit \<le> i then ([], False, s)
     else case (if i < limit - 1 then Option.bind (read_sep i s) read_ipv4 else None) of
       Some (v4, r) \<Rightarrow> (v4_segments v4, True, r)
     | None \<Rightarrow>
         (case Option.bind (read_sep i s) (read_number 16 4 True 65535) of
            None \<Rightarrow> ([], False, s)
          | Some (g, r) \<Rightarrow>
              (case read_groups limit (Suc i) r of (gs, v4, r') \<Rightarrow> (of_nat g # gs, v4, r'))))"
  by auto
termination by (relation "measure (\<lambda>(limit, i, s). limit - i)") auto

declare read_groups.simps [simp del]

definition ipv6_of :: "16 word list \<Rightarrow> ipv6" where
  "ipv6_of g = Ipv6 (g ! 0) (g ! 1) (g ! 2) (g ! 3) (g ! 4) (g ! 5) (g ! 6) (g ! 7)"

definition read_ipv6 :: "string \<Rightarrow> (ipv6 \<times> string) option" where
  "read_ipv6 s = (case read_groups 8 0 s of (head, v4, r) \<Rightarrow>
     if length head = 8 then Some (ipv6_of head, r)
     else if v4 then None
     else Option.bind (read_char CHR '':'' r) (\<lambda>r1.
       Option.bind (read_char CHR '':'' r1) (\<lambda>r2.
         case read_groups (8 - (length head + 1)) 0 r2 of (tail, _, r3) \<Rightarrow>
           Some (ipv6_of (head @ replicate (8 - length head - length tail) 0 @ tail), r3))))"

definition parse_ip :: "string \<Rightarrow> ip_addr option" where
  "parse_ip s = (case read_ipv4 s of
     Some (v4, []) \<Rightarrow> Some (V4 v4)
   | Some (v4, _) \<Rightarrow> None
   | None \<Rightarrow> (case read_ipv6 s of Some (v6, []) \<Rightarrow> Some (V6 v6) | _ \<Rightarrow> None))"

section \<open>The guard on a URL\<close>

definition MAX_PROOF_DOCUMENT_BYTES :: nat where
  "MAX_PROOF_DOCUMENT_BYTES = 1024 * 1024"

definition MAX_FETCH_BYTES :: nat where
  "MAX_FETCH_BYTES = MAX_PROOF_DOCUMENT_BYTES"

definition MAX_REDIRECTS :: nat where
  "MAX_REDIRECTS = 2"

definition domain_is_local :: "string \<Rightarrow> bool" where
  "domain_is_local domain = (let host = hd (split_on CHR '':'' domain) in
     host = ''localhost'' \<or> suffix ''.localhost'' host \<or> host = ''127.0.0.1'' \<or> host = ''[::1]'')"

definition trim_start_char :: "char \<Rightarrow> string \<Rightarrow> string" where
  "trim_start_char c s = dropWhile (\<lambda>x. x = c) s"

definition trim_end_char :: "char \<Rightarrow> string \<Rightarrow> string" where
  "trim_end_char c s = rev (dropWhile (\<lambda>x. x = c) (rev s))"

definition bare_host :: "string \<Rightarrow> string" where
  "bare_host host = trim_end_char CHR '']'' (trim_start_char CHR ''['' host)"

definition check_url :: "('u, 'z) env_scheme \<Rightarrow> 'u \<Rightarrow> unit result" where
  "check_url E url =
    (if \<not> (url_scheme E url = ''https'' \<or> (url_scheme E url = ''http'' \<and> allow_local_targets E)) then
       Inl (BadRequest (''refusing a federation fetch over '' @ url_scheme E url @ '': only https is permitted''))
     else case url_host_str E url of
       None \<Rightarrow> Inl (BadRequest ''refusing a federation fetch to a URL with no host'')
     | Some host \<Rightarrow>
         if host = [] then Inl (BadRequest ''refusing a federation fetch to a URL with no host'')
         else case parse_ip (bare_host host) of
           Some ip \<Rightarrow>
             if \<not> allow_local_targets E \<and> is_private_ip ip then
               Inl (BadRequest (''refusing a federation fetch to the private or reserved address '' @ show_ip E ip))
             else if url_username E url \<noteq> [] \<or> url_password E url \<noteq> None then
               Inl (BadRequest ''refusing a federation fetch to a URL carrying credentials'')
             else Inr ()
         | None \<Rightarrow>
             if url_username E url \<noteq> [] \<or> url_password E url \<noteq> None then
               Inl (BadRequest ''refusing a federation fetch to a URL carrying credentials'')
             else Inr ())"

text \<open>\<open>GuardedResolver\<close>: one private address among the answers refuses the name.\<close>

definition guarded_resolve :: "('u, 'z) env_scheme \<Rightarrow> contact list \<Rightarrow> string \<Rightarrow> string + ip_addr list" where
  "guarded_resolve E log host = (case net_dns E log host of
     Inl e \<Rightarrow> Inl (''DNS resolution failed for '' @ host @ '': '' @ e)
   | Inr addrs \<Rightarrow>
       if addrs = [] then Inl (''DNS resolution returned no addresses for '' @ host)
       else if \<not> allow_local_targets E \<and> list_ex is_private_ip addrs then
         Inl (host @ '' resolves to a private or reserved address; refusing to fetch'')
       else Inr addrs)"

definition redirect_decision :: "('u, 'z) env_scheme \<Rightarrow> nat \<Rightarrow> 'u \<Rightarrow> bool" where
  "redirect_decision E visited next =
     (\<not> MAX_REDIRECTS < visited \<and> check_url E next = Inr ())"

section \<open>Sending a request\<close>

record 'u response =
  resp_status :: nat
  resp_url :: 'u
  resp_chunks :: "string list"
  resp_broken :: bool

text \<open>
  The connector: a literal is connected to as it is, a name through the resolver.  The
  addresses are logged before anything is sent.
\<close>

definition addresses_for :: "('u, 'z) env_scheme \<Rightarrow> contact list \<Rightarrow> 'u \<Rightarrow> string + ip_addr list" where
  "addresses_for E log url = (case url_host_str E url of
     None \<Rightarrow> Inl ''no host''
   | Some host \<Rightarrow> (case parse_ip (bare_host host) of
       Some ip \<Rightarrow> Inr [ip]
     | None \<Rightarrow> guarded_resolve E log host))"

function send_from ::
  "('u, 'z) env_scheme \<Rightarrow> nat \<Rightarrow> 'u \<Rightarrow> world \<Rightarrow> (string + 'u response) \<times> world" where
  "send_from E visited url s =
    (case addresses_for E (w_log s) url of
       Inl e \<Rightarrow> (Inl e, s)
     | Inr addrs \<Rightarrow>
         let s' = s\<lparr>w_log := \<lparr>ct_url = url_to_string E url, ct_addrs = addrs\<rparr> # w_log s\<rparr> in
         (case net_send E (w_log s') url of
            NetFail e \<Rightarrow> (Inl e, s')
          | NetResponse status chunks broken \<Rightarrow>
              (Inr \<lparr>resp_status = status, resp_url = url, resp_chunks = chunks, resp_broken = broken\<rparr>, s')
          | NetRedirect next \<Rightarrow>
              if redirect_decision E visited next then send_from E (Suc visited) next s'
              else (Inl ''redirect refused'', s')))"
  by pat_completeness auto
termination
  by (relation "measure (\<lambda>(E, visited, url, s). Suc MAX_REDIRECTS - visited)")
     (auto simp: redirect_decision_def not_less)

declare send_from.simps [simp del]

definition send :: "('u, 'z) env_scheme \<Rightarrow> 'u \<Rightarrow> string \<Rightarrow> 'u response prog" where
  "send E url what = (\<lambda>s. case send_from E 1 url s of
     (Inl e, s') \<Rightarrow> (Inl (Federation (what @ '' failed: '' @ e)), s')
   | (Inr r, s') \<Rightarrow> (Inr r, s'))"

definition guarded_get_accepting :: "('u, 'z) env_scheme \<Rightarrow> string \<Rightarrow> 'u response prog" where
  "guarded_get_accepting E url = (case url_parse E url of
     Inl e \<Rightarrow> throw (BadRequest (''unusable URI '' @ url @ '': '' @ e))
   | Inr parsed \<Rightarrow>
       bindE (of_result (check_url E parsed)) (\<lambda>_. send E parsed (''fetch of '' @ url)))"

definition guarded_get :: "('u, 'z) env_scheme \<Rightarrow> string \<Rightarrow> 'u response prog" where
  "guarded_get E url = guarded_get_accepting E url"

definition guarded_get_image :: "('u, 'z) env_scheme \<Rightarrow> string \<Rightarrow> 'u response prog" where
  "guarded_get_image E url = guarded_get_accepting E url"

section \<open>Reading a body\<close>

fun read_chunks :: "nat \<Rightarrow> string \<Rightarrow> bool \<Rightarrow> string \<Rightarrow> string list \<Rightarrow> string result" where
  "read_chunks limit what broken body [] =
     (if broken then Inl (Federation (''reading '' @ what @ '' failed'')) else Inr body)"
| "read_chunks limit what broken body (chunk # rest) =
     (if limit < length body + length chunk then
        Inl (Federation (what @ '' exceeds the '' @ show_nat limit @ '' byte limit; refusing to buffer it''))
      else read_chunks limit what broken (body @ chunk) rest)"

definition bytes_within_limit :: "'u response \<Rightarrow> nat \<Rightarrow> string \<Rightarrow> string result" where
  "bytes_within_limit r limit what = read_chunks limit what (resp_broken r) [] (resp_chunks r)"

definition json_within_limit ::
  "(string \<Rightarrow> string + 'a) \<Rightarrow> 'u response \<Rightarrow> string \<Rightarrow> 'a result" where
  "json_within_limit parse r what =
    (case read_chunks MAX_FETCH_BYTES what (resp_broken r) [] (resp_chunks r) of
       Inl e \<Rightarrow> Inl e
     | Inr body \<Rightarrow> (case parse body of
         Inl e \<Rightarrow> Inl (Federation (''invalid JSON in '' @ what @ '': '' @ e))
       | Inr v \<Rightarrow> Inr v))"

text \<open>\<open>Response::json\<close>, which buffers whatever arrives.\<close>

definition json_unbounded :: "(string \<Rightarrow> string + 'a) \<Rightarrow> 'u response \<Rightarrow> string + 'a" where
  "json_unbounded parse r =
     (if resp_broken r then Inl ''body error'' else parse (concat (resp_chunks r)))"

definition is_success :: "nat \<Rightarrow> bool" where
  "is_success status = (200 \<le> status \<and> status < 300)"

section \<open>Signed requests\<close>

definition open_auto :: "('u, 'z) env_scheme \<Rightarrow> string \<Rightarrow> string result" where
  "open_auto E sealed = open_opt (aead E) (kek E) sealed"

definition open_auto_field :: "('u, 'z) env_scheme \<Rightarrow> string option \<Rightarrow> string option result" where
  "open_auto_field E field = open_opt_field (aead E) (kek E) field"

definition URL_IN_MESSAGE :: nat where
  "URL_IN_MESSAGE = 200"

text \<open>The first \<open>n\<close> characters of UTF-8 text and what follows them.\<close>

fun split_chars :: "nat \<Rightarrow> string \<Rightarrow> string \<times> string" where
  "split_chars n [] = ([], [])"
| "split_chars n (c # s) =
     (if cont_byte c then (case split_chars n s of (a, b) \<Rightarrow> (c # a, b))
      else case n of 0 \<Rightarrow> ([], c # s)
        | Suc m \<Rightarrow> (case split_chars m s of (a, b) \<Rightarrow> (c # a, b)))"

definition in_message :: "('u, 'z) env_scheme \<Rightarrow> string \<Rightarrow> string" where
  "in_message E url = (case split_chars URL_IN_MESSAGE url of (shown, rest) \<Rightarrow>
     if rest = [] then debug_str E url else debug_str E shown @ ''...'')"

text \<open>\<open>LIMIT 1\<close> without an order is the first row of the table.\<close>

definition find_local_signing_actor :: "uuid prog" where
  "find_local_signing_actor =
    bindE (query (\<lambda>s. List.find (\<lambda>a. a_is_local a \<and> a_private_key_pem a \<noteq> None
        \<and> a_type a = Application) (w_actors s))) (\<lambda>inst.
    case inst of
      Some a \<Rightarrow> ret (a_id a)
    | None \<Rightarrow>
        bindE (query (\<lambda>s. List.find (\<lambda>a. a_is_local a \<and> a_private_key_pem a \<noteq> None) (w_actors s))) (\<lambda>any.
        ok_or (Internal ''no local actor with a private key available for signed fetch'')
          (map_option a_id any)))"

definition unsigned_get :: "('u, 'z) env_scheme \<Rightarrow> string \<Rightarrow> 'u response prog" where
  "unsigned_get E url = guarded_get E url"

definition signed_get :: "('u, 'z) env_scheme \<Rightarrow> string \<Rightarrow> uuid \<Rightarrow> 'u response prog" where
  "signed_get E url signing_actor_id = (case url_parse E url of
     Inl e \<Rightarrow> throw (BadRequest (''unusable URI '' @ in_message E url @ '': '' @ e))
   | Inr checked \<Rightarrow>
     bindE (of_result (check_url E checked)) (\<lambda>_.
     bindE (query (\<lambda>s. List.find (\<lambda>a. a_id a = signing_actor_id) (w_actors s))) (\<lambda>row.
     case Option.bind row a_private_key_pem of
       None \<Rightarrow>
         if allow_unsigned_fetch E then unsigned_get E url
         else throw (Federation
           ''signed_get: no private key available and unsigned fallback is disabled'')
     | Some sealed_pem \<Rightarrow>
         bindE (of_result (open_auto E sealed_pem)) (\<lambda>private_key_pem.
         case sign_request E private_key_pem url of
           Some e \<Rightarrow>
             if allow_unsigned_fetch E then unsigned_get E url
             else throw (Federation
               (''signed_get: signing failed and unsigned fallback is disabled: '' @ e))
         | None \<Rightarrow> send E checked (''signed fetch of '' @ in_message E url)))))"

section \<open>What the guard guarantees\<close>

definition safe_contact :: "('u, 'z) env_scheme \<Rightarrow> contact \<Rightarrow> bool" where
  "safe_contact E c \<longleftrightarrow>
     (\<exists>u. url_to_string E u = ct_url c \<and> check_url E u = Inr ())
     \<and> (allow_local_targets E \<or> (\<forall>ip\<in>set (ct_addrs c). \<not> is_private_ip ip))"

definition log_safe :: "('u, 'z) env_scheme \<Rightarrow> world \<Rightarrow> bool" where
  "log_safe E s \<longleftrightarrow> (\<forall>c\<in>set (w_log s). safe_contact E c)"

lemma check_url_ok:
  assumes "check_url E url = Inr ()"
  shows "url_scheme E url = ''https'' \<or> (url_scheme E url = ''http'' \<and> allow_local_targets E)"
    and "\<exists>host. url_host_str E url = Some host \<and> host \<noteq> []
      \<and> (\<forall>ip. parse_ip (bare_host host) = Some ip \<longrightarrow> allow_local_targets E \<or> \<not> is_private_ip ip)"
    and "url_username E url = []" and "url_password E url = None"
  using assms by (auto simp: check_url_def split: if_splits option.splits)

lemma guarded_resolve_public:
  "guarded_resolve E log host = Inr addrs \<Longrightarrow> allow_local_targets E \<or> (\<forall>ip\<in>set addrs. \<not> is_private_ip ip)"
  by (auto simp: guarded_resolve_def list_ex_iff split: sum.splits if_splits)

lemma addresses_for_safe:
  assumes "check_url E url = Inr ()" and "addresses_for E log url = Inr addrs"
  shows "safe_contact E \<lparr>ct_url = url_to_string E url, ct_addrs = addrs\<rparr>"
proof -
  obtain host where h: "url_host_str E url = Some host"
    and lit: "\<And>ip. parse_ip (bare_host host) = Some ip \<Longrightarrow> allow_local_targets E \<or> \<not> is_private_ip ip"
    using check_url_ok(2) [OF assms(1)] by blast
  have "allow_local_targets E \<or> (\<forall>ip\<in>set addrs. \<not> is_private_ip ip)"
    using assms(2) h lit
    by (auto simp: addresses_for_def dest: guarded_resolve_public split: option.splits)
  with assms(1) show ?thesis by (auto simp: safe_contact_def)
qed

text \<open>Sending touches nothing of the world but the log, and only adds safe connections to it.\<close>

lemma send_from_log:
  "\<exists>l. snd (send_from E visited url s) = s\<lparr>w_log := l @ w_log s\<rparr>
     \<and> (check_url E url = Inr () \<longrightarrow> (\<forall>c\<in>set l. safe_contact E c)) \<and> length l \<le> Suc (Suc MAX_REDIRECTS - visited)"
proof (induction E visited url s rule: send_from.induct)
  case (1 E visited url s)
  show ?case
  proof (cases "addresses_for E (w_log s) url")
    case (Inl e)
    then show ?thesis by (subst send_from.simps) (auto intro: exI [of _ "[]"])
  next
    case (Inr addrs)
    define c where "c = \<lparr>ct_url = url_to_string E url, ct_addrs = addrs\<rparr>"
    define s' where "s' = s\<lparr>w_log := c # w_log s\<rparr>"
    have safe: "check_url E url = Inr () \<Longrightarrow> safe_contact E c"
      unfolding c_def by (rule addresses_for_safe [OF _ Inr])
    have stop: ?thesis if "snd (send_from E visited url s) = s'"
      using that safe by (intro exI [of _ "[c]"]) (simp add: s'_def)
    show ?thesis
    proof (cases "net_send E (w_log s') url")
      case (NetRedirect nxt)
      show ?thesis
      proof (cases "redirect_decision E visited nxt")
        case True
        then have ok: "check_url E nxt = Inr ()" "visited \<le> MAX_REDIRECTS"
          by (auto simp: redirect_decision_def)
        have "\<exists>l. snd (send_from E (Suc visited) nxt s') = s'\<lparr>w_log := l @ w_log s'\<rparr>
            \<and> (check_url E nxt = Inr () \<longrightarrow> (\<forall>c\<in>set l. safe_contact E c))
            \<and> length l \<le> Suc (Suc MAX_REDIRECTS - Suc visited)"
          using 1 [OF Inr] True NetRedirect by (simp add: s'_def c_def)
        then obtain l where l: "snd (send_from E (Suc visited) nxt s') = s'\<lparr>w_log := l @ w_log s'\<rparr>"
          "\<forall>c\<in>set l. safe_contact E c" "length l \<le> Suc (Suc MAX_REDIRECTS - Suc visited)"
          using ok by blast
        have "snd (send_from E visited url s) = s'\<lparr>w_log := l @ w_log s'\<rparr>"
          using Inr NetRedirect True l(1) by (subst send_from.simps) (simp add: s'_def c_def)
        then show ?thesis using l safe ok(2) by (intro exI [of _ "l @ [c]"]) (auto simp: s'_def)
      next
        case False
        show ?thesis
          by (rule stop) (use Inr NetRedirect False in \<open>subst send_from.simps, simp add: s'_def c_def\<close>)
      qed
    next
      case (NetFail e)
      show ?thesis
        by (rule stop) (use Inr NetFail in \<open>subst send_from.simps, simp add: s'_def c_def\<close>)
    next
      case (NetResponse st ch br)
      show ?thesis
        by (rule stop) (use Inr NetResponse in \<open>subst send_from.simps, simp add: s'_def c_def\<close>)
    qed
  qed
qed

end
