(* ===== verification/Repo.thy ===== *)
theory Repo
  imports HttpGuard
begin

text \<open>
  \<open>noombat-identity/src/repo.rs\<close> and \<open>hashtags.rs\<close>, and \<open>delivery::enqueue\<close>: the SQL
  statements the federation handlers run.  Each statement is written out with the
  constraints of \<open>migrations/0001_foundation.sql\<close> it meets: a foreign key or a unique index
  it violates is a \<open>Database\<close> error, \<open>ON CONFLICT\<close> is the clause the statement carries, and a
  deletion cascades as the schema says.
\<close>

section \<open>Reading rows\<close>

definition into_actor :: "('u, 'z) env_scheme \<Rightarrow> actor_row \<Rightarrow> actor result" where
  "into_actor E row = (case open_auto_field E (a_private_key_pem row) of
     Inl e \<Rightarrow> Inl e
   | Inr private_key_pem \<Rightarrow> (case open_auto_field E (a_ed25519_private_key row) of
       Inl e \<Rightarrow> Inl e
     | Inr ed25519_private_key \<Rightarrow>
         Inr ((actor.truncate row)\<lparr>a_private_key_pem := private_key_pem,
                                 a_ed25519_private_key := ed25519_private_key\<rparr>)))"

definition opt_actor :: "('u, 'z) env_scheme \<Rightarrow> actor_row option \<Rightarrow> actor option result" where
  "opt_actor E row = (case row of None \<Rightarrow> Inr None
     | Some r \<Rightarrow> (case into_actor E r of Inl e \<Rightarrow> Inl e | Inr a \<Rightarrow> Inr (Some a)))"

definition row_by_ap_id :: "string \<Rightarrow> world \<Rightarrow> actor_row option" where
  "row_by_ap_id ap_id s = List.find (\<lambda>a. a_ap_id a = ap_id) (w_actors s)"

definition find_by_ap_id :: "('u, 'z) env_scheme \<Rightarrow> string \<Rightarrow> actor option prog" where
  "find_by_ap_id E ap_id =
     bindE (query (row_by_ap_id ap_id)) (\<lambda>row. of_result (opt_actor E row))"

definition find_by_public_key_id :: "('u, 'z) env_scheme \<Rightarrow> string \<Rightarrow> actor option prog" where
  "find_by_public_key_id E key_id =
     bindE (query (\<lambda>s. List.find (\<lambda>a. a_public_key_id a = Some key_id) (w_actors s))) (\<lambda>row.
     of_result (opt_actor E row))"

definition find_local_by_username :: "('u, 'z) env_scheme \<Rightarrow> string \<Rightarrow> actor prog" where
  "find_local_by_username E username =
     bindE (query (\<lambda>s. List.find (\<lambda>a. a_username a = username \<and> a_is_local a) (w_actors s))) (\<lambda>row.
     case row of None \<Rightarrow> throw (ActorNotFound username) | Some r \<Rightarrow> of_result (into_actor E r))"

definition find_by_id :: "('u, 'z) env_scheme \<Rightarrow> uuid \<Rightarrow> actor prog" where
  "find_by_id E i =
     bindE (query (\<lambda>s. List.find (\<lambda>a. a_id a = i) (w_actors s))) (\<lambda>row.
     case row of None \<Rightarrow> throw (NotFound ''actor'' i) | Some r \<Rightarrow> of_result (into_actor E r))"

definition new_uuid :: "uuid prog" where
  "new_uuid = (\<lambda>s. (Inr (w_next_id s), s\<lparr>w_next_id := Suc (w_next_id s)\<rparr>))"

definition actor_exists :: "uuid \<Rightarrow> world \<Rightarrow> bool" where
  "actor_exists i s = list_ex (\<lambda>a. a_id a = i) (w_actors s)"

definition post_exists :: "uuid \<Rightarrow> world \<Rightarrow> bool" where
  "post_exists i s = list_ex (\<lambda>p. p_id p = i) (w_posts s)"

text \<open>A statement whose foreign keys or unique indices may refuse it.\<close>

definition execute_if :: "(world \<Rightarrow> bool) \<Rightarrow> (world \<Rightarrow> world) \<Rightarrow> unit prog" where
  "execute_if ok f = stmt (\<lambda>s. if ok s then (Inr (), f s) else (Inl Database, s))"

section \<open>Remote actors\<close>

record remote_actor =
  ra_ap_id :: string
  ra_username :: string
  ra_domain :: string
  ra_display_name :: "string option"
  ra_summary_html :: "string option"
  ra_sanitiser_version :: nat
  ra_public_key_pem :: string
  ra_public_key_id :: "string option"
  ra_actor_type :: string
  ra_inbox_url :: string
  ra_shared_inbox_url :: "string option"
  ra_ed25519_public_key :: "string option"
  ra_discoverable :: bool
  ra_indexable :: bool

definition actor_type_from_stored :: "string \<Rightarrow> actor_type option" where
  "actor_type_from_stored s = (if s = ''individual'' then Some Individual
     else if s = ''organization'' then Some Organization
     else if s = ''group'' then Some Group
     else if s = ''application'' then Some Application else None)"

definition remote_privacy :: "remote_actor \<Rightarrow> actor_privacy" where
  "remote_privacy r = default_privacy\<lparr>discoverable := ra_discoverable r, indexable := ra_indexable r\<rparr>"

definition inserted_row :: "remote_actor \<Rightarrow> actor_type \<Rightarrow> uuid \<Rightarrow> timestamp \<Rightarrow> actor_row" where
  "inserted_row r t i now =
    \<lparr> a_id = i, a_type = t, a_org_kind = None, a_ap_id = ra_ap_id r, a_username = ra_username r,
      a_display_name = ra_display_name r, a_headline = None, a_location = None, a_avatar_url = None,
      a_header_url = None, a_summary_md = None, a_summary_html = ra_summary_html r,
      a_public_key_pem = ra_public_key_pem r, a_public_key_id = ra_public_key_id r,
      a_private_key_pem = None, a_ed25519_public_key = ra_ed25519_public_key r,
      a_ed25519_private_key = None, a_domain = ra_domain r, a_is_local = False,
      a_inbox_url = Some (ra_inbox_url r), a_instance_role = RoleUser, a_status = StatusActive,
      a_chat_requires_reprovisioning = False, a_chatmail_addr = None, a_orcid = None, a_moved_to = None,
      a_privacy = remote_privacy r, a_created_at = now, a_updated_at = now,
      ar_shared_inbox_url = ra_shared_inbox_url r, ar_sanitiser_version = ra_sanitiser_version r,
      ar_auth_key_hash = None, ar_email = None, ar_email_verified_at = None, ar_chatmail_cred = None,
      ar_claimed_domain = None, ar_connections_visibility = ''private'', ar_following_visibility = ''private'',
      ar_followers_visibility = ''private'', ar_deletion_requested_at = None,
      ar_erased_at = None, ar_last_sign_in_at = None, ar_default_post_visibility = ''public'',
      ar_blur_sensitive_media = True \<rparr>"

definition refreshed_row :: "remote_actor \<Rightarrow> timestamp \<Rightarrow> actor_row \<Rightarrow> actor_row" where
  "refreshed_row r now a = a\<lparr> a_public_key_pem := ra_public_key_pem r, a_public_key_id := ra_public_key_id r,
     a_display_name := ra_display_name r, a_summary_html := ra_summary_html r,
     ar_sanitiser_version := ra_sanitiser_version r, a_inbox_url := Some (ra_inbox_url r),
     ar_shared_inbox_url := ra_shared_inbox_url r, a_ed25519_public_key := ra_ed25519_public_key r,
     a_privacy := remote_privacy r, a_updated_at := now \<rparr>"

definition key_id_taken :: "remote_actor \<Rightarrow> world \<Rightarrow> bool" where
  "key_id_taken r s = (ra_public_key_id r \<noteq> None
     \<and> list_ex (\<lambda>a. a_public_key_id a = ra_public_key_id r \<and> a_ap_id a \<noteq> ra_ap_id r) (w_actors s))"

text \<open>The \<open>INSERT .. ON CONFLICT (ap_id) DO UPDATE .. WHERE actors.is_local = FALSE\<close>.\<close>

definition upsert_stmt :: "remote_actor \<Rightarrow> uuid \<Rightarrow> unit prog" where
  "upsert_stmt r i = stmt (\<lambda>s. case actor_type_from_stored (ra_actor_type r) of
     None \<Rightarrow> (Inl Database, s)
   | Some t \<Rightarrow> (case row_by_ap_id (ra_ap_id r) s of
       None \<Rightarrow>
         if key_id_taken r s then (Inl Database, s)
         else (Inr (), s\<lparr>w_actors := w_actors s @ [inserted_row r t i (w_now s)]\<rparr>)
     | Some old \<Rightarrow>
         if a_is_local old then (Inr (), s)
         else if key_id_taken r s then (Inl Database, s)
         else (Inr (), s\<lparr>w_actors := map (\<lambda>a. if a_ap_id a = ra_ap_id r then refreshed_row r (w_now s) a else a)
                                       (w_actors s)\<rparr>)))"

definition upsert_remote_actor :: "('u, 'z) env_scheme \<Rightarrow> remote_actor \<Rightarrow> actor prog" where
  "upsert_remote_actor E remote =
     bindE new_uuid (\<lambda>i.
     bindE (upsert_stmt remote i) (\<lambda>_.
     bindE (find_by_ap_id E (ra_ap_id remote)) (\<lambda>row.
     bindE (ok_or (Internal ''upsert_remote_actor: row not found after insert'') row) (\<lambda>actor.
     if a_is_local actor then throw Forbidden else ret actor))))"

section \<open>Follows\<close>

definition create_follow_with_ap_id :: "uuid \<Rightarrow> uuid \<Rightarrow> bool \<Rightarrow> string option \<Rightarrow> unit prog" where
  "create_follow_with_ap_id follower_id following_id auto_accept follow_ap_id =
     execute_if
       (\<lambda>s. actor_exists follower_id s \<and> actor_exists following_id s)
       (\<lambda>s. if list_ex (\<lambda>f. f_follower f = follower_id \<and> f_following f = following_id) (w_follows s) then s
            else s\<lparr>w_follows := w_follows s @
              [\<lparr>f_follower = follower_id, f_following = following_id,
                f_ap_id = follow_ap_id, f_accepted = auto_accept\<rparr>]\<rparr>)"

definition create_follow :: "uuid \<Rightarrow> uuid \<Rightarrow> bool \<Rightarrow> unit prog" where
  "create_follow follower_id following_id auto_accept =
     create_follow_with_ap_id follower_id following_id auto_accept None"

definition get_follow_ap_id :: "uuid \<Rightarrow> uuid \<Rightarrow> string option prog" where
  "get_follow_ap_id follower_id following_id =
     query (\<lambda>s. Option.bind (List.find (\<lambda>f. f_follower f = follower_id \<and> f_following f = following_id)
       (w_follows s)) f_ap_id)"

definition accept_follow :: "uuid \<Rightarrow> uuid \<Rightarrow> unit prog" where
  "accept_follow follower_id following_id =
     execute (\<lambda>s. s\<lparr>w_follows := map (\<lambda>f. if f_follower f = follower_id \<and> f_following f = following_id
       then f\<lparr>f_accepted := True\<rparr> else f) (w_follows s)\<rparr>)"

definition delete_follow :: "uuid \<Rightarrow> uuid \<Rightarrow> unit prog" where
  "delete_follow follower_id following_id =
     execute (\<lambda>s. s\<lparr>w_follows := filter (\<lambda>f. \<not> (f_follower f = follower_id \<and> f_following f = following_id))
       (w_follows s)\<rparr>)"

text \<open>\<open>SELECT DISTINCT COALESCE(..)\<close>: the order of the rows is not specified, the set is.\<close>

definition inbox_of_row :: "actor_row \<Rightarrow> string" where
  "inbox_of_row a = (case ar_shared_inbox_url a of Some u \<Rightarrow> u
     | None \<Rightarrow> (case a_inbox_url a of Some u \<Rightarrow> u | None \<Rightarrow> a_ap_id a @ ''/inbox''))"

definition get_follower_inboxes :: "uuid \<Rightarrow> string list prog" where
  "get_follower_inboxes actor_id = query (\<lambda>s. remdups (List.map_filter (\<lambda>f.
     if f_following f = actor_id \<and> f_accepted f
     then map_option inbox_of_row (List.find (\<lambda>a. a_id a = f_follower f) (w_actors s)) else None)
     (w_follows s)))"

section \<open>Posts\<close>

record remote_post =
  rm_actor_id :: uuid
  rm_ap_id :: string
  rm_post_type :: string
  rm_title :: "string option"
  rm_featured_image_url :: "string option"
  rm_featured_image_alt :: "string option"
  rm_sensitive :: bool
  rm_content_md :: "string option"
  rm_content_html :: string
  rm_sanitiser_version :: nat
  rm_integrity_proof_verified :: "bool option"
  rm_in_reply_to :: "string option"
  rm_visibility :: string
  rm_ap_object :: json

definition visibility_ok :: "string \<Rightarrow> bool" where
  "visibility_ok v = (v \<in> set [''public'', ''unlisted'', ''followers'', ''connections''])"

text \<open>The check constraints of the \<open>posts\<close> table.\<close>

definition post_columns_ok :: "string \<Rightarrow> string \<Rightarrow> string option \<Rightarrow> string option \<Rightarrow> bool" where
  "post_columns_ok post_type vis url alt = (post_type \<in> set [''note'', ''article''] \<and> visibility_ok vis
     \<and> (alt = None \<or> url \<noteq> None))"

definition post_row_of :: "remote_post \<Rightarrow> uuid \<Rightarrow> post_row" where
  "post_row_of r i =
    \<lparr> p_id = i, p_actor_id = rm_actor_id r, p_ap_id = rm_ap_id r, p_post_type = rm_post_type r,
      p_title = rm_title r, p_featured_image_url = rm_featured_image_url r,
      p_featured_image_alt = rm_featured_image_alt r, p_sensitive = rm_sensitive r,
      p_content_md = rm_content_md r, p_content_html = rm_content_html r,
      p_sanitiser_version = rm_sanitiser_version r, p_in_reply_to = rm_in_reply_to r,
      p_canonical_uri = None, p_visibility = rm_visibility r, p_ap_object = rm_ap_object r,
      p_integrity_proof_verified = rm_integrity_proof_verified r, p_relayed_unverified = False \<rparr>"

definition post_by_ap_id :: "string \<Rightarrow> world \<Rightarrow> post_row option" where
  "post_by_ap_id ap_id s = List.find (\<lambda>p. p_ap_id p = ap_id) (w_posts s)"

definition post_id_by_ap_id :: "string \<Rightarrow> uuid option prog" where
  "post_id_by_ap_id ap_id = query (\<lambda>s. map_option p_id (post_by_ap_id ap_id s))"

definition insert_post_stmt :: "remote_post \<Rightarrow> uuid \<Rightarrow> uuid option prog" where
  "insert_post_stmt r i = stmt (\<lambda>s.
     if \<not> post_columns_ok (rm_post_type r) (rm_visibility r) (rm_featured_image_url r) (rm_featured_image_alt r)
     then (Inl Database, s)
     else if post_by_ap_id (rm_ap_id r) s \<noteq> None then (Inr None, s)
     else if \<not> actor_exists (rm_actor_id r) s then (Inl Database, s)
     else (Inr (Some i), s\<lparr>w_posts := w_posts s @ [post_row_of r i]\<rparr>))"

definition create_remote_post :: "remote_post \<Rightarrow> uuid option prog" where
  "create_remote_post post = bindE new_uuid (\<lambda>i. insert_post_stmt post i)"

definition record_verified_proof :: "string \<Rightarrow> bool prog" where
  "record_verified_proof ap_id = stmt (\<lambda>s.
     let hit = (\<lambda>p. p_ap_id p = ap_id \<and> p_integrity_proof_verified p \<noteq> Some True) in
     (Inr (list_ex hit (w_posts s)),
      s\<lparr>w_posts := map (\<lambda>p. if hit p then p\<lparr>p_integrity_proof_verified := Some True\<rparr> else p) (w_posts s)\<rparr>))"

section \<open>Hashtags\<close>

text \<open>
  The batch upsert of \<open>link_post_hashtags\<close> is one \<open>INSERT .. ON CONFLICT DO UPDATE\<close>, and
  PostgreSQL refuses such a command when two of its rows conflict with each other.
\<close>

definition link_post_hashtags :: "('u, 'z) env_scheme \<Rightarrow> uuid \<Rightarrow> string list \<Rightarrow> unit prog" where
  "link_post_hashtags E post_id names =
    (if names = [] then ret ()
     else let normalised = map (to_lowercase E) names in
       bindE (execute_if (\<lambda>s. distinct normalised) (\<lambda>s. s)) (\<lambda>_.
       execute_if (post_exists post_id) (\<lambda>s. s\<lparr>w_post_hashtags := w_post_hashtags s
         @ filter (\<lambda>x. x \<notin> set (w_post_hashtags s)) (map (Pair post_id) normalised)\<rparr>)))"

section \<open>Queueing a delivery\<close>

definition enqueue_delivery :: "uuid \<Rightarrow> json \<Rightarrow> string \<Rightarrow> unit prog" where
  "enqueue_delivery actor_id payload target_inbox =
     execute_if (actor_exists actor_id)
       (\<lambda>s. s\<lparr>w_deliveries := w_deliveries s
         @ [\<lparr>d_id = w_queue_seq s, d_actor_id = actor_id, d_payload = payload, d_target_inbox = target_inbox,
             d_attempts = 0, d_next_retry = w_now s\<rparr>], w_queue_seq := Suc (w_queue_seq s)\<rparr>)"

section \<open>Deletion and its cascades\<close>

definition delete_posts_where :: "(post_row \<Rightarrow> bool) \<Rightarrow> world \<Rightarrow> world" where
  "delete_posts_where P s =
    (let gone = (\<lambda>i. list_ex (\<lambda>p. P p \<and> p_id p = i) (w_posts s)) in
     s\<lparr> w_posts := filter (\<lambda>p. \<not> P p) (w_posts s),
        w_likes := filter (\<lambda>r. \<not> gone (r_post r)) (w_likes s),
        w_boosts := filter (\<lambda>r. \<not> gone (r_post r)) (w_boosts s),
        w_post_hashtags := filter (\<lambda>(i, t). \<not> gone i) (w_post_hashtags s),
        w_media_ops := filter (\<lambda>m. \<not> gone (mo_post m)) (w_media_ops s),
        w_reports := filter (\<lambda>r. \<not> (case rp_target_post r of None \<Rightarrow> False | Some i \<Rightarrow> gone i)) (w_reports s),
        w_media := filter (\<lambda>m. \<not> (case ma_post m of None \<Rightarrow> False | Some i \<Rightarrow> gone i)) (w_media s) \<rparr>)"

text \<open>Deleting a posting keeps the applications to it, without the reference.\<close>

definition delete_jobs_where :: "(job_row \<Rightarrow> bool) \<Rightarrow> job_tables \<Rightarrow> job_tables" where
  "delete_jobs_where P t =
    (let gone = (\<lambda>i. list_ex (\<lambda>j. P j \<and> jb_id j = i) (jt_jobs t)) in
     t\<lparr> jt_jobs := filter (\<lambda>j. \<not> P j) (jt_jobs t),
        jt_readers := filter (\<lambda>(j, m). \<not> gone j) (jt_readers t),
        jt_applications := map (\<lambda>a. case ja_job a of Some i \<Rightarrow> if gone i then a\<lparr>ja_job := None\<rparr> else a | None \<Rightarrow> a)
          (jt_applications t) \<rparr>)"

definition delete_applications_where :: "(application_row \<Rightarrow> bool) \<Rightarrow> job_tables \<Rightarrow> job_tables" where
  "delete_applications_where P t =
    (let gone = (\<lambda>i. list_ex (\<lambda>a. P a \<and> ja_id a = i) (jt_applications t)) in
     t\<lparr> jt_applications := filter (\<lambda>a. \<not> P a) (jt_applications t),
        jt_grants := filter (\<lambda>g. \<not> gone (gr_application g)) (jt_grants t),
        jt_accesses := filter (\<lambda>x. \<not> gone (ac_application x)) (jt_accesses t) \<rparr>)"

definition forget_reader :: "(uuid \<Rightarrow> bool) \<Rightarrow> job_tables \<Rightarrow> job_tables" where
  "forget_reader gone t = t\<lparr>jt_accesses := map (\<lambda>x. case ac_reader x of
     Some i \<Rightarrow> if gone i then x\<lparr>ac_reader := None\<rparr> else x | None \<Rightarrow> x) (jt_accesses t)\<rparr>"

text \<open>A member that is gone reads no posting and created none.\<close>

definition forget_member :: "(uuid \<Rightarrow> bool) \<Rightarrow> job_tables \<Rightarrow> job_tables" where
  "forget_member gone t = t\<lparr>jt_readers := filter (\<lambda>(j, m). \<not> gone m) (jt_readers t),
     jt_jobs := map (\<lambda>j. case jb_created_by j of Some i \<Rightarrow> if gone i then j\<lparr>jb_created_by := None\<rparr> else j | None \<Rightarrow> j) (jt_jobs t)\<rparr>"

definition cascade_jobs :: "(uuid \<Rightarrow> bool) \<Rightarrow> job_tables \<Rightarrow> job_tables" where
  "cascade_jobs gone t = forget_member gone (forget_reader gone (delete_applications_where (\<lambda>a. gone (ja_applicant a))
     (delete_jobs_where (\<lambda>j. gone (jb_actor_id j)) t)))"

definition cascade_accounts :: "(uuid \<Rightarrow> bool) \<Rightarrow> account_tables \<Rightarrow> account_tables" where
  "cascade_accounts gone t =
     t\<lparr> at_sessions := filter (\<lambda>x. \<not> gone (se_actor x)) (at_sessions t),
        at_challenges := filter (\<lambda>x. \<not> gone (ec_actor x)) (at_challenges t),
        at_totp := filter (\<lambda>x. \<not> gone (tt_actor x)) (at_totp t),
        at_members := filter (\<lambda>x. \<not> gone (om_organization x) \<and> \<not> gone (om_member x)) (at_members t),
        at_enrolments := map (\<lambda>x. case oe_organization x of
            Some i \<Rightarrow> if gone i then x\<lparr>oe_organization := None\<rparr> else x | None \<Rightarrow> x)
          (filter (\<lambda>x. \<not> gone (oe_owner x)) (at_enrolments t)) \<rparr>"

text \<open>
  A claim of employment outlives the organisation it names, without the reference.  The check
  \<open>confirmation_names_an_organisation\<close> is not enforced here: \<open>purge_tombstoned_actor\<close>, which may
  delete an organisation, enforces it, and a claim that names a remote one is never confirmed.
\<close>

definition cascade_profile :: "(uuid \<Rightarrow> bool) \<Rightarrow> profile_tables \<Rightarrow> profile_tables" where
  "cascade_profile gone t =
     t\<lparr> pt_work := map (\<lambda>x. case wx_organization_id x of
            Some i \<Rightarrow> if gone i then x\<lparr>wx_organization_id := None\<rparr> else x | None \<Rightarrow> x)
          (filter (\<lambda>x. \<not> gone (sr_actor x)) (pt_work t)),
        pt_education := filter (\<lambda>x. \<not> gone (sr_actor x)) (pt_education t),
        pt_skills := filter (\<lambda>x. \<not> gone (sk_actor x)) (pt_skills t),
        pt_articles := filter (\<lambda>x. \<not> gone (sa_actor x)) (pt_articles t),
        pt_sections := filter (\<lambda>x. \<not> gone (sr_actor x)) (pt_sections t),
        pt_links := filter (\<lambda>x. \<not> gone (vl_actor x)) (pt_links t) \<rparr>"

definition delete_actor_rows :: "(actor_row \<Rightarrow> bool) \<Rightarrow> world \<Rightarrow> world" where
  "delete_actor_rows P s =
    (let gone = (\<lambda>i. list_ex (\<lambda>a. P a \<and> a_id a = i) (w_actors s));
         s1 = delete_posts_where (\<lambda>p. gone (p_actor_id p)) s in
     s1\<lparr> w_actors := filter (\<lambda>a. \<not> P a) (w_actors s),
         w_follows := filter (\<lambda>f. \<not> gone (f_follower f) \<and> \<not> gone (f_following f)) (w_follows s),
         w_likes := filter (\<lambda>r. \<not> gone (r_actor r)) (w_likes s1),
         w_boosts := filter (\<lambda>r. \<not> gone (r_actor r)) (w_boosts s1),
         w_blocks := filter (\<lambda>b. \<not> gone (b_actor b) \<and> \<not> gone (b_target b)) (w_blocks s),
         w_deliveries := filter (\<lambda>d. \<not> gone (d_actor_id d)) (w_deliveries s),
         w_media_ops := filter (\<lambda>m. \<not> gone (mo_actor m)) (w_media_ops s1),
         w_reports := map (\<lambda>r. case rp_resolved_by r of
              Some i \<Rightarrow> if gone i then r\<lparr>rp_resolved_by := None\<rparr> else r | None \<Rightarrow> r)
            (filter (\<lambda>r. \<not> gone (rp_reporter r)
              \<and> \<not> (case rp_target_actor r of None \<Rightarrow> False | Some i \<Rightarrow> gone i)) (w_reports s1)),
         w_media := filter (\<lambda>m. \<not> gone (ma_actor m)) (w_media s1),
         w_chatmail_ops := map (\<lambda>x. case co_actor x of
            Some i \<Rightarrow> if gone i then x\<lparr>co_actor := None\<rparr> else x | None \<Rightarrow> x) (w_chatmail_ops s),
         w_connections := filter (\<lambda>c. \<not> gone (cn_requester c) \<and> \<not> gone (cn_addressee c)) (w_connections s),
         w_mutes := filter (\<lambda>b. \<not> gone (b_actor b) \<and> \<not> gone (b_target b)) (w_mutes s),
         w_aliases := filter (\<lambda>x. \<not> gone (al_actor x)) (w_aliases s),
         w_owned := filter (\<lambda>(t, i). \<not> gone i) (w_owned s),
         w_hashtag_follows := filter (\<lambda>(i, t). \<not> gone i) (w_hashtag_follows s),
         w_chat_blocks := filter (\<lambda>(i, x). \<not> gone i) (w_chat_blocks s),
         w_profile := cascade_profile gone (w_profile s),
         w_accounts := cascade_accounts gone (w_accounts s), w_jobs := cascade_jobs gone (w_jobs s) \<rparr>)"

section \<open>Facts about reading\<close>

lemma truncate_simps [simp]:
  "a_id (actor.truncate r) = a_id r" "a_ap_id (actor.truncate r) = a_ap_id r"
  "a_is_local (actor.truncate r) = a_is_local r" "a_inbox_url (actor.truncate r) = a_inbox_url r"
  "a_privacy (actor.truncate r) = a_privacy r"
  "a_ed25519_public_key (actor.truncate r) = a_ed25519_public_key r"
  "a_public_key_id (actor.truncate r) = a_public_key_id r"
  "a_public_key_pem (actor.truncate r) = a_public_key_pem r"
  "a_username (actor.truncate r) = a_username r"
  by (simp_all add: actor.truncate_def)

lemma into_actor_fields:
  assumes "into_actor E row = Inr a"
  shows "a_id a = a_id row" "a_ap_id a = a_ap_id row" "a_is_local a = a_is_local row"
    "a_inbox_url a = a_inbox_url row" "a_privacy a = a_privacy row"
    "a_ed25519_public_key a = a_ed25519_public_key row" "a_public_key_id a = a_public_key_id row"
    "a_public_key_pem a = a_public_key_pem row" "a_username a = a_username row"
  using assms by (auto simp: into_actor_def split: sum.splits)

lemma row_by_ap_id_SomeD: "row_by_ap_id u s = Some r \<Longrightarrow> r \<in> set (w_actors s) \<and> a_ap_id r = u"
  by (auto simp: row_by_ap_id_def dest: find_SomeD)

lemma find_by_ap_id_Inr:
  "find_by_ap_id E u s = (Inr v, s') \<longleftrightarrow>
     \<not> w_fault s (w_tick s) \<and> s' = s\<lparr>w_tick := Suc (w_tick s)\<rparr> \<and> opt_actor E (row_by_ap_id u s) = Inr v"
  by (auto simp: find_by_ap_id_def bindE_Inr query_Inr of_result_def row_by_ap_id_def)

lemma opt_actor_Some: "opt_actor E row = Inr (Some a) \<longleftrightarrow> (\<exists>r. row = Some r \<and> into_actor E r = Inr a)"
  by (auto simp: opt_actor_def split: option.splits sum.splits)

lemma opt_actor_None: "opt_actor E row = Inr None \<longleftrightarrow> row = None"
  by (auto simp: opt_actor_def split: option.splits sum.splits)

end
