(* ===== verification/SearchQueue.thy ===== *)
theory SearchQueue
  imports Repo
begin

text \<open>
  The work queue of the search index and what feeds it: \<open>search_queue.rs\<close>,
  \<open>remote_indexing.rs\<close> and \<open>crosspost.rs\<close>.
\<close>

section \<open>The queue\<close>

definition same_document :: "string \<Rightarrow> string \<Rightarrow> search_op \<Rightarrow> bool" where
  "same_document index doc op = (so_index op = index \<and> so_document_id op = doc)"

text \<open>\<open>INSERT .. ON CONFLICT (index_name, document_id) DO UPDATE\<close>.\<close>

definition put_op :: "string \<Rightarrow> string \<Rightarrow> search_op \<Rightarrow> (search_op \<Rightarrow> search_op) \<Rightarrow> world \<Rightarrow> world" where
  "put_op index doc new upd s = s\<lparr>w_search_ops :=
     (if list_ex (same_document index doc) (w_search_ops s)
      then map (\<lambda>op. if same_document index doc op then upd op else op) (w_search_ops s)
      else w_search_ops s @ [new])\<rparr>"

definition index_ok :: "string \<Rightarrow> bool" where
  "index_ok index = (index \<in> set [''profiles'', ''posts'', ''jobs''])"

definition removal_op :: "string \<Rightarrow> string \<Rightarrow> search_op" where
  "removal_op index doc = \<lparr>so_index = index, so_document_id = doc, so_operation = ''remove'',
     so_document = None, so_state = ''pending'', so_attempts = 0\<rparr>"

definition upsert_op :: "string \<Rightarrow> string \<Rightarrow> json \<Rightarrow> search_op" where
  "upsert_op index doc document = \<lparr>so_index = index, so_document_id = doc, so_operation = ''upsert'',
     so_document = Some document, so_state = ''pending'', so_attempts = 0\<rparr>"

definition to_removal :: "search_op \<Rightarrow> search_op" where
  "to_removal op =
     op\<lparr>so_operation := ''remove'', so_document := None, so_state := ''pending'', so_attempts := 0\<rparr>"

text \<open>The \<open>WHERE search_index_operations.operation <> 'remove'\<close> of the update.\<close>

definition to_upsert :: "json \<Rightarrow> search_op \<Rightarrow> search_op" where
  "to_upsert document op = (if so_operation op \<noteq> ''remove''
     then op\<lparr>so_document := Some document, so_state := ''pending'', so_attempts := 0\<rparr> else op)"

definition enqueue_removal :: "string \<Rightarrow> string \<Rightarrow> unit prog" where
  "enqueue_removal index doc = execute_if (\<lambda>s. index_ok index)
     (put_op index doc (removal_op index doc) to_removal)"

definition enqueue_upsert :: "string \<Rightarrow> string \<Rightarrow> json \<Rightarrow> unit prog" where
  "enqueue_upsert index doc document = execute_if (\<lambda>s. index_ok index)
     (put_op index doc (upsert_op index doc document) (to_upsert document))"

section \<open>Which remote posts are indexed\<close>

definition remote_indexing_enabled :: "bool prog" where
  "remote_indexing_enabled = bindE (attempt (query w_index_remote_posts)) (\<lambda>r.
     ret (case r of Inr (Some b) \<Rightarrow> b | _ \<Rightarrow> False))"

definition index_document :: "uuid \<Rightarrow> uuid \<Rightarrow> post_row \<Rightarrow> json" where
  "index_document post_id actor_id p = JObj
    [(''id'', JStr (show_nat post_id)), (''ap_id'', JStr (p_ap_id p)), (''content'', JStr (p_content_html p)),
     (''actor_id'', JStr (show_nat actor_id)), (''visibility'', JStr ''public''),
     (''post_type'', JStr (p_post_type p)),
     (''title'', case p_title p of None \<Rightarrow> JNull | Some t \<Rightarrow> JStr t), (''is_local'', JBool False)]"

text \<open>The join of the post with its author, when the author is remote.\<close>

definition remote_post_and_author :: "uuid \<Rightarrow> world \<Rightarrow> (post_row \<times> actor_row) option" where
  "remote_post_and_author post_id s =
    Option.bind (List.find (\<lambda>p. p_id p = post_id) (w_posts s)) (\<lambda>p.
    Option.bind (List.find (\<lambda>a. a_id a = p_actor_id p) (w_actors s)) (\<lambda>a.
      if a_is_local a then None else Some (p, a)))"

definition enqueue_if_indexable :: "uuid \<Rightarrow> unit prog" where
  "enqueue_if_indexable post_id =
    bindE remote_indexing_enabled (\<lambda>enabled.
    if \<not> enabled then ret ()
    else bindE (query (remote_post_and_author post_id)) (\<lambda>row.
      case row of None \<Rightarrow> ret ()
      | Some (p, a) \<Rightarrow>
          if \<not> indexable (a_privacy a) \<or> p_visibility p \<noteq> ''public'' \<or> p_relayed_unverified p then ret ()
          else bindE (query (\<lambda>s. map_option p_actor_id (List.find (\<lambda>q. p_id q = post_id) (w_posts s)))) (\<lambda>aid.
            bindE (ok_or Database aid) (\<lambda>actor_id.
            enqueue_upsert ''posts'' (show_nat post_id) (index_document post_id actor_id p)))))"

definition enqueue_removals_for_actor :: "uuid \<Rightarrow> unit prog" where
  "enqueue_removals_for_actor actor_id =
    bindE (query (\<lambda>s. map p_id (filter (\<lambda>p. p_actor_id p = actor_id) (w_posts s)))) (\<lambda>post_ids.
    bindE (for_each (\<lambda>i. enqueue_removal ''posts'' (show_nat i)) post_ids) (\<lambda>_.
    enqueue_removal ''profiles'' (show_nat actor_id)))"

section \<open>Cross-posts\<close>

definition CANONICAL_URI :: string where
  "CANONICAL_URI = ''noombat:canonicalUri''"

definition find_by_canonical_uri :: "string \<Rightarrow> uuid option prog" where
  "find_by_canonical_uri uri =
     query (\<lambda>s. map_option p_id (List.find (\<lambda>p. p_canonical_uri p = Some uri) (w_posts s)))"

definition find_by_url_heuristic :: "string \<Rightarrow> uuid option prog" where
  "find_by_url_heuristic url =
     query (\<lambda>s. map_option p_id (List.find (\<lambda>p. p_canonical_uri p = Some url \<or> p_ap_id p = url) (w_posts s)))"

definition extract_canonical_uri :: "json \<Rightarrow> string option" where
  "extract_canonical_uri obj = (case get_str CANONICAL_URI obj of Some u \<Rightarrow> Some u | None \<Rightarrow> get_str ''url'' obj)"

definition try_dedup :: "json \<Rightarrow> uuid option prog" where
  "try_dedup obj =
    bindE (case get_str CANONICAL_URI obj of None \<Rightarrow> ret None | Some c \<Rightarrow> find_by_canonical_uri c) (\<lambda>hit.
    case hit of Some i \<Rightarrow> ret (Some i)
    | None \<Rightarrow> (case get_str ''url'' obj of None \<Rightarrow> ret None | Some url \<Rightarrow> find_by_url_heuristic url))"

definition set_canonical_uri :: "uuid \<Rightarrow> string \<Rightarrow> unit prog" where
  "set_canonical_uri post_id uri = execute (\<lambda>s. s\<lparr>w_posts := map (\<lambda>p. if p_id p = post_id
     then p\<lparr>p_canonical_uri := Some uri\<rparr> else p) (w_posts s)\<rparr>)"

section \<open>A removal beats an upsert\<close>

definition doc_op :: "string \<Rightarrow> string \<Rightarrow> world \<Rightarrow> search_op option" where
  "doc_op index doc s = List.find (same_document index doc) (w_search_ops s)"

lemma find_map: "(\<And>x. P (f x) = P x) \<Longrightarrow> List.find P (map f xs) = map_option f (List.find P xs)"
  by (induction xs) auto

lemma find_snoc: "List.find P (xs @ [x]) = (case List.find P xs of Some y \<Rightarrow> Some y
    | None \<Rightarrow> if P x then Some x else None)"
  by (induction xs) auto

lemma list_ex_find: "list_ex P xs \<longleftrightarrow> List.find P xs \<noteq> None"
  by (induction xs) auto

lemma doc_op_tick [simp]: "doc_op i d (s\<lparr>w_tick := n\<rparr>) = doc_op i d s"
  by (simp add: doc_op_def)

lemma doc_op_put_op:
  assumes "\<And>op. same_document index doc op \<Longrightarrow> same_document index doc (upd op)"
    and "same_document index doc new"
  shows "doc_op index doc (put_op index doc new upd s) =
      Some (case doc_op index doc s of None \<Rightarrow> new | Some op \<Rightarrow> upd op)"
proof (cases "doc_op index doc s")
  case None
  then show ?thesis using assms(2)
    by (simp add: doc_op_def put_op_def list_ex_find find_snoc)
next
  case (Some op)
  let ?f = "\<lambda>op. if same_document index doc op then upd op else op"
  have "List.find (same_document index doc) (map ?f (w_search_ops s)) =
      map_option ?f (List.find (same_document index doc) (w_search_ops s))"
    by (rule find_map) (simp add: assms(1))
  with Some show ?thesis
    by (auto simp: doc_op_def put_op_def list_ex_find dest: find_SomeD)
qed

lemma doc_op_put_op_other:
  assumes "\<And>op. same_document index doc op \<Longrightarrow> same_document index doc (upd op)"
    and "same_document index doc new" and "(i, d) \<noteq> (index, doc)"
  shows "doc_op i d (put_op index doc new upd s) = doc_op i d s"
proof -
  have ne: "same_document index doc op \<Longrightarrow> \<not> same_document i d op" for op
    using assms(3) by (auto simp: same_document_def)
  let ?f = "\<lambda>op. if same_document index doc op then upd op else op"
  have "List.find (same_document i d) (map ?f xs) = List.find (same_document i d) xs" for xs
    by (induction xs) (auto simp: ne assms(1))
  then show ?thesis
    using assms(2) ne by (auto simp: doc_op_def put_op_def find_snoc split: option.splits)
qed

text \<open>Any sequence of the two writers of the queue, whatever each call returns.\<close>

datatype queue_write = QRemove string string | QUpsert string string json

fun queue_step :: "queue_write \<Rightarrow> world \<Rightarrow> world" where
  "queue_step (QRemove i d) s = snd (enqueue_removal i d s)"
| "queue_step (QUpsert i d j) s = snd (enqueue_upsert i d j s)"

definition queue_run :: "queue_write list \<Rightarrow> world \<Rightarrow> world" where
  "queue_run ws s = fold queue_step ws s"

definition removing :: "string \<Rightarrow> string \<Rightarrow> world \<Rightarrow> bool" where
  "removing index doc s = (\<exists>op. doc_op index doc s = Some op \<and> so_operation op = ''remove'')"

lemma execute_if_snd:
  "snd (execute_if ok f s) = (let s' = s\<lparr>w_tick := Suc (w_tick s)\<rparr> in
     if w_fault s (w_tick s) \<or> \<not> ok s' then s' else f s')"
  by (simp add: execute_if_def stmt_def Let_def)

lemma removing_tick [simp]: "removing i d (s\<lparr>w_tick := n\<rparr>) = removing i d s"
  by (simp add: removing_def)

lemma same_document_ops [simp]:
  "same_document i d (to_removal op) = same_document i d op"
  "same_document i d (to_upsert j op) = same_document i d op"
  "same_document i d (removal_op i d)" "same_document i d (upsert_op i d j)"
  by (simp_all add: same_document_def removal_op_def upsert_op_def to_removal_def to_upsert_def)

lemma op_fields [simp]:
  "so_operation (to_removal op) = ''remove''" "so_operation (removal_op i d) = ''remove''"
  "so_document (to_removal op) = None" "so_document (removal_op i d) = None"
  "so_state (to_removal op) = ''pending''" "so_state (removal_op i d) = ''pending''"
  "so_operation (to_upsert j op) = so_operation op"
  "so_operation op \<noteq> ''remove'' \<Longrightarrow> so_document (to_upsert j op) = Some j"
  "so_operation op \<noteq> ''remove'' \<Longrightarrow> so_state (to_upsert j op) = ''pending''"
  "so_operation op = ''remove'' \<Longrightarrow> to_upsert j op = op"
  "so_document (upsert_op i d j) = Some j" "so_state (upsert_op i d j) = ''pending''"
  by (simp_all add: removal_op_def upsert_op_def to_removal_def to_upsert_def)

lemmas doc_op_simps [simp] =
  doc_op_put_op [where upd = to_removal, simplified] doc_op_put_op [where upd = "to_upsert j" for j, simplified]
  doc_op_put_op_other [where upd = to_removal, simplified]
  doc_op_put_op_other [where upd = "to_upsert j" for j, simplified]

lemma removing_step:
  assumes "removing index doc s"
  shows "removing index doc (queue_step w s)"
proof (cases w)
  case (QRemove i d)
  then show ?thesis using assms
    by (cases "(index, doc) = (i, d)")
       (auto simp: enqueue_removal_def execute_if_snd Let_def removing_def)
next
  case (QUpsert i d j)
  then show ?thesis using assms
    by (cases "(index, doc) = (i, d)")
       (auto simp: enqueue_upsert_def execute_if_snd Let_def removing_def)
qed

lemma removing_run: "removing index doc s \<Longrightarrow> removing index doc (queue_run ws s)"
  unfolding queue_run_def by (induction ws arbitrary: s) (auto intro: removing_step)

lemma execute_if_Inr:
  "execute_if ok f s = (Inr y, s') \<longleftrightarrow> \<not> w_fault s (w_tick s) \<and> ok (s\<lparr>w_tick := Suc (w_tick s)\<rparr>)
     \<and> s' = f (s\<lparr>w_tick := Suc (w_tick s)\<rparr>)"
  by (auto simp: execute_if_def stmt_def Let_def)

lemma enqueue_removal_removing:
  "enqueue_removal index doc s = (Inr y, s') \<Longrightarrow> removing index doc s'"
  by (auto simp: enqueue_removal_def execute_if_Inr removing_def
      split: option.splits)

lemma enqueue_upsert_document:
  assumes "enqueue_upsert index doc document s = (Inr y, s')" and "\<not> removing index doc s"
  shows "\<exists>op. doc_op index doc s' = Some op \<and> so_document op = Some document \<and> so_state op = ''pending''"
  using assms
  by (auto simp: enqueue_upsert_def execute_if_Inr removing_def
      split: option.splits)

end
