(* ===== verification/InboxExtract.thy ===== *)
theory InboxExtract
  imports HttpGuard
begin

text \<open>
  The pure half of \<open>inbox.rs\<close>: actor URIs and their comparison, the checks on a fetched actor
  document, and the extraction of addressing, threading, images and hashtags from a remote
  object.  The sanitiser \<open>clean_strict\<close> is a field of the environment.
\<close>

section \<open>Actor URIs\<close>

definition trim_end_slashes :: "string \<Rightarrow> string" where
  "trim_end_slashes s = trim_end_char CHR ''/'' s"

definition normalise_actor_uri :: "('u, 'z) env_scheme \<Rightarrow> 'u \<Rightarrow> string" where
  "normalise_actor_uri E url =
    (let u = url_drop_fragment E url;
         trimmed = trim_end_slashes (url_path E u)
     in url_to_string E (url_set_path E trimmed u))"

definition same_actor_uri :: "('u, 'z) env_scheme \<Rightarrow> string \<Rightarrow> string \<Rightarrow> bool" where
  "same_actor_uri E a b = (case (url_parse E a, url_parse E b) of
     (Inr ua, Inr ub) \<Rightarrow> normalise_actor_uri E ua = normalise_actor_uri E ub
   | _ \<Rightarrow> a = b)"

definition same_origin :: "('u, 'z) env_scheme \<Rightarrow> 'u \<Rightarrow> 'u \<Rightarrow> bool" where
  "same_origin E a b = (url_scheme E a = url_scheme E b
     \<and> url_host_str E a = url_host_str E b
     \<and> url_port E a = url_port E b)"

definition verify_fetched_actor_id ::
  "('u, 'z) env_scheme \<Rightarrow> string \<Rightarrow> 'u \<Rightarrow> string \<Rightarrow> unit result" where
  "verify_fetched_actor_id E doc_id final_url requested_uri = (case url_parse E requested_uri of
     Inl e \<Rightarrow> Inl (Federation (''actor URI '' @ requested_uri @ '' is not a valid URL: '' @ e))
   | Inr requested \<Rightarrow>
       if \<not> same_origin E final_url requested then
         Inl (Federation (''actor fetch for '' @ requested_uri @ '' redirected across origins to ''
           @ url_to_string E final_url @ ''; refusing''))
       else (case url_parse E doc_id of
           Inl e \<Rightarrow> Inl (Federation (''actor document id '' @ doc_id @ '' is not a valid URL: '' @ e))
         | Inr claimed \<Rightarrow>
             if normalise_actor_uri E claimed \<noteq> normalise_actor_uri E final_url then
               Inl (Federation (''actor document claims id '' @ doc_id @ '' but was served from ''
                 @ url_to_string E final_url @ ''; refusing''))
             else Inr ()))"

definition extract_domain :: "string \<Rightarrow> string option" where
  "extract_domain uri =
     map_option (\<lambda>rest. hd (split_on CHR ''/'' rest))
       (case strip_prefix ''https://'' uri of Some r \<Rightarrow> Some r | None \<Rightarrow> strip_prefix ''http://'' uri)"

definition extract_local_username :: "string \<Rightarrow> string option" where
  "extract_local_username actor_uri =
    Option.bind (case strip_prefix ''https://'' actor_uri of Some r \<Rightarrow> Some r
        | None \<Rightarrow> strip_prefix ''http://'' actor_uri) (\<lambda>rest.
    Option.bind (case dropWhile (\<lambda>c. c \<noteq> CHR ''/'') rest of [] \<Rightarrow> None | p \<Rightarrow> Some p) (\<lambda>path.
    Option.bind (strip_prefix ''/users/'' path) (\<lambda>after_users.
      let username = (case strip_suffix ''/'' after_users of Some u \<Rightarrow> u | None \<Rightarrow> after_users) in
      if username = [] \<or> CHR ''/'' \<in> set username then None else Some username)))"

section \<open>Remote content\<close>

definition MAX_REMOTE_HTML_BYTES :: nat where
  "MAX_REMOTE_HTML_BYTES = 512 * 1024"

definition STRICT_VERSION :: nat where
  "STRICT_VERSION = 1"

fun boundary_before :: "string \<Rightarrow> nat \<Rightarrow> nat" where
  "boundary_before s 0 = 0"
| "boundary_before s (Suc n) = (if is_char_boundary s (Suc n) then Suc n else boundary_before s n)"

definition truncate_on_char_boundary :: "string \<Rightarrow> nat \<Rightarrow> string" where
  "truncate_on_char_boundary s limit =
     (if length s \<le> limit then s else take (boundary_before s limit) s)"

definition sanitise_remote_html :: "('u, 'z) env_scheme \<Rightarrow> string \<Rightarrow> string" where
  "sanitise_remote_html E html = clean_strict E (truncate_on_char_boundary html MAX_REMOTE_HTML_BYTES)"

record remote_content =
  rc_content_html :: string
  rc_content_md :: "string option"
  rc_sanitiser_version :: nat

definition extract_remote_content :: "('u, 'z) env_scheme \<Rightarrow> json \<Rightarrow> remote_content" where
  "extract_remote_content E obj =
    \<lparr> rc_content_html = sanitise_remote_html E (get_str_or [] ''content'' obj),
      rc_content_md = map_option (\<lambda>md. truncate_on_char_boundary md MAX_REMOTE_HTML_BYTES)
        (Option.bind (get ''source'' obj) (\<lambda>src.
          if get_str_or [] ''mediaType'' src = ''text/markdown'' then get_str ''content'' src else None)),
      rc_sanitiser_version = STRICT_VERSION \<rparr>"

section \<open>Visibility\<close>

definition list_contains_public :: "string list option \<Rightarrow> bool" where
  "list_contains_public l = (case l of None \<Rightarrow> False
     | Some items \<Rightarrow> list_ex (\<lambda>uri. uri = AS_PUBLIC \<or> eq_ignore_ascii_case uri ''Public'') items)"

definition derive_visibility :: "string list option \<Rightarrow> string list option \<Rightarrow> string" where
  "derive_visibility to_list cc_list =
    (if list_contains_public to_list then ''public''
     else if list_contains_public cc_list then ''unlisted''
     else ''followers'')"

definition extract_string_array :: "json \<Rightarrow> string \<Rightarrow> string list option" where
  "extract_string_array v key = Option.bind (get key v) (\<lambda>field. case field of
     JArr arr \<Rightarrow> (let strings = List.map_filter as_str arr in if strings = [] then None else Some strings)
   | _ \<Rightarrow> map_option (\<lambda>s. [s]) (as_str field))"

section \<open>Threading, images and hashtags\<close>

definition first_some :: "('a \<Rightarrow> 'b option) \<Rightarrow> 'a list \<Rightarrow> 'b option" where
  "first_some f xs = (case List.map_filter f xs of [] \<Rightarrow> None | y # _ \<Rightarrow> Some y)"

definition str_or_id :: "json \<Rightarrow> string option" where
  "str_or_id v = (case as_str v of Some s \<Rightarrow> Some s | None \<Rightarrow> get_str ''id'' v)"

definition extract_in_reply_to :: "json \<Rightarrow> string option" where
  "extract_in_reply_to obj = Option.bind (get ''inReplyTo'' obj) (\<lambda>field.
     case str_or_id field of Some s \<Rightarrow> Some s
     | None \<Rightarrow> (case field of JArr arr \<Rightarrow> first_some str_or_id arr | _ \<Rightarrow> None))"

definition MAX_IMAGE_ALT_BYTES :: nat where
  "MAX_IMAGE_ALT_BYTES = 2000"

definition image_description :: "json \<Rightarrow> string option" where
  "image_description img = Option.bind (get_str ''name'' img) (\<lambda>raw.
     let name = trim raw in
     if name = [] then None else Some (truncate_on_char_boundary name MAX_IMAGE_ALT_BYTES))"

definition extract_image_url :: "json \<Rightarrow> (string \<times> string option) option" where
  "extract_image_url obj =
    (case Option.bind (get ''image'' obj) (\<lambda>img. case as_str img of
         Some url \<Rightarrow> Some (url, None)
       | None \<Rightarrow> map_option (\<lambda>url. (url, image_description img)) (get_str ''url'' img)) of
       Some r \<Rightarrow> Some r
     | None \<Rightarrow> Option.bind (Option.bind (get ''attachment'' obj) as_array)
         (first_some (\<lambda>att. if get_str_or [] ''type'' att = ''Image''
            then map_option (\<lambda>url. (url, image_description att)) (get_str ''url'' att) else None)))"

definition MAX_POST_IMAGES :: nat where
  "MAX_POST_IMAGES = 20"

record remote_image =
  ri_url :: string
  ri_alt_text :: "string option"
  ri_ordinal :: nat

definition declares_an_image :: "json \<Rightarrow> bool" where
  "declares_an_image att = (get_str_or [] ''type'' att = ''Image''
     \<or> (case get_str ''mediaType'' att of None \<Rightarrow> False | Some m \<Rightarrow> prefix ''image/'' m))"

text \<open>The code's recursion on nested arrays of links.\<close>

fun url_of_attachment :: "json \<Rightarrow> string option" and url_of_first :: "json list \<Rightarrow> string option" where
  "url_of_attachment (JStr href) = Some href"
| "url_of_attachment (JObj kvs) = get_str ''href'' (JObj kvs)"
| "url_of_attachment (JArr xs) = url_of_first xs"
| "url_of_attachment _ = None"
| "url_of_first [] = None"
| "url_of_first (x # xs) = (case url_of_attachment x of Some u \<Rightarrow> Some u | None \<Rightarrow> url_of_first xs)"

definition extract_remote_images :: "json \<Rightarrow> remote_image list" where
  "extract_remote_images obj = (case Option.bind (get ''attachment'' obj) as_array of
     None \<Rightarrow> []
   | Some attachments \<Rightarrow>
       (let found = take MAX_POST_IMAGES (List.map_filter (\<lambda>att.
              if declares_an_image att
              then map_option (\<lambda>url. (url, image_description att)) (Option.bind (get ''url'' att) url_of_attachment)
              else None) attachments)
        in map (\<lambda>(i, (url, alt)). \<lparr>ri_url = url, ri_alt_text = alt, ri_ordinal = i\<rparr>)
             (zip [0..<length found] found)))"

definition extract_hashtags_from_tags :: "('u, 'z) env_scheme \<Rightarrow> json \<Rightarrow> string list" where
  "extract_hashtags_from_tags E obj = (case Option.bind (get ''tag'' obj) as_array of
     None \<Rightarrow> []
   | Some tags \<Rightarrow> List.map_filter (\<lambda>tag.
       if get_str ''type'' tag \<noteq> Some ''Hashtag'' then None
       else Option.bind (get_str ''name'' tag) (\<lambda>name.
         let stripped = (case strip_prefix ''#'' name of Some r \<Rightarrow> r | None \<Rightarrow> name) in
         if stripped = [] then None else Some (to_lowercase E stripped))) tags)"

end
