(* ===== verification/ProofVerify.thy ===== *)
theory ProofVerify
  imports HttpGuard
begin

text \<open>
  \<open>integrity_proof.rs\<close>: FEP-8b32 object integrity proofs with the \<open>eddsa-jcs-2022\<close>
  cryptosuite.  JCS, SHA-256, Ed25519 and base58 are fields of the environment; what is
  modelled is everything the code does around them: which proof of a set is chosen, what is
  hashed, in which order the checks run and what each failure means.
\<close>

definition DATA_INTEGRITY_CONTEXT :: string where
  "DATA_INTEGRITY_CONTEXT = ''https://w3id.org/security/data-integrity/v1''"

definition CRYPTOSUITE :: string where "CRYPTOSUITE = ''eddsa-jcs-2022''"
definition PROOF_TYPE :: string where "PROOF_TYPE = ''DataIntegrityProof''"
definition PROOF_PURPOSE :: string where "PROOF_PURPOSE = ''assertionMethod''"

text \<open>Five minutes, in the milliseconds the model's clock counts.\<close>

definition CREATED_SKEW_TOLERANCE :: timestamp where
  "CREATED_SKEW_TOLERANCE = 5 * 60 * 1000"

section \<open>Objects as maps\<close>

fun obj_set :: "string \<Rightarrow> json \<Rightarrow> json \<Rightarrow> json" where
  "obj_set k v (JObj kvs) = JObj (AList.update k v kvs)"
| "obj_set k v j = j"

fun obj_remove :: "string \<Rightarrow> json \<Rightarrow> json" where
  "obj_remove k (JObj kvs) = JObj (AList.delete k kvs)"
| "obj_remove k j = j"

section \<open>Decoding\<close>

definition decode_multibase_public_key :: "('u, 'z) env_scheme \<Rightarrow> string \<Rightarrow> string option" where
  "decode_multibase_public_key E multibase =
    Option.bind (strip_prefix ''z'' multibase) (\<lambda>raw.
    Option.bind (base58_decode E raw) (\<lambda>decoded.
      if length decoded = 34 \<and> byte (decoded ! 0) = 0xed \<and> byte (decoded ! 1) = 0x01 then Some (drop 2 decoded)
      else if length decoded = 32 then Some decoded
      else None))"

definition is_ed25519_multikey :: "('u, 'z) env_scheme \<Rightarrow> string \<Rightarrow> bool" where
  "is_ed25519_multikey E multibase = (decode_multibase_public_key E multibase \<noteq> None)"

definition decode_multibase_signature :: "('u, 'z) env_scheme \<Rightarrow> string \<Rightarrow> string option" where
  "decode_multibase_signature E multibase =
    Option.bind (strip_prefix ''z'' multibase) (\<lambda>raw.
    Option.bind (base58_decode E raw) (\<lambda>decoded.
      if length decoded \<noteq> 64 then None else Some decoded))"

section \<open>Choosing the proof and reading its claims\<close>

definition ours :: "json \<Rightarrow> bool" where
  "ours candidate = (is_object candidate \<and> get_str ''type'' candidate = Some PROOF_TYPE
     \<and> get_str ''cryptosuite'' candidate = Some CRYPTOSUITE)"

definition select_proof :: "json \<Rightarrow> json option" where
  "select_proof document = Option.bind (get ''proof'' document) (\<lambda>p. case p of
     JArr entries \<Rightarrow> List.find ours entries
   | single \<Rightarrow> if ours single then Some single else None)"

definition extract_verification_method_id :: "json \<Rightarrow> string option" where
  "extract_verification_method_id activity = Option.bind (select_proof activity) (get_str ''verificationMethod'')"

definition unusable_claim :: "('u, 'z) env_scheme \<Rightarrow> timestamp \<Rightarrow> json \<Rightarrow> bool" where
  "unusable_claim E now proof =
    (if get_str ''proofPurpose'' proof \<noteq> Some PROOF_PURPOSE then True
     else if (case get_str ''expires'' proof of None \<Rightarrow> False
         | Some expires \<Rightarrow> (case parse_rfc3339 E expires of None \<Rightarrow> True | Some deadline \<Rightarrow> deadline < now)) then True
     else (case get_str ''created'' proof of None \<Rightarrow> False
         | Some created \<Rightarrow> (case parse_rfc3339 E created of None \<Rightarrow> False
             | Some stamp \<Rightarrow> now + CREATED_SKEW_TOLERANCE < stamp)))"

section \<open>Verification\<close>

datatype verification_result = Valid | Invalid | Absent

text \<open>The bytes a proof signs: the hash of its configuration, then the hash of the document.\<close>

definition signature_input :: "('u, 'z) env_scheme \<Rightarrow> json \<Rightarrow> json \<Rightarrow> string option" where
  "signature_input E proof_config unsigned_doc =
    (case (jcs E unsigned_doc, jcs E proof_config) of
       (Some d, Some c) \<Rightarrow> Some (sha256 E c @ sha256 E d)
     | _ \<Rightarrow> None)"

definition proof_config_of :: "json \<Rightarrow> json \<Rightarrow> json" where
  "proof_config_of activity proof =
    (let config = obj_remove ''proofValue'' proof in
     if get ''@context'' config = None
     then (case get ''@context'' activity of Some ctx \<Rightarrow> obj_set ''@context'' ctx config | None \<Rightarrow> config)
     else config)"

definition serialised_len :: "('u, 'z) env_scheme \<Rightarrow> json \<Rightarrow> nat" where
  "serialised_len E v = length (json_text E v)"

definition verify_proof :: "('u, 'z) env_scheme \<Rightarrow> timestamp \<Rightarrow> json \<Rightarrow> string \<Rightarrow> verification_result" where
  "verify_proof E now activity public_key_multibase =
    (case select_proof activity of None \<Rightarrow> Absent
     | Some proof \<Rightarrow>
       if MAX_PROOF_DOCUMENT_BYTES < serialised_len E activity then Invalid
       else case get_str ''proofValue'' proof of None \<Rightarrow> Invalid
       | Some proof_value \<Rightarrow>
       (case decode_multibase_signature E proof_value of None \<Rightarrow> Invalid
       | Some signature \<Rightarrow>
       (case decode_multibase_public_key E public_key_multibase of None \<Rightarrow> Invalid
       | Some key \<Rightarrow>
       if \<not> ed25519_key_ok E key then Invalid
       else (case signature_input E (proof_config_of activity proof) (obj_remove ''proof'' activity) of
           None \<Rightarrow> Invalid
         | Some verify_input \<Rightarrow>
             if ed25519_verify E key verify_input signature
             then (if unusable_claim E now proof then Absent else Valid)
             else Invalid))))"

section \<open>Signing\<close>

definition ensure_data_integrity_context :: "json \<Rightarrow> json" where
  "ensure_data_integrity_context activity = (case get ''@context'' activity of
     None \<Rightarrow> obj_set ''@context'' (JArr [JStr DATA_INTEGRITY_CONTEXT]) activity
   | Some (JArr arr) \<Rightarrow>
       if list_ex (\<lambda>v. as_str v = Some DATA_INTEGRITY_CONTEXT) arr then activity
       else obj_set ''@context'' (JArr (arr @ [JStr DATA_INTEGRITY_CONTEXT])) activity
   | Some existing \<Rightarrow> obj_set ''@context'' (JArr [existing, JStr DATA_INTEGRITY_CONTEXT]) activity)"

text \<open>
  \<open>serde_json\<close>'s index assignment turns \<open>null\<close> into an object and panics on any other value
  that is not one; the panic is \<open>None\<close>.
\<close>

definition index_target :: "json \<Rightarrow> json option" where
  "index_target v = (if v = JNull then Some (JObj []) else if is_object v then Some v else None)"

definition sign_with_config ::
  "('u, 'z) env_scheme \<Rightarrow> json \<Rightarrow> string \<Rightarrow> json \<Rightarrow> json result option" where
  "sign_with_config E activity signing_key proof_config =
    (case index_target activity of None \<Rightarrow> None
     | Some target \<Rightarrow>
         let act = ensure_data_integrity_context target;
             unsigned_doc = obj_remove ''proof'' act;
             config = (case get ''@context'' unsigned_doc of
                 Some ctx \<Rightarrow> obj_set ''@context'' ctx proof_config | None \<Rightarrow> proof_config)
         in case signature_input E config unsigned_doc of
            None \<Rightarrow> Some (Inl (Internal ''JCS canonicalisation failed''))
          | Some inp \<Rightarrow>
              let proof_value = ''z'' @ base58_encode E (ed25519_sign E signing_key inp);
                  proof = obj_remove ''@context'' (obj_set ''proofValue'' (JStr proof_value) config)
              in Some (Inr (obj_set ''proof'' proof act)))"

definition sign_proof ::
  "('u, 'z) env_scheme \<Rightarrow> json \<Rightarrow> string \<Rightarrow> string \<Rightarrow> string \<Rightarrow> json result option" where
  "sign_proof E activity signing_key verification_method created =
     sign_with_config E activity signing_key (JObj
       [(''type'', JStr PROOF_TYPE), (''cryptosuite'', JStr CRYPTOSUITE),
        (''verificationMethod'', JStr verification_method), (''proofPurpose'', JStr PROOF_PURPOSE),
        (''created'', JStr created)])"

definition verification_method_id :: "string \<Rightarrow> string" where
  "verification_method_id actor_ap_id = actor_ap_id @ ''#ed25519-key''"

section \<open>Facts\<close>

lemma verify_proof_Valid:
  assumes "verify_proof E now activity pk = Valid"
  shows "\<exists>proof pv signature key inp. select_proof activity = Some proof
     \<and> serialised_len E activity \<le> MAX_PROOF_DOCUMENT_BYTES
     \<and> get_str ''proofValue'' proof = Some pv \<and> decode_multibase_signature E pv = Some signature
     \<and> decode_multibase_public_key E pk = Some key
     \<and> signature_input E (proof_config_of activity proof) (obj_remove ''proof'' activity) = Some inp
     \<and> ed25519_verify E key inp signature \<and> \<not> unusable_claim E now proof"
  using assms
  by (auto simp: verify_proof_def not_less split: option.splits if_splits)

lemma delete_update_same: "AList.delete k (AList.update k v al) = AList.delete k al"
  by (induction al) auto

lemma obj_remove_set [simp]: "obj_remove k (obj_set k v j) = obj_remove k j"
  by (cases j) (simp_all add: delete_update_same)

lemma get_obj_set [simp]:
  "is_object j \<Longrightarrow> get k (obj_set k' v j) = (if k = k' then Some v else get k j)"
  by (cases j) simp_all

lemma get_obj_remove [simp]: "get k (obj_remove k' j) = (if k = k' then None else get k j)"
  by (cases j) (auto simp: delete_conv')

lemma is_object_simps [simp]: "is_object (obj_set k v j) = is_object j" "is_object (obj_remove k j) = is_object j"
  by (cases j; simp)+

lemma select_proof_ours:
  assumes "select_proof d = Some p"
  shows "ours p"
proof -
  from assms obtain v where "get ''proof'' d = Some v"
    by (auto simp: select_proof_def Option.bind_eq_Some_conv)
  with assms show ?thesis
    by (cases v) (auto simp: select_proof_def dest: find_SomeD split: if_splits)
qed

text \<open>What the documentation of Ed25519 and base58 promises of a key pair.\<close>

definition signer_correct :: "('u, 'z) env_scheme \<Rightarrow> string \<Rightarrow> string \<Rightarrow> bool" where
  "signer_correct E secret multibase \<longleftrightarrow>
     (\<exists>key. decode_multibase_public_key E multibase = Some key \<and> ed25519_key_ok E key
        \<and> (\<forall>m. length (ed25519_sign E secret m) = 64 \<and> ed25519_verify E key m (ed25519_sign E secret m)
             \<and> base58_decode E (base58_encode E (ed25519_sign E secret m)) = Some (ed25519_sign E secret m)))"

lemma context_ensured:
  "is_object a \<Longrightarrow> get ''@context'' (ensure_data_integrity_context a) \<noteq> None"
  by (auto simp: ensure_data_integrity_context_def split: option.splits json.splits)

lemma ensure_is_object [simp]: "is_object (ensure_data_integrity_context a) = is_object a"
  by (auto simp: ensure_data_integrity_context_def split: option.splits json.splits)

lemma obj_remove_absent: "get k (JObj kvs) = None \<Longrightarrow> obj_remove k (JObj kvs) = JObj kvs"
  by (simp add: map_of_eq_None_iff delete_id)

lemma verify_signed:
  assumes key: "signer_correct E secret multibase"
    and signed: "sign_proof E activity secret vm created = Some (Inr doc)"
    and small: "serialised_len E doc \<le> MAX_PROOF_DOCUMENT_BYTES"
    and fresh: "\<And>t. parse_rfc3339 E created = Some t \<Longrightarrow> t \<le> now + CREATED_SKEW_TOLERANCE"
  shows "verify_proof E now doc multibase = Valid"
    and "extract_verification_method_id doc = Some vm"
proof -
  from signed obtain target where t: "index_target activity = Some target" and obj: "is_object target"
    by (auto simp: sign_proof_def sign_with_config_def index_target_def split: if_splits)
  define act where "act = ensure_data_integrity_context target"
  define base where "base = [(''type'', JStr PROOF_TYPE), (''cryptosuite'', JStr CRYPTOSUITE),
        (''verificationMethod'', JStr vm), (''proofPurpose'', JStr PROOF_PURPOSE), (''created'', JStr created)]"
  obtain ctx where ctx: "get ''@context'' act = Some ctx"
    using context_ensured [of target] obj by (auto simp: act_def)
  define config where "config = obj_set ''@context'' ctx (JObj base)"
  have config: "config = JObj (base @ [(''@context'', ctx)])"
    by (simp add: config_def base_def)
  from signed t ctx obtain inp where
    inp: "signature_input E config (obj_remove ''proof'' act) = Some inp" and
    doc: "doc = obj_set ''proof'' (obj_remove ''@context'' (obj_set ''proofValue''
        (JStr (''z'' @ base58_encode E (ed25519_sign E secret inp))) config)) act"
    by (auto simp: sign_proof_def sign_with_config_def Let_def act_def [symmetric] base_def [symmetric]
        config_def [symmetric] simp del: obj_set.simps obj_remove.simps split: option.splits)
  define pv where "pv = ''z'' @ base58_encode E (ed25519_sign E secret inp)"
  define pobj where "pobj = JObj (base @ [(''proofValue'', JStr pv)])"
  have doc': "doc = obj_set ''proof'' pobj act"
    by (simp add: doc pobj_def pv_def config base_def)
  have act: "is_object act" using obj by (simp add: act_def)
  have ours: "ours pobj" by (simp add: ours_def pobj_def base_def get_str_def)
  have sel: "select_proof doc = Some pobj"
    using act ours by (auto simp: doc' select_proof_def pobj_def)
  have pc: "proof_config_of doc pobj = config"
    using act ctx by (simp add: proof_config_of_def doc' pobj_def config base_def Let_def)
  have un: "obj_remove ''proof'' doc = obj_remove ''proof'' act" by (simp add: doc')
  have sv: "get_str ''proofValue'' pobj = Some pv" by (simp add: pobj_def base_def get_str_def)
  from key obtain k where k: "decode_multibase_public_key E multibase = Some k" "ed25519_key_ok E k"
    "length (ed25519_sign E secret inp) = 64" "ed25519_verify E k inp (ed25519_sign E secret inp)"
    "base58_decode E (base58_encode E (ed25519_sign E secret inp)) = Some (ed25519_sign E secret inp)"
    by (auto simp: signer_correct_def)
  have dec: "decode_multibase_signature E pv = Some (ed25519_sign E secret inp)"
    using k strip_prefix_append [of "''z''" "base58_encode E (ed25519_sign E secret inp)"]
    unfolding decode_multibase_signature_def pv_def by simp
  have claim: "\<not> unusable_claim E now pobj"
    using fresh by (auto simp: unusable_claim_def pobj_def base_def get_str_def not_less split: option.splits)
  show "verify_proof E now doc multibase = Valid"
    using sel small sv dec k inp pc un claim by (simp add: verify_proof_def not_less)
  show "extract_verification_method_id doc = Some vm"
    by (simp add: extract_verification_method_id_def sel pobj_def base_def get_str_def)
qed

end
