(* ===== verification/InboxResolve.thy ===== *)
theory InboxResolve
  imports SearchQueue InboxExtract ProofVerify
begin

text \<open>
  Resolving actors and checking proofs against their keys: \<open>resolve_actor\<close> and its
  relatives in \<open>inbox.rs\<close>, and \<open>verify_inbound_proof\<close> of \<open>relay_verify.rs\<close> with the key
  refresh behind it.
\<close>

section \<open>From a document to a row\<close>

definition parse_ap_actor :: "('u, 'z) env_scheme \<Rightarrow> string \<Rightarrow> string + ap_actor" where
  "parse_ap_actor E body = (case parse_struct E body of Inl e \<Rightarrow> Inl e
     | Inr v \<Rightarrow> (case ap_actor_from_value v of None \<Rightarrow> Inl ''not an actor document'' | Some a \<Rightarrow> Inr a))"

definition first_ed25519_key :: "('u, 'z) env_scheme \<Rightarrow> ap_multikey list \<Rightarrow> string option" where
  "first_ed25519_key E methods = map_option mk_public_key_multibase (List.find (\<lambda>m.
     mk_key_type m = ''Multikey'' \<and> is_ed25519_multikey E (mk_public_key_multibase m)) methods)"

definition ap_actor_to_remote ::
  "('u, 'z) env_scheme \<Rightarrow> ap_actor \<Rightarrow> 'u \<Rightarrow> string \<Rightarrow> remote_actor result" where
  "ap_actor_to_remote E a final_url requested_uri =
    (case verify_fetched_actor_id E (apa_id a) final_url requested_uri of
       Inl e \<Rightarrow> Inl e
     | Inr _ \<Rightarrow> Inr
        \<lparr> ra_ap_id = apa_id a,
          ra_username = apa_preferred_username a,
          ra_domain = (case extract_domain (url_to_string E final_url) of None \<Rightarrow> [] | Some d \<Rightarrow> d),
          ra_display_name = apa_name a,
          ra_summary_html = map_option (sanitise_remote_html E) (apa_summary a),
          ra_sanitiser_version = STRICT_VERSION,
          ra_public_key_pem = pk_public_key_pem (apa_public_key a),
          ra_public_key_id = Some (pk_id (apa_public_key a)),
          ra_actor_type = actor_type_as_str (from_ap_type (apa_type a)),
          ra_inbox_url = apa_inbox a,
          ra_shared_inbox_url = Option.bind (apa_endpoints a) (get_str ''sharedInbox''),
          ra_ed25519_public_key = Option.bind (apa_assertion_method a) (first_ed25519_key E),
          ra_discoverable = consents_to_discovery a,
          ra_indexable = consents_to_indexing a \<rparr>)"

section \<open>Resolving an actor\<close>

text \<open>Signed when the instance has an actor to sign as; a database failure is not that.\<close>

definition fetch_document :: "('u, 'z) env_scheme \<Rightarrow> string \<Rightarrow> 'u response prog" where
  "fetch_document E uri = bindE (attempt find_local_signing_actor) (\<lambda>r. case r of
     Inr signing_actor \<Rightarrow> signed_get E uri signing_actor
   | Inl Database \<Rightarrow> throw Database
   | Inl _ \<Rightarrow> guarded_get E uri)"

definition insert_tombstone :: "string \<Rightarrow> unit prog" where
  "insert_tombstone uri = execute (\<lambda>s. if uri \<in> set (w_tombstones s) then s
     else s\<lparr>w_tombstones := w_tombstones s @ [uri]\<rparr>)"

definition fetch_and_store_actor :: "('u, 'z) env_scheme \<Rightarrow> string \<Rightarrow> actor prog" where
  "fetch_and_store_actor E actor_uri =
    bindE (fetch_document E actor_uri) (\<lambda>response.
    if resp_status response = 410 then
      bindE (ignore_errors (insert_tombstone actor_uri)) (\<lambda>_.
        throw (Federation (''remote actor '' @ actor_uri @ '' returned 410 Gone; tombstoned'')))
    else if \<not> is_success (resp_status response) then
      throw (Federation (''remote actor returned HTTP '' @ show_status E (resp_status response)))
    else
      bindE (of_result (json_within_limit (parse_ap_actor E) response ''actor document'')) (\<lambda>ap_actor.
      bindE (of_result (ap_actor_to_remote E ap_actor (resp_url response) actor_uri)) (\<lambda>remote.
      upsert_remote_actor E remote)))"

definition resolve_actor :: "('u, 'z) env_scheme \<Rightarrow> string \<Rightarrow> actor prog" where
  "resolve_actor E actor_uri =
    bindE (find_by_ap_id E actor_uri) (\<lambda>cached. case cached of
      Some a \<Rightarrow> ret a
    | None \<Rightarrow>
        bindE (attempt (query (\<lambda>s. actor_uri \<in> set (w_tombstones s)))) (\<lambda>tombstoned.
        if tombstoned = Inr True then
          throw (Federation (''actor '' @ actor_uri @ '' is tombstoned (previously returned 410 Gone)''))
        else fetch_and_store_actor E actor_uri))"

definition resolve_inbound_signer :: "('u, 'z) env_scheme \<Rightarrow> string \<Rightarrow> actor prog" where
  "resolve_inbound_signer E actor_uri =
    bindE (resolve_actor E actor_uri) (\<lambda>a. if a_is_local a then throw Forbidden else ret a)"

definition key_owner :: "('u, 'z) env_scheme \<Rightarrow> string \<Rightarrow> string prog" where
  "key_owner E key_url =
    bindE (fetch_document E key_url) (\<lambda>response.
    if \<not> is_success (resp_status response) then
      throw (Federation (''public key document returned HTTP '' @ show_status E (resp_status response)))
    else
      bindE (of_result (json_within_limit (parse_value E) response ''public key document'')) (\<lambda>document.
      ok_or (Federation (key_url @ '' names no key owner''))
        (Option.bind (case Option.bind (get ''publicKey'' document) (get ''owner'') of
            Some v \<Rightarrow> Some v | None \<Rightarrow> get ''owner'' document) as_str)))"

definition strip_fragment :: "string \<Rightarrow> string" where
  "strip_fragment key_id = hd (split_on CHR ''#'' key_id)"

text \<open>The key's own document names its owner, when the key is served at a URL of its own.\<close>

definition signer_by_key_document :: "('u, 'z) env_scheme \<Rightarrow> string \<Rightarrow> noombat_error \<Rightarrow> actor prog" where
  "signer_by_key_document E stripped e =
    bindE (attempt (key_owner E stripped)) (\<lambda>own. case own of
      Inr ow \<Rightarrow> resolve_inbound_signer E ow
    | Inl e' \<Rightarrow> if e' = Database then throw e' else throw e)"

definition signer_by_uri :: "('u, 'z) env_scheme \<Rightarrow> string \<Rightarrow> actor prog" where
  "signer_by_uri E stripped =
    bindE (attempt (resolve_inbound_signer E stripped)) (\<lambda>direct. case direct of
      Inr a \<Rightarrow> ret a
    | Inl e \<Rightarrow> if e = Forbidden \<or> e = Database then throw e else signer_by_key_document E stripped e)"

definition resolve_signer_by_key_id :: "('u, 'z) env_scheme \<Rightarrow> string \<Rightarrow> actor prog" where
  "resolve_signer_by_key_id E key_id =
    bindE (find_by_public_key_id E key_id) (\<lambda>cached.
    case cached of
      Some c \<Rightarrow> if \<not> a_is_local c then ret c else signer_by_uri E (strip_fragment key_id)
    | None \<Rightarrow> signer_by_uri E (strip_fragment key_id))"

section \<open>Keys for proofs\<close>

text \<open>A permit of the semaphore, or nothing when the wait ran out.\<close>

definition origin_fetch_permit :: "bool prog" where
  "origin_fetch_permit = (\<lambda>s. (Inr (w_permit s (w_tick s)), s\<lparr>w_tick := Suc (w_tick s)\<rparr>))"

definition or_none :: "'a prog \<Rightarrow> 'a option prog" where
  "or_none m = bindE (attempt m) (\<lambda>r. ret (case r of Inl _ \<Rightarrow> None | Inr x \<Rightarrow> Some x))"

text \<open>The re-fetch of an actor and the key its document names for the verification method.\<close>

definition refetch_actor :: "('u, 'z) env_scheme \<Rightarrow> string \<Rightarrow> (ap_actor \<times> remote_actor) option prog" where
  "refetch_actor E actor_uri = or_none
    (bindE find_local_signing_actor (\<lambda>signing_actor_id.
     bindE (signed_get E actor_uri signing_actor_id) (\<lambda>response.
     if \<not> is_success (resp_status response) then throw (Federation ''not successful'')
     else
       bindE (of_result (json_within_limit (parse_ap_actor E) response ''actor document'')) (\<lambda>ap_actor.
       bindE (of_result (ap_actor_to_remote E ap_actor (resp_url response) actor_uri)) (\<lambda>remote.
       ret (ap_actor, remote))))))"

definition named_key :: "('u, 'z) env_scheme \<Rightarrow> ap_actor \<Rightarrow> string \<Rightarrow> string option" where
  "named_key E a vm_id = Option.bind (apa_assertion_method a) (\<lambda>methods.
     map_option mk_public_key_multibase (List.find (\<lambda>m. mk_key_type m = ''Multikey'' \<and> mk_id m = vm_id
       \<and> is_ed25519_multikey E (mk_public_key_multibase m)) methods))"

definition refresh_assertion_key :: "('u, 'z) env_scheme \<Rightarrow> string \<Rightarrow> string \<Rightarrow> string option prog" where
  "refresh_assertion_key E actor_uri vm_id =
    bindE origin_fetch_permit (\<lambda>permit.
    if \<not> permit then ret None
    else bindE (refetch_actor E actor_uri) (\<lambda>fetched. case fetched of
      None \<Rightarrow> ret None
    | Some (ap_actor, remote) \<Rightarrow>
        (let named = named_key E ap_actor vm_id;
             remote' = (case named of Some key \<Rightarrow> remote\<lparr>ra_ed25519_public_key := Some key\<rparr> | None \<Rightarrow> remote);
             cached = ra_ed25519_public_key remote'
         in bindE (ignore_errors (upsert_remote_actor E remote')) (\<lambda>_.
            ret (case named of Some k \<Rightarrow> Some k | None \<Rightarrow> cached)))))"

definition cached_assertion_key :: "string \<Rightarrow> string option prog" where
  "cached_assertion_key actor_ap_id =
    bindE (attempt (query (\<lambda>s. Option.bind (row_by_ap_id actor_ap_id s) a_ed25519_public_key))) (\<lambda>r.
    ret (case r of Inr k \<Rightarrow> k | Inl _ \<Rightarrow> None))"

section \<open>Verifying a proof on a delivered document\<close>

definition verify_with_refresh ::
  "('u, 'z) env_scheme \<Rightarrow> json \<Rightarrow> string \<Rightarrow> string \<Rightarrow> string option \<Rightarrow> verification_result prog" where
  "verify_with_refresh E document signer vm_id cached =
    bindE (refresh_assertion_key E signer vm_id) (\<lambda>refreshed.
    bindE (gets w_now) (\<lambda>now.
    ret (case refreshed of
        Some key \<Rightarrow> if Some key \<noteq> cached then verify_proof E now document key
                    else (if cached = None then Absent else Invalid)
      | None \<Rightarrow> if cached = None then Absent else Invalid)))"

definition verify_inbound_proof ::
  "('u, 'z) env_scheme \<Rightarrow> json \<Rightarrow> string \<Rightarrow> verification_result prog" where
  "verify_inbound_proof E document expected_author =
    (case extract_verification_method_id document of
       None \<Rightarrow> ret Absent
     | Some vm_id \<Rightarrow>
         let signer = strip_fragment vm_id in
         if \<not> same_actor_uri E signer expected_author then ret Invalid
         else bindE (cached_assertion_key signer) (\<lambda>cached. case cached of
             None \<Rightarrow> verify_with_refresh E document signer vm_id None
           | Some key \<Rightarrow> bindE (gets w_now) (\<lambda>now.
               case verify_proof E now document key of
                 Valid \<Rightarrow> ret Valid
               | Absent \<Rightarrow> ret Absent
               | Invalid \<Rightarrow> verify_with_refresh E document signer vm_id (Some key))))"

definition verify_object_proof ::
  "('u, 'z) env_scheme \<Rightarrow> json \<Rightarrow> string \<Rightarrow> bool option prog" where
  "verify_object_proof E obj expected_author =
    bindE (verify_inbound_proof E obj expected_author) (\<lambda>r. case r of
      Valid \<Rightarrow> ret (Some True)
    | Absent \<Rightarrow> ret None
    | Invalid \<Rightarrow> throw Forbidden)"

end
