(* ===== verification/RelayVerify.thy ===== *)
theory RelayVerify
  imports InboxResolve
begin

text \<open>
  Relays: the verification policies of \<open>relay_verify.rs\<close>, and the subscriptions of
  \<open>relay.rs\<close>.
\<close>

section \<open>Policies\<close>

datatype relay_policy = PolicyVerify | PolicyVerifyOrFetch | PolicyTrustRelay

definition policy_from_str_opt :: "string \<Rightarrow> relay_policy option" where
  "policy_from_str_opt s = (if s = ''verify'' then Some PolicyVerify
     else if s = ''verify-or-fetch'' then Some PolicyVerifyOrFetch
     else if s = ''trust-relay'' then Some PolicyTrustRelay
     else None)"

definition policy_display :: "relay_policy \<Rightarrow> string" where
  "policy_display p = (case p of PolicyVerify \<Rightarrow> ''verify''
     | PolicyVerifyOrFetch \<Rightarrow> ''verify-or-fetch'' | PolicyTrustRelay \<Rightarrow> ''trust-relay'')"

text \<open>The process-wide default is one atomic byte; 1 until something sets it.\<close>

definition encode_policy :: "relay_policy \<Rightarrow> nat" where
  "encode_policy p = (case p of PolicyVerify \<Rightarrow> 0 | PolicyVerifyOrFetch \<Rightarrow> 1 | PolicyTrustRelay \<Rightarrow> 2)"

definition decode_policy :: "nat \<Rightarrow> relay_policy" where
  "decode_policy n = (if n = 1 then PolicyVerifyOrFetch else if n = 2 then PolicyTrustRelay else PolicyVerify)"

definition default_policy :: "('u, 'z) env_scheme \<Rightarrow> relay_policy" where
  "default_policy E = decode_policy (default_relay_policy E)"

interpretation relay_policy_enum: stored_enum policy_display policy_from_str_opt Some None
proof
  fix s assume "s \<notin> range policy_display"
  then have "s \<noteq> policy_display p" for p by auto
  from this [of PolicyVerify] this [of PolicyVerifyOrFetch] this [of PolicyTrustRelay]
  show "policy_from_str_opt s = None" by (simp add: policy_display_def policy_from_str_opt_def)
qed (auto simp: policy_display_def policy_from_str_opt_def split: relay_policy.splits)

lemma decode_encode_policy [simp]: "decode_policy (encode_policy p) = p"
  by (cases p) (simp_all add: encode_policy_def decode_policy_def)

datatype relay_outcome = OutcomeVerified | OutcomeUnverified | OutcomeDiscard

section \<open>Verification\<close>

definition attempt_proof_verification :: "('u, 'z) env_scheme \<Rightarrow> json \<Rightarrow> bool option prog" where
  "attempt_proof_verification E activity =
    (case extract_verification_method_id activity of
       None \<Rightarrow> ret None
     | Some vm_id \<Rightarrow>
         bindE (cached_assertion_key (strip_fragment vm_id)) (\<lambda>public_key. case public_key of
           None \<Rightarrow> ret None
         | Some pk \<Rightarrow> bindE (gets w_now) (\<lambda>now. ret (case verify_proof E now activity pk of
             Valid \<Rightarrow> Some True | Invalid \<Rightarrow> Some False | Absent \<Rightarrow> None))))"

definition refetch_and_verify :: "('u, 'z) env_scheme \<Rightarrow> string \<Rightarrow> bool prog" where
  "refetch_and_verify E object_id =
    bindE origin_fetch_permit (\<lambda>permit.
    if \<not> permit then
      throw (Federation (''re-fetch of '' @ object_id @ '' gave up waiting for a concurrency permit''))
    else
    bindE find_local_signing_actor (\<lambda>signing_actor_id.
    bindE (signed_get E object_id signing_actor_id) (\<lambda>response.
    if \<not> is_success (resp_status response) then
      throw (Federation (''origin returned HTTP '' @ show_status E (resp_status response) @ '' for '' @ object_id))
    else
      bindE (of_result (json_within_limit (parse_value E) response (''origin object for '' @ object_id)))
        (\<lambda>origin_object. ret (get_str ''id'' origin_object = Some object_id)))))"

definition verify_relayed_activity ::
  "('u, 'z) env_scheme \<Rightarrow> json \<Rightarrow> relay_policy \<Rightarrow> relay_outcome prog" where
  "verify_relayed_activity E activity policy =
    bindE (attempt_proof_verification E activity) (\<lambda>proof_result.
    case (policy, proof_result) of
      (_, Some True) \<Rightarrow> ret OutcomeVerified
    | (_, Some False) \<Rightarrow> ret OutcomeDiscard
    | (PolicyVerify, None) \<Rightarrow> ret OutcomeDiscard
    | (PolicyVerifyOrFetch, None) \<Rightarrow>
        bindE (attempt (refetch_and_verify E (get_str_or ''<unknown>'' ''id'' activity))) (\<lambda>r.
          ret (if r = Inr True then OutcomeVerified else OutcomeDiscard))
    | (PolicyTrustRelay, None) \<Rightarrow> ret OutcomeUnverified)"

section \<open>Which actors are relays\<close>

text \<open>The \<open>inbox_url = $1 OR inbox_url ^@ $2\<close> of the three queries.\<close>

definition relay_matches :: "string \<Rightarrow> relay_row \<Rightarrow> bool" where
  "relay_matches actor_uri r = (rs_inbox_url r = actor_uri @ ''/inbox'' \<or> prefix actor_uri (rs_inbox_url r))"

definition is_relay_announce :: "string \<Rightarrow> bool prog" where
  "is_relay_announce actor_uri =
    bindE (attempt (query (\<lambda>s. list_ex (\<lambda>r. rs_status r = ''accepted'' \<and> relay_matches actor_uri r) (w_relays s))))
      (\<lambda>r. ret (r = Inr True))"

definition policy_for_relay :: "('u, 'z) env_scheme \<Rightarrow> string \<Rightarrow> relay_policy prog" where
  "policy_for_relay E actor_uri =
    bindE (attempt (query (\<lambda>s. Option.bind
        (List.find (\<lambda>r. rs_status r = ''accepted'' \<and> relay_matches actor_uri r) (w_relays s))
        rs_verification_policy))) (\<lambda>r.
    ret (case Option.bind (case r of Inr p \<Rightarrow> p | Inl _ \<Rightarrow> None) policy_from_str_opt of
        Some p \<Rightarrow> p | None \<Rightarrow> default_policy E))"

section \<open>Subscriptions\<close>

fun trim_end_inbox :: "nat \<Rightarrow> string \<Rightarrow> string" where
  "trim_end_inbox 0 s = s"
| "trim_end_inbox (Suc n) s = (case strip_suffix ''/inbox'' s of None \<Rightarrow> s | Some r \<Rightarrow> trim_end_inbox n r)"

text \<open>\<open>trim_end_matches("/inbox")\<close>: the length bounds the number of removals.\<close>

definition trim_inbox :: "string \<Rightarrow> string" where
  "trim_inbox url = trim_end_inbox (length url) url"

definition subscribe :: "uuid \<Rightarrow> string \<Rightarrow> string \<Rightarrow> unit prog" where
  "subscribe instance_actor_id instance_ap_id relay_inbox_url =
    bindE (query (\<lambda>s. List.find (\<lambda>r. rs_inbox_url r = relay_inbox_url) (w_relays s))) (\<lambda>existing.
    if existing \<noteq> None then ret ()
    else
      bindE (execute_if (\<lambda>s. \<not> list_ex (\<lambda>r. rs_inbox_url r = relay_inbox_url) (w_relays s))
        (\<lambda>s. s\<lparr>w_relays := w_relays s @ [\<lparr>rs_inbox_url = relay_inbox_url, rs_status = ''pending'',
           rs_verification_policy = None\<rparr>]\<rparr>)) (\<lambda>_.
      bindE (gets (\<lambda>s. w_now s div 1000)) (\<lambda>now.
      enqueue_delivery instance_actor_id (JObj
        [(''@context'', default_context),
         (''id'', JStr (instance_ap_id @ ''#relay-follow-'' @ show_int now)),
         (''type'', JStr ''Follow''), (''actor'', JStr instance_ap_id),
         (''object'', JStr (trim_inbox relay_inbox_url))]) relay_inbox_url)))"

definition unsubscribe :: "uuid \<Rightarrow> string \<Rightarrow> string \<Rightarrow> unit prog" where
  "unsubscribe instance_actor_id instance_ap_id relay_inbox_url =
    bindE (gets (\<lambda>s. w_now s div 1000)) (\<lambda>now.
    bindE (enqueue_delivery instance_actor_id (JObj
        [(''@context'', default_context),
         (''id'', JStr (instance_ap_id @ ''#relay-undo-'' @ show_int now)),
         (''type'', JStr ''Undo''), (''actor'', JStr instance_ap_id),
         (''object'', JObj [(''type'', JStr ''Follow''), (''actor'', JStr instance_ap_id),
            (''object'', JStr (trim_inbox relay_inbox_url))])]) relay_inbox_url) (\<lambda>_.
    execute (\<lambda>s. s\<lparr>w_relays := filter (\<lambda>r. rs_inbox_url r \<noteq> relay_inbox_url) (w_relays s)\<rparr>)))"

definition mark_accepted :: "string \<Rightarrow> unit prog" where
  "mark_accepted relay_inbox_url = execute (\<lambda>s. s\<lparr>w_relays := map (\<lambda>r.
     if rs_inbox_url r = relay_inbox_url then r\<lparr>rs_status := ''accepted''\<rparr> else r) (w_relays s)\<rparr>)"

definition list_accepted_relays :: "string list prog" where
  "list_accepted_relays = query (\<lambda>s. map rs_inbox_url (filter (\<lambda>r. rs_status r = ''accepted'') (w_relays s)))"

definition broadcast_to_relays :: "uuid \<Rightarrow> string \<Rightarrow> json \<Rightarrow> unit prog" where
  "broadcast_to_relays instance_actor_id instance_ap_id activity =
    bindE (attempt list_accepted_relays) (\<lambda>r. case r of
      Inl _ \<Rightarrow> ret ()
    | Inr relays \<Rightarrow>
        if relays = [] then ret ()
        else bindE (gets w_now) (\<lambda>now.
          for_each (\<lambda>relay_inbox. ignore_errors (enqueue_delivery instance_actor_id (JObj
            [(''@context'', default_context),
             (''id'', JStr (instance_ap_id @ ''#relay-announce-'' @ show_int now)),
             (''type'', JStr ''Announce''), (''actor'', JStr instance_ap_id),
             (''object'', JStr (get_str_or ''unknown'' ''id'' activity)),
             (''to'', JArr [JStr ''https://www.w3.org/ns/activitystreams#Public''])]) relay_inbox)) relays))"

definition try_handle_relay_accept :: "string \<Rightarrow> bool prog" where
  "try_handle_relay_accept actor_uri =
    bindE (query (\<lambda>s. map_option rs_inbox_url
      (List.find (\<lambda>r. rs_status r = ''pending'' \<and> relay_matches actor_uri r) (w_relays s)))) (\<lambda>matched.
    case matched of
      Some relay_inbox \<Rightarrow> bindE (mark_accepted relay_inbox) (\<lambda>_. ret True)
    | None \<Rightarrow> ret False)"

end
