(* ===== verification/InboxHandlers.thy ===== *)
theory InboxHandlers
  imports RelayVerify
begin

text \<open>
  The handlers of \<open>inbox.rs\<close>, one per activity type, with \<open>move_actor.rs\<close> (inbound) and
  \<open>flag.rs\<close>, and the dispatcher \<open>process_activity\<close>.  Logging is left out.  The two halves of
  \<open>tokio::try_join!\<close> in \<open>handle_follow\<close> are run in the order they are written.
\<close>

section \<open>Shared readers\<close>

definition object_str :: "activity \<Rightarrow> string option" where
  "object_str a = as_str (act_object a)"

definition object_uri :: "activity \<Rightarrow> string option" where
  "object_uri a = (case as_str (act_object a) of Some u \<Rightarrow> Some u | None \<Rightarrow> get_str ''id'' (act_object a))"

definition inbox_or_default :: "actor \<Rightarrow> string" where
  "inbox_or_default a = (case a_inbox_url a of Some u \<Rightarrow> u | None \<Rightarrow> a_ap_id a @ ''/inbox'')"

section \<open>Follow\<close>

definition accept_activity :: "activity \<Rightarrow> actor \<Rightarrow> actor \<Rightarrow> timestamp \<Rightarrow> json" where
  "accept_activity a local_actor remote_actor now = JObj
    [(''@context'', default_context),
     (''id'', JStr (a_ap_id local_actor @ ''#accept-follow-'' @ show_int (now div 1000))),
     (''type'', JStr ''Accept''),
     (''actor'', JStr (a_ap_id local_actor)),
     (''object'', JObj [(''id'', JStr (act_id a)), (''type'', JStr ''Follow''),
        (''actor'', JStr (a_ap_id remote_actor)), (''object'', JStr (a_ap_id local_actor))])]"

definition handle_follow :: "('u, 'z) env_scheme \<Rightarrow> activity \<Rightarrow> unit prog" where
  "handle_follow E a =
    bindE (ok_or (BadRequest ''Follow object must be a string URI'') (object_str a)) (\<lambda>target_uri.
    bindE (ok_or (BadRequest ''cannot parse target actor URI'') (extract_local_username target_uri)) (\<lambda>target_username.
    bindE (resolve_actor E (act_actor a)) (\<lambda>remote_actor.
    bindE (find_local_by_username E target_username) (\<lambda>local_actor.
    let auto_accept = \<not> require_follow_approval (a_privacy local_actor) in
    bindE (create_follow_with_ap_id (a_id remote_actor) (a_id local_actor) auto_accept (Some (act_id a))) (\<lambda>_.
    if auto_accept then
      bindE (gets w_now) (\<lambda>now.
      enqueue_delivery (a_id local_actor) (accept_activity a local_actor remote_actor now)
        (inbox_or_default remote_actor))
    else ret ())))))"

section \<open>Undo\<close>

definition delete_follow_with_ap_id :: "uuid \<Rightarrow> uuid \<Rightarrow> string \<Rightarrow> unit prog" where
  "delete_follow_with_ap_id follower_id following_id ap_id =
    execute (\<lambda>s. s\<lparr>w_follows := filter (\<lambda>f. \<not> (f_follower f = follower_id \<and> f_following f = following_id
      \<and> f_ap_id f = Some ap_id)) (w_follows s)\<rparr>)"

definition delete_like :: "string \<Rightarrow> uuid \<Rightarrow> unit prog" where
  "delete_like ap_id actor_id =
    execute (\<lambda>s. s\<lparr>w_likes := filter (\<lambda>r. \<not> (r_ap_id r = ap_id \<and> r_actor r = actor_id)) (w_likes s)\<rparr>)"

definition delete_boost :: "string \<Rightarrow> uuid \<Rightarrow> unit prog" where
  "delete_boost ap_id actor_id =
    execute (\<lambda>s. s\<lparr>w_boosts := filter (\<lambda>r. \<not> (r_ap_id r = ap_id \<and> r_actor r = actor_id)) (w_boosts s)\<rparr>)"

definition delete_block :: "uuid \<Rightarrow> uuid \<Rightarrow> unit prog" where
  "delete_block actor_id target_id =
    execute (\<lambda>s. s\<lparr>w_blocks := filter (\<lambda>b. \<not> (b_actor b = actor_id \<and> b_target b = target_id)) (w_blocks s)\<rparr>)"

definition undo_follow :: "('u, 'z) env_scheme \<Rightarrow> activity \<Rightarrow> unit prog" where
  "undo_follow E a =
    bindE (ok_or (BadRequest ''Undo Follow: missing inner object'') (get_str ''object'' (act_object a))) (\<lambda>target_uri.
    bindE (ok_or (BadRequest ''cannot parse target actor URI'') (extract_local_username target_uri)) (\<lambda>target_username.
    bindE (resolve_actor E (act_actor a)) (\<lambda>remote_actor.
    bindE (find_local_by_username E target_username) (\<lambda>local_actor.
    case get_str ''id'' (act_object a) of
      Some follow_ap_id \<Rightarrow> delete_follow_with_ap_id (a_id remote_actor) (a_id local_actor) follow_ap_id
    | None \<Rightarrow> delete_follow (a_id remote_actor) (a_id local_actor)))))"

definition undo_like :: "('u, 'z) env_scheme \<Rightarrow> activity \<Rightarrow> unit prog" where
  "undo_like E a =
    bindE (ok_or (BadRequest ''Undo Like: missing id'') (get_str ''id'' (act_object a))) (\<lambda>inner_ap_id.
    bindE (resolve_actor E (act_actor a)) (\<lambda>remote_actor. delete_like inner_ap_id (a_id remote_actor)))"

definition undo_announce :: "('u, 'z) env_scheme \<Rightarrow> activity \<Rightarrow> unit prog" where
  "undo_announce E a =
    bindE (ok_or (BadRequest ''Undo Announce: missing id'') (get_str ''id'' (act_object a))) (\<lambda>inner_ap_id.
    bindE (resolve_actor E (act_actor a)) (\<lambda>remote_actor. delete_boost inner_ap_id (a_id remote_actor)))"

definition undo_block :: "('u, 'z) env_scheme \<Rightarrow> activity \<Rightarrow> unit prog" where
  "undo_block E a =
    bindE (ok_or (BadRequest ''Undo Block: missing inner object'') (get_str ''object'' (act_object a))) (\<lambda>target_uri.
    bindE (ok_or (BadRequest ''cannot parse target actor URI'') (extract_local_username target_uri)) (\<lambda>target_username.
    bindE (resolve_actor E (act_actor a)) (\<lambda>remote_actor.
    bindE (find_local_by_username E target_username) (\<lambda>local_actor.
    delete_block (a_id remote_actor) (a_id local_actor)))))"

definition handle_undo :: "('u, 'z) env_scheme \<Rightarrow> activity \<Rightarrow> unit prog" where
  "handle_undo E a =
    (let inner_type = get_str_or [] ''type'' (act_object a) in
     if inner_type = ''Follow'' then undo_follow E a
     else if inner_type = ''Like'' then undo_like E a
     else if inner_type = ''Announce'' then undo_announce E a
     else if inner_type = ''Block'' then undo_block E a
     else ret ())"

section \<open>Create\<close>

definition post_type_of :: "string \<Rightarrow> string option" where
  "post_type_of object_type = (if object_type = ''Note'' then Some ''note''
     else if object_type = ''Article'' then Some ''article'' else None)"

definition build_remote_post ::
  "uuid \<Rightarrow> string \<Rightarrow> string \<Rightarrow> json \<Rightarrow> remote_content \<Rightarrow> string \<Rightarrow> bool option \<Rightarrow> remote_post" where
  "build_remote_post actor_id ap_id post_type obj content vis verified =
    \<lparr> rm_actor_id = actor_id, rm_ap_id = ap_id, rm_post_type = post_type,
      rm_title = get_str ''name'' obj,
      rm_featured_image_url = map_option fst (extract_image_url obj),
      rm_featured_image_alt = Option.bind (extract_image_url obj) snd,
      rm_sensitive = (Option.bind (get ''sensitive'' obj) as_bool = Some True),
      rm_content_md = rc_content_md content, rm_content_html = rc_content_html content,
      rm_sanitiser_version = rc_sanitiser_version content,
      rm_integrity_proof_verified = verified,
      rm_in_reply_to = extract_in_reply_to obj, rm_visibility = vis, rm_ap_object = obj \<rparr>"

definition insert_media_op :: "uuid \<Rightarrow> uuid \<Rightarrow> remote_image \<Rightarrow> unit prog" where
  "insert_media_op post_id actor_id img = execute_if
     (\<lambda>s. post_exists post_id s \<and> actor_exists actor_id s)
     (\<lambda>s. if list_ex (\<lambda>m. mo_post m = post_id \<and> mo_url m = ri_url img) (w_media_ops s) then s
          else s\<lparr>w_media_ops := w_media_ops s @ [\<lparr>mo_post = post_id, mo_actor = actor_id,
            mo_url = ri_url img, mo_alt = ri_alt_text img, mo_ordinal = ri_ordinal img\<rparr>]\<rparr>)"

definition enqueue_remote_images :: "uuid \<Rightarrow> uuid \<Rightarrow> remote_image list \<Rightarrow> unit prog" where
  "enqueue_remote_images post_id actor_id images =
     for_each (\<lambda>img. ignore_errors (insert_media_op post_id actor_id img)) images"

text \<open>What follows the insertion of a new post; every step's failure is only logged.\<close>

definition link_new_post :: "('u, 'z) env_scheme \<Rightarrow> uuid \<Rightarrow> json \<Rightarrow> unit prog" where
  "link_new_post E post_id obj =
    bindE (case extract_canonical_uri obj of None \<Rightarrow> ret ()
        | Some canonical \<Rightarrow> ignore_errors (set_canonical_uri post_id canonical)) (\<lambda>_.
    let hashtag_names = extract_hashtags_from_tags E obj in
    if hashtag_names = [] then ret () else ignore_errors (link_post_hashtags E post_id hashtag_names))"

definition handle_create :: "('u, 'z) env_scheme \<Rightarrow> activity \<Rightarrow> unit prog" where
  "handle_create E a =
    (let obj = act_object a; object_type = get_str_or [] ''type'' obj in
    bindE (ok_or (BadRequest ''Create object missing id'') (get_str ''id'' obj)) (\<lambda>ap_id.
    bindE (verify_object_proof E obj (act_actor a)) (\<lambda>verified.
    case post_type_of object_type of
      None \<Rightarrow> ret ()
    | Some post_type \<Rightarrow>
      bindE (resolve_actor E (act_actor a)) (\<lambda>remote_actor.
      let to_list = (case act_to a of Some t \<Rightarrow> Some t | None \<Rightarrow> extract_string_array obj ''to'');
          cc_list = (case act_cc a of Some t \<Rightarrow> Some t | None \<Rightarrow> extract_string_array obj ''cc'');
          vis = derive_visibility to_list cc_list in
      bindE (attempt (try_dedup obj)) (\<lambda>dedup.
      case dedup of
        Inr (Some existing_id) \<Rightarrow> ret ()
      | _ \<Rightarrow>
        bindE (create_remote_post (build_remote_post (a_id remote_actor) ap_id post_type obj
            (extract_remote_content E obj) vis verified)) (\<lambda>new_post.
        bindE (if new_post = None \<and> verified = Some True
               then ignore_errors (record_verified_proof ap_id) else ret ()) (\<lambda>_.
        case new_post of
          None \<Rightarrow> ret ()
        | Some post_id \<Rightarrow>
            bindE (link_new_post E post_id obj) (\<lambda>_.
            bindE (ignore_errors (enqueue_if_indexable post_id)) (\<lambda>_.
            (let images = extract_remote_images obj in
             if images = [] then ret () else enqueue_remote_images post_id (a_id remote_actor) images))))))))))"

section \<open>Delete\<close>

definition delete_remote_actor_stmt :: "uuid \<Rightarrow> unit prog" where
  "delete_remote_actor_stmt i = execute (delete_actor_rows (\<lambda>r. a_id r = i \<and> \<not> a_is_local r))"

definition delete_post_stmt :: "string \<Rightarrow> unit prog" where
  "delete_post_stmt ap_id = execute (delete_posts_where (\<lambda>p. p_ap_id p = ap_id))"

definition authored_by :: "string \<Rightarrow> string \<Rightarrow> world \<Rightarrow> bool" where
  "authored_by post_ap_id actor_ap_id s = list_ex (\<lambda>p. p_ap_id p = post_ap_id
     \<and> list_ex (\<lambda>r. a_id r = p_actor_id p \<and> a_ap_id r = actor_ap_id) (w_actors s)) (w_posts s)"

definition delete_owned_post :: "activity \<Rightarrow> string \<Rightarrow> unit prog" where
  "delete_owned_post a object_id =
    bindE (query (authored_by object_id (act_actor a))) (\<lambda>is_authorised.
    if \<not> is_authorised then ret ()
    else
      bindE (post_id_by_ap_id object_id) (\<lambda>indexed_id.
      bindE (case indexed_id of None \<Rightarrow> ret ()
          | Some post_id \<Rightarrow> ignore_errors (enqueue_removal ''posts'' (show_nat post_id))) (\<lambda>_.
      delete_post_stmt object_id)))"

definition handle_delete :: "('u, 'z) env_scheme \<Rightarrow> activity \<Rightarrow> unit prog" where
  "handle_delete E a =
    bindE (ok_or (BadRequest ''Delete: missing object id'')
      (case get_str ''id'' (act_object a) of Some i \<Rightarrow> Some i | None \<Rightarrow> as_str (act_object a))) (\<lambda>object_id.
    if object_id = act_actor a then
      bindE (find_by_ap_id E object_id) (\<lambda>found.
      case found of
        Some remote_actor \<Rightarrow>
          if \<not> a_is_local remote_actor then
            bindE (ignore_errors (enqueue_removals_for_actor (a_id remote_actor))) (\<lambda>_.
            bindE (insert_tombstone object_id) (\<lambda>_.
            delete_remote_actor_stmt (a_id remote_actor)))
          else delete_owned_post a object_id
      | None \<Rightarrow> delete_owned_post a object_id)
    else delete_owned_post a object_id)"

section \<open>Update\<close>

definition update_object_type :: "json \<Rightarrow> string" where
  "update_object_type obj = (case Option.bind (get ''type'' obj) (\<lambda>v. case as_str v of
       Some t \<Rightarrow> Some t
     | None \<Rightarrow> Option.bind (as_array v) (\<lambda>a. case a of [] \<Rightarrow> None | x # _ \<Rightarrow> as_str x)) of
     Some t \<Rightarrow> t | None \<Rightarrow> [])"

definition attributed_to :: "json \<Rightarrow> string option" where
  "attributed_to obj = Option.bind (get ''attributedTo'' obj) (\<lambda>v. case as_str v of
       Some u \<Rightarrow> Some u
     | None \<Rightarrow> Option.bind (as_array v) (first_some as_str))"

definition handle_update_actor :: "('u, 'z) env_scheme \<Rightarrow> activity \<Rightarrow> unit prog" where
  "handle_update_actor E a =
    (if act_actor a \<noteq> get_str_or [] ''id'' (act_object a) then ret ()
     else
       bindE find_local_signing_actor (\<lambda>signing_actor_id.
       bindE (signed_get E (act_actor a) signing_actor_id) (\<lambda>response.
       if \<not> is_success (resp_status response) then ret ()
       else
         bindE (of_result (case json_unbounded (parse_ap_actor E) response of
             Inl e \<Rightarrow> Inl (Federation (''invalid actor JSON on re-fetch: '' @ e))
           | Inr v \<Rightarrow> Inr v)) (\<lambda>ap_actor.
         case ap_actor_to_remote E ap_actor (resp_url response) (act_actor a) of
           Inl _ \<Rightarrow> ret ()
         | Inr remote \<Rightarrow> bindE (upsert_remote_actor E remote) (\<lambda>_. ret ())))))"

record post_edit =
  pe_content :: remote_content
  pe_title :: "string option"
  pe_image_url :: "string option"
  pe_image_alt :: "string option"
  pe_visibility :: string
  pe_in_reply_to :: "string option"
  pe_object :: json
  pe_verified :: "bool option"

definition edit_of :: "('u, 'z) env_scheme \<Rightarrow> json \<Rightarrow> bool option \<Rightarrow> post_edit" where
  "edit_of E obj verified =
    \<lparr> pe_content = extract_remote_content E obj, pe_title = get_str ''name'' obj,
      pe_image_url = map_option fst (extract_image_url obj),
      pe_image_alt = Option.bind (extract_image_url obj) snd,
      pe_visibility = derive_visibility (extract_string_array obj ''to'') (extract_string_array obj ''cc''),
      pe_in_reply_to = extract_in_reply_to obj, pe_object = obj, pe_verified = verified \<rparr>"

definition apply_edit :: "post_edit \<Rightarrow> post_row \<Rightarrow> post_row" where
  "apply_edit e p = p\<lparr> p_content_md := rc_content_md (pe_content e), p_content_html := rc_content_html (pe_content e),
     p_sanitiser_version := rc_sanitiser_version (pe_content e), p_title := pe_title e,
     p_featured_image_url := pe_image_url e, p_featured_image_alt := pe_image_alt e,
     p_visibility := pe_visibility e, p_in_reply_to := pe_in_reply_to e, p_ap_object := pe_object e,
     p_integrity_proof_verified := pe_verified e \<rparr>"

text \<open>\<open>UPDATE posts .. WHERE ap_id = $1 AND actor_id = (SELECT id FROM actors WHERE ap_id = $12)\<close>.\<close>

definition update_post_stmt :: "string \<Rightarrow> string \<Rightarrow> post_edit \<Rightarrow> nat prog" where
  "update_post_stmt ap_id author_ap_id e = stmt (\<lambda>s.
     let author = map_option a_id (row_by_ap_id author_ap_id s);
         hit = (\<lambda>p. p_ap_id p = ap_id \<and> Some (p_actor_id p) = author) in
     if list_ex (\<lambda>p. hit p \<and> \<not> post_columns_ok (p_post_type p) (pe_visibility e) (pe_image_url e) (pe_image_alt e))
          (w_posts s)
     then (Inl Database, s)
     else (Inr (length (filter hit (w_posts s))),
           s\<lparr>w_posts := map (\<lambda>p. if hit p then apply_edit e p else p) (w_posts s)\<rparr>))"

definition unlink_hashtags :: "uuid \<Rightarrow> unit prog" where
  "unlink_hashtags post_id =
     execute (\<lambda>s. s\<lparr>w_post_hashtags := filter (\<lambda>(i, t). i \<noteq> post_id) (w_post_hashtags s)\<rparr>)"

definition handle_update_post :: "('u, 'z) env_scheme \<Rightarrow> activity \<Rightarrow> unit prog" where
  "handle_update_post E a =
    (let obj = act_object a in
    bindE (ok_or (BadRequest ''Update object missing id'') (get_str ''id'' obj)) (\<lambda>ap_id.
    if act_actor a \<noteq> (case attributed_to obj of Some u \<Rightarrow> u | None \<Rightarrow> []) then ret ()
    else
      bindE (resolve_actor E (act_actor a)) (\<lambda>_.
      bindE (verify_object_proof E obj (act_actor a)) (\<lambda>verified.
      bindE (update_post_stmt ap_id (act_actor a) (edit_of E obj verified)) (\<lambda>rows_affected.
      if rows_affected = 0 then ret ()
      else
        bindE (post_id_by_ap_id ap_id) (\<lambda>found. case found of
          None \<Rightarrow> ret ()
        | Some post_id \<Rightarrow>
            bindE (unlink_hashtags post_id) (\<lambda>_.
            let hashtag_names = extract_hashtags_from_tags E obj in
            if hashtag_names = [] then ret ()
            else ignore_errors (link_post_hashtags E post_id hashtag_names))))))))"

definition handle_update :: "('u, 'z) env_scheme \<Rightarrow> activity \<Rightarrow> unit prog" where
  "handle_update E a =
    (let object_type = update_object_type (act_object a) in
     if object_type \<in> set [''Person'', ''Organization'', ''Group'', ''Application'', ''Service'']
     then handle_update_actor E a
     else if object_type \<in> set [''Note'', ''Article''] then handle_update_post E a
     else ret ())"

section \<open>Accept and Reject\<close>

definition handle_accept :: "('u, 'z) env_scheme \<Rightarrow> activity \<Rightarrow> unit prog" where
  "handle_accept E a =
    (if get_str_or [] ''type'' (act_object a) \<noteq> ''Follow'' then ret ()
     else
       bindE (attempt (try_handle_relay_accept (act_actor a))) (\<lambda>relay.
       if relay = Inr True then ret ()
       else
         bindE (ok_or (BadRequest ''Accept: missing Follow actor'') (get_str ''actor'' (act_object a))) (\<lambda>follower_uri.
         bindE (ok_or (BadRequest ''cannot parse follower URI'') (extract_local_username follower_uri)) (\<lambda>follower_username.
         bindE (find_local_by_username E follower_username) (\<lambda>local_actor.
         bindE (resolve_actor E (act_actor a)) (\<lambda>remote_actor.
         accept_follow (a_id local_actor) (a_id remote_actor)))))))"

definition handle_reject :: "('u, 'z) env_scheme \<Rightarrow> activity \<Rightarrow> unit prog" where
  "handle_reject E a =
    (if get_str_or [] ''type'' (act_object a) \<noteq> ''Follow'' then ret ()
     else
       bindE (ok_or (BadRequest ''Reject: missing Follow actor'') (get_str ''actor'' (act_object a))) (\<lambda>follower_uri.
       bindE (ok_or (BadRequest ''cannot parse follower URI'') (extract_local_username follower_uri)) (\<lambda>follower_username.
       bindE (find_local_by_username E follower_username) (\<lambda>local_actor.
       bindE (resolve_actor E (act_actor a)) (\<lambda>remote_actor.
       delete_follow (a_id local_actor) (a_id remote_actor))))))"

section \<open>Announce\<close>

definition flag_relayed_unverified :: "string \<Rightarrow> unit prog" where
  "flag_relayed_unverified ap_id = execute (\<lambda>s. s\<lparr>w_posts := map (\<lambda>p.
     if p_ap_id p = ap_id then p\<lparr>p_relayed_unverified := True\<rparr> else p) (w_posts s)\<rparr>)"

definition handle_relayed_announce :: "('u, 'z) env_scheme \<Rightarrow> activity \<Rightarrow> unit prog" where
  "handle_relayed_announce E a =
    (if \<not> is_object (act_object a) then ret ()
     else
       bindE (policy_for_relay E (act_actor a)) (\<lambda>policy.
       bindE (verify_relayed_activity E (act_object a) policy) (\<lambda>outcome.
       if outcome = OutcomeDiscard then ret ()
       else (case activity_from_value (act_object a) of
           None \<Rightarrow> ret ()
         | Some inner \<Rightarrow>
             if act_type inner \<noteq> ''Create'' then ret ()
             else
               bindE (handle_create E inner) (\<lambda>_.
               case (outcome, get_str ''id'' (act_object inner)) of
                 (OutcomeUnverified, Some ap_id) \<Rightarrow> flag_relayed_unverified ap_id
               | _ \<Rightarrow> ret ())))))"

definition insert_boost :: "uuid \<Rightarrow> uuid \<Rightarrow> uuid \<Rightarrow> string \<Rightarrow> unit prog" where
  "insert_boost i actor_id post_id ap_id = execute_if
     (\<lambda>s. actor_exists actor_id s \<and> post_exists post_id s
        \<and> (list_ex (\<lambda>r. r_actor r = actor_id \<and> r_post r = post_id) (w_boosts s)
           \<or> \<not> list_ex (\<lambda>r. r_ap_id r = ap_id) (w_boosts s)))
     (\<lambda>s. if list_ex (\<lambda>r. r_actor r = actor_id \<and> r_post r = post_id) (w_boosts s) then s
          else s\<lparr>w_boosts := w_boosts s @ [\<lparr>r_id = i, r_actor = actor_id, r_post = post_id, r_ap_id = ap_id\<rparr>]\<rparr>)"

definition insert_like :: "uuid \<Rightarrow> uuid \<Rightarrow> uuid \<Rightarrow> string \<Rightarrow> unit prog" where
  "insert_like i actor_id post_id ap_id = execute_if
     (\<lambda>s. actor_exists actor_id s \<and> post_exists post_id s
        \<and> (list_ex (\<lambda>r. r_actor r = actor_id \<and> r_post r = post_id) (w_likes s)
           \<or> \<not> list_ex (\<lambda>r. r_ap_id r = ap_id) (w_likes s)))
     (\<lambda>s. if list_ex (\<lambda>r. r_actor r = actor_id \<and> r_post r = post_id) (w_likes s) then s
          else s\<lparr>w_likes := w_likes s @ [\<lparr>r_id = i, r_actor = actor_id, r_post = post_id, r_ap_id = ap_id\<rparr>]\<rparr>)"

definition fetch_and_persist_remote_post :: "('u, 'z) env_scheme \<Rightarrow> string \<Rightarrow> uuid prog" where
  "fetch_and_persist_remote_post E uri =
    bindE (guarded_get E uri) (\<lambda>response.
    if \<not> is_success (resp_status response) then
      throw (Federation (''remote object returned HTTP '' @ show_status E (resp_status response)))
    else
    bindE (of_result (json_within_limit (parse_value E) response ''fetched object'')) (\<lambda>obj.
    bindE (ok_or (Federation (''Announce references unsupported object type: '' @ get_str_or [] ''type'' obj))
      (post_type_of (get_str_or [] ''type'' obj))) (\<lambda>post_type.
    bindE (ok_or (Federation ''fetched object missing id'') (get_str ''id'' obj)) (\<lambda>ap_id.
    bindE (ok_or (Federation ''fetched object missing attributedTo'') (attributed_to obj)) (\<lambda>author_uri.
    bindE (verify_object_proof E obj author_uri) (\<lambda>verified.
    bindE (attempt (try_dedup obj)) (\<lambda>dedup.
    case dedup of
      Inr (Some existing_id) \<Rightarrow> ret existing_id
    | _ \<Rightarrow>
      bindE (resolve_actor E author_uri) (\<lambda>author.
      bindE (if verified = Some True then ignore_errors (record_verified_proof ap_id) else ret ()) (\<lambda>_.
      bindE (create_remote_post (build_remote_post (a_id author) ap_id post_type obj (extract_remote_content E obj)
          (derive_visibility (extract_string_array obj ''to'') (extract_string_array obj ''cc'')) verified)) (\<lambda>new_post.
      case new_post of
        Some post_id \<Rightarrow> bindE (link_new_post E post_id obj) (\<lambda>_. ret post_id)
      | None \<Rightarrow>
          bindE (attempt (post_id_by_ap_id ap_id)) (\<lambda>r.
          ok_or (Internal (''post '' @ ap_id @ '' not found after concurrent insert''))
            (case r of Inr x \<Rightarrow> x | Inl _ \<Rightarrow> None))))))))))))"

definition handle_announce :: "('u, 'z) env_scheme \<Rightarrow> activity \<Rightarrow> unit prog" where
  "handle_announce E a =
    bindE (is_relay_announce (act_actor a)) (\<lambda>relay.
    if relay then handle_relayed_announce E a
    else
      bindE (ok_or (BadRequest ''Announce: missing object id'') (object_uri a)) (\<lambda>uri.
      bindE (resolve_actor E (act_actor a)) (\<lambda>remote_actor.
      bindE (post_id_by_ap_id uri) (\<lambda>known.
      bindE (case known of Some i \<Rightarrow> ret (Inr i) | None \<Rightarrow> attempt (fetch_and_persist_remote_post E uri)) (\<lambda>found.
      case found of
        Inl _ \<Rightarrow> ret ()
      | Inr post_id \<Rightarrow>
          bindE new_uuid (\<lambda>i. insert_boost i (a_id remote_actor) post_id (act_id a)))))))"

section \<open>Like and Block\<close>

definition handle_like :: "('u, 'z) env_scheme \<Rightarrow> activity \<Rightarrow> unit prog" where
  "handle_like E a =
    bindE (ok_or (BadRequest ''Like: missing object id'') (object_uri a)) (\<lambda>uri.
    bindE (resolve_actor E (act_actor a)) (\<lambda>remote_actor.
    bindE (post_id_by_ap_id uri) (\<lambda>known. case known of
      None \<Rightarrow> ret ()
    | Some post_id \<Rightarrow> bindE new_uuid (\<lambda>i. insert_like i (a_id remote_actor) post_id (act_id a)))))"

definition insert_block :: "uuid \<Rightarrow> uuid \<Rightarrow> uuid \<Rightarrow> unit prog" where
  "insert_block i actor_id target_id = execute_if
     (\<lambda>s. actor_exists actor_id s \<and> actor_exists target_id s)
     (\<lambda>s. if list_ex (\<lambda>b. b_actor b = actor_id \<and> b_target b = target_id) (w_blocks s) then s
          else s\<lparr>w_blocks := w_blocks s @ [\<lparr>b_id = i, b_actor = actor_id, b_target = target_id\<rparr>]\<rparr>)"

definition handle_block :: "('u, 'z) env_scheme \<Rightarrow> activity \<Rightarrow> unit prog" where
  "handle_block E a =
    bindE (ok_or (BadRequest ''Block: missing target actor id'') (object_uri a)) (\<lambda>target_uri.
    bindE (ok_or (BadRequest ''cannot parse target actor URI'') (extract_local_username target_uri)) (\<lambda>target_username.
    bindE (resolve_actor E (act_actor a)) (\<lambda>remote_actor.
    bindE (find_local_by_username E target_username) (\<lambda>local_actor.
    bindE new_uuid (\<lambda>i.
    bindE (insert_block i (a_id remote_actor) (a_id local_actor)) (\<lambda>_.
    bindE (delete_follow (a_id remote_actor) (a_id local_actor)) (\<lambda>_.
    delete_follow (a_id local_actor) (a_id remote_actor))))))))"

end
