(* ===== verification/MoveFlag.thy ===== *)
theory MoveFlag
  imports InboxHandlers
begin

text \<open>
  The two inbound handlers that live in files of their own, \<open>move_actor.rs\<close> and
  \<open>flag.rs\<close>, and the dispatcher \<open>process_activity\<close> of \<open>inbox.rs\<close> that runs all of them.
\<close>

section \<open>Move\<close>

definition aliases_of :: "json \<Rightarrow> string list" where
  "aliases_of profile = (case Option.bind (get ''alsoKnownAs'' profile) as_array of
     None \<Rightarrow> [] | Some arr \<Rightarrow> List.map_filter as_str arr)"

definition fetch_move_target :: "('u, 'z) env_scheme \<Rightarrow> string \<Rightarrow> json prog" where
  "fetch_move_target E target_uri =
    bindE find_local_signing_actor (\<lambda>signing_actor_id.
    bindE (signed_get E target_uri signing_actor_id) (\<lambda>response.
    if \<not> is_success (resp_status response) then
      throw (Federation (''target actor returned HTTP '' @ show_status E (resp_status response)))
    else of_result (case json_unbounded (parse_value E) response of
        Inl e \<Rightarrow> Inl (Federation (''invalid target actor JSON: '' @ e)) | Inr v \<Rightarrow> Inr v)))"

definition set_moved_to :: "uuid \<Rightarrow> string \<Rightarrow> unit prog" where
  "set_moved_to actor_id target_uri = execute (\<lambda>s. s\<lparr>w_actors := map (\<lambda>a.
     if a_id a = actor_id then a\<lparr>a_moved_to := Some target_uri\<rparr> else a) (w_actors s)\<rparr>)"

text \<open>The local actors whose accepted follow of the moved actor is to be migrated.\<close>

definition local_followers :: "uuid \<Rightarrow> world \<Rightarrow> uuid list" where
  "local_followers source_id s = map f_follower (filter (\<lambda>f. f_following f = source_id \<and> f_accepted f
     \<and> list_ex (\<lambda>a. a_id a = f_follower f \<and> a_is_local a) (w_actors s)) (w_follows s))"

definition move_follow :: "string \<Rightarrow> string \<Rightarrow> timestamp \<Rightarrow> json" where
  "move_follow follower_ap_id target_uri now = JObj
    [(''@context'', default_context),
     (''id'', JStr (follower_ap_id @ ''#move-follow-'' @ show_int now)),
     (''type'', JStr ''Follow''), (''actor'', JStr follower_ap_id), (''object'', JStr target_uri)]"

definition migrate_follower ::
  "('u, 'z) env_scheme \<Rightarrow> uuid \<Rightarrow> string \<Rightarrow> string \<Rightarrow> uuid \<Rightarrow> unit prog" where
  "migrate_follower E source_id target_uri target_inbox follower_id =
    bindE (delete_follow follower_id source_id) (\<lambda>_.
    bindE (attempt (find_by_id E follower_id)) (\<lambda>found. case found of
      Inl _ \<Rightarrow> ret ()
    | Inr follower \<Rightarrow> bindE (gets w_now) (\<lambda>now.
        ignore_errors (enqueue_delivery follower_id (move_follow (a_ap_id follower) target_uri now) target_inbox))))"

definition migrate_followers :: "('u, 'z) env_scheme \<Rightarrow> string \<Rightarrow> string \<Rightarrow> unit prog" where
  "migrate_followers E source_uri target_uri =
    bindE (resolve_actor E source_uri) (\<lambda>source_actor.
    bindE (set_moved_to (a_id source_actor) target_uri) (\<lambda>_.
    bindE (query (local_followers (a_id source_actor))) (\<lambda>followers.
    bindE (resolve_actor E target_uri) (\<lambda>target_actor.
    let target_inbox = (case a_inbox_url target_actor of Some u \<Rightarrow> u | None \<Rightarrow> target_uri @ ''/inbox'') in
    for_each (migrate_follower E (a_id source_actor) target_uri target_inbox) followers))))"

definition handle_inbound_move :: "('u, 'z) env_scheme \<Rightarrow> activity \<Rightarrow> unit prog" where
  "handle_inbound_move E a =
    (let source_uri = act_actor a in
    bindE (ok_or (BadRequest ''Move: object must be a string URI'') (object_str a)) (\<lambda>object_uri.
    if source_uri \<noteq> object_uri then
      throw (MoveRejected (''the Move'' @ [char_of (39 :: nat)] @ ''s actor and object must be the same account''))
    else
    bindE (ok_or (BadRequest ''Move: missing target field'') (act_target a)) (\<lambda>target_uri.
    bindE (fetch_move_target E target_uri) (\<lambda>target_profile.
    if source_uri \<notin> set (aliases_of target_profile) then
      throw (MoveRejected (''the target actor does not list '' @ source_uri @ '' in its alsoKnownAs''))
    else migrate_followers E source_uri target_uri))))"

section \<open>Flag\<close>

definition known_reasons :: "string list" where
  "known_reasons = [''spam'', ''harassment'', ''illegal'', ''impersonation'']"

definition parse_flag_content :: "string \<Rightarrow> string \<times> string option" where
  "parse_flag_content content =
    (case List.find (\<lambda>reason. prefix reason (to_ascii_lowercase content)) known_reasons of
       None \<Rightarrow> (''other'', Some content)
     | Some reason \<Rightarrow>
         let rest = trim (trim_start_char CHR '':'' (drop (length reason) content))
         in (reason, if rest = [] then None else Some rest))"

definition actor_id_by_ap_id :: "string \<Rightarrow> uuid option prog" where
  "actor_id_by_ap_id uri = query (\<lambda>s. map_option a_id (row_by_ap_id uri s))"

definition flag_object ::
  "json \<Rightarrow> uuid option \<Rightarrow> uuid option \<Rightarrow> (uuid option \<times> uuid option) prog" where
  "flag_object obj target_actor target_post = (case as_str obj of
     None \<Rightarrow> ret (target_actor, target_post)
   | Some uri \<Rightarrow>
       bindE (if target_actor = None then actor_id_by_ap_id uri else ret None) (\<lambda>hit. case hit of
         Some i \<Rightarrow> ret (Some i, target_post)
       | None \<Rightarrow>
           if target_post = None
           then bindE (post_id_by_ap_id uri) (\<lambda>p. ret (target_actor, p))
           else ret (target_actor, target_post)))"

fun flag_targets ::
  "json list \<Rightarrow> uuid option \<Rightarrow> uuid option \<Rightarrow> (uuid option \<times> uuid option) prog" where
  "flag_targets [] target_actor target_post = ret (target_actor, target_post)"
| "flag_targets (obj # objs) target_actor target_post =
     bindE (flag_object obj target_actor target_post) (\<lambda>(a, p). flag_targets objs a p)"

definition flag_objects :: "json \<Rightarrow> json list" where
  "flag_objects obj = (case as_array obj of Some xs \<Rightarrow> xs
     | None \<Rightarrow> (case as_str obj of Some s \<Rightarrow> [JStr s] | None \<Rightarrow> []))"

text \<open>The constraints of the table, the ones on the quoted message of a chat report included.\<close>

definition quoted_message_ok :: "report_row \<Rightarrow> bool" where
  "quoted_message_ok r = (((rp_message r = None \<and> rp_message_at r = None) \<or> rp_target_chat_addr r \<noteq> None)
     \<and> (case rp_message r of None \<Rightarrow> True | Some m \<Rightarrow> length (filter (\<lambda>c. \<not> cont_byte c) m) \<le> 8192))"

definition insert_report :: "report_row \<Rightarrow> unit prog" where
  "insert_report r = execute_if
     (\<lambda>s. actor_exists (rp_reporter r) s
        \<and> (case rp_target_actor r of None \<Rightarrow> True | Some i \<Rightarrow> actor_exists i s)
        \<and> (case rp_target_post r of None \<Rightarrow> True | Some i \<Rightarrow> post_exists i s)
        \<and> rp_reason r \<in> set (known_reasons @ [''other''])
        \<and> \<not> (rp_target_actor r = None \<and> rp_target_post r = None \<and> rp_target_chat_addr r = None)
        \<and> quoted_message_ok r)
     (\<lambda>s. s\<lparr>w_reports := w_reports s @ [r]\<rparr>)"

definition handle_inbound_flag :: "('u, 'z) env_scheme \<Rightarrow> activity \<Rightarrow> unit prog" where
  "handle_inbound_flag E a =
    bindE (flag_targets (flag_objects (act_object a)) None None) (\<lambda>(target_actor, target_post).
    if target_actor = None \<and> target_post = None then ret ()
    else
      bindE (resolve_actor E (act_actor a)) (\<lambda>reporter.
      let (reason, comment) = parse_flag_content (case act_content a of None \<Rightarrow> ''other'' | Some c \<Rightarrow> c) in
      bindE new_uuid (\<lambda>i.
      insert_report \<lparr>rp_id = i, rp_reporter = a_id reporter, rp_target_actor = target_actor, rp_target_post = target_post,
        rp_target_chat_addr = None, rp_message = None, rp_message_at = None, rp_reason = reason, rp_comment = comment, rp_forwarded = True, rp_status = ''open'',
        rp_resolved_by = None, rp_resolution_note = None, rp_resolved_at = None\<rparr>)))"

definition flag_activity :: "string \<Rightarrow> string \<Rightarrow> string list \<Rightarrow> string \<Rightarrow> string option \<Rightarrow> timestamp \<Rightarrow> json" where
  "flag_activity instance_ap_id target_actor_ap_id target_post_ap_ids reason comment now = JObj
    [(''@context'', default_context),
     (''id'', JStr (instance_ap_id @ ''#flag-'' @ show_int now)),
     (''type'', JStr ''Flag''), (''actor'', JStr instance_ap_id),
     (''object'', JArr (map JStr (target_actor_ap_id # target_post_ap_ids))),
     (''content'', JStr (case comment of Some c \<Rightarrow> reason @ '': '' @ c | None \<Rightarrow> reason))]"

definition forward_report ::
  "uuid \<Rightarrow> string \<Rightarrow> string \<Rightarrow> string list \<Rightarrow> string \<Rightarrow> string option \<Rightarrow> unit prog" where
  "forward_report instance_actor_id instance_ap_id target_actor_ap_id target_post_ap_ids reason comment =
    (let remote_domain = (case extract_domain target_actor_ap_id of None \<Rightarrow> [] | Some d \<Rightarrow> d) in
     bindE (gets w_now) (\<lambda>now.
     enqueue_delivery instance_actor_id
       (flag_activity instance_ap_id target_actor_ap_id target_post_ap_ids reason comment now)
       (''https://'' @ remote_domain @ ''/inbox'')))"

section \<open>Dispatch\<close>

definition dispatch :: "('u, 'z) env_scheme \<Rightarrow> activity \<Rightarrow> unit prog" where
  "dispatch E a =
    (let t = act_type a in
     if t = ''Follow'' then handle_follow E a
     else if t = ''Undo'' then handle_undo E a
     else if t = ''Create'' then handle_create E a
     else if t = ''Delete'' then handle_delete E a
     else if t = ''Accept'' then handle_accept E a
     else if t = ''Reject'' then handle_reject E a
     else if t = ''Announce'' then handle_announce E a
     else if t = ''Like'' then handle_like E a
     else if t = ''Update'' then handle_update E a
     else if t = ''Block'' then handle_block E a
     else if t = ''Move'' then handle_inbound_move E a
     else if t = ''Flag'' then handle_inbound_flag E a
     else ret ())"

definition process_activity ::
  "('u, 'z) env_scheme \<Rightarrow> string \<Rightarrow> json \<Rightarrow> activity \<Rightarrow> unit prog" where
  "process_activity E verified_actor document a =
    (if verified_actor \<noteq> act_actor a then throw Forbidden
     else
       bindE (verify_inbound_proof E document (act_actor a)) (\<lambda>r.
       if r = Invalid then throw Forbidden else dispatch E a))"

end
