(* ===== verification/InboxInvariant.thy ===== *)
theory InboxInvariant
  imports MoveFlag
begin

text \<open>
  What an invariant has to satisfy, statement by statement, for the whole inbox to keep it.
  \<open>resolver_invariant\<close> is the contract of the resolution and verification code,
  \<open>inbox_invariant\<close> adds the statements of the handlers.  The lemmas at the end of each
  locale say that the functions of the code keep the invariant; the interpretations are in
  the theory \<open>InboxSafety\<close>.
\<close>

section \<open>Binds that use what a step returns\<close>

lemma keeps_bindE_returns:
  assumes "keeps I m" and "\<And>s x s'. m s = (Inr x, s') \<Longrightarrow> P x" and "\<And>x. P x \<Longrightarrow> keeps I (f x)"
  shows "keeps I (bindE m f)"
proof (rule keepsI)
  fix s assume "I s"
  obtain r s' where m: "m s = (r, s')" by (cases "m s")
  with assms(1) \<open>I s\<close> have "I s'" by (metis keepsD snd_conv)
  moreover have "keeps I (f x)" if "r = Inr x" for x
    using assms(2,3) m that by blast
  ultimately show "I (snd (bindE m f s))"
    using m by (cases r) (auto simp: bindE_def dest: keepsD)
qed

lemma keeps_checked:
  "(\<And>x. r = Inr x \<Longrightarrow> keeps I (f x)) \<Longrightarrow> keeps I (bindE (of_result r) f)"
  by (rule keeps_bindE_returns [where P = "\<lambda>x. r = Inr x"]) (auto simp: of_result_def keeps_def)

text \<open>A step and the update that depends on its result are kept together.\<close>

lemma keeps_bindE_fuse:
  assumes "keeps I (bindE m (\<lambda>a. bindE (g a) (\<lambda>_. ret a)))" and "\<And>a. keeps I (h a)"
  shows "keeps I (bindE m (\<lambda>a. bindE (g a) (\<lambda>_. h a)))"
proof -
  have "bindE m (\<lambda>a. bindE (g a) (\<lambda>_. h a)) = bindE (bindE m (\<lambda>a. bindE (g a) (\<lambda>_. ret a))) h"
    by (simp add: bindE_assoc)
  then show ?thesis using assms by (auto intro: keeps_bindE)
qed

lemma keeps_send:
  assumes "\<And>s l. I s \<Longrightarrow> I (s\<lparr>w_log := l\<rparr>)"
  shows "keeps I (send E url what)"
proof (rule keepsI)
  fix s assume I: "I s"
  obtain l where "snd (send_from E 1 url s) = s\<lparr>w_log := l @ w_log s\<rparr>"
    using send_from_log [of E 1 url s] by blast
  then show "I (snd (send E url what s))"
    using assms [OF I, of "l @ w_log s"] by (auto simp: send_def split: prod.splits sum.splits)
qed

lemma verify_object_proof_not_False:
  "verify_object_proof E obj author s = (Inr v, s') \<Longrightarrow> v \<noteq> Some False"
  unfolding verify_object_proof_def bindE_Inr
  by (elim exE conjE, rename_tac r t, case_tac r) auto

text \<open>
  What the handlers make sure of before a post is written: its proof did not fail, its markup
  went through the sanitiser, and its visibility is one the addressing can give.
\<close>

definition well_sourced :: "('u, 'z) env_scheme \<Rightarrow> bool option \<Rightarrow> remote_content \<Rightarrow> string \<Rightarrow> bool" where
  "well_sourced E verified content vis = (verified \<noteq> Some False
     \<and> (\<exists>obj. content = extract_remote_content E obj) \<and> vis \<in> {''public'', ''unlisted'', ''followers''})"

definition post_content :: "remote_post \<Rightarrow> remote_content" where
  "post_content r = \<lparr>rc_content_html = rm_content_html r, rc_content_md = rm_content_md r,
     rc_sanitiser_version = rm_sanitiser_version r\<rparr>"

definition post_sourced :: "('u, 'z) env_scheme \<Rightarrow> remote_post \<Rightarrow> bool" where
  "post_sourced E r = well_sourced E (rm_integrity_proof_verified r) (post_content r) (rm_visibility r)"

definition edit_sourced :: "('u, 'z) env_scheme \<Rightarrow> post_edit \<Rightarrow> bool" where
  "edit_sourced E e = well_sourced E (pe_verified e) (pe_content e) (pe_visibility e)"

lemma derive_visibility_cases: "derive_visibility t c \<in> {''public'', ''unlisted'', ''followers''}"
  by (simp add: derive_visibility_def)

lemma built_post_sourced:
  "verified \<noteq> Some False \<Longrightarrow>
     post_sourced E (build_remote_post i u t obj (extract_remote_content E obj) (derive_visibility x y) verified)"
  using derive_visibility_cases [of x y]
  by (auto simp: post_sourced_def well_sourced_def build_remote_post_def post_content_def extract_remote_content_def)

lemma built_edit_sourced: "verified \<noteq> Some False \<Longrightarrow> edit_sourced E (edit_of E obj verified)"
  using derive_visibility_cases by (auto simp: edit_sourced_def well_sourced_def edit_of_def)

section \<open>Resolution\<close>

locale resolver_invariant = world_invariant I
  for I :: "world \<Rightarrow> bool" +
  fixes E :: "('u, 'z) env_scheme"
  assumes uuid: "keeps I new_uuid"
    and sent: "check_url E url = Inr () \<Longrightarrow> keeps I (send E url what)"
    and tombstone: "keeps I (insert_tombstone u)"
    and upserted: "keeps I (bindE new_uuid (upsert_stmt r))"
begin

lemma keeps_find:
  "keeps I (find_by_ap_id E u)" "keeps I (find_by_public_key_id E u)"
  "keeps I (find_local_by_username E u)" "keeps I (find_by_id E i)"
  "keeps I (find_local_signing_actor)" "keeps I (cached_assertion_key u)" "keeps I (post_id_by_ap_id u)"
  unfolding find_by_ap_id_def find_by_public_key_id_def find_local_by_username_def find_by_id_def
    find_local_signing_actor_def cached_assertion_key_def post_id_by_ap_id_def
  by (intro keeps_intros keeps_query)+

lemma keeps_permit: "keeps I origin_fetch_permit"
  by (auto simp: keeps_def origin_fetch_permit_def intro: tick)

lemma keeps_guarded_get: "keeps I (guarded_get E u)"
  unfolding guarded_get_def guarded_get_accepting_def
  by (intro keeps_sum keeps_throw keeps_checked sent) simp

lemma keeps_signed_get: "keeps I (signed_get E u i)"
  unfolding signed_get_def unsigned_get_def
  by (rule keeps_sum keeps_throw keeps_checked keeps_bindE keeps_query keeps_option keeps_if
      keeps_guarded_get sent | simp)+

lemmas keeps_fetch = keeps_find keeps_permit keeps_guarded_get keeps_signed_get keeps_query

lemma keeps_fetch_document: "keeps I (fetch_document E u)"
proof -
  have "keeps I (case e of Database \<Rightarrow> throw Database | _ \<Rightarrow> guarded_get E u)" for e
    by (cases e) (auto intro: keeps_fetch keeps_throw)
  then show ?thesis
    unfolding fetch_document_def by (intro keeps_intros keeps_fetch)
qed

lemma keeps_upsert: "keeps I (upsert_remote_actor E r)"
proof -
  have "upsert_remote_actor E r = bindE (bindE new_uuid (upsert_stmt r)) (\<lambda>_.
     bindE (find_by_ap_id E (ra_ap_id r)) (\<lambda>row.
     bindE (ok_or (Internal ''upsert_remote_actor: row not found after insert'') row) (\<lambda>actor.
     if a_is_local actor then throw Forbidden else ret actor)))"
    by (simp add: upsert_remote_actor_def bindE_assoc)
  then show ?thesis by (simp add: keeps_intros keeps_fetch upserted)
qed

lemma keeps_resolve_actor: "keeps I (resolve_actor E u)"
  unfolding resolve_actor_def fetch_and_store_actor_def
  by (intro keeps_intros keeps_fetch keeps_fetch_document keeps_upsert tombstone)

lemma keeps_resolve_signer:
  "keeps I (resolve_inbound_signer E u)" "keeps I (key_owner E u)" "keeps I (resolve_signer_by_key_id E u)"
  unfolding resolve_signer_by_key_id_def signer_by_uri_def signer_by_key_document_def
    resolve_inbound_signer_def key_owner_def
  by (intro keeps_intros keeps_fetch keeps_fetch_document keeps_resolve_actor)+

lemma keeps_refresh: "keeps I (refresh_assertion_key E u vm)"
  unfolding refresh_assertion_key_def refetch_actor_def or_none_def Let_def
  by (intro keeps_intros keeps_fetch keeps_upsert)

lemma keeps_verify:
  "keeps I (verify_inbound_proof E doc u)" "keeps I (verify_object_proof E doc u)"
proof -
  have r: "keeps I (verify_with_refresh E doc signer vm cached)" for signer vm cached
    unfolding verify_with_refresh_def by (intro keeps_intros keeps_refresh)
  then have "keeps I (case v of Valid \<Rightarrow> ret Valid | Absent \<Rightarrow> ret Absent
     | Invalid \<Rightarrow> verify_with_refresh E doc signer vm cached)" for v signer vm cached
    by (auto intro: keeps_ret split: verification_result.split)
  with r show p: "keeps I (verify_inbound_proof E doc u)"
    unfolding verify_inbound_proof_def Let_def by (intro keeps_intros keeps_fetch)
  have "keeps I (case v of Valid \<Rightarrow> ret (Some True) | Absent \<Rightarrow> ret None | Invalid \<Rightarrow> throw Forbidden)" for v
    by (auto intro: keeps_intros split: verification_result.split)
  with p show "keeps I (verify_object_proof E doc u)"
    unfolding verify_object_proof_def by (intro keeps_intros)
qed

lemma keeps_handle_deleteI:
  assumes "\<And>u w. keeps I (enqueue_removal u w)" and "\<And>u. keeps I (delete_post_stmt u)"
    and "\<And>i. keeps I (delete_remote_actor_stmt i)"
  shows "keeps I (handle_delete E a)"
  unfolding handle_delete_def delete_owned_post_def enqueue_removals_for_actor_def
  by (intro keeps_intros keeps_fetch tombstone assms)

end

section \<open>The handlers\<close>

text \<open>The statements every invariant below has to survive, whoever signed the activity.\<close>

locale handler_invariant = resolver_invariant I E
  for I :: "world \<Rightarrow> bool" and E :: "('u, 'z) env_scheme" +
  assumes follows: "keeps I (create_follow_with_ap_id i j b k)" "keeps I (accept_follow i j)"
      "keeps I (delete_follow i j)" "keeps I (delete_follow_with_ap_id i j u)"
    and reactions: "keeps I (insert_like m i j u)" "keeps I (insert_boost m i j u)" "keeps I (insert_block m i j)"
      "keeps I (delete_like u i)" "keeps I (delete_boost u i)" "keeps I (delete_block i j)"
    and post_created: "post_sourced E r \<Longrightarrow> keeps I (create_remote_post r)"
    and post_flags: "keeps I (record_verified_proof u)" "keeps I (flag_relayed_unverified u)"
      "keeps I (set_canonical_uri i u)"
    and hashtags: "keeps I (link_post_hashtags E i names)" "keeps I (unlink_hashtags i)"
    and queues: "keeps I (enqueue_delivery i payload u)" "keeps I (enqueue_removal u w)"
      "keeps I (enqueue_upsert u w d)" "keeps I (insert_media_op i j img)"
    and relay_accepted: "keeps I (mark_accepted u)"
    and report: "keeps I (insert_report rep)"

text \<open>
  \<open>v\<close> is the verified signer.  Three laws speak of it alone: what it may delete, whose
  posts it may edit and which actor it may mark as moved.
\<close>

locale inbox_invariant = handler_invariant I E
  for I :: "world \<Rightarrow> bool" and E :: "('u, 'z) env_scheme" +
  fixes v :: string
  assumes post_edited: "edit_sourced E e \<Longrightarrow> keeps I (update_post_stmt u v e)"
    and deleted: "act_actor a = v \<Longrightarrow> keeps I (handle_delete E a)"
    and moved: "keeps I (bindE (resolve_actor E v) (\<lambda>x. bindE (set_moved_to (a_id x) u) (\<lambda>_. ret x)))"
begin

lemmas keeps_base = keeps_intros keeps_fetch keeps_resolve_actor keeps_verify uuid
lemmas keeps_writes = follows reactions post_flags hashtags queues relay_accepted report

lemma keeps_find_post:
  "keeps I (try_dedup obj)" "keeps I remote_indexing_enabled"
  unfolding try_dedup_def find_by_canonical_uri_def find_by_url_heuristic_def remote_indexing_enabled_def
  by (intro keeps_base)+

lemma keeps_indexing: "keeps I (enqueue_if_indexable i)"
  unfolding enqueue_if_indexable_def by (intro keeps_base keeps_find_post keeps_writes)

lemma keeps_link_new_post: "keeps I (link_new_post E i obj)"
  unfolding link_new_post_def Let_def by (intro keeps_base keeps_writes)

lemma keeps_images: "keeps I (enqueue_remote_images i j imgs)"
  unfolding enqueue_remote_images_def by (intro keeps_base keeps_writes)

lemma keeps_store_post:
  assumes "verified \<noteq> Some False"
  shows "keeps I (create_remote_post
    (build_remote_post i u t obj (extract_remote_content E obj) (derive_visibility x y) verified))"
  by (rule post_created [OF built_post_sourced [OF assms]])

lemma keeps_verified:
  "(\<And>x. x \<noteq> Some False \<Longrightarrow> keeps I (f x)) \<Longrightarrow> keeps I (bindE (verify_object_proof E obj u) f)"
  by (rule keeps_bindE_returns [OF keeps_verify(2)]) (auto dest: verify_object_proof_not_False)

lemma keeps_dedup_case:
  "(\<And>x. keeps I (f x)) \<Longrightarrow> keeps I g
     \<Longrightarrow> keeps I (case d of Inl e \<Rightarrow> g | Inr None \<Rightarrow> g | Inr (Some x) \<Rightarrow> f x)"
  by (auto split: sum.split option.split)

lemma keeps_handle_create: "keeps I (handle_create E a)"
  unfolding handle_create_def Let_def
  by (rule keeps_verified keeps_store_post keeps_dedup_case keeps_base keeps_find_post keeps_link_new_post
      keeps_indexing keeps_images keeps_writes | assumption)+

lemma keeps_handle_follow: "keeps I (handle_follow E a)"
  unfolding handle_follow_def Let_def by (intro keeps_base keeps_writes)

lemma keeps_handle_undo: "keeps I (handle_undo E a)"
  unfolding handle_undo_def undo_follow_def undo_like_def undo_announce_def undo_block_def Let_def
  by (intro keeps_base keeps_writes)

lemma keeps_handle_update:
  assumes "act_actor a = v"
  shows "keeps I (handle_update E a)"
proof -
  have "keeps I (handle_update_post E a)"
    unfolding handle_update_post_def Let_def assms
    by (rule keeps_verified post_edited [OF built_edit_sourced] keeps_base keeps_writes | assumption)+
  moreover have "keeps I (handle_update_actor E a)"
    unfolding handle_update_actor_def by (intro keeps_base keeps_upsert)
  ultimately show ?thesis
    unfolding handle_update_def Let_def by (intro keeps_base)
qed

lemma keeps_handle_accept: "keeps I (handle_accept E a)"
  unfolding handle_accept_def try_handle_relay_accept_def by (intro keeps_base keeps_writes)

lemma keeps_handle_reject: "keeps I (handle_reject E a)"
  unfolding handle_reject_def by (intro keeps_base keeps_writes)

lemma keeps_handle_like: "keeps I (handle_like E a)"
  unfolding handle_like_def by (intro keeps_base keeps_writes)

lemma keeps_handle_block: "keeps I (handle_block E a)"
  unfolding handle_block_def by (intro keeps_base keeps_writes)

lemma keeps_relay_queries:
  "keeps I (is_relay_announce u)" "keeps I (policy_for_relay E u)"
  unfolding is_relay_announce_def policy_for_relay_def by (intro keeps_base)+

lemma keeps_verify_relayed: "keeps I (verify_relayed_activity E j p)"
proof -
  have "keeps I (attempt_proof_verification E j)" "keeps I (refetch_and_verify E u)" for u
    unfolding attempt_proof_verification_def refetch_and_verify_def by (intro keeps_base)+
  then show ?thesis
    unfolding verify_relayed_activity_def
    by (auto intro!: keeps_base split: relay_policy.split option.split bool.split)
qed

lemma keeps_handle_announce: "keeps I (handle_announce E a)"
proof -
  have "keeps I (case r of OutcomeUnverified \<Rightarrow> (case k of None \<Rightarrow> ret () | Some u \<Rightarrow> flag_relayed_unverified u)
      | _ \<Rightarrow> ret ())" for r k
    by (cases r) (auto intro: keeps_intros keeps_writes split: option.split)
  then have "keeps I (handle_relayed_announce E a)"
    unfolding handle_relayed_announce_def
    by (intro keeps_base keeps_relay_queries keeps_verify_relayed keeps_handle_create)
  moreover have "keeps I (fetch_and_persist_remote_post E u)" for u
    unfolding fetch_and_persist_remote_post_def
    by (rule keeps_verified keeps_store_post keeps_dedup_case keeps_base keeps_find_post keeps_link_new_post
      keeps_writes | assumption)+
  ultimately show ?thesis
    unfolding handle_announce_def by (intro keeps_base keeps_writes keeps_relay_queries)
qed

lemma keeps_handle_move:
  assumes "act_actor a = v"
  shows "keeps I (handle_inbound_move E a)"
proof -
  have "keeps I (fetch_move_target E u)" for u
    unfolding fetch_move_target_def by (intro keeps_base)
  moreover have m: "keeps I (migrate_follower E i u w j)" for i u w j
    unfolding migrate_follower_def by (intro keeps_base keeps_writes)
  have "keeps I (migrate_followers E v u)" for u
    unfolding migrate_followers_def Let_def by (rule keeps_bindE_fuse [OF moved]) (intro keeps_base m)
  ultimately show ?thesis
    unfolding handle_inbound_move_def Let_def assms by (intro keeps_base)
qed

lemma keeps_handle_flag: "keeps I (handle_inbound_flag E a)"
proof -
  have "keeps I (flag_object obj x y)" for obj x y
    unfolding flag_object_def actor_id_by_ap_id_def by (intro keeps_base)
  then have "keeps I (flag_targets objs x y)" for objs x y
    by (induction objs arbitrary: x y) (auto intro!: keeps_ret keeps_bindE split: prod.split)
  then show ?thesis
    unfolding handle_inbound_flag_def Let_def by (intro keeps_base keeps_writes)
qed

lemma keeps_dispatch:
  assumes "act_actor a = v"
  shows "keeps I (dispatch E a)"
  unfolding dispatch_def Let_def
  by (intro keeps_if keeps_ret keeps_handle_follow keeps_handle_undo keeps_handle_create deleted
      keeps_handle_accept keeps_handle_reject keeps_handle_announce keeps_handle_like keeps_handle_update
      keeps_handle_block keeps_handle_move keeps_handle_flag assms)

theorem keeps_process_activity: "keeps I (process_activity E v document a)"
  by (cases "v = act_actor a")
    (auto simp: process_activity_def intro!: keeps_throw keeps_bindE keeps_verify keeps_dispatch)

end

section \<open>Invariants that do not depend on the signer\<close>

locale statement_invariant = handler_invariant I E
  for I :: "world \<Rightarrow> bool" and E :: "('u, 'z) env_scheme" +
  assumes any_edit: "edit_sourced E e \<Longrightarrow> keeps I (update_post_stmt u w e)"
    and any_post_deletion: "keeps I (delete_post_stmt u)"
    and any_actor_deletion: "keeps I (delete_remote_actor_stmt i)"
    and any_move: "keeps I (set_moved_to i u)"
begin

lemma keeps_handle_delete: "keeps I (handle_delete E a)"
  by (intro keeps_handle_deleteI queues any_post_deletion any_actor_deletion)

end

sublocale statement_invariant \<subseteq> inbox: inbox_invariant I E v for v
  by unfold_locales
    (intro any_edit keeps_handle_delete keeps_intros keeps_resolve_actor any_move; assumption?)+

end
