(* ===== verification/InboxSafety.thy ===== *)
theory InboxSafety
  imports InboxInvariant
begin

text \<open>
  What an inbound activity cannot do, whatever the activity, the answers of the peers and
  the failures of the database: the interpretations of the contract of \<open>InboxInvariant\<close>.
\<close>

section \<open>Keeping an invariant through one statement\<close>

lemma keeps_stmtI:
  assumes "\<And>s n. I s \<Longrightarrow> I (s\<lparr>w_tick := n\<rparr>)" and "\<And>s. I s \<Longrightarrow> I (snd (f s))"
  shows "keeps I (stmt f)"
  using assms by (auto simp: keeps_def stmt_def Let_def)

lemma keeps_executeI:
  assumes "\<And>s n. I s \<Longrightarrow> I (s\<lparr>w_tick := n\<rparr>)" and "\<And>s. I s \<Longrightarrow> I (f s)"
  shows "keeps I (execute f)" "keeps I (execute_if ok f)"
  unfolding execute_def execute_if_def using assms by (auto intro!: keeps_stmtI)

lemma keeps_new_uuidI: "(\<And>s n. I s \<Longrightarrow> w_next_id s \<le> n \<Longrightarrow> I (s\<lparr>w_next_id := n\<rparr>)) \<Longrightarrow> keeps I new_uuid"
  by (simp add: keeps_def new_uuid_def)

lemmas statements = insert_tombstone_def upsert_stmt_def create_follow_with_ap_id_def accept_follow_def
  delete_follow_def delete_follow_with_ap_id_def insert_like_def insert_boost_def insert_block_def
  delete_like_def delete_boost_def delete_block_def create_remote_post_def insert_post_stmt_def
  record_verified_proof_def flag_relayed_unverified_def set_canonical_uri_def link_post_hashtags_def
  unlink_hashtags_def enqueue_delivery_def enqueue_removal_def enqueue_upsert_def insert_media_op_def
  mark_accepted_def insert_report_def update_post_stmt_def delete_post_stmt_def delete_remote_actor_stmt_def
  set_moved_to_def

lemmas statement_keeps = keeps_stmtI keeps_executeI keeps_new_uuidI keeps_bindE keeps_ret keeps_if

lemma put_op_fields [simp]:
  "w_log (put_op i d n u s) = w_log s" "w_posts (put_op i d n u s) = w_posts s"
  "w_actors (put_op i d n u s) = w_actors s" "w_tombstones (put_op i d n u s) = w_tombstones s"
  "w_relays (put_op i d n u s) = w_relays s" "w_next_id (put_op i d n u s) = w_next_id s"
  by (simp_all add: put_op_def)

lemma delete_fields [simp]:
  "w_log (delete_posts_where P s) = w_log s" "w_log (delete_actor_rows Q s) = w_log s"
  "w_tombstones (delete_posts_where P s) = w_tombstones s" "w_tombstones (delete_actor_rows Q s) = w_tombstones s"
  "w_relays (delete_posts_where P s) = w_relays s" "w_relays (delete_actor_rows Q s) = w_relays s"
  "w_next_id (delete_posts_where P s) = w_next_id s" "w_next_id (delete_actor_rows Q s) = w_next_id s"
  "w_search_ops (delete_posts_where P s) = w_search_ops s" "w_search_ops (delete_actor_rows Q s) = w_search_ops s"
  "w_actors (delete_posts_where P s) = w_actors s"
  "w_actors (delete_actor_rows Q s) = filter (\<lambda>a. \<not> Q a) (w_actors s)"
  "w_posts (delete_posts_where P s) = filter (\<lambda>p. \<not> P p) (w_posts s)"
  "w_posts (delete_actor_rows Q s) =
     filter (\<lambda>p. \<not> list_ex (\<lambda>a. Q a \<and> a_id a = p_actor_id p) (w_actors s)) (w_posts s)"
  by (simp_all add: delete_posts_where_def delete_actor_rows_def Let_def)

section \<open>Connections\<close>

lemma keeps_log_safe_send:
  assumes "check_url E url = Inr ()" shows "keeps (log_safe E) (send E url what)"
proof (rule keepsI)
  fix s assume I: "log_safe E s"
  obtain l where "snd (send_from E 1 url s) = s\<lparr>w_log := l @ w_log s\<rparr>" "\<forall>c\<in>set l. safe_contact E c"
    using send_from_log [of E 1 url s] assms by blast
  with I show "log_safe E (snd (send E url what s))"
    by (auto simp: send_def log_safe_def split: prod.splits sum.splits)
qed

interpretation safe_log: statement_invariant "log_safe E" E for E :: "('u, 'z) env_scheme"
  by unfold_locales
    (auto simp: statements log_safe_def Let_def intro!: statement_keeps keeps_log_safe_send
      split: option.splits)

section \<open>Verdicts, tombstones, removals and relays\<close>

definition no_false_proof :: "world \<Rightarrow> bool" where
  "no_false_proof s = (\<forall>p\<in>set (w_posts s). p_integrity_proof_verified p \<noteq> Some False)"

lemma apply_edit_simps [simp]:
  "p_integrity_proof_verified (apply_edit e p) = pe_verified e" "p_id (apply_edit e p) = p_id p"
  "p_ap_id (apply_edit e p) = p_ap_id p" "p_actor_id (apply_edit e p) = p_actor_id p"
  by (simp_all add: apply_edit_def)

lemma post_row_of_simps [simp]:
  "p_integrity_proof_verified (post_row_of r i) = rm_integrity_proof_verified r" "p_id (post_row_of r i) = i"
  "p_ap_id (post_row_of r i) = rm_ap_id r" "p_actor_id (post_row_of r i) = rm_actor_id r"
  by (simp_all add: post_row_of_def)

interpretation no_false: statement_invariant no_false_proof E for E :: "('u, 'z) env_scheme"
  by unfold_locales
    (auto simp: statements no_false_proof_def Let_def post_sourced_def edit_sourced_def well_sourced_def
      intro!: statement_keeps keeps_send split: option.splits)

text \<open>The markup and the visibility of the posts that are not among the given ones.\<close>

definition clean_post :: "('u, 'z) env_scheme \<Rightarrow> string \<Rightarrow> string \<Rightarrow> bool" where
  "clean_post E html vis = ((\<exists>source. html = sanitise_remote_html E source)
     \<and> vis \<in> {''public'', ''unlisted'', ''followers''})"

definition clean_row :: "('u, 'z) env_scheme \<Rightarrow> uuid set \<Rightarrow> post_row \<Rightarrow> bool" where
  "clean_row E old p = (p_id p \<in> old \<or> clean_post E (p_content_html p) (p_visibility p))"

definition sanitised_beyond :: "('u, 'z) env_scheme \<Rightarrow> uuid set \<Rightarrow> world \<Rightarrow> bool" where
  "sanitised_beyond E old s = (\<forall>p\<in>set (w_posts s). clean_row E old p)"

lemma sourced_html: "well_sourced E verified content vis \<Longrightarrow> clean_post E (rc_content_html content) vis"
  by (auto simp: well_sourced_def clean_post_def extract_remote_content_def)

lemma apply_edit_content [simp]:
  "p_content_html (apply_edit e p) = rc_content_html (pe_content e)" "p_visibility (apply_edit e p) = pe_visibility e"
  by (simp_all add: apply_edit_def)

lemma post_row_of_content [simp]:
  "p_content_html (post_row_of r i) = rc_content_html (post_content r)" "p_visibility (post_row_of r i) = rm_visibility r"
  by (simp_all add: post_row_of_def post_content_def)

lemma clean_row_simps [simp]:
  "clean_row E old (p\<lparr>p_integrity_proof_verified := v\<rparr>) = clean_row E old p"
  "clean_row E old (p\<lparr>p_relayed_unverified := b\<rparr>) = clean_row E old p"
  "clean_row E old (p\<lparr>p_canonical_uri := u\<rparr>) = clean_row E old p"
  by (simp_all add: clean_row_def)

lemma clean_row_written:
  "edit_sourced E e \<Longrightarrow> clean_row E old (apply_edit e p)" "post_sourced E r \<Longrightarrow> clean_row E old (post_row_of r i)"
  by (auto simp: clean_row_def edit_sourced_def post_sourced_def dest: sourced_html)

interpretation sanitised: statement_invariant "sanitised_beyond E old" E for old and E :: "('u, 'z) env_scheme"
  by unfold_locales
    (auto simp: statements sanitised_beyond_def Let_def
      intro!: statement_keeps keeps_send clean_row_written split: option.splits)

definition tombstoned :: "string \<Rightarrow> world \<Rightarrow> bool" where
  "tombstoned u s = (u \<in> set (w_tombstones s))"

interpretation tombstones: statement_invariant "tombstoned u" E for u and E :: "('u, 'z) env_scheme"
  by unfold_locales
    (auto simp: statements tombstoned_def Let_def intro!: statement_keeps keeps_send split: option.splits)

definition relay_inboxes :: "string list \<Rightarrow> world \<Rightarrow> bool" where
  "relay_inboxes urls s = (map rs_inbox_url (w_relays s) = urls)"

interpretation relays: statement_invariant "relay_inboxes urls" E for urls and E :: "('u, 'z) env_scheme"
  by unfold_locales
    (auto simp: statements relay_inboxes_def Let_def intro!: statement_keeps keeps_send split: option.splits)

lemma removing_cong: "w_search_ops s = w_search_ops t \<Longrightarrow> removing i d s = removing i d t"
  by (simp add: removing_def doc_op_def)

lemma keeps_removing:
  "keeps (removing i d) (enqueue_removal u w)" "keeps (removing i d) (enqueue_upsert u w doc)"
  using removing_step [of i d _ "QRemove u w"] removing_step [of i d _ "QUpsert u w doc"]
  by (auto simp: keeps_def)

interpretation removals: statement_invariant "removing i d" E for i d and E :: "('u, 'z) env_scheme"
  by unfold_locales
    (auto simp: statements Let_def removing_def doc_op_def simp del: enqueue_removal_def enqueue_upsert_def
      intro!: keeps_removing statement_keeps keeps_send split: option.splits)

section \<open>Keys\<close>

text \<open>Identifiers are unique, and no identifier given out is ahead of the generator.\<close>

definition keys_ok :: "world \<Rightarrow> bool" where
  "keys_ok s = (distinct (map a_id (w_actors s)) \<and> distinct (map a_ap_id (w_actors s))
     \<and> (\<forall>a\<in>set (w_actors s). a_id a < w_next_id s)
     \<and> distinct (map p_ap_id (w_posts s)) \<and> (\<forall>p\<in>set (w_posts s). p_actor_id p < w_next_id s))"

lemma distinct_map_inj: "distinct (map f xs) \<Longrightarrow> x \<in> set xs \<Longrightarrow> y \<in> set xs \<Longrightarrow> f x = f y \<Longrightarrow> x = y"
  by (auto simp: distinct_map dest: inj_onD)

lemma keys_ok_inj:
  assumes "keys_ok s"
  shows "\<lbrakk>a \<in> set (w_actors s); b \<in> set (w_actors s); a_id a = a_id b\<rbrakk> \<Longrightarrow> a = b"
    and "\<lbrakk>a \<in> set (w_actors s); b \<in> set (w_actors s); a_ap_id a = a_ap_id b\<rbrakk> \<Longrightarrow> a = b"
    and "\<lbrakk>p \<in> set (w_posts s); q \<in> set (w_posts s); p_ap_id p = p_ap_id q\<rbrakk> \<Longrightarrow> p = q"
  using assms unfolding keys_ok_def by (blast dest: distinct_map_inj)+

lemma keys_ok_cong:
  "\<lbrakk>keys_ok s; map a_id (w_actors t) = map a_id (w_actors s); map a_ap_id (w_actors t) = map a_ap_id (w_actors s);
    map p_ap_id (w_posts t) = map p_ap_id (w_posts s); map p_actor_id (w_posts t) = map p_actor_id (w_posts s);
    w_next_id t = w_next_id s\<rbrakk> \<Longrightarrow> keys_ok t"
  unfolding keys_ok_def by (metis image_eqI image_iff list.set_map)

lemma refreshed_row_simps [simp]:
  "a_id (refreshed_row r n a) = a_id a" "a_ap_id (refreshed_row r n a) = a_ap_id a"
  "a_is_local (refreshed_row r n a) = a_is_local a"
  by (simp_all add: refreshed_row_def)

lemma inserted_row_simps [simp]:
  "a_id (inserted_row r t i n) = i" "a_ap_id (inserted_row r t i n) = ra_ap_id r"
  "\<not> a_is_local (inserted_row r t i n)"
  by (simp_all add: inserted_row_def)

lemma map_if_same [simp]:
  "(\<And>x. f (g x) = f x) \<Longrightarrow> map f (map (\<lambda>x. if P x then g x else x) xs) = map f xs"
  by simp

lemma row_by_ap_id_None: "row_by_ap_id u s = None \<longleftrightarrow> u \<notin> a_ap_id ` set (w_actors s)"
  by (auto simp: row_by_ap_id_def find_None_iff)

lemma post_by_ap_id_None: "post_by_ap_id u s = None \<longleftrightarrow> u \<notin> p_ap_id ` set (w_posts s)"
  by (auto simp: post_by_ap_id_def find_None_iff)

lemma keeps_fresh:
  assumes "\<And>s. I s \<Longrightarrow> I (snd (f (w_next_id s) (s\<lparr>w_next_id := Suc (w_next_id s)\<rparr>)))"
  shows "keeps I (bindE new_uuid f)"
  using assms by (simp add: keeps_def bindE_def new_uuid_def)

lemma snd_stmt: "snd (stmt f s) = (let t = s\<lparr>w_tick := Suc (w_tick s)\<rparr> in
    if w_fault s (w_tick s) then t else snd (f t))"
  by (simp add: stmt_def Let_def)

text \<open>What the upsert of an actor does to the table of actors.\<close>

lemma row_by_ap_id_tick [simp]: "row_by_ap_id u (s\<lparr>w_tick := n\<rparr>) = row_by_ap_id u s"
  by (simp add: row_by_ap_id_def)

lemma upsert_actors:
  "w_actors (snd (upsert_stmt r i s)) = w_actors s
   \<or> (row_by_ap_id (ra_ap_id r) s = None
      \<and> (\<exists>t. w_actors (snd (upsert_stmt r i s)) = w_actors s @ [inserted_row r t i (w_now s)]))
   \<or> (\<exists>old. row_by_ap_id (ra_ap_id r) s = Some old \<and> \<not> a_is_local old
      \<and> w_actors (snd (upsert_stmt r i s)) =
        map (\<lambda>a. if a_ap_id a = ra_ap_id r then refreshed_row r (w_now s) a else a) (w_actors s))"
  unfolding upsert_stmt_def snd_stmt Let_def by (auto split: option.split)

lemma upsert_cases:
  obtains "w_actors (snd (upsert_stmt r i s)) = w_actors s"
  | t where "row_by_ap_id (ra_ap_id r) s = None"
      "w_actors (snd (upsert_stmt r i s)) = w_actors s @ [inserted_row r t i (w_now s)]"
  | old where "row_by_ap_id (ra_ap_id r) s = Some old" "\<not> a_is_local old"
      "w_actors (snd (upsert_stmt r i s)) =
        map (\<lambda>a. if a_ap_id a = ra_ap_id r then refreshed_row r (w_now s) a else a) (w_actors s)"
  using upsert_actors [of r i s] by blast

lemma upsert_other [simp]:
  "w_posts (snd (upsert_stmt r i s)) = w_posts s" "w_next_id (snd (upsert_stmt r i s)) = w_next_id s"
  by (auto simp: upsert_stmt_def snd_stmt Let_def split: option.splits)

lemma keys_ok_upsert:
  assumes "keys_ok s"
  shows "keys_ok (snd (upsert_stmt r (w_next_id s) (s\<lparr>w_next_id := Suc (w_next_id s)\<rparr>)))"
proof (cases rule: upsert_cases [of r "w_next_id s" "s\<lparr>w_next_id := Suc (w_next_id s)\<rparr>"])
  case 1
  then show ?thesis using assms by (auto simp: keys_ok_def less_Suc_eq)
next
  case (2 t)
  then show ?thesis using assms by (auto simp: keys_ok_def less_Suc_eq row_by_ap_id_None)
next
  case (3 old)
  have "keys_ok (s\<lparr>w_next_id := Suc (w_next_id s)\<rparr>)" using assms by (auto simp: keys_ok_def less_Suc_eq)
  then show ?thesis by (rule keys_ok_cong) (simp_all add: 3(3))
qed

lemma keys_ok_insert_post:
  assumes "keys_ok s"
  shows "keys_ok (snd (insert_post_stmt r i s))"
  using assms
  by (auto simp: insert_post_stmt_def snd_stmt Let_def keys_ok_def post_by_ap_id_None actor_exists_def list_ex_iff)

lemma keys_ok_uuid: "keys_ok s \<Longrightarrow> w_next_id s \<le> n \<Longrightarrow> keys_ok (s\<lparr>w_next_id := n\<rparr>)"
  by (fastforce simp: keys_ok_def)

lemma keys_ok_delete_actors: "keys_ok s \<Longrightarrow> keys_ok (delete_actor_rows Q s)"
  by (auto simp: keys_ok_def distinct_map_filter)

lemma keys_ok_delete_posts: "keys_ok s \<Longrightarrow> keys_ok (delete_posts_where P s)"
  by (auto simp: keys_ok_def distinct_map_filter)

lemma keys_ok_map_posts:
  assumes "\<And>p. p_ap_id (g p) = p_ap_id p" "\<And>p. p_actor_id (g p) = p_actor_id p"
  shows "keys_ok s \<Longrightarrow> keys_ok (s\<lparr>w_posts := map (\<lambda>p. if P p then g p else p) (w_posts s)\<rparr>)"
  by (erule keys_ok_cong) (simp_all add: assms)

lemma keys_ok_map_actors:
  assumes "\<And>a. a_ap_id (g a) = a_ap_id a" "\<And>a. a_id (g a) = a_id a"
  shows "keys_ok s \<Longrightarrow> keys_ok (s\<lparr>w_actors := map (\<lambda>a. if P a then g a else a) (w_actors s)\<rparr>)"
  by (erule keys_ok_cong) (simp_all add: assms)

lemma keys_ok_create_post: "keys_ok s \<Longrightarrow> keys_ok (snd (create_remote_post r s))"
  by (auto simp: create_remote_post_def bindE_def new_uuid_def intro!: keys_ok_insert_post keys_ok_uuid)

lemma keys_ok_untouched [simp]:
  "keys_ok (s\<lparr>w_tick := n\<rparr>) = keys_ok s" "keys_ok (s\<lparr>w_log := l\<rparr>) = keys_ok s"
  "keys_ok (s\<lparr>w_follows := a\<rparr>) = keys_ok s" "keys_ok (s\<lparr>w_likes := b\<rparr>) = keys_ok s"
  "keys_ok (s\<lparr>w_boosts := b\<rparr>) = keys_ok s" "keys_ok (s\<lparr>w_blocks := c\<rparr>) = keys_ok s"
  "keys_ok (s\<lparr>w_post_hashtags := d\<rparr>) = keys_ok s" "keys_ok (s\<lparr>w_tombstones := e\<rparr>) = keys_ok s"
  "keys_ok (s\<lparr>w_relays := f\<rparr>) = keys_ok s" "keys_ok (s\<lparr>w_deliveries := g\<rparr>) = keys_ok s"
  "keys_ok (s\<lparr>w_search_ops := h\<rparr>) = keys_ok s" "keys_ok (s\<lparr>w_media_ops := i\<rparr>) = keys_ok s"
  "keys_ok (s\<lparr>w_reports := j\<rparr>) = keys_ok s" "keys_ok (put_op u v x y s) = keys_ok s"
  "keys_ok (s\<lparr>w_queue_seq := k\<rparr>) = keys_ok s"
  by (simp_all add: keys_ok_def)

lemmas keys_ok_statements = keys_ok_uuid keys_ok_delete_actors keys_ok_delete_posts keys_ok_map_posts
  keys_ok_map_actors

interpretation keys: statement_invariant keys_ok E for E :: "('u, 'z) env_scheme"
proof (unfold_locales, goal_cases)
  case (5 r)
  then show ?case by (rule keeps_fresh) (rule keys_ok_upsert)
next
  case (16 r)
  show ?case by (rule keepsI) (rule keys_ok_create_post)
qed (auto simp: statements Let_def intro!: statement_keeps keeps_send keys_ok_statements split: option.splits)

section \<open>Local rows\<close>

text \<open>Resolving answers with a row of the table, and with a remote one unless the row is cached.\<close>

lemma resolve_actor_row:
  assumes "resolve_actor E u s = (Inr x, s')"
  shows "\<exists>r\<in>set (w_actors s'). into_actor E r = Inr x \<and> (a_ap_id r = u \<or> \<not> a_is_local r)"
proof -
  have fetched: ?thesis if f: "fetch_and_store_actor E u t = (Inr x, s')" for t
  proof -
    obtain rem t' where "upsert_remote_actor E rem t' = (Inr x, s')"
      using f by (auto simp: fetch_and_store_actor_def bindE_Inr split: if_splits)
    then obtain w where "find_by_ap_id E (ra_ap_id rem) w = (Inr (Some x), s')" and "\<not> a_is_local x"
      by (auto simp: upsert_remote_actor_def bindE_Inr ok_or_def split: if_splits option.splits)
    then show ?thesis
      by (auto simp: find_by_ap_id_Inr opt_actor_Some into_actor_fields dest!: row_by_ap_id_SomeD)
  qed
  show ?thesis
    using assms
    by (auto simp: resolve_actor_def bindE_Inr find_by_ap_id_Inr opt_actor_Some
        dest!: row_by_ap_id_SomeD intro: fetched split: option.splits if_splits)
qed

definition local_kept :: "string \<Rightarrow> actor_row list \<Rightarrow> world \<Rightarrow> bool" where
  "local_kept v rows s = (keys_ok s \<and> filter a_is_local (w_actors s) = rows
     \<and> (\<forall>a\<in>set rows. a_ap_id a \<noteq> v))"

lemma filter_map_if:
  assumes "\<And>x. x \<in> set xs \<Longrightarrow> Q x \<Longrightarrow> \<not> P x \<and> \<not> P (g x)"
  shows "filter P (map (\<lambda>x. if Q x then g x else x) xs) = filter P xs"
  using assms by (induction xs) auto

lemma local_kept_upsert:
  assumes "local_kept v rows s"
  shows "local_kept v rows (snd (upsert_stmt r (w_next_id s) (s\<lparr>w_next_id := Suc (w_next_id s)\<rparr>)))"
proof -
  let ?t = "s\<lparr>w_next_id := Suc (w_next_id s)\<rparr>"
  have keys: "keys_ok s" using assms by (simp add: local_kept_def)
  have "filter a_is_local (w_actors (snd (upsert_stmt r (w_next_id s) ?t))) = filter a_is_local (w_actors s)"
  proof (cases rule: upsert_cases [of r "w_next_id s" ?t])
    case (3 old)
    have "a_ap_id a = ra_ap_id r \<Longrightarrow> a \<in> set (w_actors s) \<Longrightarrow> \<not> a_is_local a" for a
      using 3(1,2) keys_ok_inj(2) [OF keys, of a old] by (auto dest!: row_by_ap_id_SomeD)
    then show ?thesis using 3(3) by (simp add: filter_map_if)
  qed simp_all
  then show ?thesis using assms keys_ok_upsert [OF keys, of r] by (simp add: local_kept_def)
qed

interpretation local_base: handler_invariant "local_kept v rows" E for v rows and E :: "('u, 'z) env_scheme"
proof (unfold_locales, goal_cases)
  case (5 r)
  show ?case by (rule keeps_fresh) (rule local_kept_upsert)
next
  case (16 r)
  have "w_actors (snd (create_remote_post r s)) = w_actors s" for s
    by (auto simp: create_remote_post_def bindE_def new_uuid_def insert_post_stmt_def snd_stmt Let_def)
  then show ?case by (auto simp: keeps_def local_kept_def keys_ok_create_post)
qed (auto simp: statements local_kept_def Let_def intro!: statement_keeps keeps_send keys_ok_statements
      split: option.splits)

text \<open>The row of the moved actor is a remote one, so the update by identifier spares the local rows.\<close>

lemma local_kept_moved:
  "keeps (local_kept v rows) (bindE (resolve_actor E v) (\<lambda>x. bindE (set_moved_to (a_id x) u) (\<lambda>_. ret x)))"
proof (rule keepsI)
  fix s assume I: "local_kept v rows s"
  obtain res s' where res: "resolve_actor E v s = (res, s')" by (cases "resolve_actor E v s")
  with I have I': "local_kept v rows s'"
    using keepsD [OF local_base.keeps_resolve_actor] by (metis snd_conv)
  show "local_kept v rows (snd (bindE (resolve_actor E v) (\<lambda>x. bindE (set_moved_to (a_id x) u) (\<lambda>_. ret x)) s))"
  proof (cases res)
    case (Inr x)
    obtain r where r: "r \<in> set (w_actors s')" "a_id x = a_id r" "a_ap_id r = v \<or> \<not> a_is_local r"
      using resolve_actor_row res Inr by (metis into_actor_fields(1))
    with I' have "\<not> a_is_local r" by (auto simp: local_kept_def)
    with I' r(1) have "a \<in> set (w_actors s') \<Longrightarrow> a_id a = a_id r \<Longrightarrow> \<not> a_is_local a" for a
      using keys_ok_inj(1) [of s' a r] by (auto simp: local_kept_def)
    then have "filter a_is_local (w_actors (snd (set_moved_to (a_id x) u s'))) = filter a_is_local (w_actors s')"
      by (simp add: set_moved_to_def execute_def snd_stmt Let_def filter_map_if r(2))
    moreover have "keys_ok (snd (set_moved_to (a_id x) u s'))"
      using I' by (intro keepsD [OF keys.any_move]) (simp add: local_kept_def)
    ultimately have "local_kept v rows (snd (set_moved_to (a_id x) u s'))"
      using I' by (simp add: local_kept_def)
    then show ?thesis
      by (auto simp: bindE_def res Inr ret_def split: prod.split sum.split)
  qed (simp add: bindE_def res I')
qed

lemma imp_conj_absorb: "((P \<longrightarrow> Q) \<and> Q) = Q"
  by blast

interpretation local_guard: inbox_invariant "local_kept v rows" E v for v rows and E :: "('u, 'z) env_scheme"
proof (unfold_locales, goal_cases)
  case (2 a)
  show ?case
    by (rule local_base.keeps_handle_deleteI)
      (auto simp: statements local_kept_def imp_conj_absorb intro!: statement_keeps keys_ok_statements)
next
  case (3 u)
  show ?case by (rule local_kept_moved)
qed (auto simp: statements local_kept_def Let_def intro!: statement_keeps keys_ok_statements)

section \<open>Posts of other authors\<close>

text \<open>
  What a reader sees of a post: everything but the two verdicts about where it came from and
  the cross-post link.  \<open>foreign_posts v s\<close> are those of the posts whose author is not \<open>v\<close>.
\<close>

definition post_core :: "post_row \<Rightarrow> post_row" where
  "post_core p = p\<lparr>p_integrity_proof_verified := None, p_relayed_unverified := False, p_canonical_uri := None\<rparr>"

definition authors :: "world \<Rightarrow> (uuid \<times> string) set" where
  "authors s = (\<lambda>a. (a_id a, a_ap_id a)) ` set (w_actors s)"

definition foreign_posts :: "string \<Rightarrow> world \<Rightarrow> post_row set" where
  "foreign_posts v s = post_core ` {p \<in> set (w_posts s). \<exists>u. (p_actor_id p, u) \<in> authors s \<and> u \<noteq> v}"

definition others_kept :: "string \<Rightarrow> post_row set \<Rightarrow> world \<Rightarrow> bool" where
  "others_kept v C s = (keys_ok s \<and> C \<subseteq> foreign_posts v s)"

lemma post_core_ids: "post_core p = post_core q \<Longrightarrow> p_actor_id p = p_actor_id q"
  by (metis post_core_def post_row.ext_inject post_row.surjective post_row.update_convs(16,17,13))

lemma foreign_mono:
  assumes "C \<subseteq> foreign_posts v s" and "authors s \<subseteq> authors t"
    and "\<And>p u. \<lbrakk>p \<in> set (w_posts s); (p_actor_id p, u) \<in> authors s; u \<noteq> v\<rbrakk> \<Longrightarrow> post_core p \<in> post_core ` set (w_posts t)"
  shows "C \<subseteq> foreign_posts v t"
proof
  fix c assume "c \<in> C"
  with assms(1) obtain p u where p: "c = post_core p" "p \<in> set (w_posts s)" "(p_actor_id p, u) \<in> authors s" "u \<noteq> v"
    unfolding foreign_posts_def by blast
  with assms(3) obtain q where q: "q \<in> set (w_posts t)" "post_core p = post_core q" by blast
  with p(1,3,4) assms(2) post_core_ids [OF q(2)] show "c \<in> foreign_posts v t"
    unfolding foreign_posts_def by auto
qed

lemma others_keptI:
  assumes "others_kept v C s" and "keys_ok t" and "authors s \<subseteq> authors t"
    and "\<And>p u. \<lbrakk>p \<in> set (w_posts s); (p_actor_id p, u) \<in> authors s; u \<noteq> v\<rbrakk> \<Longrightarrow> post_core p \<in> post_core ` set (w_posts t)"
  shows "others_kept v C t"
  using assms foreign_mono [of C v s t] unfolding others_kept_def by blast

lemma others_kept_untouched [simp]:
  "others_kept v C (s\<lparr>w_tick := n\<rparr>) = others_kept v C s" "others_kept v C (s\<lparr>w_log := l\<rparr>) = others_kept v C s"
  "others_kept v C (s\<lparr>w_follows := a\<rparr>) = others_kept v C s" "others_kept v C (s\<lparr>w_likes := b\<rparr>) = others_kept v C s"
  "others_kept v C (s\<lparr>w_boosts := b\<rparr>) = others_kept v C s" "others_kept v C (s\<lparr>w_blocks := c\<rparr>) = others_kept v C s"
  "others_kept v C (s\<lparr>w_post_hashtags := d\<rparr>) = others_kept v C s"
  "others_kept v C (s\<lparr>w_tombstones := e\<rparr>) = others_kept v C s"
  "others_kept v C (s\<lparr>w_relays := f\<rparr>) = others_kept v C s" "others_kept v C (s\<lparr>w_deliveries := g\<rparr>) = others_kept v C s"
  "others_kept v C (s\<lparr>w_search_ops := h\<rparr>) = others_kept v C s"
  "others_kept v C (s\<lparr>w_media_ops := i\<rparr>) = others_kept v C s"
  "others_kept v C (s\<lparr>w_reports := j\<rparr>) = others_kept v C s"
  "others_kept v C (put_op u w x y s) = others_kept v C s" "others_kept v C (s\<lparr>w_queue_seq := k\<rparr>) = others_kept v C s"
  by (simp_all add: others_kept_def foreign_posts_def authors_def)

lemma image_map_if:
  assumes "\<And>x. f (g x) = f x"
  shows "f ` set (map (\<lambda>x. if P x then g x else x) xs) = f ` set xs"
  unfolding set_map image_image by (rule image_cong) (auto simp: assms)

lemma others_kept_map_posts:
  assumes "others_kept v C s" and "\<And>p. post_core (g p) = post_core p" and "\<And>p. p_ap_id (g p) = p_ap_id p"
  shows "others_kept v C (s\<lparr>w_posts := map (\<lambda>p. if P p then g p else p) (w_posts s)\<rparr>)"
proof (rule others_keptI [OF assms(1)])
  have "p_actor_id (g p) = p_actor_id p" for p using assms(2) post_core_ids by blast
  then show "keys_ok (s\<lparr>w_posts := map (\<lambda>p. if P p then g p else p) (w_posts s)\<rparr>)"
    using assms(1,3) by (intro keys_ok_map_posts) (simp_all add: others_kept_def)
  have "post_core ` set (map (\<lambda>p. if P p then g p else p) (w_posts s)) = post_core ` set (w_posts s)"
    by (rule image_map_if) (rule assms(2))
  then show "p \<in> set (w_posts s) \<Longrightarrow>
      post_core p \<in> post_core ` set (w_posts (s\<lparr>w_posts := map (\<lambda>p. if P p then g p else p) (w_posts s)\<rparr>))" for p
    by simp
qed (simp add: authors_def)

lemma others_kept_uuid: "others_kept v C s \<Longrightarrow> w_next_id s \<le> n \<Longrightarrow> others_kept v C (s\<lparr>w_next_id := n\<rparr>)"
  by (auto simp: others_kept_def foreign_posts_def authors_def intro: keys_ok_uuid)

lemma others_kept_upsert:
  assumes "others_kept v C s"
  shows "others_kept v C (snd (upsert_stmt r (w_next_id s) (s\<lparr>w_next_id := Suc (w_next_id s)\<rparr>)))"
proof (rule others_keptI [OF assms])
  let ?t = "s\<lparr>w_next_id := Suc (w_next_id s)\<rparr>"
  show "authors s \<subseteq> authors (snd (upsert_stmt r (w_next_id s) ?t))"
  proof (cases rule: upsert_cases [of r "w_next_id s" ?t])
    case (3 old)
    show ?thesis unfolding authors_def 3(3) by (subst image_map_if) simp_all
  qed (auto simp: authors_def)
qed (use assms in \<open>auto simp: others_kept_def intro: keys_ok_upsert\<close>)

lemma others_kept_create_post:
  assumes "others_kept v C s"
  shows "others_kept v C (snd (create_remote_post r s))"
proof (rule others_keptI [OF assms])
  show "keys_ok (snd (create_remote_post r s))" using assms by (simp add: others_kept_def keys_ok_create_post)
qed (auto simp: create_remote_post_def bindE_def new_uuid_def insert_post_stmt_def snd_stmt Let_def authors_def)

lemma others_kept_map_actors:
  assumes "others_kept v C s" and "\<And>a. a_ap_id (g a) = a_ap_id a" and "\<And>a. a_id (g a) = a_id a"
  shows "others_kept v C (s\<lparr>w_actors := map (\<lambda>a. if P a then g a else a) (w_actors s)\<rparr>)"
proof (rule others_keptI [OF assms(1)])
  show "keys_ok (s\<lparr>w_actors := map (\<lambda>a. if P a then g a else a) (w_actors s)\<rparr>)"
    using assms by (intro keys_ok_map_actors) (simp_all add: others_kept_def)
  show "authors s \<subseteq> authors (s\<lparr>w_actors := map (\<lambda>a. if P a then g a else a) (w_actors s)\<rparr>)"
    unfolding authors_def by (simp add: image_map_if assms(2,3) del: set_map)
qed simp

text \<open>An edit is an update of rows whose author is \<open>v\<close>.\<close>

lemma others_kept_edit:
  assumes "others_kept v C s" and "edit_sourced E e"
  shows "others_kept v C (snd (update_post_stmt u v e s))"
proof -
  let ?t = "snd (update_post_stmt u v e s)"
  let ?hit = "\<lambda>p. p_ap_id p = u \<and> Some (p_actor_id p) = map_option a_id (row_by_ap_id v s)"
  have posts: "w_posts ?t = w_posts s \<or> w_posts ?t = map (\<lambda>p. if ?hit p then apply_edit e p else p) (w_posts s)"
    by (auto simp: update_post_stmt_def snd_stmt Let_def)
  have keys: "keys_ok s" using assms by (simp add: others_kept_def)
  show ?thesis
  proof (rule others_keptI [OF assms(1)])
    show "keys_ok ?t" using keepsD [OF keys.any_edit [OF assms(2)] keys] .
    show "authors s \<subseteq> authors ?t" by (simp add: update_post_stmt_def snd_stmt Let_def authors_def)
    fix p w assume p: "p \<in> set (w_posts s)" "(p_actor_id p, w) \<in> authors s" "w \<noteq> v"
    have "\<not> ?hit p"
    proof
      assume "?hit p"
      then obtain r where "row_by_ap_id v s = Some r" "a_id r = p_actor_id p"
        by (cases "row_by_ap_id v s") auto
      with p(2,3) show False
        using keys_ok_inj(1) [OF keys, of _ r] by (auto simp: authors_def dest!: row_by_ap_id_SomeD)
    qed
    then have "p \<in> set (w_posts ?t)"
      using posts p(1) by (elim disjE) (simp, force)
    then show "post_core p \<in> post_core ` set (w_posts ?t)" by (rule imageI)
  qed
qed

text \<open>A deletion removes rows whose author is \<open>v\<close>.\<close>

lemma others_kept_delete_posts:
  assumes "others_kept v C s" and "\<And>p u. \<lbrakk>p \<in> set (w_posts s); P p; (p_actor_id p, u) \<in> authors s\<rbrakk> \<Longrightarrow> u = v"
  shows "others_kept v C (delete_posts_where P s)"
proof (rule others_keptI [OF assms(1)])
  show "keys_ok (delete_posts_where P s)" using assms(1) by (simp add: others_kept_def keys_ok_delete_posts)
qed (use assms(2) in \<open>auto simp: authors_def\<close>)

lemma others_kept_delete_actor:
  assumes "others_kept v C s" and "r \<in> set (w_actors s)" and "a_ap_id r = v"
  shows "others_kept v C (delete_actor_rows (\<lambda>a. a_id a = a_id r \<and> \<not> a_is_local a) s)" (is "others_kept v C ?t")
proof -
  have keys: "keys_ok s" using assms(1) by (simp add: others_kept_def)
  have "C \<subseteq> foreign_posts v ?t"
  proof
    fix c assume "c \<in> C"
    then obtain p a where c: "c = post_core p" "p \<in> set (w_posts s)" "a \<in> set (w_actors s)" "a_id a = p_actor_id p"
        "a_ap_id a \<noteq> v"
      using assms(1) by (fastforce simp: others_kept_def foreign_posts_def authors_def)
    have ne: "a_id a \<noteq> a_id r" using c(3,5) assms(2,3) keys_ok_inj(1) [OF keys] by blast
    have "a \<in> set (w_actors ?t)" using c(3) ne by simp
    moreover have "p \<in> set (w_posts ?t)" using c(2,4) ne by (auto simp: list_ex_iff)
    ultimately show "c \<in> foreign_posts v ?t"
      using c(1,4,5) unfolding foreign_posts_def authors_def by (force simp del: delete_fields)
  qed
  with keys show ?thesis by (simp add: others_kept_def keys_ok_delete_actors)
qed

interpretation others_base: handler_invariant "others_kept v C" E for v C and E :: "('u, 'z) env_scheme"
proof (unfold_locales, goal_cases)
  case (5 r)
  show ?case by (rule keeps_fresh) (rule others_kept_upsert)
next
  case (16 r)
  show ?case by (rule keepsI) (rule others_kept_create_post)
qed (auto simp: statements Let_def post_core_def
      intro!: statement_keeps keeps_send others_kept_uuid others_kept_map_posts split: option.splits)

text \<open>\<open>keeps\<close> for a bind whose continuation needs a fact the first step established.\<close>

definition leads :: "(world \<Rightarrow> bool) \<Rightarrow> 'a prog \<Rightarrow> (world \<Rightarrow> bool) \<Rightarrow> bool" where
  "leads J m I \<longleftrightarrow> (\<forall>s. J s \<longrightarrow> I (snd (m s)))"

lemma leads_bindE:
  assumes "leads J m I" and "\<And>s x s'. J s \<Longrightarrow> m s = (Inr x, s') \<Longrightarrow> K x s'" and "\<And>x. leads (K x) (f x) I"
  shows "leads J (bindE m f) I"
  using assms by (fastforce simp: leads_def bindE_def split: prod.splits sum.splits)

lemma leads_weaken: "keeps I m \<Longrightarrow> (\<And>s. J s \<Longrightarrow> I s) \<Longrightarrow> leads J m I"
  by (auto simp: leads_def keeps_def)

lemma leads_seq:
  "keeps J m \<Longrightarrow> (\<And>s. J s \<Longrightarrow> I s) \<Longrightarrow> (\<And>x. leads J (f x) I) \<Longrightarrow> leads J (bindE m f) I"
  by (rule leads_bindE [where K = "\<lambda>_. J"]) (auto simp: leads_def keeps_def dest: spec)

lemma authored_by_untouched [simp]:
  "authored_by u w (s\<lparr>w_tick := n\<rparr>) = authored_by u w s"
  "authored_by u w (put_op i d x y s) = authored_by u w s"
  by (simp_all add: authored_by_def)

lemma authored_byD:
  "\<lbrakk>keys_ok s; authored_by u v s; p \<in> set (w_posts s); p_ap_id p = u; (p_actor_id p, w) \<in> authors s\<rbrakk> \<Longrightarrow> w = v"
proof -
  assume keys: "keys_ok s" and p: "p \<in> set (w_posts s)" "p_ap_id p = u" "(p_actor_id p, w) \<in> authors s"
  assume "authored_by u v s"
  then obtain q r where "q \<in> set (w_posts s)" "p_ap_id q = u" "r \<in> set (w_actors s)" "a_id r = p_actor_id q" "a_ap_id r = v"
    by (auto simp: authored_by_def list_ex_iff)
  moreover obtain a where "a \<in> set (w_actors s)" "a_id a = p_actor_id p" "a_ap_id a = w"
    using p(3) by (auto simp: authors_def)
  ultimately show "w = v" using keys_ok_inj [OF keys] p(1,2) by metis
qed

lemma others_delete_owned:
  assumes "act_actor a = v"
  shows "keeps (others_kept v C) (delete_owned_post a u)"
proof -
  let ?I = "others_kept v C" and ?J = "\<lambda>s. others_kept v C s \<and> authored_by u v s"
  have "others_kept v C (delete_posts_where (\<lambda>p. p_ap_id p = u) s)" if "?J s" for s
  proof (rule others_kept_delete_posts)
    have "keys_ok s" using that by (simp add: others_kept_def)
    then show "w = v" if "p \<in> set (w_posts s)" "p_ap_id p = u" "(p_actor_id p, w) \<in> authors s" for p w
      using that authored_byD \<open>?J s\<close> by blast
  qed (use that in simp)
  then have del: "leads ?J (delete_post_stmt u) ?I"
    by (simp add: leads_def delete_post_stmt_def execute_def snd_stmt Let_def)
  have q: "keeps ?J (post_id_by_ap_id u)"
    by (auto simp: post_id_by_ap_id_def query_def intro!: statement_keeps)
  have r: "keeps ?J (case i of None \<Rightarrow> ret () | Some n \<Rightarrow> ignore_errors (enqueue_removal ''posts'' (show_nat n)))" for i
    by (auto simp: enqueue_removal_def intro!: statement_keeps keeps_ignore_errors split: option.split)
  have "leads ?I (delete_owned_post a u) ?I"
    unfolding delete_owned_post_def
  proof (rule leads_bindE [where K = "\<lambda>x s. others_kept v C s \<and> (x \<longrightarrow> authored_by u v s)"])
    show "leads ?I (query (authored_by u (act_actor a))) ?I"
      by (rule leads_weaken) (auto intro: others_base.keeps_query)
    show "leads (\<lambda>s. others_kept v C s \<and> (x \<longrightarrow> authored_by u v s)) (if \<not> x then ret ()
        else bindE (post_id_by_ap_id u) (\<lambda>indexed_id.
             bindE (case indexed_id of None \<Rightarrow> ret ()
               | Some post_id \<Rightarrow> ignore_errors (enqueue_removal ''posts'' (show_nat post_id)))
               (\<lambda>_. delete_post_stmt u))) ?I" for x
      by (cases x) (auto intro!: leads_seq [OF q] leads_seq [OF r] del leads_weaken [OF keeps_ret])
  qed (use assms in \<open>auto simp: query_Inr\<close>)
  then show ?thesis by (simp add: keeps_def leads_def)
qed

lemma others_handle_delete:
  assumes "act_actor a = v"
  shows "keeps (others_kept v C) (handle_delete E a)"
proof -
  let ?I = "others_kept v C"
  let ?J = "\<lambda>i s. others_kept v C s \<and> (\<exists>r\<in>set (w_actors s). a_id r = i \<and> a_ap_id r = v)"
  have rem: "keeps (?J i) (enqueue_removal x y)" for i x y
    by (auto simp: enqueue_removal_def intro!: statement_keeps)
  have "leads (?J i) (delete_remote_actor_stmt i) ?I" for i
    by (auto simp: leads_def delete_remote_actor_stmt_def execute_def snd_stmt Let_def intro!: others_kept_delete_actor)
  then have gone: "leads (?J i) (bindE (ignore_errors (enqueue_removals_for_actor i)) (\<lambda>_.
      bindE (insert_tombstone u) (\<lambda>_. delete_remote_actor_stmt i))) ?I" for i u
    by (intro leads_seq)
      (auto simp: enqueue_removals_for_actor_def insert_tombstone_def query_def
        intro!: statement_keeps keeps_ignore_errors keeps_for_each rem)
  have found: "leads ?I (bindE (find_by_ap_id E v) f) ?I"
    if f: "\<And>x. leads (\<lambda>s. ?I s \<and> (\<forall>y. x = Some y \<longrightarrow> ?J (a_id y) s)) (f x) ?I" for f
  proof (rule leads_bindE [OF _ _ f])
    show "leads ?I (find_by_ap_id E v) ?I"
      by (rule leads_weaken) (auto intro: others_base.keeps_find)
    show "?I s' \<and> (\<forall>y. x = Some y \<longrightarrow> ?J (a_id y) s')" if "?I s" "find_by_ap_id E v s = (Inr x, s')" for s x s'
      using that row_by_ap_id_SomeD [of v s]
      by (auto simp: find_by_ap_id_Inr opt_actor_Some into_actor_fields(1)) blast
  qed
  have owned: "leads J (delete_owned_post a u) ?I" if "\<And>s. J s \<Longrightarrow> ?I s" for J u
    by (rule leads_weaken [OF others_delete_owned [OF assms] that])
  have "leads ?I (bindE (find_by_ap_id E v) (\<lambda>found. case found of
        Some remote_actor \<Rightarrow> if \<not> a_is_local remote_actor then
            bindE (ignore_errors (enqueue_removals_for_actor (a_id remote_actor))) (\<lambda>_.
            bindE (insert_tombstone v) (\<lambda>_. delete_remote_actor_stmt (a_id remote_actor)))
          else delete_owned_post a v
      | None \<Rightarrow> delete_owned_post a v)) ?I"
  proof (rule found)
    fix x
    show "leads (\<lambda>s. ?I s \<and> (\<forall>y. x = Some y \<longrightarrow> ?J (a_id y) s)) (case x of
        Some remote_actor \<Rightarrow> if \<not> a_is_local remote_actor then
            bindE (ignore_errors (enqueue_removals_for_actor (a_id remote_actor))) (\<lambda>_.
            bindE (insert_tombstone v) (\<lambda>_. delete_remote_actor_stmt (a_id remote_actor)))
          else delete_owned_post a v
      | None \<Rightarrow> delete_owned_post a v) ?I"
      using gone [where u = v] owned by (cases x) (auto simp: leads_def)
  qed
  then have "keeps ?I (bindE (find_by_ap_id E v) (\<lambda>found. case found of
        Some remote_actor \<Rightarrow> if \<not> a_is_local remote_actor then
            bindE (ignore_errors (enqueue_removals_for_actor (a_id remote_actor))) (\<lambda>_.
            bindE (insert_tombstone v) (\<lambda>_. delete_remote_actor_stmt (a_id remote_actor)))
          else delete_owned_post a v
      | None \<Rightarrow> delete_owned_post a v))"
    by (simp add: keeps_def leads_def)
  then show ?thesis
    unfolding handle_delete_def assms
    by (auto intro!: keeps_bindE keeps_ok_or others_delete_owned assms)
qed

interpretation others: inbox_invariant "others_kept v C" E v for v C and E :: "('u, 'z) env_scheme"
proof (unfold_locales, goal_cases)
  case (1 e u)
  then show ?case by (intro keepsI others_kept_edit)
next
  case (2 a)
  then show ?case by (rule others_handle_delete)
next
  case (3 u)
  show ?case
    by (intro keeps_bindE others_base.keeps_resolve_actor keeps_ret)
      (auto simp: set_moved_to_def intro!: statement_keeps others_kept_map_actors)
qed

end
