(* ===== verification/InboxRoute.thy ===== *)
theory InboxRoute
  imports InboxSafety
begin

text \<open>
  The inbox routes of \<open>noombat-api/src/routes/federation.rs\<close>: the HTTP signature, the body
  digest, the domain restrictions and the rate limit in front of \<open>process_activity\<close>.  The
  signature library, RSA, the base64 of the digest and the rate limiter are the fields of
  \<open>route_env\<close>.  Headers are in the order \<open>HeaderMap\<close> iterates over them, names in lower case.
\<close>

section \<open>Requests\<close>

record route_env =
  rt_domain :: string
  begin_verify :: "string \<Rightarrow> (string \<rightharpoonup> string) \<Rightarrow> (string \<times> string \<times> string) option"
  rsa_verify :: "string \<Rightarrow> string \<Rightarrow> string \<Rightarrow> bool"
  base64_encode :: "string \<Rightarrow> string"
  rate_allowed :: "nat \<Rightarrow> string \<Rightarrow> bool"

text \<open>
  \<open>begin_verify\<close> is given the path and the headers and answers with the key identifier, the
  signature and the string it signs.
\<close>

record inbound =
  rq_path :: string
  rq_headers :: "(string \<times> string) list"
  rq_body :: string

text \<open>\<open>HeaderValue::to_str\<close> reads visible ASCII only.\<close>

definition header_text :: "string \<Rightarrow> string option" where
  "header_text v = (if list_all (\<lambda>c. (32 \<le> byte c \<and> byte c < 127) \<or> byte c = 9) v then Some v else None)"

definition header_str :: "string \<Rightarrow> (string \<times> string) list \<Rightarrow> string option" where
  "header_str name headers = Option.bind (map_of headers name) header_text"

text \<open>The map the signature library is given: a later value of a name replaces an earlier one.\<close>

definition sig_headers :: "(string \<times> string) list \<Rightarrow> (string \<rightharpoonup> string)" where
  "sig_headers headers = foldl (\<lambda>m (name, v). case header_text v of
     None \<Rightarrow> m | Some t \<Rightarrow> m(name \<mapsto> t)) Map.empty headers"

definition content_type_ok :: "string \<Rightarrow> bool" where
  "content_type_ok ct = (let ct_lower = to_ascii_lowercase ct in
     prefix ''application/activity+json'' ct_lower \<or> prefix ''application/ld+json'' ct_lower
     \<or> prefix ''application/json'' ct_lower)"

definition digest_sha256 :: "route_env \<Rightarrow> ('u, 'z) env_scheme \<Rightarrow> string \<Rightarrow> string" where
  "digest_sha256 R E body = base64_encode R (sha256 E body)"

section \<open>Verification before dispatch\<close>

text \<open>Everything that needs no database: the key, the signature and the string it covers.\<close>

definition check_request ::
  "route_env \<Rightarrow> ('u, 'z) env_scheme \<Rightarrow> inbound \<Rightarrow> (string \<times> string \<times> string) result" where
  "check_request R E rq =
    (case (case header_str ''content-type'' (rq_headers rq) of
         None \<Rightarrow> True | Some ct \<Rightarrow> content_type_ok ct) of
       False \<Rightarrow> Inl (BadRequest (''unsupported Content-Type: ''
          @ (case header_str ''content-type'' (rq_headers rq) of None \<Rightarrow> [] | Some ct \<Rightarrow> ct)
          @ ''; expected application/activity+json or application/ld+json''))
     | True \<Rightarrow> (case begin_verify R (rq_path rq) (sig_headers (rq_headers rq)) of
         None \<Rightarrow> Inl SignatureVerification
       | Some unverified \<Rightarrow>
           (case Option.bind (header_str ''digest'' (rq_headers rq)) (strip_prefix ''SHA-256='') of
              None \<Rightarrow> Inl SignatureVerification
            | Some expected_digest \<Rightarrow>
                if expected_digest \<noteq> digest_sha256 R E (rq_body rq) then Inl SignatureVerification
                else Inr unverified)))"

text \<open>A failed query counts as no restriction.\<close>

definition check_restriction :: "string \<Rightarrow> unit prog" where
  "check_restriction actor_uri = (case extract_domain actor_uri of
     None \<Rightarrow> ret ()
   | Some sending_domain \<Rightarrow>
       bindE (attempt (query (\<lambda>s. map_of (w_restrictions s) sending_domain))) (\<lambda>r.
       if r = Inr (Some ''block'') then throw Forbidden else ret ()))"

definition rate_limit :: "route_env \<Rightarrow> string \<Rightarrow> unit prog" where
  "rate_limit R key = (\<lambda>s. let s' = s\<lparr>w_tick := Suc (w_tick s)\<rparr> in
     if rate_allowed R (w_tick s) key then (Inr (), s')
     else (Inl (ServiceUnavailable ''federation rate limit exceeded''), s'))"

definition addresses_local_actor :: "activity \<Rightarrow> string \<Rightarrow> bool" where
  "addresses_local_actor a domain =
    list_ex (\<lambda>addr. addr = AS_PUBLIC \<or> eq_ignore_ascii_case addr ''Public''
        \<or> prefix (''https://'' @ domain @ ''/'') addr)
      ((case act_to a of None \<Rightarrow> [] | Some t \<Rightarrow> t) @ (case act_cc a of None \<Rightarrow> [] | Some t \<Rightarrow> t))"

definition parse_activity :: "('u, 'z) env_scheme \<Rightarrow> string \<Rightarrow> activity result" where
  "parse_activity E body = (case parse_struct E body of
     Inl e \<Rightarrow> Inl (BadRequest (''invalid JSON: '' @ e))
   | Inr v \<Rightarrow> (case activity_from_value v of
       None \<Rightarrow> Inl (BadRequest ''invalid JSON: not an activity'') | Some a \<Rightarrow> Inr a))"

definition parse_document :: "('u, 'z) env_scheme \<Rightarrow> string \<Rightarrow> json result" where
  "parse_document E body = (case parse_value E body of
     Inl e \<Rightarrow> Inl (BadRequest (''invalid JSON: '' @ e)) | Inr v \<Rightarrow> Inr v)"

definition process_body ::
  "route_env \<Rightarrow> ('u, 'z) env_scheme \<Rightarrow> inbound \<Rightarrow> string \<Rightarrow> unit prog" where
  "process_body R E rq signer =
    bindE (of_result (parse_document E (rq_body rq))) (\<lambda>document.
    bindE (of_result (parse_activity E (rq_body rq))) (\<lambda>a.
    if rq_path rq = ''/inbox'' \<and> \<not> addresses_local_actor a (rt_domain R) then
      throw (BadRequest ''shared inbox: activity does not address any local actor'')
    else process_activity E signer document a))"

definition verify_and_process_inbound ::
  "route_env \<Rightarrow> ('u, 'z) env_scheme \<Rightarrow> inbound \<Rightarrow> unit prog" where
  "verify_and_process_inbound R E rq =
    bindE (of_result (check_request R E rq)) (\<lambda>(key_id, signature, signing_string).
    let actor_uri = strip_fragment key_id in
    bindE (check_restriction actor_uri) (\<lambda>_.
    bindE (resolve_signer_by_key_id E key_id) (\<lambda>remote_actor.
    if \<not> rsa_verify R (a_public_key_pem remote_actor) signature signing_string then throw SignatureVerification
    else
      bindE (rate_limit R (''rl:fed:'' @ (case extract_domain actor_uri of None \<Rightarrow> ''unknown'' | Some d \<Rightarrow> d))) (\<lambda>_.
      process_body R E rq (a_ap_id remote_actor)))))"

definition shared_inbox_handler :: "route_env \<Rightarrow> ('u, 'z) env_scheme \<Rightarrow> inbound \<Rightarrow> unit prog" where
  "shared_inbox_handler R E rq = verify_and_process_inbound R E (rq\<lparr>rq_path := ''/inbox''\<rparr>)"

definition inbox_handler :: "route_env \<Rightarrow> ('u, 'z) env_scheme \<Rightarrow> string \<Rightarrow> inbound \<Rightarrow> unit prog" where
  "inbox_handler R E username rq =
    bindE (find_local_by_username E username) (\<lambda>_.
    verify_and_process_inbound R E (rq\<lparr>rq_path := ''/users/'' @ username @ ''/inbox''\<rparr>))"

text \<open>Deliveries one after the other; an error of one does not stop the next.\<close>

definition deliver_all :: "route_env \<Rightarrow> ('u, 'z) env_scheme \<Rightarrow> inbound list \<Rightarrow> world \<Rightarrow> world" where
  "deliver_all R E rqs s = fold (\<lambda>rq t. snd (verify_and_process_inbound R E rq t)) rqs s"

section \<open>The signer\<close>

lemma resolve_inbound_signer_row:
  "resolve_inbound_signer E u s = (Inr x, s') \<Longrightarrow>
     \<exists>r\<in>set (w_actors s'). into_actor E r = Inr x \<and> \<not> a_is_local r"
  by (auto simp: resolve_inbound_signer_def bindE_Inr dest!: resolve_actor_row split: if_splits)
    (metis into_actor_fields(3))+

lemma find_by_public_key_id_row:
  "find_by_public_key_id E k s = (Inr (Some x), s') \<Longrightarrow>
     \<exists>r\<in>set (w_actors s'). into_actor E r = Inr x \<and> a_public_key_id r = Some k"
  by (auto simp: find_by_public_key_id_def bindE_Inr query_Inr of_result_def opt_actor_Some dest!: find_SomeD)

text \<open>The signer of an inbound request is the actor of a remote row.\<close>

definition remote_signer :: "actor \<Rightarrow> ('u, 'z) env_scheme \<Rightarrow> world \<Rightarrow> bool" where
  "remote_signer x E s = list_ex (\<lambda>r. into_actor E r = Inr x \<and> \<not> a_is_local r) (w_actors s)"

lemma yields_inbound_signer: "yields P (resolve_inbound_signer E u) (\<lambda>x. remote_signer x E)"
  by (auto simp: yields_def remote_signer_def list_ex_iff dest: resolve_inbound_signer_row)

lemma yields_throw: "yields P (throw e) Q"
  by (simp add: yields_def)

lemma yields_key_document: "yields P (signer_by_key_document E w e) (\<lambda>x. remote_signer x E)"
proof -
  have "yields (\<lambda>_. True) (case own of Inr ow \<Rightarrow> resolve_inbound_signer E ow
      | Inl e' \<Rightarrow> if e' = Database then throw e' else throw e) (\<lambda>x. remote_signer x E)" for own
    by (cases own) (simp_all add: yields_inbound_signer yields_throw)
  then show ?thesis
    unfolding signer_by_key_document_def by (rule yields_bindE [rotated]) (simp add: yields_def)
qed

lemma yields_signer_by_uri: "yields P (signer_by_uri E w) (\<lambda>x. remote_signer x E)"
  unfolding signer_by_uri_def
proof (rule yields_bindE [where R = "\<lambda>d t. \<forall>a. d = Inr a \<longrightarrow> remote_signer a E t"])
  show "yields P (attempt (resolve_inbound_signer E w)) (\<lambda>d t. \<forall>a. d = Inr a \<longrightarrow> remote_signer a E t)"
    using yields_inbound_signer [of P E w] by (auto simp: yields_def)
  show "yields (\<lambda>t. \<forall>a. d = Inr a \<longrightarrow> remote_signer a E t) (case d of Inr a \<Rightarrow> ret a
      | Inl e \<Rightarrow> if e = Forbidden \<or> e = Database then throw e else signer_by_key_document E w e)
      (\<lambda>x. remote_signer x E)" for d
    by (cases d) (auto simp: yields_throw yields_key_document, simp add: yields_def)
qed

lemma resolve_signer_row:
  assumes "resolve_signer_by_key_id E k s = (Inr x, s')"
  shows "remote_signer x E s'"
proof -
  obtain c t where c: "find_by_public_key_id E k s = (Inr c, t)"
    and m: "(case c of Some c \<Rightarrow> if \<not> a_is_local c then ret c else signer_by_uri E (strip_fragment k)
        | None \<Rightarrow> signer_by_uri E (strip_fragment k)) t = (Inr x, s')"
    using assms by (auto simp: resolve_signer_by_key_id_def bindE_Inr)
  show ?thesis
  proof (cases "\<exists>y. c = Some y \<and> \<not> a_is_local y")
    case True
    then show ?thesis using c m
      by (auto simp: remote_signer_def list_ex_iff into_actor_fields(3) dest!: find_by_public_key_id_row)
  next
    case False
    with m have "signer_by_uri E (strip_fragment k) t = (Inr x, s')" by (auto split: option.splits)
    then show ?thesis using yieldsD [OF yields_signer_by_uri [of "\<lambda>_. True" E "strip_fragment k"]] by blast
  qed
qed

section \<open>What a request cannot do\<close>

lemma leads_keeps: "keeps J m \<Longrightarrow> (\<And>s. J s \<Longrightarrow> I s) \<Longrightarrow> leads J m I"
  by (auto simp: leads_def keeps_def)

text \<open>An invariant of the inbox is one of the route, signer and all.\<close>

context inbox_invariant
begin

lemma keeps_process_body: "keeps I (process_body R E rq v)"
  unfolding process_body_def by (intro keeps_intros keeps_process_activity)

end

context world_invariant
begin

lemma keeps_rate_limit: "keeps I (rate_limit R key)"
  by (auto simp: keeps_def rate_limit_def Let_def intro: tick)

lemma keeps_check_restriction: "keeps I (check_restriction u)"
  unfolding check_restriction_def by (intro keeps_intros keeps_query)

end

context statement_invariant
begin

lemma keeps_request: "keeps I (verify_and_process_inbound R E rq)"
proof -
  have "keeps I (process_body R E rq v)" for v
    by (rule inbox.keeps_process_body)
  then show ?thesis
    unfolding verify_and_process_inbound_def Let_def
    by (intro keeps_intros keeps_check_restriction keeps_rate_limit keeps_resolve_signer)
qed

lemma deliver_all_keeps: "I s \<Longrightarrow> I (deliver_all R E rqs s)"
  unfolding deliver_all_def
  by (induction rqs arbitrary: s) (auto intro: keepsD [OF keeps_request])

end

definition local_rows :: "world \<Rightarrow> actor_row list" where
  "local_rows s = filter a_is_local (w_actors s)"

lemma local_kept_iff: "local_kept v rows s \<longleftrightarrow> keys_ok s \<and> local_rows s = rows \<and> (\<forall>a\<in>set rows. a_ap_id a \<noteq> v)"
  by (simp add: local_kept_def local_rows_def)

lemma fresh_ap_id: "\<exists>v. \<forall>a\<in>set (rows :: actor_row list). a_ap_id a \<noteq> v"
  using ex_new_if_finite [OF infinite_UNIV_listI, of "a_ap_id ` set rows"] by auto (metis imageI)

lemma request_keeps_local:
  assumes "keys_ok s"
  shows "local_rows (snd (verify_and_process_inbound R E rq s)) = local_rows s
    \<and> keys_ok (snd (verify_and_process_inbound R E rq s))"
proof -
  define rows where "rows = local_rows s"
  let ?I = "\<lambda>s. keys_ok s \<and> local_rows s = rows"
  obtain v0 where v0: "\<forall>a\<in>set rows. a_ap_id a \<noteq> v0" using fresh_ap_id by blast
  let ?J = "local_kept v0 rows"
  have rest: "leads (local_kept v rows) (if c then throw e else bindE (rate_limit R k) (\<lambda>_. process_body R E rq v)) ?I"
    for v c e k
    by (rule leads_keeps, intro keeps_if keeps_throw keeps_bindE local_base.keeps_rate_limit
        local_guard.keeps_process_body) (simp add: local_kept_iff)
  have signed: "leads ?J (bindE (resolve_signer_by_key_id E k) (\<lambda>x. if c x then throw e
      else bindE (rate_limit R w) (\<lambda>_. process_body R E rq (a_ap_id x)))) ?I" for k c e w
  proof (rule leads_bindE [where K = "\<lambda>x. local_kept (a_ap_id x) rows", OF _ _ rest])
    show "leads ?J (resolve_signer_by_key_id E k) ?I"
      by (rule leads_keeps [OF local_base.keeps_resolve_signer(3)]) (simp add: local_kept_iff)
    fix t x t'
    assume J: "?J t" and x: "resolve_signer_by_key_id E k t = (Inr x, t')"
    have J': "?J t'" using keepsD [OF local_base.keeps_resolve_signer(3) J, of E k] x by simp
    obtain r where r: "r \<in> set (w_actors t')" "\<not> a_is_local r" "a_ap_id x = a_ap_id r"
      using resolve_signer_row [OF x] by (auto simp: remote_signer_def list_ex_iff into_actor_fields(2))
    have "a \<in> set rows \<Longrightarrow> a_ap_id a \<noteq> a_ap_id r" for a
      using J' r(1,2) keys_ok_inj(2) [of t' a r] by (auto simp: local_kept_iff local_rows_def)
    then show "local_kept (a_ap_id x) rows t'" using J' r(3) by (auto simp: local_kept_iff)
  qed
  have "leads ?J (verify_and_process_inbound R E rq) ?I"
    unfolding verify_and_process_inbound_def Let_def
  proof (intro leads_seq)
    show "leads ?J (case u of (key_id, signature, signing_string) \<Rightarrow>
      bindE (check_restriction (strip_fragment key_id)) (\<lambda>_.
      bindE (resolve_signer_by_key_id E key_id) (\<lambda>remote_actor.
      if \<not> rsa_verify R (a_public_key_pem remote_actor) signature signing_string then throw SignatureVerification
      else bindE (rate_limit R (''rl:fed:'' @ (case extract_domain (strip_fragment key_id) of
             None \<Rightarrow> ''unknown'' | Some d \<Rightarrow> d))) (\<lambda>_. process_body R E rq (a_ap_id remote_actor))))) ?I" for u
      by (cases u) (auto intro!: leads_seq [OF local_base.keeps_check_restriction] signed simp: local_kept_iff)
  qed (simp_all add: keeps_of_result local_kept_iff)
  moreover have "?J s" using assms v0 by (simp add: local_kept_iff rows_def)
  ultimately show ?thesis by (auto simp: leads_def rows_def)
qed

end
