(* ===== verification/InboxBehaviour.thy ===== *)
theory InboxBehaviour
  imports MoveFlag
begin

text \<open>
  What the handlers do when the database answers and the actors they need are cached: total
  statements, each giving the result and the tables afterwards.
\<close>

section \<open>Running a handler\<close>

definition tick :: "world \<Rightarrow> world" where
  "tick s = s\<lparr>w_tick := Suc (w_tick s)\<rparr>"

text \<open>\<open>knows E u x s\<close>: the actor \<open>u\<close> is cached and reads as \<open>x\<close>; likewise for a local account.\<close>

definition knows :: "('u, 'z) env_scheme \<Rightarrow> string \<Rightarrow> actor \<Rightarrow> world \<Rightarrow> bool" where
  "knows E u x s = (case row_by_ap_id u s of None \<Rightarrow> False | Some r \<Rightarrow> into_actor E r = Inr x)"

definition knows_local :: "('u, 'z) env_scheme \<Rightarrow> string \<Rightarrow> actor \<Rightarrow> world \<Rightarrow> bool" where
  "knows_local E name x s = (case List.find (\<lambda>a. a_username a = name \<and> a_is_local a) (w_actors s) of
     None \<Rightarrow> False | Some r \<Rightarrow> into_actor E r = Inr x)"

named_theorems run_simps

lemma no_fault_tick [run_simps]: "no_fault (tick s) = no_fault s"
  by (simp add: no_fault_def tick_def)

lemma tick_fields [run_simps]:
  "w_actors (tick s) = w_actors s" "w_follows (tick s) = w_follows s" "w_likes (tick s) = w_likes s"
  "w_boosts (tick s) = w_boosts s" "w_blocks (tick s) = w_blocks s" "w_posts (tick s) = w_posts s"
  "w_post_hashtags (tick s) = w_post_hashtags s" "w_tombstones (tick s) = w_tombstones s"
  "w_relays (tick s) = w_relays s" "w_deliveries (tick s) = w_deliveries s"
  "w_search_ops (tick s) = w_search_ops s" "w_media_ops (tick s) = w_media_ops s"
  "w_reports (tick s) = w_reports s" "w_next_id (tick s) = w_next_id s" "w_now (tick s) = w_now s"
  "w_log (tick s) = w_log s"
  by (simp_all add: tick_def)

lemma reads_of_actors:
  assumes "w_actors t = w_actors s"
  shows "knows E u x t = knows E u x s" "knows_local E n x t = knows_local E n x s"
    "actor_exists i t = actor_exists i s" "row_by_ap_id u t = row_by_ap_id u s"
  using assms by (simp_all add: knows_def knows_local_def actor_exists_def row_by_ap_id_def)

lemma reads_of_posts:
  assumes "w_posts t = w_posts s"
  shows "post_exists i t = post_exists i s" "post_by_ap_id u t = post_by_ap_id u s"
  using assms by (simp_all add: post_exists_def post_by_ap_id_def)

lemma reads_tick [run_simps]:
  "knows E u x (tick s) = knows E u x s" "knows_local E n x (tick s) = knows_local E n x s"
  "actor_exists i (tick s) = actor_exists i s" "row_by_ap_id u (tick s) = row_by_ap_id u s"
  "post_exists i (tick s) = post_exists i s" "post_by_ap_id u (tick s) = post_by_ap_id u s"
  using reads_of_actors [of "tick s" s] reads_of_posts [of "tick s" s] by (simp_all add: tick_fields)

lemma query_run: "no_fault s \<Longrightarrow> query f s = (Inr (f (tick s)), tick s)"
  by (simp add: query_ok tick_def)

lemma execute_run: "no_fault s \<Longrightarrow> execute f s = (Inr (), f (tick s))"
  by (simp add: execute_ok tick_def)

lemma execute_if_run: "no_fault s \<Longrightarrow> ok (tick s) \<Longrightarrow> execute_if ok f s = (Inr (), f (tick s))"
  by (simp add: execute_if_def stmt_def no_fault_def tick_def Let_def)

lemma resolve_actor_run:
  "no_fault s \<Longrightarrow> knows E u x s \<Longrightarrow> resolve_actor E u s = (Inr x, tick s)"
  by (auto simp: resolve_actor_def find_by_ap_id_def bindE_def query_run of_result_def opt_actor_def knows_def
      ret_def run_simps split: option.splits)

lemma find_local_run:
  "no_fault s \<Longrightarrow> knows_local E n x s \<Longrightarrow> find_local_by_username E n s = (Inr x, tick s)"
  by (auto simp: find_local_by_username_def bindE_def query_run of_result_def knows_local_def
      run_simps split: option.splits)

lemma knows_exists: "knows E u x s \<Longrightarrow> actor_exists (a_id x) s \<and> a_ap_id x = u"
  by (auto simp: knows_def actor_exists_def list_ex_iff into_actor_fields
      dest!: row_by_ap_id_SomeD split: option.splits)

lemma knows_local_exists:
  "knows_local E n x s \<Longrightarrow> actor_exists (a_id x) s \<and> a_is_local x \<and> a_username x = n"
  by (auto simp: knows_local_def actor_exists_def list_ex_iff into_actor_fields
      dest!: find_SomeD split: option.splits)

definition follows_pair :: "uuid \<Rightarrow> uuid \<Rightarrow> follow_row \<Rightarrow> bool" where
  "follows_pair i j f = (f_follower f = i \<and> f_following f = j)"

lemma follows_pair_lambda: "(\<lambda>f. f_follower f = i \<and> f_following f = j) = follows_pair i j"
  by (simp add: fun_eq_iff follows_pair_def)

text \<open>The four facts a handler for a local target starts from.\<close>

definition parties :: "('u, 'z) env_scheme \<Rightarrow> string \<Rightarrow> actor \<Rightarrow> string \<Rightarrow> actor \<Rightarrow> world \<Rightarrow> bool" where
  "parties E u x target y s = (no_fault s \<and> knows E u x s
     \<and> (case extract_local_username target of None \<Rightarrow> False | Some name \<Rightarrow> knows_local E name y s))"

lemma parties_run:
  assumes "parties E u x target y s"
  obtains name where "extract_local_username target = Some name" "no_fault s"
    "resolve_actor E u s = (Inr x, tick s)"
    "find_local_by_username E name (tick s) = (Inr y, tick (tick s))"
    "actor_exists (a_id x) s" "actor_exists (a_id y) s" "a_ap_id x = u"
  using assms knows_exists [of E u x s] knows_local_exists [of E _ y s]
  by (auto simp: parties_def resolve_actor_run find_local_run run_simps split: option.splits)

section \<open>Follow and its undoing\<close>

definition new_follow :: "activity \<Rightarrow> actor \<Rightarrow> actor \<Rightarrow> follow_row" where
  "new_follow a x y = \<lparr>f_follower = a_id x, f_following = a_id y, f_ap_id = Some (act_id a),
     f_accepted = (\<not> require_follow_approval (a_privacy y))\<rparr>"

definition accept_delivery :: "activity \<Rightarrow> actor \<Rightarrow> actor \<Rightarrow> world \<Rightarrow> delivery_row" where
  "accept_delivery a x y s = \<lparr>d_id = w_queue_seq s, d_actor_id = a_id y,
     d_payload = accept_activity a y x (w_now s), d_target_inbox = inbox_or_default x,
     d_attempts = 0, d_next_retry = w_now s\<rparr>"

lemma handle_follow_run:
  assumes "parties E (act_actor a) x target y s" and "act_object a = JStr target"
    and "\<not> list_ex (follows_pair (a_id x) (a_id y)) (w_follows s)"
  shows "\<exists>s'. handle_follow E a s = (Inr (), s') \<and> w_follows s' = w_follows s @ [new_follow a x y]
    \<and> w_deliveries s' = w_deliveries s @ (if require_follow_approval (a_privacy y) then []
        else [accept_delivery a x y s])
    \<and> w_actors s' = w_actors s \<and> no_fault s'"
proof -
  obtain name where n: "extract_local_username target = Some name" "no_fault s"
      "resolve_actor E (act_actor a) s = (Inr x, tick s)"
      "find_local_by_username E name (tick s) = (Inr y, tick (tick s))"
      "actor_exists (a_id x) s" "actor_exists (a_id y) s"
    using parties_run [OF assms(1)] by metis
  let ?t = "tick (tick (tick s))" and ?ok = "\<not> require_follow_approval (a_privacy y)"
  let ?f = "?t\<lparr>w_follows := w_follows s @ [new_follow a x y]\<rparr>"
  have "create_follow_with_ap_id (a_id x) (a_id y) ?ok (Some (act_id a)) (tick (tick s)) = (Inr (), ?f)"
    unfolding create_follow_with_ap_id_def
    by (subst execute_if_run) (use n assms(3) in \<open>simp_all add: run_simps follows_pair_lambda new_follow_def\<close>)
  moreover have "enqueue_delivery (a_id y) (accept_activity a y x (w_now s)) (inbox_or_default x) ?f
      = (Inr (), (tick ?f)\<lparr>w_deliveries := w_deliveries s @ [accept_delivery a x y s], w_queue_seq := Suc (w_queue_seq s)\<rparr>)"
    unfolding enqueue_delivery_def
    by (subst execute_if_run) (use n in \<open>simp_all add: run_simps accept_delivery_def no_fault_def tick_def actor_exists_def\<close>)
  ultimately show ?thesis
    using n(1-4) assms(2)
    by (simp add: handle_follow_def object_str_def bindE_run Let_def gets_def ret_def run_simps)
      (simp add: tick_def no_fault_def)
qed

lemma handle_undo_follow_run:
  assumes "parties E (act_actor u) x target y s" and "get_str ''type'' (act_object u) = Some ''Follow''"
    and "get_str ''object'' (act_object u) = Some target" and "get_str ''id'' (act_object u) = Some follow_id"
  shows "\<exists>s'. handle_undo E u s = (Inr (), s') \<and> no_fault s'
    \<and> w_follows s' = filter (\<lambda>f. \<not> (follows_pair (a_id x) (a_id y) f \<and> f_ap_id f = Some follow_id)) (w_follows s)"
proof -
  obtain name where n: "extract_local_username target = Some name" "no_fault s"
      "resolve_actor E (act_actor u) s = (Inr x, tick s)"
      "find_local_by_username E name (tick s) = (Inr y, tick (tick s))"
    using parties_run [OF assms(1)] by metis
  have "handle_undo E u s = delete_follow_with_ap_id (a_id x) (a_id y) follow_id (tick (tick s))"
    using n assms(2-4) by (simp add: handle_undo_def get_str_or_def undo_follow_def bindE_run Let_def)
  then show ?thesis
    using n(2) by (simp add: delete_follow_with_ap_id_def execute_run run_simps follows_pair_def)
      (simp add: no_fault_def tick_def)
qed

text \<open>A follow and its \<open>Undo\<close> leave the table of follows as it was.\<close>

lemma follow_undo_run:
  assumes "parties E (act_actor a) x target y s" and "act_object a = JStr target"
    and "\<not> list_ex (follows_pair (a_id x) (a_id y)) (w_follows s)"
    and "act_actor u = act_actor a" and "get_str ''type'' (act_object u) = Some ''Follow''"
    and "get_str ''object'' (act_object u) = Some target" and "get_str ''id'' (act_object u) = Some (act_id a)"
  shows "\<exists>s1 s2. handle_follow E a s = (Inr (), s1) \<and> handle_undo E u s1 = (Inr (), s2)
    \<and> list_ex (follows_pair (a_id x) (a_id y)) (w_follows s1) \<and> w_follows s2 = w_follows s"
proof -
  obtain s1 where s1: "handle_follow E a s = (Inr (), s1)" "w_follows s1 = w_follows s @ [new_follow a x y]"
      "w_actors s1 = w_actors s" "no_fault s1"
    using handle_follow_run [OF assms(1-3)] by blast
  have p: "parties E (act_actor u) x target y s1"
    using assms(1,4) s1(4) by (auto simp: parties_def reads_of_actors [OF s1(3)] split: option.splits)
  obtain s2 where "handle_undo E u s1 = (Inr (), s2)"
      "w_follows s2 = filter (\<lambda>f. \<not> (follows_pair (a_id x) (a_id y) f \<and> f_ap_id f = Some (act_id a))) (w_follows s1)"
    using handle_undo_follow_run [OF p assms(5,6,7)] by blast
  moreover have "filter (\<lambda>f. \<not> (follows_pair (a_id x) (a_id y) f \<and> f_ap_id f = Some (act_id a))) (w_follows s)
      = w_follows s"
    using assms(3) by (simp add: filter_id_conv list_ex_iff)
  ultimately show ?thesis
    using s1 by (auto simp: new_follow_def follows_pair_def)
qed

section \<open>Block\<close>

lemma handle_block_run:
  assumes "parties E (act_actor a) x target y s" and "object_uri a = Some target"
  shows "\<exists>s'. handle_block E a s = (Inr (), s')
    \<and> list_ex (\<lambda>b. b_actor b = a_id x \<and> b_target b = a_id y) (w_blocks s')
    \<and> w_follows s' = filter (\<lambda>f. \<not> follows_pair (a_id x) (a_id y) f \<and> \<not> follows_pair (a_id y) (a_id x) f) (w_follows s)"
proof -
  obtain name where n: "extract_local_username target = Some name" "no_fault s"
      "resolve_actor E (act_actor a) s = (Inr x, tick s)"
      "find_local_by_username E name (tick s) = (Inr y, tick (tick s))"
      "actor_exists (a_id x) s" "actor_exists (a_id y) s"
    using parties_run [OF assms(1)] by metis
  define i where "i = w_next_id s"
  define t where "t = (tick (tick s))\<lparr>w_next_id := Suc i\<rparr>"
  have u: "new_uuid (tick (tick s)) = (Inr i, t)"
    by (simp add: new_uuid_def t_def i_def run_simps)
  have t: "no_fault t" "w_actors t = w_actors s" "w_follows t = w_follows s"
    using n(2) by (simp_all add: t_def tick_def no_fault_def)
  obtain b where b: "insert_block i (a_id x) (a_id y) t = (Inr (), b)" "no_fault b" "w_follows b = w_follows s"
      "list_ex (\<lambda>b. b_actor b = a_id x \<and> b_target b = a_id y) (w_blocks b)"
    unfolding insert_block_def
    by (subst (asm) execute_if_run) (use n(5,6) t in \<open>auto simp: actor_exists_def no_fault_def tick_def\<close>)
  show ?thesis
    using n(1-4) assms(2) b
    by (simp add: handle_block_def bindE_run u delete_follow_def execute_run run_simps follows_pair_lambda)
      (auto simp: tick_def follows_pair_def no_fault_def execute_ok intro: filter_cong)
qed

section \<open>Delete of a post\<close>

definition delete_target :: "activity \<Rightarrow> string option" where
  "delete_target a = (case get_str ''id'' (act_object a) of Some i \<Rightarrow> Some i | None \<Rightarrow> as_str (act_object a))"

lemma handle_delete_not_self:
  assumes "delete_target a = Some u" and "u \<noteq> act_actor a"
  shows "handle_delete E a = delete_owned_post a u"
  using assms by (simp add: handle_delete_def delete_target_def)

lemma authored_by_tick [run_simps]: "authored_by u w (tick s) = authored_by u w s"
  by (simp add: authored_by_def tick_def)

lemma handle_delete_refused:
  assumes "no_fault s" and "delete_target a = Some u" and "u \<noteq> act_actor a" and "\<not> authored_by u (act_actor a) s"
  shows "handle_delete E a s = (Inr (), tick s)"
  using assms
  by (simp add: handle_delete_not_self delete_owned_post_def bindE_run query_run run_simps ret_def)

lemma post_by_ap_id_of_deletion [simp]: "post_by_ap_id u (delete_posts_where (\<lambda>p. p_ap_id p = u) s) = None"
  by (auto simp: post_by_ap_id_def find_None_iff delete_posts_where_def Let_def)

lemma removing_of_deletion [simp]: "removing i d (delete_posts_where P s) = removing i d s"
  by (simp add: removing_def doc_op_def delete_posts_where_def Let_def)

lemma handle_delete_run:
  assumes "no_fault s" and "delete_target a = Some u" and "u \<noteq> act_actor a" and "authored_by u (act_actor a) s"
    and "post_by_ap_id u s = Some p"
  shows "\<exists>s'. handle_delete E a s = (Inr (), s') \<and> post_by_ap_id u s' = None
    \<and> removing ''posts'' (show_nat (p_id p)) s'"
proof -
  obtain t where t: "enqueue_removal ''posts'' (show_nat (p_id p)) (tick (tick s)) = (Inr (), t)" "no_fault t"
    unfolding enqueue_removal_def
    by (subst (asm) execute_if_run)
      (use assms(1) in \<open>auto simp: run_simps index_ok_def put_op_def no_fault_def tick_def\<close>)
  have "handle_delete E a s = (Inr (), delete_posts_where (\<lambda>p. p_ap_id p = u) (tick t))"
    using assms t
    by (simp add: handle_delete_not_self delete_owned_post_def bindE_run query_run run_simps ret_def
        post_id_by_ap_id_def ignore_errors_def attempt_def delete_post_stmt_def execute_run)
  moreover have "removing ''posts'' (show_nat (p_id p)) (tick t)"
    using enqueue_removal_removing [OF t(1)] by (simp add: tick_def)
  ultimately show ?thesis by simp
qed

section \<open>Accept and Reject of a follow\<close>

lemma no_relay_accept:
  assumes "no_fault s" and "\<not> list_ex (\<lambda>r. rs_status r = ''pending'' \<and> relay_matches u r) (w_relays s)"
  shows "try_handle_relay_accept u s = (Inr False, tick s)"
proof -
  have "List.find (\<lambda>r. rs_status r = ''pending'' \<and> relay_matches u r) (w_relays s) = None"
    using assms(2) by (auto simp: find_None_iff list_ex_iff)
  then show ?thesis
    using assms(1) by (simp add: try_handle_relay_accept_def bindE_run query_run run_simps ret_def)
qed

text \<open>The parties of an answer: the signer \<open>x\<close> answers the local account \<open>y\<close>.\<close>

lemma answer_run:
  assumes "parties E u x follower y s"
  obtains name where "extract_local_username follower = Some name"
    "find_local_by_username E name s = (Inr y, tick s)" "resolve_actor E u (tick s) = (Inr x, tick (tick s))"
  using assms by (auto simp: parties_def resolve_actor_run find_local_run run_simps split: option.splits)

lemma handle_accept_run:
  assumes "parties E (act_actor a) x follower y s" and "get_str ''type'' (act_object a) = Some ''Follow''"
    and "get_str ''actor'' (act_object a) = Some follower"
    and "\<not> list_ex (\<lambda>r. rs_status r = ''pending'' \<and> relay_matches (act_actor a) r) (w_relays s)"
  shows "\<exists>s'. handle_accept E a s = (Inr (), s') \<and> w_follows s' = map (\<lambda>f.
     if follows_pair (a_id y) (a_id x) f then f\<lparr>f_accepted := True\<rparr> else f) (w_follows s)"
proof -
  have nf: "no_fault s" using assms(1) by (simp add: parties_def)
  have "parties E (act_actor a) x follower y (tick s)"
    using assms(1) by (auto simp: parties_def run_simps split: option.splits)
  then obtain name where n: "extract_local_username follower = Some name"
      "find_local_by_username E name (tick s) = (Inr y, tick (tick s))"
      "resolve_actor E (act_actor a) (tick (tick s)) = (Inr x, tick (tick (tick s)))"
    by (rule answer_run)
  have "handle_accept E a s = accept_follow (a_id y) (a_id x) (tick (tick (tick s)))"
    using assms(2,3) n no_relay_accept [OF nf assms(4)]
    by (simp add: handle_accept_def get_str_or_def bindE_run attempt_def)
  then show ?thesis
    using nf by (simp add: accept_follow_def execute_run run_simps follows_pair_def)
qed

lemma handle_reject_run:
  assumes "parties E (act_actor a) x follower y s" and "get_str ''type'' (act_object a) = Some ''Follow''"
    and "get_str ''actor'' (act_object a) = Some follower"
  shows "\<exists>s'. handle_reject E a s = (Inr (), s')
    \<and> w_follows s' = filter (\<lambda>f. \<not> follows_pair (a_id y) (a_id x) f) (w_follows s)"
proof -
  have nf: "no_fault s" using assms(1) by (simp add: parties_def)
  obtain name where n: "extract_local_username follower = Some name"
      "find_local_by_username E name s = (Inr y, tick s)"
      "resolve_actor E (act_actor a) (tick s) = (Inr x, tick (tick s))"
    using assms(1) by (rule answer_run)
  have "handle_reject E a s = delete_follow (a_id y) (a_id x) (tick (tick s))"
    using assms(2,3) n by (simp add: handle_reject_def get_str_or_def bindE_run)
  then show ?thesis
    using nf by (simp add: delete_follow_def execute_run run_simps follows_pair_def)
qed

end
