(* ===== verification/Samples.thy ===== *)
theory Samples
  imports InboxRoute InboxBehaviour
begin

text \<open>
  Concrete parameters and a small instance, on which the properties are exercised: URLs that
  are their own text, a resolver that answers with one public address, a network where
  nothing answers, and toy ciphers that satisfy what is documented of the real ones.
\<close>

section \<open>Ciphers\<close>

definition sample_tag :: string where
  "sample_tag = replicate 16 CHR ''t''"

definition sample_crypto :: crypto where
  "sample_crypto = \<lparr> c_key_ok = (\<lambda>k. length k = 32),
     c_encrypt = (\<lambda>k n p. Some (p @ sample_tag)),
     c_decrypt = (\<lambda>k n c. if suffix sample_tag c then Some (take (length c - 16) c) else None),
     c_b64_encode = (\<lambda>b. b), c_b64_decode = Some \<rparr>"

lemma sample_crypto_correct: "aead_correct sample_crypto"
  by (auto simp: aead_correct_def sample_crypto_def sample_tag_def suffix_def)

definition sample_sign :: "string \<Rightarrow> string \<Rightarrow> string" where
  "sample_sign secret m = take 64 (m @ replicate 64 CHR ''s'')"

definition sample_multibase :: string where
  "sample_multibase = CHR ''z'' # replicate 32 CHR ''k''"

fun sample_text :: "json \<Rightarrow> string" and sample_texts :: "json list \<Rightarrow> string"
  and sample_members :: "(string \<times> json) list \<Rightarrow> string" where
  "sample_text JNull = ''null''"
| "sample_text (JBool b) = (if b then ''true'' else ''false'')"
| "sample_text (JNum n) = ''number''"
| "sample_text (JStr s) = ''<'' @ s @ ''>''"
| "sample_text (JArr xs) = ''['' @ sample_texts xs @ '']''"
| "sample_text (JObj kvs) = ''{'' @ sample_members kvs @ ''}''"
| "sample_texts [] = []"
| "sample_texts (x # xs) = sample_text x @ '','' @ sample_texts xs"
| "sample_members [] = []"
| "sample_members ((k, v) # kvs) = k @ '':'' @ sample_text v @ '','' @ sample_members kvs"

section \<open>The environment\<close>

text \<open>Every body reads as the same activity.\<close>

definition sample_document :: json where
  "sample_document = JObj [(''id'', JStr ''https://far.example/activities/1''), (''type'', JStr ''Follow''),
     (''actor'', JStr ''https://far.example/users/bob''), (''object'', JStr ''https://home.example/users/alice'')]"

definition sample_env :: "string env" where
  "sample_env = \<lparr>
     url_parse = (\<lambda>u. if prefix ''https://'' u then Inr u else Inl ''relative URL without a base''),
     url_scheme = (\<lambda>u. ''https''),
     url_host_str = extract_domain,
     url_port = (\<lambda>u. None),
     url_path = (\<lambda>u. dropWhile (\<lambda>c. c \<noteq> CHR ''/'') (drop 8 u)),
     url_set_path = (\<lambda>p u. take 8 u @ takeWhile (\<lambda>c. c \<noteq> CHR ''/'') (drop 8 u) @ p),
     url_drop_fragment = takeWhile (\<lambda>c. c \<noteq> CHR ''#''),
     url_to_string = (\<lambda>u. u),
     url_username = (\<lambda>u. []),
     url_password = (\<lambda>u. None),
     net_dns = (\<lambda>log host. Inr [V4 (Ipv4 93 184 216 34)]),
     net_send = (\<lambda>log u. NetFail ''connection refused''),
     allow_local_targets = False,
     allow_unsigned_fetch = False,
     sign_request = (\<lambda>pem u. None),
     parse_value = (\<lambda>text. Inr sample_document),
     parse_struct = (\<lambda>text. Inr sample_document),
     show_ip = (\<lambda>ip. ''address''),
     show_status = show_nat,
     debug_str = (\<lambda>t. t),
     kek = None,
     aead = sample_crypto,
     clean_strict = filter (\<lambda>c. c \<noteq> CHR ''<''),
     to_lowercase = to_ascii_lowercase,
     jcs = (\<lambda>v. Some (sample_text v)),
     json_text = sample_text,
     sha256 = take 32,
     base58_encode = (\<lambda>b. b),
     base58_decode = Some,
     ed25519_sign = sample_sign,
     ed25519_key_ok = (\<lambda>k. length k = 32),
     ed25519_verify = (\<lambda>k m sig. sig = sample_sign k m),
     parse_rfc3339 = (\<lambda>t. Some 0),
     default_relay_policy = 1 \<rparr>"

lemma sample_signer: "signer_correct sample_env secret sample_multibase"
proof -
  have "decode_multibase_public_key sample_env sample_multibase = Some (replicate 32 CHR ''k'')"
    by (simp add: decode_multibase_public_key_def sample_env_def sample_multibase_def strip_prefix_def)
  then show ?thesis
    by (auto simp: signer_correct_def sample_env_def sample_sign_def)
qed

definition sample_route :: route_env where
  "sample_route = \<lparr> rt_domain = ''home.example'',
     begin_verify = (\<lambda>path headers. case headers ''signature'' of None \<Rightarrow> None
        | Some sig \<Rightarrow> (case headers ''digest'' of None \<Rightarrow> None
            | Some d \<Rightarrow> Some (''https://far.example/users/bob#main-key'', sig, d))),
     rsa_verify = (\<lambda>pem sig text. sig = ''sig:'' @ text),
     base64_encode = (\<lambda>b. b),
     rate_allowed = (\<lambda>n key. True) \<rparr>"

section \<open>An instance\<close>

definition bob_document :: remote_actor where
  "bob_document = \<lparr> ra_ap_id = ''https://far.example/users/bob'', ra_username = ''bob'',
     ra_domain = ''far.example'', ra_display_name = None, ra_summary_html = None, ra_sanitiser_version = 1,
     ra_public_key_pem = ''BOB KEY'', ra_public_key_id = Some ''https://far.example/users/bob#main-key'',
     ra_actor_type = ''individual'', ra_inbox_url = ''https://far.example/users/bob/inbox'',
     ra_shared_inbox_url = None, ra_ed25519_public_key = Some sample_multibase,
     ra_discoverable = True, ra_indexable = True \<rparr>"

definition bob :: actor_row where
  "bob = inserted_row bob_document Individual 2 0"

definition alice :: actor_row where
  "alice = (inserted_row bob_document Individual 1 0)
     \<lparr>a_ap_id := ''https://home.example/users/alice'', a_username := ''alice'', a_is_local := True,
      a_public_key_id := Some ''https://home.example/users/alice#main-key'',
      a_ed25519_public_key := None\<rparr>"

definition sample_post :: "uuid \<Rightarrow> uuid \<Rightarrow> string \<Rightarrow> post_row" where
  "sample_post i author ap_id =
    \<lparr> p_id = i, p_actor_id = author, p_ap_id = ap_id, p_post_type = ''note'', p_title = None,
      p_featured_image_url = None, p_featured_image_alt = None, p_sensitive = False, p_content_md = None,
      p_content_html = ''<p>hello</p>'', p_sanitiser_version = 1, p_in_reply_to = None, p_canonical_uri = None,
      p_visibility = ''public'', p_ap_object = JNull, p_integrity_proof_verified = None,
      p_relayed_unverified = False \<rparr>"

definition sample_accounts :: account_tables where
  "sample_accounts = \<lparr>at_sessions = [], at_challenges = [], at_totp = [], at_members = [],
     at_enrolments = [], at_settings = None\<rparr>"

definition sample_jobs :: job_tables where
  "sample_jobs = \<lparr>jt_jobs = [], jt_readers = [], jt_applications = [], jt_grants = [], jt_accesses = []\<rparr>"

definition sample_profile :: profile_tables where
  "sample_profile = \<lparr>pt_work = [], pt_education = [], pt_skills = [], pt_articles = [], pt_sections = [],
     pt_links = []\<rparr>"

definition sample_world :: world where
  "sample_world =
    \<lparr> w_actors = [alice, bob], w_follows = [], w_likes = [], w_boosts = [], w_blocks = [],
      w_posts = [sample_post 3 1 ''https://home.example/posts/1'', sample_post 4 2 ''https://far.example/posts/1''],
      w_post_hashtags = [], w_tombstones = [''https://far.example/users/gone''],
      w_relays = [\<lparr>rs_inbox_url = ''https://relay.example.com/inbox'', rs_status = ''accepted'',
        rs_verification_policy = Some ''trust-relay''\<rparr>],
      w_deliveries = [], w_search_ops = [removal_op ''posts'' ''9''], w_media_ops = [], w_reports = [], w_media = [], w_chatmail_ops = [],
      w_restrictions = [(''blocked.example'', ''block'')], w_connections = [], w_mutes = [], w_aliases = [],
      w_owned = [], w_hashtag_follows = [], w_chat_blocks = [], w_objects = [], w_index = [], w_sidecar = [],
      w_profile = sample_profile, w_accounts = sample_accounts, w_jobs = sample_jobs, w_queue_seq = 0,
      w_entropy = (\<lambda>n. show_nat n), w_index_remote_posts = Some True,
      w_next_id = 5, w_now = 1000, w_log = [], w_tick = 0, w_fault = (\<lambda>n. False), w_permit = (\<lambda>n. True) \<rparr>"

lemmas sample_rows = bob_def alice_def bob_document_def inserted_row_def sample_post_def

lemma sample_keys: "keys_ok sample_world"
  by (simp add: keys_ok_def sample_world_def sample_rows)

lemma sample_no_fault: "no_fault sample_world"
  by (simp add: no_fault_def sample_world_def)

definition alice_actor :: actor where
  "alice_actor = actor.truncate alice"

definition bob_actor :: actor where
  "bob_actor = actor.truncate bob"

lemma sample_reads: "into_actor sample_env alice = Inr alice_actor" "into_actor sample_env bob = Inr bob_actor"
  by (simp_all add: into_actor_def open_auto_field_def open_opt_field_def sample_rows alice_actor_def bob_actor_def
      actor.truncate_def)

section \<open>Activities\<close>

definition sample_activity :: "string \<Rightarrow> json \<Rightarrow> activity" where
  "sample_activity type obj =
    \<lparr> act_context = None, act_id = ''https://far.example/activities/1'', act_type = type,
      act_actor = ''https://far.example/users/bob'', act_object = obj, act_to = None, act_cc = None,
      act_published = None, act_target = None, act_content = None \<rparr>"

definition follow_alice :: activity where
  "follow_alice = sample_activity ''Follow'' (JStr ''https://home.example/users/alice'')"

definition undo_follow_alice :: activity where
  "undo_follow_alice = sample_activity ''Undo'' (JObj [(''type'', JStr ''Follow''),
     (''id'', JStr ''https://far.example/activities/1''), (''object'', JStr ''https://home.example/users/alice'')])"

lemma sample_knows:
  "knows sample_env ''https://far.example/users/bob'' bob_actor sample_world"
  "knows_local sample_env ''alice'' alice_actor sample_world"
  "row_by_ap_id ''https://far.example/users/bob'' sample_world = Some bob"
  by (simp_all add: knows_def knows_local_def row_by_ap_id_def sample_world_def sample_reads)
    (simp_all add: sample_rows sample_reads)

section \<open>A request that is accepted\<close>

definition sample_request :: inbound where
  "sample_request = \<lparr> rq_path = ''/users/alice/inbox'', rq_headers = [(''digest'', ''SHA-256=body''),
     (''signature'', ''sig:SHA-256=body'')], rq_body = ''body'' \<rparr>"

lemma sample_checked:
  "check_request sample_route sample_env sample_request
     = Inr (''https://far.example/users/bob#main-key'', ''sig:SHA-256=body'', ''SHA-256=body'')"
  by (simp add: check_request_def sample_request_def sample_route_def sample_env_def header_str_def header_text_def
      sig_headers_def digest_sha256_def strip_prefix_def)

lemma sample_parsed: "parse_activity sample_env body = Inr follow_alice" "parse_document sample_env body = Inr sample_document"
  by (simp_all add: parse_activity_def parse_document_def sample_env_def)
    (code_simp)

lemma sample_username: "extract_local_username ''https://home.example/users/alice'' = Some ''alice''"
  by code_simp

lemma sample_parties:
  "parties sample_env (act_actor follow_alice) bob_actor ''https://home.example/users/alice'' alice_actor sample_world"
  using sample_knows sample_no_fault
  by (simp add: parties_def sample_username) (simp add: follow_alice_def sample_activity_def)

lemma parties_tick [run_simps]: "parties E u x target y (tick s) = parties E u x target y s"
  by (simp add: parties_def run_simps split: option.split)

lemma sample_no_proof: "verify_inbound_proof sample_env sample_document u = ret Absent"
proof -
  have "extract_verification_method_id sample_document = None" by code_simp
  then show ?thesis by (simp add: verify_inbound_proof_def)
qed

lemma sample_object: "act_object follow_alice = JStr ''https://home.example/users/alice''"
  "act_type follow_alice = ''Follow''" "act_actor follow_alice = ''https://far.example/users/bob''"
  by (simp_all add: follow_alice_def sample_activity_def)

lemma sample_handled:
  "\<exists>s'. process_activity sample_env (act_actor follow_alice) sample_document follow_alice
     (tick (tick (tick sample_world))) = (Inr (), s')"
proof -
  let ?s = "tick (tick (tick sample_world))"
  have p: "parties sample_env (act_actor follow_alice) bob_actor ''https://home.example/users/alice'' alice_actor ?s"
    using sample_parties by (simp add: run_simps)
  have "\<not> list_ex (follows_pair i j) (w_follows ?s)" for i j
    by (simp add: run_simps) (simp add: sample_world_def)
  then obtain s' where "handle_follow sample_env follow_alice ?s = (Inr (), s')"
    using handle_follow_run [OF p sample_object(1)] by blast
  then show ?thesis
    by (simp add: process_activity_def sample_no_proof dispatch_def sample_object)
qed

lemma sample_signer_found:
  "resolve_signer_by_key_id sample_env ''https://far.example/users/bob#main-key'' (tick sample_world)
     = (Inr bob_actor, tick (tick sample_world))"
proof -
  have "List.find (\<lambda>a. a_public_key_id a = Some ''https://far.example/users/bob#main-key'') (w_actors sample_world)
      = Some bob" by (simp add: sample_world_def sample_rows)
  moreover have "\<not> a_is_local bob_actor" by (simp add: bob_actor_def) (simp add: sample_rows)
  ultimately show ?thesis
    using sample_no_fault
    by (simp add: resolve_signer_by_key_id_def find_by_public_key_id_def bindE_run query_run run_simps
        of_result_def opt_actor_def sample_reads ret_def)
qed

lemma sample_accepted:
  "\<exists>s'. verify_and_process_inbound sample_route sample_env sample_request sample_world = (Inr (), s')"
proof -
  have r: "check_restriction (strip_fragment ''https://far.example/users/bob#main-key'') sample_world
      = (Inr (), tick sample_world)"
  proof -
    have "extract_domain (strip_fragment ''https://far.example/users/bob#main-key'') = Some ''far.example''" by code_simp
    then show ?thesis
      using sample_no_fault
      by (simp add: check_restriction_def bindE_def attempt_def query_run ret_def)
        (simp add: sample_world_def tick_def)
  qed
  have k: "rsa_verify sample_route (a_public_key_pem bob_actor) ''sig:SHA-256=body'' ''SHA-256=body''"
    by (simp add: sample_route_def)
  have l: "rate_limit sample_route key (tick (tick sample_world)) = (Inr (), tick (tick (tick sample_world)))" for key
    by (simp add: rate_limit_def sample_route_def tick_def)
  have u: "a_ap_id bob_actor = act_actor follow_alice"
    by (simp add: bob_actor_def sample_object) (simp add: sample_rows)
  have p: "rq_path sample_request \<noteq> ''/inbox''" by (simp add: sample_request_def)
  obtain s' where "process_activity sample_env (act_actor follow_alice) sample_document follow_alice
     (tick (tick (tick sample_world))) = (Inr (), s')" using sample_handled by blast
  then show ?thesis
    by (simp add: verify_and_process_inbound_def sample_checked of_result_def bindE_def r sample_signer_found k l u
        process_body_def sample_parsed p Let_def)
qed

end
