(* ===== verification/InboxClaims.thy ===== *)
theory InboxClaims
  imports Samples
begin

text \<open>
  The properties of the inbox as a whole, from the request to the tables, each with a witness
  on the instance of the theory \<open>Samples\<close>.
\<close>

section \<open>Facts about requests\<close>

lemma check_requestD:
  assumes "check_request R E rq = Inr unverified"
  shows "begin_verify R (rq_path rq) (sig_headers (rq_headers rq)) = Some unverified"
    and "header_str ''digest'' (rq_headers rq) = Some (''SHA-256='' @ digest_sha256 R E (rq_body rq))"
proof -
  show "begin_verify R (rq_path rq) (sig_headers (rq_headers rq)) = Some unverified"
    using assms by (auto simp: check_request_def split: option.splits bool.splits if_splits)
  have "\<exists>d. header_str ''digest'' (rq_headers rq) = Some d
      \<and> strip_prefix ''SHA-256='' d = Some (digest_sha256 R E (rq_body rq))"
    using assms by (auto simp: check_request_def Option.bind_eq_Some_conv split: option.splits bool.splits if_splits)
  then show "header_str ''digest'' (rq_headers rq) = Some (''SHA-256='' @ digest_sha256 R E (rq_body rq))"
    by (auto simp: strip_prefix_def split: if_splits elim!: prefixE)
qed

lemma process_activity_bound:
  "process_activity E v d a s = (Inr (), s') \<Longrightarrow> act_actor a = v"
  by (auto simp: process_activity_def split: if_splits)

lemma accepted_request:
  assumes "verify_and_process_inbound R E rq s = (Inr (), s')"
  shows "\<exists>key_id sig msg x a t. check_request R E rq = Inr (key_id, sig, msg)
    \<and> resolve_signer_by_key_id E key_id (snd (check_restriction (strip_fragment key_id) s)) = (Inr x, t)
    \<and> rsa_verify R (a_public_key_pem x) sig msg
    \<and> parse_activity E (rq_body rq) = Inr a \<and> act_actor a = a_ap_id x"
proof -
  obtain key_id sig msg where c: "check_request R E rq = Inr (key_id, sig, msg)"
    using assms by (auto simp: verify_and_process_inbound_def bindE_def of_result_def split: sum.splits)
  obtain u where u: "check_restriction (strip_fragment key_id) s = (Inr (), u)"
    using assms c by (auto simp: verify_and_process_inbound_def bindE_Inr of_result_def Let_def)
  obtain x t where x: "resolve_signer_by_key_id E key_id u = (Inr x, t)"
      "rsa_verify R (a_public_key_pem x) sig msg"
      "\<exists>t'. process_body R E rq (a_ap_id x) t' = (Inr (), s')"
    using assms c u by (auto simp: verify_and_process_inbound_def bindE_Inr of_result_def Let_def split: if_splits)
  then obtain a where "parse_activity E (rq_body rq) = Inr a" "act_actor a = a_ap_id x"
    by (auto simp: process_body_def bindE_Inr of_result_def split: if_splits dest!: process_activity_bound)
  with c u x show ?thesis by auto
qed

text \<open>An earlier header of the same name is invisible to the signature library.\<close>

lemma sig_headers_foldl:
  assumes "(name, w) \<in> set headers" and "header_text w \<noteq> None"
  shows "foldl (\<lambda>m (n, v). case header_text v of None \<Rightarrow> m | Some t \<Rightarrow> m(n \<mapsto> t)) (m(name \<mapsto> x)) headers
    = foldl (\<lambda>m (n, v). case header_text v of None \<Rightarrow> m | Some t \<Rightarrow> m(n \<mapsto> t)) m headers"
  using assms
proof (induction headers arbitrary: m)
  case (Cons h hs)
  obtain n v where h: "h = (n, v)" by force
  show ?case
  proof (cases "n = name \<and> header_text v \<noteq> None")
    case True
    then obtain t where "header_text v = Some t" "n = name" by auto
    then show ?thesis by (simp only: h foldl_Cons prod.case option.case fun_upd_upd)
  next
    case False
    with Cons.prems h have hs: "(name, w) \<in> set hs" by auto
    show ?thesis
    proof (cases "header_text v")
      case (Some t)
      with False h have "n \<noteq> name" by simp
      then have twist: "(m(name \<mapsto> x))(n \<mapsto> t) = (m(n \<mapsto> t))(name \<mapsto> x)" by (rule fun_upd_twist [symmetric])
      show ?thesis
        by (simp only: h foldl_Cons prod.case Some option.case twist Cons.IH [OF hs Cons.prems(2)])
    qed (use Cons.IH [OF hs Cons.prems(2)] h in simp)
  qed
qed simp

lemma sig_headers_shadowed:
  assumes "(name, w) \<in> set headers" and "header_text w \<noteq> None"
  shows "sig_headers ((name, v) # headers) = sig_headers headers"
  using sig_headers_foldl [OF assms, of Map.empty] by (auto simp: sig_headers_def split: option.split)

definition with_body :: "route_env \<Rightarrow> ('u, 'z) env_scheme \<Rightarrow> string \<Rightarrow> inbound \<Rightarrow> inbound" where
  "with_body R E body rq = rq\<lparr>rq_headers := (''digest'', ''SHA-256='' @ digest_sha256 R E body) # rq_headers rq,
     rq_body := body\<rparr>"

lemma check_request_with_body:
  assumes "check_request R E rq = Inr unverified" and "header_text (digest_sha256 R E body) \<noteq> None"
  shows "check_request R E (with_body R E body rq) = Inr unverified"
proof -
  obtain w where w: "(''digest'', w) \<in> set (rq_headers rq)" "header_text w \<noteq> None"
    using check_requestD(2) [OF assms(1)]
    by (auto simp: header_str_def Option.bind_eq_Some_conv dest: map_of_SomeD)
  have t: "header_text (''SHA-256='' @ digest_sha256 R E body) = Some (''SHA-256='' @ digest_sha256 R E body)"
    using assms(2) by (auto simp: header_text_def split: if_splits)
  show ?thesis
    using assms(1) sig_headers_shadowed [OF w, of "''SHA-256='' @ digest_sha256 R E body"] t
    by (auto simp: check_request_def with_body_def header_str_def strip_prefix_def
        split: option.splits bool.splits if_splits)
qed

lemma deliver_all_keeps_local:
  "keys_ok s \<Longrightarrow> local_rows (deliver_all R E rqs s) = local_rows s \<and> keys_ok (deliver_all R E rqs s)"
  unfolding deliver_all_def
proof (induction rqs arbitrary: s)
  case (Cons rq rqs)
  then show ?case using request_keeps_local [of s R E rq] by simp
qed simp

lemma check_restriction_blocked:
  assumes "extract_domain u = Some d" and "map_of (w_restrictions s) d = Some ''block''"
  shows "check_restriction u s =
    (if w_fault s (w_tick s) then Inr () else Inl Forbidden, s\<lparr>w_tick := Suc (w_tick s)\<rparr>)"
  using assms
  by (simp add: check_restriction_def bindE_def attempt_def query_def stmt_def Let_def throw_def ret_def)

section \<open>Properties\<close>

text \<open>C1. Whatever requests arrive, from whomever, the rows of the local accounts stay exactly as
  they are: no inbound delivery edits, moves or deletes a local actor.\<close>

theorem local_accounts_survive_any_deliveries:
  assumes "keys_ok s"
  shows "local_rows (deliver_all R E requests s) = local_rows s"
  using deliver_all_keeps_local [OF assms] by blast

theorem local_accounts_survive_any_deliveries_witness:
  "local_rows (deliver_all sample_route sample_env [sample_request, sample_request] sample_world) = [alice]"
  using local_accounts_survive_any_deliveries [OF sample_keys, of sample_route sample_env "[sample_request, sample_request]"]
  by (simp add: local_rows_def sample_world_def sample_rows)



text \<open>C4. Every connection any sequence of deliveries makes the server open goes to a URL that
  passed the guard, and to public addresses only unless local targets are allowed.\<close>

theorem deliveries_open_guarded_connections:
  assumes "log_safe E s"
  shows "\<forall>c\<in>set (w_log (deliver_all R E requests s)).
    (\<exists>u. url_to_string E u = ct_url c \<and> check_url E u = Inr ())
    \<and> (\<not> allow_local_targets E \<longrightarrow> (\<forall>ip\<in>set (ct_addrs c). \<not> is_private_ip ip))"
  using safe_log.deliver_all_keeps [OF assms] by (auto simp: log_safe_def safe_contact_def)

theorem deliveries_open_guarded_connections_witness:
  "list_all (\<lambda>c. list_all (\<lambda>ip. \<not> is_private_ip ip) (ct_addrs c))
     (w_log (deliver_all sample_route sample_env [sample_request] sample_world))"
  using deliveries_open_guarded_connections [of sample_env sample_world sample_route "[sample_request]"]
  by (simp add: log_safe_def sample_world_def sample_env_def list_all_iff)

text \<open>A post is stored with a verified proof or with none: a post whose proof was checked and
  failed is never in the table.\<close>

theorem no_post_carries_a_failed_proof:
  assumes "no_false_proof s"
  shows "\<forall>p\<in>set (w_posts (deliver_all R E requests s)). p_integrity_proof_verified p \<noteq> Some False"
  using no_false.deliver_all_keeps [OF assms] by (simp add: no_false_proof_def)

theorem no_post_carries_a_failed_proof_witness:
  "list_all (\<lambda>p. p_integrity_proof_verified p \<noteq> Some False)
     (w_posts (deliver_all sample_route sample_env [sample_request] sample_world))"
  unfolding list_all_iff
  by (rule no_post_carries_a_failed_proof) (simp add: no_false_proof_def sample_world_def sample_rows)

text \<open>C6. Once the removal of a document from the search index is queued, no delivery turns it
  back into an insertion.\<close>

theorem queued_removal_survives_deliveries:
  assumes "removing index doc s"
  shows "removing index doc (deliver_all R E requests s)"
  using removals.deliver_all_keeps [OF assms] .

theorem queued_removal_survives_deliveries_witness:
  "removing ''posts'' ''9'' (deliver_all sample_route sample_env [sample_request] sample_world)"
  by (rule queued_removal_survives_deliveries)
    (simp add: removing_def doc_op_def sample_world_def removal_op_def same_document_def)



text \<open>A tombstone is permanent, and no delivery adds or removes a relay subscription.\<close>

theorem deliveries_keep_tombstones_and_relays:
  assumes "tombstoned u s"
  shows "tombstoned u (deliver_all R E requests s)
    \<and> map rs_inbox_url (w_relays (deliver_all R E requests s)) = map rs_inbox_url (w_relays s)"
proof -
  have "relay_inboxes (map rs_inbox_url (w_relays s)) (deliver_all R E requests s)"
    by (rule relays.deliver_all_keeps) (simp add: relay_inboxes_def)
  with tombstones.deliver_all_keeps [OF assms] show ?thesis by (simp add: relay_inboxes_def)
qed

theorem deliveries_keep_tombstones_and_relays_witness:
  "tombstoned ''https://far.example/users/gone'' (deliver_all sample_route sample_env [sample_request] sample_world)"
  by (rule conjunct1 [OF deliveries_keep_tombstones_and_relays]) (simp add: tombstoned_def sample_world_def)




text \<open>C8. The digest is read from the first \<open>Digest\<close> header and the signature is checked over
  the last one: put a header of one's own in front of the signed one, and the signature of a
  captured request is accepted for any other body.\<close>

theorem signature_accepted_for_another_body:
  assumes "check_request R E rq = Inr (key_id, sig, msg)" and "header_text (digest_sha256 R E body) \<noteq> None"
  shows "check_request R E (with_body R E body rq) = Inr (key_id, sig, msg) \<and> rq_body (with_body R E body rq) = body"
  using check_request_with_body [OF assms] by (simp add: with_body_def)

theorem signature_accepted_for_another_body_witness:
  "check_request sample_route sample_env (with_body sample_route sample_env ''forged'' sample_request)
     = Inr (''https://far.example/users/bob#main-key'', ''sig:SHA-256=body'', ''SHA-256=body'')"
  by (rule conjunct1 [OF signature_accepted_for_another_body [OF sample_checked]])
    (simp add: digest_sha256_def sample_route_def sample_env_def header_text_def)

text \<open>A request signed under a key of a blocked domain is refused when the restriction can be
  read; when the query fails the restriction does not apply.\<close>

theorem blocked_domain_is_refused_unless_the_query_fails:
  assumes "extract_domain u = Some d" and "map_of (w_restrictions s) d = Some ''block''"
  shows "fst (check_restriction u s) = (if w_fault s (w_tick s) then Inr () else Inl Forbidden)"
  using check_restriction_blocked [OF assms] by simp

theorem blocked_domain_is_refused_unless_the_query_fails_witness:
  "fst (check_restriction ''https://blocked.example/users/eve'' sample_world) = Inl Forbidden"
proof -
  have "extract_domain ''https://blocked.example/users/eve'' = Some ''blocked.example''" by code_simp
  then show ?thesis
    using blocked_domain_is_refused_unless_the_query_fails [of _ "''blocked.example''" sample_world]
    by (simp add: sample_world_def)
qed

text \<open>A \<open>Follow\<close> of a local account by a cached actor is recorded with the follower's
  activity, and answered with an \<open>Accept\<close> unless the account approves its followers itself.\<close>

theorem follow_is_recorded_and_answered:
  assumes "parties E (act_actor a) follower target followed s" and "act_object a = JStr target"
    and "\<not> list_ex (follows_pair (a_id follower) (a_id followed)) (w_follows s)"
  shows "\<exists>s'. handle_follow E a s = (Inr (), s') \<and> w_follows s' = w_follows s @ [new_follow a follower followed]
    \<and> w_deliveries s' = w_deliveries s @ (if require_follow_approval (a_privacy followed) then []
        else [accept_delivery a follower followed s])"
  using handle_follow_run [OF assms] by blast

theorem follow_is_recorded_and_answered_witness:
  "\<exists>s'. handle_follow sample_env follow_alice sample_world = (Inr (), s')
    \<and> w_follows s' = [\<lparr>f_follower = 2, f_following = 1, f_ap_id = Some ''https://far.example/activities/1'',
        f_accepted = True\<rparr>] \<and> length (w_deliveries s') = 1"
proof -
  have ids: "new_follow follow_alice bob_actor alice_actor = \<lparr>f_follower = 2, f_following = 1,
      f_ap_id = Some ''https://far.example/activities/1'', f_accepted = True\<rparr>"
    and priv: "\<not> require_follow_approval (a_privacy alice_actor)"
    by (simp_all add: new_follow_def bob_actor_def alice_actor_def follow_alice_def sample_activity_def)
      (simp_all add: sample_rows remote_privacy_def default_privacy_def)
  have "w_follows sample_world = []" "w_deliveries sample_world = []" by (simp_all add: sample_world_def)
  then show ?thesis
    using follow_is_recorded_and_answered [OF sample_parties sample_object(1)] ids priv by auto
qed

text \<open>An \<open>Undo\<close> of a \<open>Follow\<close> takes back exactly that follow: the table is what it was.\<close>

theorem follow_then_undo_restores_the_follows:
  assumes "parties E (act_actor a) follower target followed s" and "act_object a = JStr target"
    and "\<not> list_ex (follows_pair (a_id follower) (a_id followed)) (w_follows s)"
    and "act_actor u = act_actor a" and "get_str ''type'' (act_object u) = Some ''Follow''"
    and "get_str ''object'' (act_object u) = Some target" and "get_str ''id'' (act_object u) = Some (act_id a)"
  shows "\<exists>s1 s2. handle_follow E a s = (Inr (), s1) \<and> handle_undo E u s1 = (Inr (), s2)
    \<and> list_ex (follows_pair (a_id follower) (a_id followed)) (w_follows s1) \<and> w_follows s2 = w_follows s"
  using follow_undo_run [OF assms] .

theorem follow_then_undo_restores_the_follows_witness:
  "\<exists>s1 s2. handle_follow sample_env follow_alice sample_world = (Inr (), s1)
    \<and> handle_undo sample_env undo_follow_alice s1 = (Inr (), s2) \<and> w_follows s1 \<noteq> [] \<and> w_follows s2 = []"
proof -
  have "w_follows sample_world = []" by (simp add: sample_world_def)
  then show ?thesis
    using follow_then_undo_restores_the_follows [OF sample_parties sample_object(1), of undo_follow_alice]
    by (fastforce simp: undo_follow_alice_def sample_activity_def follow_alice_def get_str_def)
qed

text \<open>A \<open>Block\<close> of a local account is recorded, severs the follows between the two in both
  directions and leaves every other follow alone.\<close>

theorem block_severs_both_follows:
  assumes "parties E (act_actor a) blocker target blocked s" and "object_uri a = Some target"
  shows "\<exists>s'. handle_block E a s = (Inr (), s')
    \<and> list_ex (\<lambda>b. b_actor b = a_id blocker \<and> b_target b = a_id blocked) (w_blocks s')
    \<and> w_follows s' = filter (\<lambda>f. \<not> follows_pair (a_id blocker) (a_id blocked) f
        \<and> \<not> follows_pair (a_id blocked) (a_id blocker) f) (w_follows s)"
  using handle_block_run [OF assms] .

theorem block_severs_both_follows_witness:
  "\<exists>s'. handle_block sample_env follow_alice sample_world = (Inr (), s') \<and> length (w_blocks s') \<noteq> 0"
proof -
  have "object_uri follow_alice = Some ''https://home.example/users/alice''"
    by (simp add: object_uri_def sample_object)
  from block_severs_both_follows [OF sample_parties this] show ?thesis by (fastforce simp: list_ex_iff)
qed

text \<open>A \<open>Delete\<close> of something other than the actor itself deletes the post when the signer wrote
  it, and queues its removal from the index; otherwise it changes nothing.\<close>

theorem delete_needs_authorship:
  assumes "no_fault s" and "delete_target a = Some u" and "u \<noteq> act_actor a" and "post_by_ap_id u s = Some p"
  shows "if authored_by u (act_actor a) s
    then \<exists>s'. handle_delete E a s = (Inr (), s') \<and> post_by_ap_id u s' = None
      \<and> removing ''posts'' (show_nat (p_id p)) s'
    else handle_delete E a s = (Inr (), tick s)"
  using handle_delete_run [OF assms(1,2,3) _ assms(4), of E] handle_delete_refused [OF assms(1,2,3), of E] by simp

definition delete_post_activity :: "string \<Rightarrow> activity" where
  "delete_post_activity u = sample_activity ''Delete'' (JStr u)"

theorem delete_needs_authorship_witness:
  "handle_delete sample_env (delete_post_activity ''https://home.example/posts/1'') sample_world
     = (Inr (), tick sample_world)
   \<and> (\<exists>s'. handle_delete sample_env (delete_post_activity ''https://far.example/posts/1'') sample_world = (Inr (), s')
      \<and> post_by_ap_id ''https://far.example/posts/1'' s' = None)"
proof -
  have t: "delete_target (delete_post_activity u) = Some u" "act_actor (delete_post_activity u) = ''https://far.example/users/bob''" for u
    by (simp_all add: delete_target_def delete_post_activity_def sample_activity_def get_str_def)
  have "post_by_ap_id ''https://home.example/posts/1'' sample_world = Some (sample_post 3 1 ''https://home.example/posts/1'')"
    and "post_by_ap_id ''https://far.example/posts/1'' sample_world = Some (sample_post 4 2 ''https://far.example/posts/1'')"
    and "\<not> authored_by ''https://home.example/posts/1'' ''https://far.example/users/bob'' sample_world"
    and "authored_by ''https://far.example/posts/1'' ''https://far.example/users/bob'' sample_world"
    by (simp_all add: post_by_ap_id_def authored_by_def sample_world_def sample_rows)
  then show ?thesis
    using delete_needs_authorship [OF sample_no_fault t(1) _ \<open>post_by_ap_id ''https://home.example/posts/1'' sample_world = _\<close>, of sample_env]
      delete_needs_authorship [OF sample_no_fault t(1) _ \<open>post_by_ap_id ''https://far.example/posts/1'' sample_world = _\<close>, of sample_env]
    by (simp add: t) blast
qed

text \<open>An \<open>Accept\<close> marks the local account's follow of the signer accepted, a \<open>Reject\<close> deletes it,
  and neither touches any other follow.\<close>

theorem answers_to_a_follow:
  assumes "parties E (act_actor a) signer follower local_account s"
    and "get_str ''type'' (act_object a) = Some ''Follow''" and "get_str ''actor'' (act_object a) = Some follower"
    and "\<not> list_ex (\<lambda>r. rs_status r = ''pending'' \<and> relay_matches (act_actor a) r) (w_relays s)"
  shows "(\<exists>s'. handle_accept E a s = (Inr (), s') \<and> w_follows s' = map (\<lambda>f.
        if follows_pair (a_id local_account) (a_id signer) f then f\<lparr>f_accepted := True\<rparr> else f) (w_follows s))
    \<and> (\<exists>s'. handle_reject E a s = (Inr (), s')
        \<and> w_follows s' = filter (\<lambda>f. \<not> follows_pair (a_id local_account) (a_id signer) f) (w_follows s))"
  using handle_accept_run [OF assms] handle_reject_run [OF assms(1,2,3)] by blast

definition answer_to_alice :: activity where
  "answer_to_alice = sample_activity ''Accept'' (JObj [(''type'', JStr ''Follow''),
     (''actor'', JStr ''https://home.example/users/alice'')])"

definition alice_follows_bob :: world where
  "alice_follows_bob = sample_world\<lparr>w_follows :=
     [\<lparr>f_follower = 1, f_following = 2, f_ap_id = None, f_accepted = False\<rparr>]\<rparr>"

theorem answers_to_a_follow_witness:
  "(\<exists>s'. handle_accept sample_env answer_to_alice alice_follows_bob = (Inr (), s')
      \<and> w_follows s' = [\<lparr>f_follower = 1, f_following = 2, f_ap_id = None, f_accepted = True\<rparr>])
    \<and> (\<exists>s'. handle_reject sample_env answer_to_alice alice_follows_bob = (Inr (), s') \<and> w_follows s' = [])"
proof -
  have rows: "w_actors alice_follows_bob = w_actors sample_world" by (simp add: alice_follows_bob_def)
  have "parties sample_env (act_actor answer_to_alice) bob_actor ''https://home.example/users/alice'' alice_actor alice_follows_bob"
    using sample_parties sample_no_fault
    by (simp add: parties_def reads_of_actors [OF rows] sample_username)
      (simp add: answer_to_alice_def sample_activity_def follow_alice_def alice_follows_bob_def no_fault_def)
  moreover have "get_str ''type'' (act_object answer_to_alice) = Some ''Follow''"
    "get_str ''actor'' (act_object answer_to_alice) = Some ''https://home.example/users/alice''"
    by (simp_all add: answer_to_alice_def sample_activity_def get_str_def)
  moreover have "\<not> list_ex (\<lambda>r. rs_status r = ''pending'' \<and> relay_matches (act_actor answer_to_alice) r) (w_relays alice_follows_bob)"
    by (simp add: alice_follows_bob_def sample_world_def)
  moreover have "a_id bob_actor = 2" "a_id alice_actor = 1"
    by (simp_all add: bob_actor_def alice_actor_def) (simp_all add: sample_rows)
  ultimately show ?thesis
    using answers_to_a_follow [of sample_env answer_to_alice bob_actor _ alice_actor alice_follows_bob]
    by (simp add: follows_pair_def) (simp add: alice_follows_bob_def)
qed

text \<open>C5. The markup of every post that a delivery brings went through the sanitiser, and its
  visibility is one of the three that addressing can express.\<close>

theorem delivered_posts_are_sanitised:
  "\<forall>p\<in>set (w_posts (deliver_all R E requests s)).
     p_id p \<in> p_id ` set (w_posts s) \<or> clean_post E (p_content_html p) (p_visibility p)"
proof -
  have "sanitised_beyond E (p_id ` set (w_posts s)) (deliver_all R E requests s)"
    by (rule sanitised.deliver_all_keeps) (simp add: sanitised_beyond_def clean_row_def)
  then show ?thesis by (simp add: sanitised_beyond_def clean_row_def)
qed

theorem delivered_posts_are_sanitised_witness:
  "list_all (\<lambda>p. p_id p \<in> {3, 4} \<or> clean_post sample_env (p_content_html p) (p_visibility p))
     (w_posts (deliver_all sample_route sample_env [sample_request] sample_world))"
  using delivered_posts_are_sanitised [of sample_route sample_env "[sample_request]" sample_world]
  by (simp add: sample_world_def sample_post_def list_all_iff)

end
