(* ===== verification/TrustClaims.thy ===== *)
theory TrustClaims
  imports Samples
begin

text \<open>
  Whom the inbox believes: proofs, the keys they are checked against, what a fetched actor
  document may claim, and what a relay may vouch for.
\<close>

section \<open>Facts about proofs\<close>

lemma verify_with_refresh_Valid:
  assumes "verify_with_refresh E document signer vm cached s = (Inr Valid, s')"
  shows "\<exists>key. verify_proof E (w_now s') document key = Valid
    \<and> refresh_assertion_key E signer vm s = (Inr (Some key), s')"
proof -
  obtain r where r: "refresh_assertion_key E signer vm s = (Inr r, s')"
    and v: "Valid = (case r of
        Some key \<Rightarrow> if Some key \<noteq> cached then verify_proof E (w_now s') document key
                    else (if cached = None then Absent else Invalid)
      | None \<Rightarrow> if cached = None then Absent else Invalid)"
    using assms by (auto simp: verify_with_refresh_def bindE_Inr)
  from v obtain key where "r = Some key" "verify_proof E (w_now s') document key = Valid"
    by (cases r) (auto split: if_splits)
  with r show ?thesis by blast
qed

lemma cached_key_run:
  "no_fault s \<Longrightarrow> row_by_ap_id u s = Some r \<Longrightarrow>
     cached_assertion_key u s = (Inr (a_ed25519_public_key r), tick s)"
  by (simp add: cached_assertion_key_def bindE_def attempt_def query_run run_simps ret_def)

lemma cached_key_Inr:
  "cached_assertion_key u s = (Inr (Some key), t) \<Longrightarrow>
     \<exists>r. row_by_ap_id u s = Some r \<and> a_ed25519_public_key r = Some key"
  by (cases "w_fault s (w_tick s)")
    (auto simp: cached_assertion_key_def bindE_def attempt_def query_def stmt_def Let_def ret_def
      Option.bind_eq_Some_conv)

text \<open>The key a proof was found valid under: the cached one, or one the signer's document names.\<close>

definition key_of_signer :: "('u, 'z) env_scheme \<Rightarrow> string \<Rightarrow> string \<Rightarrow> string \<Rightarrow> world \<Rightarrow> bool" where
  "key_of_signer E signer vm key s \<longleftrightarrow>
     (\<exists>r. row_by_ap_id signer s = Some r \<and> a_ed25519_public_key r = Some key)
     \<or> (\<exists>t t'. refresh_assertion_key E signer vm t = (Inr (Some key), t'))"

lemma verify_inbound_proof_Valid:
  assumes "verify_inbound_proof E document author s = (Inr Valid, s')"
  shows "\<exists>vm key. extract_verification_method_id document = Some vm
    \<and> same_actor_uri E (strip_fragment vm) author
    \<and> verify_proof E (w_now s') document key = Valid
    \<and> key_of_signer E (strip_fragment vm) vm key s"
proof -
  obtain vm where vm: "extract_verification_method_id document = Some vm"
      "same_actor_uri E (strip_fragment vm) author"
    using assms by (auto simp: verify_inbound_proof_def Let_def split: option.splits if_splits)
  obtain c t where c: "cached_assertion_key (strip_fragment vm) s = (Inr c, t)"
    and m: "(case c of None \<Rightarrow> verify_with_refresh E document (strip_fragment vm) vm None
      | Some key \<Rightarrow> bindE (gets w_now) (\<lambda>now. case verify_proof E now document key of
           Valid \<Rightarrow> ret Valid | Absent \<Rightarrow> ret Absent
         | Invalid \<Rightarrow> verify_with_refresh E document (strip_fragment vm) vm (Some key))) t = (Inr Valid, s')"
    using assms vm by (auto simp: verify_inbound_proof_def Let_def bindE_Inr)
  have "\<exists>key. verify_proof E (w_now s') document key = Valid \<and> key_of_signer E (strip_fragment vm) vm key s"
  proof (cases c)
    case None
    then show ?thesis using m verify_with_refresh_Valid by (fastforce simp: key_of_signer_def)
  next
    case (Some key)
    show ?thesis
    proof (cases "verify_proof E (w_now t) document key")
      case Valid
      with m Some have "s' = t" by (simp add: bindE_Inr)
      with Valid show ?thesis using cached_key_Inr c Some by (auto simp: key_of_signer_def)
    next
      case Invalid
      with m Some have "verify_with_refresh E document (strip_fragment vm) vm (Some key) t = (Inr Valid, s')"
        by (simp add: bindE_Inr)
      then show ?thesis using verify_with_refresh_Valid by (fastforce simp: key_of_signer_def)
    qed (use m Some in \<open>simp add: bindE_Inr\<close>)
  qed
  with vm show ?thesis by blast
qed

section \<open>Facts about relayed activities\<close>

lemma no_proof_no_verdict:
  "extract_verification_method_id activity = None \<Longrightarrow> attempt_proof_verification E activity = ret None"
  by (simp add: attempt_proof_verification_def)

lemma cached_verdict:
  assumes "no_fault s" and "extract_verification_method_id activity = Some vm"
    and "row_by_ap_id (strip_fragment vm) s = Some r" and "a_ed25519_public_key r = Some key"
  shows "attempt_proof_verification E activity s = (Inr (case verify_proof E (w_now s) activity key of
      Valid \<Rightarrow> Some True | Invalid \<Rightarrow> Some False | Absent \<Rightarrow> None), tick s)"
  using assms
  by (simp add: attempt_proof_verification_def bindE_run cached_key_run gets_def run_simps ret_def bindE_def)

lemma relay_run:
  assumes "attempt_proof_verification E activity s = (Inr (Some b), t)"
  shows "verify_relayed_activity E activity policy s = (Inr (if b then OutcomeVerified else OutcomeDiscard), t)"
  using assms by (cases policy) (simp_all add: verify_relayed_activity_def bindE_run ret_def)

section \<open>Facts about remote content\<close>

lemma boundary_before_le: "boundary_before s n \<le> n"
  by (induction n) auto

lemma boundary_before_boundary: "is_char_boundary s (boundary_before s n)"
  by (induction n) (auto simp: is_char_boundary_def)

text \<open>Nothing longer would have ended on a boundary.\<close>

lemma boundary_before_maximal: "m \<le> n \<Longrightarrow> is_char_boundary s m \<Longrightarrow> m \<le> boundary_before s n"
proof (induction n)
  case (Suc n)
  then show ?case by (cases "m = Suc n") auto
qed simp

lemma map_filter_length: "length (List.map_filter f xs) \<le> length xs"
  by (simp add: map_filter_def)

lemma remote_images_ordinals:
  "length (extract_remote_images obj) \<le> MAX_POST_IMAGES
   \<and> map ri_ordinal (extract_remote_images obj) = [0..<length (extract_remote_images obj)]"
proof (cases "Option.bind (get ''attachment'' obj) as_array")
  case (Some attachments)
  define found where "found = take MAX_POST_IMAGES (List.map_filter (\<lambda>att.
              if declares_an_image att
              then map_option (\<lambda>url. (url, image_description att)) (Option.bind (get ''url'' att) url_of_attachment)
              else None) attachments)"
  have e: "extract_remote_images obj = map (\<lambda>(i, (url, alt)).
      \<lparr>ri_url = url, ri_alt_text = alt, ri_ordinal = i\<rparr>) (zip [0..<length found] found)"
    using Some by (simp add: extract_remote_images_def found_def Let_def)
  have l: "length (extract_remote_images obj) = length found" by (simp add: e)
  have "ri_ordinal \<circ> (\<lambda>(i, (url, alt)). \<lparr>ri_url = url, ri_alt_text = alt, ri_ordinal = i\<rparr>) = fst"
    by (simp add: fun_eq_iff)
  then have "map ri_ordinal (extract_remote_images obj) = map fst (zip [0..<length found] found)"
    by (simp only: e map_map)
  with l show ?thesis by (simp add: found_def)
qed (simp add: extract_remote_images_def)

lemma read_chunks_spec:
  "read_chunks limit what broken body chunks = (if length body \<le> limit \<and> limit < length (body @ concat chunks)
     then Inl (Federation (what @ '' exceeds the '' @ show_nat limit @ '' byte limit; refusing to buffer it''))
     else if limit < length body \<and> chunks \<noteq> []
     then Inl (Federation (what @ '' exceeds the '' @ show_nat limit @ '' byte limit; refusing to buffer it''))
     else if broken then Inl (Federation (''reading '' @ what @ '' failed''))
     else Inr (body @ concat chunks))"
  by (induction limit what broken body chunks rule: read_chunks.induct) auto

lemma known_reason: "fst (parse_flag_content content) \<in> set (known_reasons @ [''other''])"
  by (auto simp: parse_flag_content_def Let_def dest: find_SomeD split: option.splits)

section \<open>A signed document\<close>

definition signed_note :: json where
  "signed_note = (case sign_proof sample_env (JObj [(''actor'', JStr ''https://home.example/users/alice'')]) []
     ''https://far.example/users/bob#ed25519-key'' ''2026-01-01T00:00:00Z'' of Some (Inr d) \<Rightarrow> d | _ \<Rightarrow> JNull)"

lemma signed_note:
  "sign_proof sample_env (JObj [(''actor'', JStr ''https://home.example/users/alice'')]) []
     ''https://far.example/users/bob#ed25519-key'' ''2026-01-01T00:00:00Z'' = Some (Inr signed_note)"
proof -
  have "signature_input sample_env c d \<noteq> None" for c d
    by (simp add: signature_input_def sample_env_def)
  then show ?thesis
    by (auto simp: signed_note_def sign_proof_def sign_with_config_def index_target_def Let_def split: option.splits)
qed

lemma signed_note_small: "serialised_len sample_env signed_note \<le> MAX_PROOF_DOCUMENT_BYTES"
proof -
  have "length (sample_text signed_note) \<le> 5000" by code_simp
  then show ?thesis by (simp add: serialised_len_def sample_env_def MAX_PROOF_DOCUMENT_BYTES_def)
qed

lemma signed_note_method: "strip_fragment ''https://far.example/users/bob#ed25519-key'' = ''https://far.example/users/bob''"
  by code_simp

lemma bob_key: "a_ed25519_public_key bob = Some sample_multibase"
  by (simp add: sample_rows)

lemma sample_now: "parse_rfc3339 sample_env u = Some t \<Longrightarrow> t \<le> w_now sample_world + CREATED_SKEW_TOLERANCE"
  by (simp add: sample_env_def sample_world_def CREATED_SKEW_TOLERANCE_def)

section \<open>Properties\<close>

text \<open>C17. A document counts as proved only by a proof whose verification method belongs to the
  expected author, checked under a key the database or the signer's own document gives.\<close>

theorem valid_proof_is_by_the_expected_author:
  assumes "verify_inbound_proof E document author s = (Inr Valid, s')"
  shows "\<exists>vm key. extract_verification_method_id document = Some vm
    \<and> same_actor_uri E (strip_fragment vm) author
    \<and> verify_proof E (w_now s') document key = Valid
    \<and> key_of_signer E (strip_fragment vm) vm key s"
  using verify_inbound_proof_Valid [OF assms] .

theorem valid_proof_is_by_the_expected_author_witness:
  "\<exists>key. verify_proof sample_env (w_now (tick sample_world)) signed_note key = Valid
    \<and> key_of_signer sample_env ''https://far.example/users/bob'' ''https://far.example/users/bob#ed25519-key'' key sample_world"
proof -
  have v: "verify_proof sample_env (w_now sample_world) signed_note sample_multibase = Valid"
    and m: "extract_verification_method_id signed_note = Some ''https://far.example/users/bob#ed25519-key''"
    using verify_signed [OF sample_signer signed_note signed_note_small] sample_now by blast+
  have "same_actor_uri sample_env ''https://far.example/users/bob'' ''https://far.example/users/bob''"
    by (simp add: same_actor_uri_def split: sum.split)
  then have "verify_inbound_proof sample_env signed_note ''https://far.example/users/bob'' sample_world = (Inr Valid, tick sample_world)"
    using v m sample_knows(3) bob_key sample_no_fault
    by (simp add: verify_inbound_proof_def signed_note_method Let_def bindE_run cached_key_run gets_def bindE_def run_simps ret_def)
  from valid_proof_is_by_the_expected_author [OF this] m show ?thesis
    by (auto simp: signed_note_method)
qed

text \<open>C18. What \<open>sign\<close> produces verifies: under the key that belongs to the signing key the proof is
  valid, and the delivered document is accepted from the actor the verification method names.\<close>

theorem signed_document_verifies:
  assumes "signer_correct E secret multibase" and "sign_proof E activity secret vm created = Some (Inr doc)"
    and "serialised_len E doc \<le> MAX_PROOF_DOCUMENT_BYTES"
    and "\<And>t. parse_rfc3339 E created = Some t \<Longrightarrow> t \<le> w_now s + CREATED_SKEW_TOLERANCE"
    and "no_fault s" and "row_by_ap_id (strip_fragment vm) s = Some r" and "a_ed25519_public_key r = Some multibase"
    and "same_actor_uri E (strip_fragment vm) author"
  shows "verify_inbound_proof E doc author s = (Inr Valid, tick s)"
proof -
  note v = verify_signed [OF assms(1,2,3), of "w_now s"]
  have "verify_proof E (w_now s) doc multibase = Valid" "extract_verification_method_id doc = Some vm"
    using v assms(4) by blast+
  then show ?thesis
    using assms(5-8)
    by (simp add: verify_inbound_proof_def Let_def bindE_run cached_key_run gets_def bindE_def run_simps ret_def)
qed

theorem signed_document_verifies_witness:
  "verify_inbound_proof sample_env signed_note ''https://far.example/users/bob'' sample_world
     = (Inr Valid, tick sample_world)"
proof (rule signed_document_verifies [OF sample_signer signed_note signed_note_small])
  show "row_by_ap_id (strip_fragment ''https://far.example/users/bob#ed25519-key'') sample_world = Some bob"
    using sample_knows(3) by (simp add: signed_note_method)
  show "same_actor_uri sample_env (strip_fragment ''https://far.example/users/bob#ed25519-key'') ''https://far.example/users/bob''"
    by (simp add: signed_note_method same_actor_uri_def split: sum.split)
qed (auto intro: sample_now sample_no_fault bob_key)

text \<open>C19. A relayed activity is believed on a valid proof by whoever signed it: nothing compares the
  signer of the proof with the actor of the activity.\<close>

theorem relayed_activity_is_believed_whoever_signed_it:
  assumes "signer_correct E secret multibase" and "sign_proof E activity secret vm created = Some (Inr doc)"
    and "serialised_len E doc \<le> MAX_PROOF_DOCUMENT_BYTES"
    and "\<And>t. parse_rfc3339 E created = Some t \<Longrightarrow> t \<le> w_now s + CREATED_SKEW_TOLERANCE"
    and "no_fault s" and "row_by_ap_id (strip_fragment vm) s = Some r" and "a_ed25519_public_key r = Some multibase"
  shows "verify_relayed_activity E doc policy s = (Inr OutcomeVerified, tick s)"
proof -
  note v = verify_signed [OF assms(1,2,3), of "w_now s"]
  have "verify_proof E (w_now s) doc multibase = Valid" "extract_verification_method_id doc = Some vm"
    using v assms(4) by blast+
  then have "attempt_proof_verification E doc s = (Inr (Some True), tick s)"
    using cached_verdict [OF assms(5) _ assms(6,7), of doc E] by simp
  from relay_run [OF this] show ?thesis by simp
qed

theorem relayed_activity_is_believed_whoever_signed_it_witness:
  "get_str ''actor'' signed_note = Some ''https://home.example/users/alice''
   \<and> verify_relayed_activity sample_env signed_note PolicyVerify sample_world = (Inr OutcomeVerified, tick sample_world)"
proof
  show "get_str ''actor'' signed_note = Some ''https://home.example/users/alice''" by code_simp
  show "verify_relayed_activity sample_env signed_note PolicyVerify sample_world = (Inr OutcomeVerified, tick sample_world)"
    by (rule relayed_activity_is_believed_whoever_signed_it [OF sample_signer signed_note signed_note_small])
      (auto intro: sample_now sample_no_fault bob_key simp: signed_note_method sample_knows(3))
qed

text \<open>Without a proof the policy decides: \<open>verify\<close> discards, \<open>trust-relay\<close> passes the activity on as
  unverified, and \<open>verify-or-fetch\<close> believes it exactly when the origin serves an object of that
  identifier.\<close>

theorem unproved_relayed_activity:
  assumes "extract_verification_method_id activity = None"
  shows "verify_relayed_activity E activity PolicyVerify s = (Inr OutcomeDiscard, s)
    \<and> verify_relayed_activity E activity PolicyTrustRelay s = (Inr OutcomeUnverified, s)
    \<and> fst (verify_relayed_activity E activity PolicyVerifyOrFetch s) =
        Inr (if fst (refetch_and_verify E (get_str_or ''<unknown>'' ''id'' activity) s) = Inr True
             then OutcomeVerified else OutcomeDiscard)"
  using no_proof_no_verdict [OF assms, of E]
  by (cases "refetch_and_verify E (get_str_or ''<unknown>'' ''id'' activity) s")
    (simp add: verify_relayed_activity_def ret_def bindE_def attempt_def)

theorem unproved_relayed_activity_witness:
  "verify_relayed_activity sample_env sample_document PolicyTrustRelay sample_world = (Inr OutcomeUnverified, sample_world)"
proof -
  have "extract_verification_method_id sample_document = None" by code_simp
  from unproved_relayed_activity [OF this] show ?thesis by blast
qed

text \<open>An actor counts as a relay when its URI is a prefix of the inbox of an accepted relay,
  whether or not the two are on the same host.\<close>

theorem any_prefix_of_a_relay_inbox_is_a_relay:
  assumes "no_fault s" and "r \<in> set (w_relays s)" and "rs_status r = ''accepted''" and "prefix u (rs_inbox_url r)"
  shows "is_relay_announce u s = (Inr True, tick s)"
proof -
  have "list_ex (\<lambda>r. rs_status r = ''accepted'' \<and> relay_matches u r) (w_relays (tick s))"
    using assms(2-4) by (auto simp: list_ex_iff relay_matches_def run_simps)
  then show ?thesis using assms(1) by (simp add: is_relay_announce_def bindE_def attempt_def query_run ret_def)
qed

theorem any_prefix_of_a_relay_inbox_is_a_relay_witness:
  "is_relay_announce ''https://relay.example.co'' sample_world = (Inr True, tick sample_world)"
  by (rule any_prefix_of_a_relay_inbox_is_a_relay [OF sample_no_fault,
        of "\<lparr>rs_inbox_url = ''https://relay.example.com/inbox'', rs_status = ''accepted'',
          rs_verification_policy = Some ''trust-relay''\<rparr>"]) (simp_all add: sample_world_def)

text \<open>The signer a key identifier resolves to is never a local account.\<close>

theorem inbound_signer_is_remote:
  assumes "resolve_signer_by_key_id E key_id s = (Inr x, s')"
  shows "\<not> a_is_local x \<and> (\<exists>r\<in>set (w_actors s'). a_id r = a_id x \<and> a_ap_id r = a_ap_id x \<and> \<not> a_is_local r)"
  using resolve_signer_row [OF assms] into_actor_fields(1,2,3) [of E _ x]
  by (auto simp: remote_signer_def list_ex_iff)

theorem inbound_signer_is_remote_witness: "\<not> a_is_local bob_actor"
  by (rule conjunct1 [OF inbound_signer_is_remote [OF sample_signer_found]])

text \<open>A fetched actor document is accepted exactly when it was served from the origin that was
  asked, under the URI it claims.\<close>

theorem fetched_actor_id_is_bound_to_its_url:
  "verify_fetched_actor_id E doc_id final_url requested = Inr () \<longleftrightarrow>
     (\<exists>req claimed. url_parse E requested = Inr req \<and> same_origin E final_url req
        \<and> url_parse E doc_id = Inr claimed \<and> normalise_actor_uri E claimed = normalise_actor_uri E final_url)"
  by (auto simp: verify_fetched_actor_id_def split: sum.splits)

text \<open>Cutting remote text keeps a prefix of at most the given length that ends between two
  characters, and no longer prefix does.\<close>

theorem truncation_is_the_longest_whole_prefix:
  "prefix (truncate_on_char_boundary s limit) s
   \<and> length (truncate_on_char_boundary s limit) \<le> limit
   \<and> is_char_boundary s (length (truncate_on_char_boundary s limit))
   \<and> {m. m \<le> limit \<and> is_char_boundary s m} \<subseteq> {..length (truncate_on_char_boundary s limit)}"
proof (cases "length s \<le> limit")
  case True
  then show ?thesis by (auto simp: truncate_on_char_boundary_def is_char_boundary_def)
next
  case False
  then have "boundary_before s limit \<le> length s" using boundary_before_le [of s limit] by simp
  then show ?thesis
    using False boundary_before_le [of s limit] boundary_before_boundary [of s limit]
    by (auto simp: truncate_on_char_boundary_def take_is_prefix intro: boundary_before_maximal)
qed

text \<open>A post brings at most twenty images, numbered from zero in the order they are shown.\<close>

theorem remote_images_are_bounded_and_numbered:
  "length (extract_remote_images obj) \<le> 20
   \<and> map ri_ordinal (extract_remote_images obj) = [0..<length (extract_remote_images obj)]"
  using remote_images_ordinals [of obj] by (simp add: MAX_POST_IMAGES_def)

text \<open>Reading a body succeeds with all of it or fails: with an error of its own as soon as the
  body is over the limit.\<close>

theorem body_is_read_whole_or_refused:
  "bytes_within_limit response limit what =
     (if limit < length (concat (resp_chunks response))
      then Inl (Federation (what @ '' exceeds the '' @ show_nat limit @ '' byte limit; refusing to buffer it''))
      else if resp_broken response then Inl (Federation (''reading '' @ what @ '' failed''))
      else Inr (concat (resp_chunks response)))"
  by (simp add: bytes_within_limit_def read_chunks_spec)

text \<open>Linking hashtags that are equal up to case fails as a whole: the batch is one upsert and
  two of its rows conflict, so the post is left with none of its tags.\<close>

theorem duplicate_hashtags_fail_the_batch:
  assumes "no_fault s" and "\<not> distinct (map (to_lowercase E) names)"
  shows "link_post_hashtags E post_id names s = (Inl Database, tick s)"
  using assms by (auto simp: link_post_hashtags_def Let_def bindE_def execute_if_def stmt_def no_fault_def tick_def)

theorem duplicate_hashtags_fail_the_batch_witness:
  "link_post_hashtags sample_env 3 [''Rust'', ''rust''] sample_world = (Inl Database, tick sample_world)"
proof (rule duplicate_hashtags_fail_the_batch [OF sample_no_fault])
  have "to_ascii_lowercase ''Rust'' = ''rust'' \<and> to_ascii_lowercase ''rust'' = ''rust''" by code_simp
  then show "\<not> distinct (map (to_lowercase sample_env) [''Rust'', ''rust''])" by (simp add: sample_env_def)
qed

text \<open>C20. The reason read from a reported text is one the table of reports accepts.\<close>

theorem flag_reason_is_storable:
  "fst (parse_flag_content content) \<in> {''spam'', ''harassment'', ''illegal'', ''impersonation'', ''other''}"
  using known_reason [of content] by (simp add: known_reasons_def)

text \<open>Opening what was sealed gives the plaintext back; without a key both are the identity.\<close>

theorem sealed_secret_opens:
  assumes "aead_correct C" and "valid_utf8 plaintext" and "length nonce = 12"
    and "seal_opt C (Some nonce) key plaintext = Inr sealed"
  shows "open_opt C key sealed = Inr plaintext"
  using assms open_seal [OF assms(1,2,3)] by (cases key) (auto simp: seal_opt_def open_opt_def)

theorem sealed_secret_opens_witness:
  "open_opt sample_crypto (Some (replicate 32 CHR ''k'')) (replicate 12 CHR ''n'' @ ''secret'' @ sample_tag) = Inr ''secret''"
proof (rule sealed_secret_opens [OF sample_crypto_correct])
  show "valid_utf8 ''secret''" by code_simp
  show "length (replicate 12 CHR ''n'') = 12" by simp
  show "seal_opt sample_crypto (Some (replicate 12 CHR ''n'')) (Some (replicate 32 CHR ''k'')) ''secret''
      = Inr (replicate 12 CHR ''n'' @ ''secret'' @ sample_tag)"
    by (simp add: seal_opt_def seal_def sample_crypto_def)
qed

end
