(* ===== verification/Delivery.thy ===== *)
theory Delivery
  imports SearchQueue ProofVerify
begin

text \<open>
  The worker of the delivery queue, \<open>noombat-federation/src/delivery.rs\<close>, and the proofs it
  attaches (\<open>sign_as_actor\<close> and the extension adapter of \<open>integrity_proof.rs\<close>).  The rows of one
  batch are delivered one after the other; their tasks share only the statements they run.  A
  function that returns nothing and logs its errors is a function of worlds.
\<close>

section \<open>Parameters\<close>

text \<open>
  \<open>sign_post\<close> is \<open>None\<close> when the signature is made; \<open>net_post\<close> answers a \<open>POST\<close> of a body, redirects
  included; \<open>show_seconds\<close> is chrono's \<open>%Y-%m-%dT%H:%M:%SZ\<close>.
\<close>

record 'u delivery_env =
  rsa_key_ok :: "string \<Rightarrow> bool"
  sign_post :: "string \<Rightarrow> string \<Rightarrow> string \<Rightarrow> string option"
  net_post :: "contact list \<Rightarrow> string \<Rightarrow> 'u \<Rightarrow> 'u net_reply"
  show_seconds :: "timestamp \<Rightarrow> string"

section \<open>Credentials\<close>

definition decode_private_key_base64 :: "('u, 'z) env_scheme \<Rightarrow> string \<Rightarrow> string result" where
  "decode_private_key_base64 E b64 = (case c_b64_decode (aead E) b64 of
     None \<Rightarrow> Inl (Internal ''Ed25519 private key Base64 decode'')
   | Some bytes \<Rightarrow>
       if length bytes = 32 then Inr bytes
       else Inl (Internal (''Ed25519 private key has unexpected length '' @ show_nat (length bytes)
          @ '' (expected 32)'')))"

record signing_credentials =
  sc_key_id :: string
  sc_private_key :: string
  sc_ap_id :: string
  sc_ed25519_private_key :: "string option"

definition ed25519_credential :: "('u, 'z) env_scheme \<Rightarrow> string option \<Rightarrow> string option result" where
  "ed25519_credential E sealed = (case sealed of None \<Rightarrow> Inr None
     | Some sealed_b64 \<Rightarrow> (case open_auto E sealed_b64 of Inl e \<Rightarrow> Inl e
       | Inr b64 \<Rightarrow> Inr (case decode_private_key_base64 E b64 of Inl _ \<Rightarrow> None | Inr k \<Rightarrow> Some k)))"

definition fetch_signing_credentials ::
  "('u, 'z) env_scheme \<Rightarrow> ('u, 'y) delivery_env_scheme \<Rightarrow> uuid \<Rightarrow> signing_credentials prog" where
  "fetch_signing_credentials E D actor_id =
    bindE (query (\<lambda>s. List.find (\<lambda>a. a_id a = actor_id) (w_actors s))) (\<lambda>found.
    bindE (ok_or Database found) (\<lambda>row.
    bindE (ok_or (Internal ''delivery actor has no private key (remote actor in delivery queue?)'')
      (a_private_key_pem row)) (\<lambda>sealed_pem.
    bindE (of_result (open_auto E sealed_pem)) (\<lambda>private_key_pem.
    if \<not> rsa_key_ok D private_key_pem then
      throw (Internal (''failed to parse private key for actor '' @ a_ap_id row))
    else
      bindE (of_result (ed25519_credential E (a_ed25519_private_key row))) (\<lambda>ed25519.
      ret \<lparr>sc_key_id = a_ap_id row @ ''#main-key'', sc_private_key = private_key_pem,
           sc_ap_id = a_ap_id row, sc_ed25519_private_key = ed25519\<rparr>)))))"

section \<open>Proofs\<close>

text \<open>
  The payload after \<open>sign\<close>: a failed canonicalisation leaves the context it added.  \<open>None\<close> is the
  panic on a payload that is not an object.
\<close>

definition signed_payload ::
  "('u, 'z) env_scheme \<Rightarrow> ('u, 'y) delivery_env_scheme \<Rightarrow> timestamp \<Rightarrow> string \<Rightarrow> string \<Rightarrow> json \<Rightarrow> json option" where
  "signed_payload E D now key vm payload =
    (case sign_proof E payload key vm (show_seconds D now) of
       None \<Rightarrow> None
     | Some (Inr doc) \<Rightarrow> Some doc
     | Some (Inl _) \<Rightarrow> map_option ensure_data_integrity_context (index_target payload))"

definition attach_proof ::
  "('u, 'z) env_scheme \<Rightarrow> ('u, 'y) delivery_env_scheme \<Rightarrow> timestamp \<Rightarrow> signing_credentials \<Rightarrow> json \<Rightarrow> json option" where
  "attach_proof E D now creds payload = (case sc_ed25519_private_key creds of
     None \<Rightarrow> Some payload
   | Some key \<Rightarrow> signed_payload E D now key (verification_method_id (sc_ap_id creds)) payload)"

text \<open>Whether the proof was attached, and the document; \<open>None\<close> is the panic.\<close>

definition sign_as_actor ::
  "('u, 'z) env_scheme \<Rightarrow> ('u, 'y) delivery_env_scheme \<Rightarrow> timestamp \<Rightarrow> json \<Rightarrow> string \<Rightarrow> string \<Rightarrow> (bool \<times> json) option" where
  "sign_as_actor E D now document ed25519_private_base64 actor_ap_id =
    (case decode_private_key_base64 E ed25519_private_base64 of
       Inl _ \<Rightarrow> Some (False, document)
     | Inr key \<Rightarrow>
         let vm = verification_method_id actor_ap_id in
         map_option (Pair (case sign_proof E document key vm (show_seconds D now) of Some (Inr _) \<Rightarrow> True | _ \<Rightarrow> False))
           (signed_payload E D now key vm document))"

text \<open>
  The two methods of \<open>FederationSignature\<close>.  Signing without a key leaves the activity as it is.
\<close>

definition extension_sign ::
  "('u, 'z) env_scheme \<Rightarrow> ('u, 'y) delivery_env_scheme \<Rightarrow> json \<Rightarrow> string \<Rightarrow> json option prog" where
  "extension_sign E D activity signing_key_id =
    bindE (query (row_by_ap_id signing_key_id)) (\<lambda>row.
    case Option.bind row a_ed25519_private_key of
      None \<Rightarrow> ret (Some activity)
    | Some sealed \<Rightarrow>
        bindE (of_result (open_auto E sealed)) (\<lambda>b64.
        bindE (of_result (decode_private_key_base64 E b64)) (\<lambda>key.
        bindE (gets w_now) (\<lambda>now.
        case sign_proof E activity key (signing_key_id @ ''#ed25519-key'') (show_seconds D now) of
          None \<Rightarrow> ret None
        | Some (Inl e) \<Rightarrow> throw e
        | Some (Inr doc) \<Rightarrow> ret (Some doc)))))"

definition extension_verify :: "('u, 'z) env_scheme \<Rightarrow> json \<Rightarrow> bool prog" where
  "extension_verify E activity =
    (case extract_verification_method_id activity of
       None \<Rightarrow> ret False
     | Some vm_id \<Rightarrow>
         bindE (query (row_by_ap_id (hd (split_on CHR ''#'' vm_id)))) (\<lambda>row.
         case Option.bind row a_ed25519_public_key of
           None \<Rightarrow> ret False
         | Some pk \<Rightarrow> bindE (gets w_now) (\<lambda>now. ret (verify_proof E now activity pk = Valid))))"

section \<open>One delivery\<close>

definition drop_row :: "nat \<Rightarrow> world \<Rightarrow> world" where
  "drop_row queue_id s = snd (execute (\<lambda>s. s\<lparr>w_deliveries :=
     filter (\<lambda>d. d_id d \<noteq> queue_id) (w_deliveries s)\<rparr>) s)"

definition WEEK :: timestamp where
  "WEEK = 7 * 86400 * 1000"

text \<open>Seconds: \<open>60 * 2^attempts\<close>, at most a week.  A claimed row has fewer than ten attempts.\<close>

definition backoff_secs :: "nat \<Rightarrow> int" where
  "backoff_secs current_attempts = min (60 * 2 ^ current_attempts) (7 * 86400)"

definition schedule_retry :: "nat \<Rightarrow> nat \<Rightarrow> world \<Rightarrow> world" where
  "schedule_retry queue_id current_attempts s =
    (let next_retry = w_now s + 1000 * backoff_secs current_attempts in
     snd (execute (\<lambda>s. s\<lparr>w_deliveries := map (\<lambda>d. if d_id d = queue_id
       then d\<lparr>d_attempts := Suc (d_attempts d), d_next_retry := next_retry\<rparr> else d) (w_deliveries s)\<rparr>) s))"

definition tombstone_ap_id :: "string \<Rightarrow> unit prog" where
  "tombstone_ap_id ap_id = execute (\<lambda>s. if ap_id \<in> set (w_tombstones s) then s
     else s\<lparr>w_tombstones := w_tombstones s @ [ap_id]\<rparr>)"

text \<open>A 410: the row goes, the actors with that inbox are tombstoned, and so do the inbox's other rows.\<close>

definition actors_with_inbox :: "string \<Rightarrow> world \<Rightarrow> string list" where
  "actors_with_inbox inbox s = map a_ap_id (filter (\<lambda>a. \<not> a_is_local a
     \<and> (a_inbox_url a = Some inbox \<or> ar_shared_inbox_url a = Some inbox)) (w_actors s))"

definition inbox_gone :: "nat \<Rightarrow> string \<Rightarrow> world \<Rightarrow> world" where
  "inbox_gone queue_id inbox s =
    (let s1 = drop_row queue_id s in
     case attempt (query (actors_with_inbox inbox)) s1 of (r, s2) \<Rightarrow>
       let tombstoned = (case r of Inr (Inr ids) \<Rightarrow> ids | _ \<Rightarrow> []);
           s3 = snd (for_each (\<lambda>u. ignore_errors (tombstone_ap_id u)) tombstoned s2)
       in snd (execute (\<lambda>s. s\<lparr>w_deliveries := filter (\<lambda>d. d_target_inbox d \<noteq> inbox) (w_deliveries s)\<rparr>) s3))"

definition inbox_check :: "('u, 'z) env_scheme \<Rightarrow> string \<Rightarrow> 'u option" where
  "inbox_check E inbox = (case url_parse E inbox of Inl _ \<Rightarrow> None
     | Inr url \<Rightarrow> if check_url E url = Inr () then Some url else None)"

definition post_body ::
  "('u, 'z) env_scheme \<Rightarrow> ('u, 'y) delivery_env_scheme \<Rightarrow> string \<Rightarrow> 'u \<Rightarrow> world \<Rightarrow> (string + 'u response) \<times> world" where
  "post_body E D body url = send_from (E\<lparr>net_send := (\<lambda>log u. net_post D log body u)\<rparr>) 1 url"

definition settle :: "delivery_row \<Rightarrow> string + 'u response \<Rightarrow> world \<Rightarrow> world" where
  "settle row answer s = (case answer of
     Inl _ \<Rightarrow> schedule_retry (d_id row) (d_attempts row) s
   | Inr response \<Rightarrow>
       if is_success (resp_status response) then drop_row (d_id row) s
       else if resp_status response = 410 then inbox_gone (d_id row) (d_target_inbox row) s
       else schedule_retry (d_id row) (d_attempts row) s)"

text \<open>The task of one row.  A panic ends it before any further statement.\<close>

definition deliver_one ::
  "('u, 'z) env_scheme \<Rightarrow> ('u, 'y) delivery_env_scheme \<Rightarrow> delivery_row \<Rightarrow> world \<Rightarrow> world" where
  "deliver_one E D row s =
    (case fetch_signing_credentials E D (d_actor_id row) s of
       (Inl _, s1) \<Rightarrow> schedule_retry (d_id row) (d_attempts row) s1
     | (Inr creds, s1) \<Rightarrow>
       (case attach_proof E D (w_now s1) creds (d_payload row) of
          None \<Rightarrow> s1
        | Some payload \<Rightarrow>
          (case inbox_check E (d_target_inbox row) of
             None \<Rightarrow> drop_row (d_id row) s1
           | Some url \<Rightarrow>
             (let body = json_text E payload in
              case sign_post D (sc_private_key creds) (d_target_inbox row) body of
                Some _ \<Rightarrow> schedule_retry (d_id row) (d_attempts row) s1
              | None \<Rightarrow> (case post_body E D body url s1 of (answer, s2) \<Rightarrow> settle row answer s2)))))"

section \<open>A batch\<close>

definition BATCH :: nat where "BATCH = 50"

definition MAX_ATTEMPTS :: nat where "MAX_ATTEMPTS = 10"

definition HOUR :: timestamp where "HOUR = 3600 * 1000"

definition due :: "world \<Rightarrow> delivery_row \<Rightarrow> bool" where
  "due s d = (d_next_retry d \<le> w_now s \<and> d_attempts d < MAX_ATTEMPTS)"

text \<open>The statement that claims rows moves their \<open>next_retry\<close> an hour ahead and returns them.\<close>

definition claim_rows :: "delivery_row list prog" where
  "claim_rows = stmt (\<lambda>s.
     let claimed = take BATCH (sort_key d_next_retry (filter (due s) (w_deliveries s))) in
     (Inr claimed, s\<lparr>w_deliveries := map (\<lambda>d. if d_id d \<in> d_id ` set claimed
        then d\<lparr>d_next_retry := w_now s + HOUR\<rparr> else d) (w_deliveries s)\<rparr>))"

definition process_queue ::
  "('u, 'z) env_scheme \<Rightarrow> ('u, 'y) delivery_env_scheme \<Rightarrow> world \<Rightarrow> world" where
  "process_queue E D s = (case claim_rows s of
     (Inl _, s1) \<Rightarrow> s1
   | (Inr rows, s1) \<Rightarrow> fold (deliver_one E D) rows s1)"

text \<open>
  \<open>run_worker\<close> and its polling fallback call \<open>process_queue\<close> for ever, on a notification or when
  the interval has passed: a run is given by the times of the calls.
\<close>

definition run_worker ::
  "('u, 'z) env_scheme \<Rightarrow> ('u, 'y) delivery_env_scheme \<Rightarrow> timestamp list \<Rightarrow> world \<Rightarrow> world" where
  "run_worker E D instants s = fold (\<lambda>t s. process_queue E D (s\<lparr>w_now := t\<rparr>)) instants s"

end
