(* ===== verification/DeliveryProgress.thy ===== *)
theory DeliveryProgress
  imports Delivery
begin

text \<open>
  Why the delivery queue drains: every delivery drops a row or spends one of its ten attempts, a
  retry is never more than a week away, and so a worker that keeps coming back settles every row.
\<close>

section \<open>Attempts left\<close>

definition attempts_left :: "world \<Rightarrow> nat" where
  "attempts_left s = (\<Sum>d\<leftarrow>w_deliveries s. MAX_ATTEMPTS - d_attempts d)"

definition pending :: "delivery_row \<Rightarrow> bool" where
  "pending d = (d_attempts d < MAX_ATTEMPTS)"

lemma no_attempts_left: "attempts_left s = 0 \<longleftrightarrow> \<not> list_ex pending (w_deliveries s)"
  by (auto simp: attempts_left_def pending_def list_ex_iff)

text \<open>Some rows are gone and others have spent attempts.\<close>

definition thinned :: "delivery_row list \<Rightarrow> delivery_row list \<Rightarrow> bool" where
  "thinned xs ys \<longleftrightarrow> (\<exists>f P. ys = map f (filter P xs)
     \<and> (\<forall>x. d_id (f x) = d_id x \<and> d_attempts x \<le> d_attempts (f x) \<and> d_payload (f x) = d_payload x))"

lemma thinnedI:
  assumes "ys = map f (filter P xs)"
    and "\<And>x. d_id (f x) = d_id x" "\<And>x. d_attempts x \<le> d_attempts (f x)" "\<And>x. d_payload (f x) = d_payload x"
  shows "thinned xs ys"
  unfolding thinned_def using assms by blast

lemma thinned_filter: "thinned xs (filter P xs)"
  by (rule thinnedI [where f = id and P = P]) simp_all

lemma thinned_map:
  assumes "\<And>x. d_id (f x) = d_id x" "\<And>x. d_attempts x \<le> d_attempts (f x)" "\<And>x. d_payload (f x) = d_payload x"
  shows "thinned xs (map f xs)"
  by (rule thinnedI [where f = f and P = "\<lambda>x. True"]) (simp_all add: assms)

lemma thinned_refl: "thinned xs xs"
  using thinned_filter [of xs "\<lambda>x. True"] by simp

lemma thinned_trans:
  assumes "thinned xs ys" and "thinned ys zs"
  shows "thinned xs zs"
proof -
  obtain f P g Q where f: "ys = map f (filter P xs)"
      "\<And>x. d_id (f x) = d_id x \<and> d_attempts x \<le> d_attempts (f x) \<and> d_payload (f x) = d_payload x"
    and g: "zs = map g (filter Q ys)"
      "\<And>x. d_id (g x) = d_id x \<and> d_attempts x \<le> d_attempts (g x) \<and> d_payload (g x) = d_payload x"
    using assms unfolding thinned_def by blast
  have "zs = map (g \<circ> f) (filter (\<lambda>x. P x \<and> Q (f x)) xs)"
    by (simp add: f g filter_map o_def conj_commute)
  moreover have "d_attempts x \<le> d_attempts (g (f x))" for x
    using f(2) [of x] g(2) [of "f x"] by linarith
  ultimately show ?thesis
    using f(2) g(2) by (intro thinnedI [where f = "g \<circ> f"]) auto
qed

lemma thinned_ids: "thinned xs ys \<Longrightarrow> d_id ` set ys \<subseteq> d_id ` set xs"
  by (auto simp: thinned_def)

lemma thinned_payloads: "thinned xs ys \<Longrightarrow> d_payload ` set ys \<subseteq> d_payload ` set xs"
  by (auto simp: thinned_def)

lemma sum_list_le_less:
  fixes g h :: "'a \<Rightarrow> nat"
  assumes "\<And>x. g x \<le> h x"
  shows "(\<Sum>x\<leftarrow>xs. g x) \<le> (\<Sum>x\<leftarrow>xs. h x)"
    and "x \<in> set xs \<Longrightarrow> g x < h x \<Longrightarrow> (\<Sum>x\<leftarrow>xs. g x) < (\<Sum>x\<leftarrow>xs. h x)"
proof -
  show le: "(\<Sum>x\<leftarrow>xs. g x) \<le> (\<Sum>x\<leftarrow>xs. h x)" for xs
    by (rule sum_list_mono) (rule assms)
  show "x \<in> set xs \<Longrightarrow> g x < h x \<Longrightarrow> (\<Sum>x\<leftarrow>xs. g x) < (\<Sum>x\<leftarrow>xs. h x)"
    by (induction xs) (auto intro: add_less_le_mono add_le_less_mono assms le)
qed

lemma sum_list_map_filter': "(\<Sum>x\<leftarrow>filter P xs. g x) = (\<Sum>x\<leftarrow>xs. if P x then g x else (0::nat))"
  by (induction xs) auto

lemma attempts_left_thinned:
  assumes "thinned (w_deliveries s) (w_deliveries t)"
  shows "attempts_left t \<le> attempts_left s"
    and "\<lbrakk>d \<in> set (w_deliveries s); pending d;
          \<And>y. \<lbrakk>y \<in> set (w_deliveries t); d_id y = d_id d\<rbrakk> \<Longrightarrow> d_attempts d < d_attempts y\<rbrakk>
         \<Longrightarrow> attempts_left t < attempts_left s"
proof -
  obtain f P where f: "w_deliveries t = map f (filter P (w_deliveries s))"
    "\<And>x. d_id (f x) = d_id x" "\<And>x. d_attempts x \<le> d_attempts (f x)"
    using assms unfolding thinned_def by blast
  have t: "attempts_left t =
      (\<Sum>x\<leftarrow>w_deliveries s. if P x then MAX_ATTEMPTS - d_attempts (f x) else 0)"
    by (simp add: attempts_left_def f(1) sum_list_map_filter' o_def)
  have le: "(if P x then MAX_ATTEMPTS - d_attempts (f x) else 0) \<le> MAX_ATTEMPTS - d_attempts x" for x
    using f(3) [of x] by auto
  show "attempts_left t \<le> attempts_left s"
    unfolding t unfolding attempts_left_def by (rule sum_list_le_less) (rule le)
  assume d: "d \<in> set (w_deliveries s)" "pending d"
    and spent: "\<And>y. \<lbrakk>y \<in> set (w_deliveries t); d_id y = d_id d\<rbrakk> \<Longrightarrow> d_attempts d < d_attempts y"
  have "(if P d then MAX_ATTEMPTS - d_attempts (f d) else 0) < MAX_ATTEMPTS - d_attempts d"
    using d spent [of "f d"] f(2) [of d] by (auto simp: f(1) pending_def)
  then show "attempts_left t < attempts_left s"
    unfolding t unfolding attempts_left_def by (rule sum_list_le_less(2) [OF le d(1)])
qed

section \<open>One delivery\<close>

definition timely :: "world \<Rightarrow> bool" where
  "timely s \<longleftrightarrow> (\<forall>d\<in>set (w_deliveries s). d_next_retry d \<le> w_now s + WEEK)"

text \<open>From \<open>s\<close> to \<open>t\<close> the queue only shrinks, and the row \<open>i\<close> goes or spends an attempt.\<close>

definition same_queue :: "world \<Rightarrow> world \<Rightarrow> bool" where
  "same_queue s t \<longleftrightarrow> w_deliveries t = w_deliveries s \<and> w_now t = w_now s \<and> w_fault t = w_fault s"

definition spends :: "nat \<Rightarrow> world \<Rightarrow> world \<Rightarrow> bool" where
  "spends i s t \<longleftrightarrow> thinned (w_deliveries s) (w_deliveries t) \<and> w_now t = w_now s \<and> w_fault t = w_fault s
     \<and> (timely s \<longrightarrow> timely t)
     \<and> (\<forall>y\<in>set (w_deliveries t). d_id y = i \<longrightarrow>
          (\<exists>x\<in>set (w_deliveries s). d_id x = i \<and> d_attempts x < d_attempts y))"

lemma same_queue_refl [simp]: "same_queue s s"
  by (simp add: same_queue_def)

lemma same_queue_trans: "same_queue s t \<Longrightarrow> same_queue t u \<Longrightarrow> same_queue s u"
  by (simp add: same_queue_def)

lemma same_queue_fault: "same_queue s t \<Longrightarrow> no_fault t = no_fault s"
  by (simp add: same_queue_def no_fault_def)

lemma same_queue_timely: "same_queue s t \<Longrightarrow> timely t = timely s"
  by (simp add: same_queue_def timely_def)

lemma spends_fault: "spends i s t \<Longrightarrow> no_fault t = no_fault s"
  by (simp add: spends_def no_fault_def)

lemma same_queue_spends:
  assumes "same_queue s t" and "spends i t u" shows "spends i s u"
  using assms same_queue_timely [OF assms(1)] unfolding spends_def same_queue_def by (elim conjE) simp

lemma spends_same_queue:
  assumes "spends i s t" and "same_queue t u" shows "spends i s u"
  using assms same_queue_timely [OF assms(2)] unfolding spends_def same_queue_def by (elim conjE) simp

lemma spends_filter:
  assumes "spends i s t" and "w_deliveries u = filter P (w_deliveries t)"
    and "w_now u = w_now t" "w_fault u = w_fault t"
  shows "spends i s u"
proof -
  have "thinned (w_deliveries s) (w_deliveries u)"
    using assms(1) thinned_trans [OF _ thinned_filter] unfolding spends_def assms(2) by blast
  moreover have "timely t \<Longrightarrow> timely u"
    unfolding timely_def assms(2,3) by simp
  ultimately show ?thesis
    using assms unfolding spends_def by (elim conjE) simp
qed

lemma keeps_same_queue_query: "keeps (same_queue s) (query f)"
  by (auto simp: keeps_def same_queue_def query_def stmt_def Let_def)

lemma keeps_same_queue_tombstone: "keeps (same_queue s) (tombstone_ap_id u)"
  by (auto simp: keeps_def same_queue_def tombstone_ap_id_def execute_def stmt_def Let_def)

lemma backoff_bounds: "0 < backoff_secs n" "1000 * backoff_secs n \<le> WEEK"
  by (simp_all add: backoff_secs_def WEEK_def)

lemma drop_row_spends:
  assumes "no_fault s" shows "spends i s (drop_row i s)"
  using assms thinned_filter [of "w_deliveries s"]
  by (auto simp: spends_def drop_row_def execute_ok timely_def)

lemma schedule_retry_spends:
  assumes "no_fault s" shows "spends i s (schedule_retry i n s)"
proof -
  define nxt where "nxt = w_now s + 1000 * backoff_secs n"
  define f where "f = (\<lambda>d :: delivery_row. if d_id d = i then d\<lparr>d_attempts := Suc (d_attempts d), d_next_retry := nxt\<rparr> else d)"
  let ?t = "schedule_retry i n s"
  have t: "w_deliveries ?t = map f (w_deliveries s)" "w_now ?t = w_now s" "w_fault ?t = w_fault s"
    by (simp_all add: schedule_retry_def execute_ok [OF assms] f_def nxt_def)
  have "thinned (w_deliveries s) (map f (w_deliveries s))"
    by (rule thinned_map) (simp_all add: f_def)
  moreover have "timely s \<Longrightarrow> timely ?t"
    using backoff_bounds(2) [of n] unfolding timely_def t by (auto simp: f_def nxt_def)
  moreover have "\<exists>x\<in>set (w_deliveries s). d_id x = i \<and> d_attempts x < d_attempts y"
    if y: "y \<in> set (map f (w_deliveries s))" "d_id y = i" for y
  proof -
    obtain x where x: "x \<in> set (w_deliveries s)" "y = f x" using y(1) by auto
    have "d_id x = i" using y(2) unfolding x(2) f_def by (simp split: if_splits)
    with x show ?thesis by (intro bexI [of _ x]) (simp_all add: f_def)
  qed
  ultimately show ?thesis
    using t by (simp add: spends_def)
qed

lemma inbox_gone_spends:
  assumes "no_fault s" shows "spends i s (inbox_gone i inbox s)"
proof -
  let ?s1 = "drop_row i s"
  obtain r s2 where r: "attempt (query (actors_with_inbox inbox)) ?s1 = (r, s2)" by fastforce
  define ids where "ids = (case r of Inr (Inr ids) \<Rightarrow> ids | _ \<Rightarrow> [])"
  let ?s3 = "snd (for_each (\<lambda>u. ignore_errors (tombstone_ap_id u)) ids s2)"
  have 2: "same_queue ?s1 s2"
    using keepsD [OF keeps_attempt [OF keeps_same_queue_query [of ?s1 "actors_with_inbox inbox"]] same_queue_refl]
    unfolding r by simp
  have "keeps (same_queue ?s1) (for_each (\<lambda>u. ignore_errors (tombstone_ap_id u)) ids)"
    by (intro keeps_for_each keeps_ignore_errors keeps_same_queue_tombstone)
  then have 3: "same_queue ?s1 ?s3" using 2 by (rule keepsD)
  note s = spends_same_queue [OF drop_row_spends [OF assms] 3]
  then have "no_fault ?s3" using assms spends_fault by blast
  then have "spends i s (snd (execute (\<lambda>s. s\<lparr>w_deliveries :=
      filter (\<lambda>d. d_target_inbox d \<noteq> inbox) (w_deliveries s)\<rparr>) ?s3))"
    by (intro spends_filter [OF s]) (simp_all add: execute_ok)
  then show ?thesis
    by (simp add: inbox_gone_def r Let_def ids_def)
qed

lemma settle_spends:
  "no_fault s \<Longrightarrow> spends (d_id row) s (settle row answer s)"
  by (simp add: settle_def drop_row_spends schedule_retry_spends inbox_gone_spends split: sum.split)

lemma keeps_same_queue_credentials: "keeps (same_queue s) (fetch_signing_credentials E D actor_id)"
  unfolding fetch_signing_credentials_def
  by (intro keeps_intros keeps_same_queue_query)

lemma attach_proof_object:
  "is_object payload \<Longrightarrow> attach_proof E D now creds payload \<noteq> None"
  by (auto simp: attach_proof_def signed_payload_def sign_proof_def sign_with_config_def index_target_def
      Let_def split: option.splits sum.splits)

lemma post_body_same_queue: "same_queue s (snd (post_body E D body url s))"
proof -
  obtain l where "snd (post_body E D body url s) = s\<lparr>w_log := l @ w_log s\<rparr>"
    using send_from_log [of "E\<lparr>net_send := (\<lambda>log u. net_post D log body u)\<rparr>" 1 url s]
    unfolding post_body_def by blast
  then show ?thesis by (simp add: same_queue_def)
qed

lemma deliver_one_spends:
  assumes "no_fault s" and "is_object (d_payload row)"
  shows "spends (d_id row) s (deliver_one E D row s)"
proof -
  obtain r s1 where r: "fetch_signing_credentials E D (d_actor_id row) s = (r, s1)" by fastforce
  have s1: "same_queue s s1"
    using keepsD [OF keeps_same_queue_credentials [of s E D "d_actor_id row"] same_queue_refl]
    unfolding r by simp
  have ok: "no_fault s1" using assms(1) same_queue_fault [OF s1] by simp
  have "spends (d_id row) s1 (deliver_one E D row s)"
  proof (cases r)
    case (Inl e)
    then show ?thesis using ok by (simp add: deliver_one_def r schedule_retry_spends)
  next
    case (Inr creds)
    obtain payload where p: "attach_proof E D (w_now s1) creds (d_payload row) = Some payload"
      using attach_proof_object [OF assms(2)] by blast
    have "spends (d_id row) s1 (case post_body E D body url s1 of (answer, s2) \<Rightarrow> settle row answer s2)" for body url
    proof -
      obtain answer s2 where a: "post_body E D body url s1 = (answer, s2)" by fastforce
      have s2: "same_queue s1 s2"
        using post_body_same_queue [of s1 E D body url] unfolding a by simp
      have "spends (d_id row) s1 (settle row answer s2)"
        by (rule same_queue_spends [OF s2 settle_spends]) (use ok same_queue_fault [OF s2] in simp)
      then show ?thesis by (simp add: a)
    qed
    then show ?thesis
      using ok by (simp add: deliver_one_def r Inr p Let_def drop_row_spends schedule_retry_spends
          split: option.split)
  qed
  with s1 show ?thesis by (rule same_queue_spends)
qed

section \<open>A batch\<close>

definition shrinks :: "world \<Rightarrow> world \<Rightarrow> bool" where
  "shrinks s t \<longleftrightarrow> thinned (w_deliveries s) (w_deliveries t) \<and> w_now t = w_now s \<and> w_fault t = w_fault s
     \<and> (timely s \<longrightarrow> timely t)"

lemma shrinks_refl: "shrinks s s"
  by (simp add: shrinks_def thinned_refl)

lemma shrinks_trans: "shrinks s t \<Longrightarrow> shrinks t u \<Longrightarrow> shrinks s u"
  unfolding shrinks_def by (elim conjE) (simp add: thinned_trans [of "w_deliveries s" "w_deliveries t"])

lemma spends_shrinks: "spends i s t \<Longrightarrow> shrinks s t"
  by (simp add: spends_def shrinks_def)

lemma thinned_origin: "thinned xs ys \<Longrightarrow> y \<in> set ys \<Longrightarrow> \<exists>x\<in>set xs. d_id x = d_id y \<and> d_attempts x \<le> d_attempts y"
  unfolding thinned_def by fastforce

lemma spends_shrinks_trans:
  assumes "spends i s t" and "shrinks t u" shows "spends i s u"
proof -
  have "shrinks s u"
    using shrinks_trans [OF spends_shrinks [OF assms(1)] assms(2)] .
  moreover have "\<exists>x\<in>set (w_deliveries s). d_id x = i \<and> d_attempts x < d_attempts y"
    if y: "y \<in> set (w_deliveries u)" "d_id y = i" for y
  proof -
    obtain x where x: "x \<in> set (w_deliveries t)" "d_id x = i" "d_attempts x \<le> d_attempts y"
      using thinned_origin [OF _ y(1), of "w_deliveries t"] assms(2) y(2) by (auto simp: shrinks_def)
    then obtain z where "z \<in> set (w_deliveries s)" "d_id z = i" "d_attempts z < d_attempts x"
      using assms(1) unfolding spends_def by blast
    then show ?thesis using x(3) by (intro bexI [of _ z]) auto
  qed
  ultimately show ?thesis
    unfolding shrinks_def spends_def by blast
qed

lemma fold_deliver_shrinks:
  "\<lbrakk>no_fault s; \<forall>r\<in>set rows. is_object (d_payload r)\<rbrakk> \<Longrightarrow> shrinks s (fold (deliver_one E D) rows s)"
proof (induction rows arbitrary: s)
  case (Cons r rows)
  have "spends (d_id r) s (deliver_one E D r s)"
    using Cons.prems by (intro deliver_one_spends) auto
  then show ?case
    using Cons.IH [of "deliver_one E D r s"] Cons.prems spends_fault shrinks_trans [OF spends_shrinks]
    by simp
qed (simp add: shrinks_refl)

definition claimed_rows :: "world \<Rightarrow> delivery_row list" where
  "claimed_rows s = take BATCH (sort_key d_next_retry (filter (due s) (w_deliveries s)))"

definition claimed_world :: "world \<Rightarrow> world" where
  "claimed_world s = s\<lparr>w_tick := Suc (w_tick s), w_deliveries := map (\<lambda>d. if d_id d \<in> d_id ` set (claimed_rows s)
        then d\<lparr>d_next_retry := w_now s + HOUR\<rparr> else d) (w_deliveries s)\<rparr>"

lemma due_tick: "due (s\<lparr>w_tick := n\<rparr>) = due s"
  by (rule ext) (simp add: due_def)

lemma claim_rows_Inr:
  "claim_rows s = (Inr rows, t) \<longleftrightarrow> \<not> w_fault s (w_tick s) \<and> rows = claimed_rows s \<and> t = claimed_world s"
  by (auto simp: claim_rows_def stmt_def Let_def claimed_world_def claimed_rows_def due_tick)

lemma claimed_due: "r \<in> set (claimed_rows s) \<Longrightarrow> r \<in> set (w_deliveries s) \<and> due s r"
  unfolding claimed_rows_def by (auto dest: in_set_takeD)

lemma claimed_some:
  assumes "d \<in> set (w_deliveries s)" "due s d"
  obtains r rows where "claimed_rows s = r # rows"
proof -
  have "filter (due s) (w_deliveries s) \<noteq> []"
    using assms by (auto simp: filter_empty_conv)
  then have "length (claimed_rows s) \<noteq> 0"
    by (simp add: claimed_rows_def BATCH_def)
  then show thesis using that by (cases "claimed_rows s") auto
qed

lemma claimed_shrinks: "shrinks s (claimed_world s)"
  unfolding shrinks_def claimed_world_def
  by (auto intro!: thinned_map simp: timely_def HOUR_def WEEK_def)

definition queue_ok :: "world \<Rightarrow> bool" where
  "queue_ok s \<longleftrightarrow> no_fault s \<and> timely s \<and> distinct (map d_id (w_deliveries s))
     \<and> (\<forall>d\<in>set (w_deliveries s). is_object (d_payload d))"

lemma thinned_distinct:
  assumes "thinned xs ys" and "distinct (map d_id xs)" shows "distinct (map d_id ys)"
proof -
  obtain f P where f: "ys = map f (filter P xs)" "\<And>x. d_id (f x) = d_id x"
    using assms(1) unfolding thinned_def by blast
  then have "map d_id ys = map d_id (filter P xs)" by simp
  then show ?thesis by (simp add: distinct_map_filter assms(2))
qed

lemma queue_ok_shrinks:
  assumes "queue_ok s" and "shrinks s t" shows "queue_ok t"
proof -
  have th: "thinned (w_deliveries s) (w_deliveries t)" using assms(2) by (simp add: shrinks_def)
  have "is_object (d_payload d)" if "d \<in> set (w_deliveries t)" for d
  proof -
    have "d_payload d \<in> d_payload ` set (w_deliveries s)"
      using thinned_payloads [OF th] that by (rule subsetD [OF _ imageI])
    then show ?thesis using assms(1) by (auto simp: queue_ok_def)
  qed
  then show ?thesis
    using assms thinned_distinct [OF th] by (simp add: queue_ok_def shrinks_def no_fault_def)
qed

lemma process_queue_eq:
  "queue_ok s \<Longrightarrow> process_queue E D s = fold (deliver_one E D) (claimed_rows s) (claimed_world s)"
  using claim_rows_Inr [of s "claimed_rows s" "claimed_world s"]
  by (simp add: process_queue_def queue_ok_def no_fault_def)

lemma claimed_objects: "queue_ok s \<Longrightarrow> \<forall>x\<in>set (claimed_rows s). is_object (d_payload x)"
  using claimed_due unfolding queue_ok_def by blast

lemma process_queue_shrinks:
  assumes "queue_ok s" shows "shrinks s (process_queue E D s)"
proof -
  have "no_fault (claimed_world s)"
    using queue_ok_shrinks [OF assms claimed_shrinks] by (simp add: queue_ok_def)
  then show ?thesis
    unfolding process_queue_eq [OF assms]
    by (rule shrinks_trans [OF claimed_shrinks fold_deliver_shrinks [OF _ claimed_objects [OF assms]]])
qed

lemma process_queue_progress:
  assumes ok: "queue_ok s" and d: "d \<in> set (w_deliveries s)" "due s d"
  shows "attempts_left (process_queue E D s) < attempts_left s"
proof -
  let ?s1 = "claimed_world s" and ?t = "process_queue E D s"
  obtain r rows where r: "claimed_rows s = r # rows" using claimed_some [OF d] .
  then have r_in: "r \<in> set (w_deliveries s)" "due s r" using claimed_due [of r s] by auto
  have ok1: "queue_ok ?s1" by (rule queue_ok_shrinks [OF ok claimed_shrinks])
  have objects: "\<forall>x\<in>set (r # rows). is_object (d_payload x)"
    using claimed_objects [OF ok] unfolding r .
  define r' where "r' = r\<lparr>d_next_retry := w_now s + HOUR\<rparr>"
  have r': "r' \<in> set (w_deliveries ?s1)" "d_id r' = d_id r" "pending r'"
    using r_in r by (auto simp: claimed_world_def r'_def pending_def due_def intro!: image_eqI [of _ _ r])
  have first: "spends (d_id r) ?s1 (deliver_one E D r ?s1)"
    using ok1 objects by (intro deliver_one_spends) (auto simp: queue_ok_def)
  have "shrinks (deliver_one E D r ?s1) ?t"
    unfolding process_queue_eq [OF ok] r fold_simps
    using ok1 objects spends_fault [OF first] by (intro fold_deliver_shrinks) (auto simp: queue_ok_def)
  then have all: "spends (d_id r) ?s1 ?t" by (rule spends_shrinks_trans [OF first])
  have unique: "x = r'" if "x \<in> set (w_deliveries ?s1)" "d_id x = d_id r" for x
    using ok1 that r' inj_onD [of d_id "set (w_deliveries ?s1)" x r'] by (simp add: queue_ok_def distinct_map)
  have "attempts_left ?t < attempts_left ?s1"
    by (rule attempts_left_thinned(2) [OF _ r'(1,3)]) (use all unique r'(2) in \<open>fastforce simp: spends_def\<close>)+
  also have "\<dots> \<le> attempts_left s"
    using claimed_shrinks by (intro attempts_left_thinned(1)) (simp add: shrinks_def)
  finally show ?thesis .
qed

section \<open>The worker\<close>

lemma queue_ok_later: "queue_ok s \<Longrightarrow> w_now s \<le> t \<Longrightarrow> queue_ok (s\<lparr>w_now := t\<rparr>)"
  by (fastforce simp: queue_ok_def no_fault_def timely_def)

lemma attempts_left_now [simp]: "attempts_left (s\<lparr>w_now := t\<rparr>) = attempts_left s"
  by (simp add: attempts_left_def)

lemma attempts_left_pending: "0 < attempts_left s \<Longrightarrow> \<exists>d\<in>set (w_deliveries s). pending d"
  using no_attempts_left [of s] by (auto simp: list_ex_iff)

definition weekly :: "timestamp \<Rightarrow> timestamp list \<Rightarrow> bool" where
  "weekly now instants = successively (\<lambda>a b. a + WEEK \<le> b) (now # instants)"

lemma run_worker_spends:
  "\<lbrakk>queue_ok s; weekly (w_now s) instants\<rbrakk>
   \<Longrightarrow> attempts_left (run_worker E D instants s) \<le> attempts_left s - length instants
     \<and> queue_ok (run_worker E D instants s)"
proof (induction instants arbitrary: s)
  case (Cons t instants)
  let ?s = "s\<lparr>w_now := t\<rparr>"
  let ?u = "process_queue E D ?s"
  have t: "w_now s + WEEK \<le> t" and later: "weekly t instants"
    using Cons.prems(2) by (auto simp: weekly_def)
  have now: "w_now s \<le> t" using t by (simp add: WEEK_def)
  have ok: "queue_ok ?s" by (rule queue_ok_later [OF Cons.prems(1) now])
  have sh: "shrinks ?s ?u" by (rule process_queue_shrinks [OF ok])
  then have u: "queue_ok ?u" "w_now ?u = t" using queue_ok_shrinks [OF ok] by (simp_all add: shrinks_def)
  have "attempts_left ?u \<le> attempts_left s - 1"
  proof (cases "attempts_left s")
    case 0
    then show ?thesis using attempts_left_thinned(1) [of ?s ?u] sh by (simp add: shrinks_def)
  next
    case (Suc n)
    then obtain d where d: "d \<in> set (w_deliveries s)" "pending d" using attempts_left_pending [of s] by auto
    then have "due ?s d"
      using Cons.prems(1) t by (fastforce simp: due_def pending_def queue_ok_def timely_def)
    then show ?thesis using process_queue_progress [OF ok, of d E D] d(1) by simp
  qed
  then show ?case
    using Cons.IH [OF u(1)] later u(2) by (simp add: run_worker_def) linarith
qed (simp add: run_worker_def)

end
