(* ===== verification/WorkClaims.thy ===== *)
theory WorkClaims
  imports Samples DeliveryProgress
begin

text \<open>
  The properties of the background workers, with their witnesses on the instance of \<open>Samples\<close>.
\<close>

section \<open>Deliveries on the instance\<close>

definition sample_delivery :: "string delivery_env" where
  "sample_delivery = \<lparr> rsa_key_ok = (\<lambda>k. True), sign_post = (\<lambda>k u b. None),
     net_post = (\<lambda>log body u. NetFail ''connection refused''), show_seconds = (\<lambda>t. ''1970-01-01T00:00:00Z'') \<rparr>"

definition sample_queue :: world where
  "sample_queue = sample_world\<lparr>w_deliveries := [\<lparr>d_id = 0, d_actor_id = 1, d_payload = sample_document,
     d_target_inbox = ''https://far.example/inbox'', d_attempts = 8, d_next_retry = 0\<rparr>]\<rparr>"

lemma sample_queue_ok: "queue_ok sample_queue"
  by (simp add: queue_ok_def sample_queue_def sample_world_def no_fault_def timely_def WEEK_def sample_document_def)

section \<open>Facts about deliveries\<close>

lemma claimed_fault: "w_fault (claimed_world s) = w_fault s"
  by (simp add: claimed_world_def)

lemma backoff_of_claimed:
  assumes "r \<in> set (claimed_rows s)"
  shows "backoff_secs (d_attempts r) = 60 * 2 ^ d_attempts r" "backoff_secs (d_attempts r) < 9 * 3600"
proof -
  have "d_attempts r \<le> 9"
    using claimed_due [OF assms] by (simp add: due_def MAX_ATTEMPTS_def)
  then have "(2::int) ^ d_attempts r \<le> 2 ^ 9" by (intro power_increasing) simp_all
  then show "backoff_secs (d_attempts r) = 60 * 2 ^ d_attempts r" "backoff_secs (d_attempts r) < 9 * 3600"
    by (simp_all add: backoff_secs_def)
qed

lemma keeps_log_safe_stmt: "(\<And>s. log_safe E (snd (f s)) = log_safe E s) \<Longrightarrow> keeps (log_safe E) (stmt f)"
  by (simp add: keeps_def stmt_def Let_def log_safe_def)

lemma keeps_log_safe_claim: "keeps (log_safe E) claim_rows"
  unfolding claim_rows_def by (rule keeps_log_safe_stmt) (simp add: log_safe_def Let_def)

lemma log_safe_execute: "(\<And>s. w_log (f s) = w_log s) \<Longrightarrow> log_safe E (snd (execute f s)) = log_safe E s"
  by (simp add: execute_def stmt_def Let_def log_safe_def)

lemma log_safe_rows [simp]: "log_safe E (drop_row i s) = log_safe E s" "log_safe E (schedule_retry i n s) = log_safe E s"
  by (simp_all add: drop_row_def schedule_retry_def log_safe_execute Let_def)

lemma keeps_log_safe_query: "keeps (log_safe E) (query f)"
  unfolding query_def by (rule keeps_log_safe_stmt) simp

lemma keeps_log_safe_tombstone: "keeps (log_safe E) (tombstone_ap_id u)"
  unfolding tombstone_ap_id_def execute_def by (rule keeps_log_safe_stmt) (simp add: log_safe_def)

lemma log_safe_gone:
  assumes "log_safe E s" shows "log_safe E (inbox_gone i inbox s)"
proof -
  obtain r s2 where r: "attempt (query (actors_with_inbox inbox)) (drop_row i s) = (r, s2)" by fastforce
  have s2: "log_safe E s2"
    using keepsD [OF keeps_attempt [OF keeps_log_safe_query], of E "drop_row i s" "actors_with_inbox inbox"] assms
    by (simp add: r)
  have "log_safe E (snd (for_each (\<lambda>u. ignore_errors (tombstone_ap_id u)) ids s2))" for ids
    using s2 by (intro keepsD [of "log_safe E"] keeps_for_each keeps_ignore_errors keeps_log_safe_tombstone)
  then show ?thesis
    by (simp add: inbox_gone_def r Let_def log_safe_execute)
qed

lemma check_url_net [simp]: "check_url (E\<lparr>net_send := f\<rparr>) url = check_url E url"
  by (simp add: check_url_def cong: option.case_cong if_cong)

lemma log_safe_settle: "log_safe E s \<Longrightarrow> log_safe E (settle row answer s)"
  by (simp add: settle_def log_safe_gone split: sum.split)

lemma keeps_log_safe_credentials: "keeps (log_safe E) (fetch_signing_credentials E' D i)"
  unfolding fetch_signing_credentials_def by (intro keeps_intros keeps_log_safe_query)

lemma inbox_check_Some: "inbox_check E inbox = Some url \<Longrightarrow> check_url E url = Inr ()"
  by (auto simp: inbox_check_def split: sum.splits if_splits)

lemma log_safe_post:
  assumes "check_url E url = Inr ()" and "log_safe E s"
  shows "log_safe E (snd (post_body E D body url s))"
proof -
  let ?E = "E\<lparr>net_send := (\<lambda>log u. net_post D log body u)\<rparr>"
  have "check_url ?E url = Inr ()" using assms(1) by simp
  then obtain l where "snd (post_body E D body url s) = s\<lparr>w_log := l @ w_log s\<rparr>" "\<forall>c\<in>set l. safe_contact ?E c"
    using send_from_log [of ?E 1 url s] unfolding post_body_def by blast
  moreover have "safe_contact ?E c = safe_contact E c" for c
    by (simp add: safe_contact_def)
  ultimately show ?thesis using assms(2) by (auto simp: log_safe_def)
qed

lemma log_safe_deliver: "log_safe E s \<Longrightarrow> log_safe E (deliver_one E D row s)"
proof -
  assume s: "log_safe E s"
  obtain r s1 where r: "fetch_signing_credentials E D (d_actor_id row) s = (r, s1)" by fastforce
  have s1: "log_safe E s1" using keepsD [OF keeps_log_safe_credentials s, of E D "d_actor_id row"] by (simp add: r)
  have "log_safe E (case post_body E D body url s1 of (answer, s2) \<Rightarrow> settle row answer s2)"
    if "inbox_check E (d_target_inbox row) = Some url" for body url
    using log_safe_post [OF inbox_check_Some [OF that] s1, of D body]
    by (cases "post_body E D body url s1") (simp add: log_safe_settle)
  then show ?thesis
    using s1 by (simp add: deliver_one_def r Let_def split: sum.split option.split)
qed

section \<open>The delivery worker\<close>



text \<open>Claiming takes at most fifty rows, all due; a second worker that claims within the hour gets
  none of them, and the delay of a claimed row that fails is \<open>60 * 2^attempts\<close> seconds, under nine hours.\<close>

theorem claimed_rows_are_claimed_once:
  assumes "claim_rows s = (Inr rows, t)" and "now < w_now s + HOUR"
    and "claim_rows (t\<lparr>w_now := now\<rparr>) = (Inr again, u)"
  shows "length rows \<le> 50 \<and> list_all (due s) rows \<and> d_id ` set rows \<inter> d_id ` set again = {}
    \<and> list_all (\<lambda>r. backoff_secs (d_attempts r) = 60 * 2 ^ d_attempts r
         \<and> backoff_secs (d_attempts r) < 9 * 3600) rows"
proof -
  have rows: "rows = claimed_rows s" "t = claimed_world s" and again: "again = claimed_rows (t\<lparr>w_now := now\<rparr>)"
    using assms by (simp_all add: claim_rows_Inr)
  have apart: "d_id x \<notin> d_id ` set rows" if "x \<in> set again" for x
  proof
    assume "d_id x \<in> d_id ` set rows"
    moreover have "x \<in> set (w_deliveries t)" "d_next_retry x \<le> now"
      using claimed_due [of x "t\<lparr>w_now := now\<rparr>"] that by (simp_all add: again due_def)
    ultimately have "w_now s + HOUR \<le> now"
      by (auto simp: rows claimed_world_def split: if_splits)
    then show False using assms(2) by simp
  qed
  have "length rows \<le> 50" by (simp add: rows claimed_rows_def BATCH_def)
  moreover have "d_id ` set rows \<inter> d_id ` set again = {}"
  proof (rule equals0I)
    fix i assume "i \<in> d_id ` set rows \<inter> d_id ` set again"
    then obtain x where "x \<in> set again" "i = d_id x" "i \<in> d_id ` set rows" by blast
    then show False using apart [of x] by simp
  qed
  moreover have "list_all (due s) rows"
    using claimed_due [of _ s] by (simp add: rows(1) list_all_iff)
  moreover have "list_all (\<lambda>r. backoff_secs (d_attempts r) = 60 * 2 ^ d_attempts r
         \<and> backoff_secs (d_attempts r) < 9 * 3600) rows"
    unfolding rows(1) list_all_iff by (intro ballI conjI backoff_of_claimed)
  ultimately show ?thesis by (intro conjI)
qed

definition sample_claimed :: world where
  "sample_claimed = snd (claim_rows sample_queue)"

theorem claimed_rows_are_claimed_once_witness:
  "d_id ` set (claimed_rows sample_queue) \<inter> d_id ` set (claimed_rows (sample_claimed\<lparr>w_now := 2000\<rparr>)) = {}"
proof -
  have "no_fault sample_queue" using sample_queue_ok by (simp add: queue_ok_def)
  then have c: "claim_rows sample_queue = (Inr (claimed_rows sample_queue), sample_claimed)"
    by (metis claim_rows_Inr no_fault_def sample_claimed_def snd_conv)
  then have "sample_claimed = claimed_world sample_queue" by (simp only: claim_rows_Inr)
  then have "w_fault sample_claimed = w_fault (claimed_world sample_queue)" by (rule arg_cong)
  then have "w_fault sample_claimed = w_fault sample_queue" by (simp only: claimed_fault)
  then have "claim_rows (sample_claimed\<lparr>w_now := 2000\<rparr>)
      = (Inr (claimed_rows (sample_claimed\<lparr>w_now := 2000\<rparr>)), claimed_world (sample_claimed\<lparr>w_now := 2000\<rparr>))"
    using \<open>no_fault sample_queue\<close> by (simp add: claim_rows_Inr no_fault_def)
  then show ?thesis
    using claimed_rows_are_claimed_once [OF c _ , of 2000]
    by (simp add: HOUR_def sample_queue_def sample_world_def)
qed

text \<open>The delivery worker opens connections only to addresses the guard allows: whatever is queued,
  every connection in the log after a call was allowed by the guard or was there before.\<close>

theorem delivery_worker_opens_guarded_connections:
  "log_safe E s \<Longrightarrow> log_safe E (process_queue E D s)"
proof -
  assume s: "log_safe E s"
  obtain r t where r: "claim_rows s = (r, t)" by fastforce
  have "log_safe E t" using keepsD [OF keeps_log_safe_claim s] by (simp add: r)
  moreover have "log_safe E t \<Longrightarrow> log_safe E (fold (deliver_one E D) rows t)" for rows
    by (induction rows arbitrary: t) (simp_all add: log_safe_deliver)
  ultimately show ?thesis by (simp add: process_queue_def r split: sum.split)
qed

theorem delivery_worker_opens_guarded_connections_witness:
  "log_safe sample_env (process_queue sample_env sample_delivery sample_queue)"
  by (rule delivery_worker_opens_guarded_connections)
    (simp add: log_safe_def sample_queue_def sample_world_def)

end
