(* ===== verification/EmailAddress.thy ===== *)
theory EmailAddress
  imports CoreModel
begin

text \<open>
  \<open>noombat-core/src/email_address.rs\<close>: the shape check of an address.  Rust's \<open>chars\<close> and
  \<open>split\<close> are the byte-string functions of the prelude; Unicode lower-casing in \<open>fold\<close> is a
  parameter.
\<close>

definition MAX_LENGTH :: nat where
  "MAX_LENGTH = 320"

definition ends_with :: "string \<Rightarrow> string \<Rightarrow> bool" where
  "ends_with p s = suffix p s"

definition qualify :: "string \<Rightarrow> string \<Rightarrow> unit result" where
  "qualify addr field =
    (if addr = [] \<or> MAX_LENGTH < length addr then
       Inl (BadRequest (field @ '' must be 1 to '' @ show_nat MAX_LENGTH @ '' characters''))
     else if any_whitespace_or_control addr then
       Inl (BadRequest (field @ '' must not contain whitespace or control characters''))
     else if CHR ''/'' \<in> set addr \<or> CHR 0x5C \<in> set addr then
       Inl (BadRequest (field @ '' must not contain a path separator''))
     else (case split_on CHR ''@'' addr of
         [l, d] \<Rightarrow>
           if l \<noteq> [] \<and> CHR ''.'' \<in> set d \<and> \<not> prefix ''.'' d \<and> \<not> ends_with ''.'' d
              \<and> \<not> contains_str ''..'' d
           then Inr ()
           else Inl (BadRequest (field @ '' must be an address of the form user@host''))
       | _ \<Rightarrow> Inl (BadRequest (field @ '' must be an address of the form user@host''))))"

definition fold_address :: "(string \<Rightarrow> string) \<Rightarrow> string \<Rightarrow> string" where
  "fold_address to_lowercase addr = to_lowercase addr"

section \<open>The shape an accepted address has\<close>

text \<open>
  The dot conditions on the domain say exactly that it has at least two labels and none of
  them is empty.
\<close>

lemma suffix_one: "suffix [c] s \<longleftrightarrow> s \<noteq> [] \<and> last s = c"
  by (cases s rule: rev_cases) (auto simp: suffix_def)

lemma suffix_one_Cons: "suffix [c] (x # xs) \<longleftrightarrow> (if xs = [] then x = c else suffix [c] xs)"
  by (simp add: suffix_one)

lemma hd_split_on_empty: "hd (split_on c d) = [] \<longleftrightarrow> d = [] \<or> prefix [c] d"
  by (cases d) (auto split: list.splits)

lemma set_split_on: "set (split_on c d) = insert (hd (split_on c d)) (set (tl (split_on c d)))"
  using split_on_ne [of c d] by (cases "split_on c d") auto

lemma later_label_empty_iff:
  "[] \<in> set (tl (split_on c d)) \<longleftrightarrow> suffix [c] d \<or> contains_str [c, c] d"
proof (induction d)
  case (Cons x xs)
  show ?case
  proof (cases "x = c")
    case True
    then have "[] \<in> set (tl (split_on c (x # xs))) \<longleftrightarrow> [] \<in> set (split_on c xs)" by simp
    also have "\<dots> \<longleftrightarrow> xs = [] \<or> prefix [c] xs \<or> suffix [c] xs \<or> contains_str [c, c] xs"
      unfolding set_split_on [of c xs] using Cons.IH hd_split_on_empty [of c xs] by auto
    finally show ?thesis using True by (auto simp: suffix_one_Cons)
  next
    case False
    then have "tl (split_on c (x # xs)) = tl (split_on c xs)"
      by (cases "split_on c xs") auto
    with False Cons.IH show ?thesis by (auto simp: suffix_one_Cons)
  qed
qed simp

lemma label_empty_iff:
  "[] \<in> set (split_on c d) \<longleftrightarrow>
     d = [] \<or> prefix [c] d \<or> suffix [c] d \<or> contains_str [c, c] d"
  unfolding set_split_on [of c d] using later_label_empty_iff hd_split_on_empty [of c d] by auto

lemma two_labels_iff: "c \<in> set d \<longleftrightarrow> 2 \<le> length (split_on c d)"
  using count_list_0_iff [of d c] by (auto simp: length_split_on Suc_le_eq)

text \<open>
  An accepted address is a non-empty local part, one at sign, and a domain of at least two
  non-empty labels, free of white space, control characters and path separators.
\<close>

definition well_shaped :: "string \<Rightarrow> bool" where
  "well_shaped addr = (\<exists>l d. addr = l @ CHR ''@'' # d \<and> l \<noteq> [] \<and> CHR ''@'' \<notin> set l \<and> CHR ''@'' \<notin> set d
     \<and> 2 \<le> length (split_on CHR ''.'' d) \<and> [] \<notin> set (split_on CHR ''.'' d)
     \<and> \<not> any_whitespace_or_control addr \<and> CHR ''/'' \<notin> set addr \<and> CHR 0x5C \<notin> set addr
     \<and> length addr \<le> MAX_LENGTH)"

lemma qualify_split_iff:
  "isl (case split_on c s of [l, d] \<Rightarrow> if P l d then Inr () else Inl e | _ \<Rightarrow> Inl e')
     \<longleftrightarrow> \<not> (\<exists>l d. split_on c s = [l, d] \<and> P l d)"
  by (auto split: list.splits)

lemma qualify_ok_iff: "qualify addr field = Inr () \<longleftrightarrow> well_shaped addr"
proof -
  let ?C = "addr \<noteq> [] \<and> length addr \<le> MAX_LENGTH \<and> \<not> any_whitespace_or_control addr
    \<and> CHR ''/'' \<notin> set addr \<and> CHR 0x5C \<notin> set addr"
  let ?P = "\<lambda>l d. l \<noteq> [] \<and> CHR ''.'' \<in> set d \<and> \<not> prefix ''.'' d \<and> \<not> suffix ''.'' d \<and> \<not> contains_str ''..'' d"
  have ok: "r = Inr () \<longleftrightarrow> \<not> isl r" for r :: "unit result" by (cases r) auto
  have "qualify addr field = Inr () \<longleftrightarrow> ?C \<and> (\<exists>l d. split_on CHR ''@'' addr = [l, d] \<and> ?P l d)"
    unfolding ok qualify_def ends_with_def by (simp add: qualify_split_iff not_less) blast
  also have "\<dots> \<longleftrightarrow> well_shaped addr"
    unfolding split_on_two_iff well_shaped_def two_labels_iff [symmetric] label_empty_iff
  proof (rule iffI, goal_cases)
    case 1
    then obtain l d where "addr = l @ CHR ''@'' # d" "CHR ''@'' \<notin> set l" "CHR ''@'' \<notin> set d" "?P l d" ?C
      by blast
    then show ?case by (intro exI [of _ l] exI [of _ d]) auto
  next
    case 2
    then obtain l d where "addr = l @ CHR ''@'' # d" "CHR ''@'' \<notin> set l" "CHR ''@'' \<notin> set d" "?P l d" ?C
      by auto
    then show ?case by blast
  qed
  finally show ?thesis .
qed

section \<open>Properties\<close>

text \<open>\<open>qualify\<close> accepts exactly the well-shaped addresses: one at sign, a non-empty local
  part, a domain of at least two labels none of which is empty, no white space, control
  character or path separator, and at most 320 bytes.\<close>

theorem qualify_accepts_well_shaped:
  "qualify addr field = Inr () \<longleftrightarrow> well_shaped addr"
  by (rule qualify_ok_iff)

end
