(* ===== verification/Authorisation.thy ===== *)
theory Authorisation
  imports CoreModel
begin

text \<open>
  \<open>noombat-core/src/authorisation.rs\<close>: the two axes of the social graph, the viewer gates
  for sections, lists, posts, the CV and the chat address, the role and status predicates and
  the organisation and group rules.  The locale \<open>viewer_gate\<close> states the contract the gates
  share; every gate is an interpretation of it.
\<close>

section \<open>Relationships\<close>

datatype follow_status = FollowAccepted | FollowPending | FollowNone
datatype connection_state = ConnAccepted | ConnPending | ConnNone

record relationship =
  rel_follow :: follow_status
  rel_connection :: connection_state

definition rel_NONE :: relationship where
  "rel_NONE = \<lparr> rel_follow = FollowNone, rel_connection = ConnNone \<rparr>"

definition is_follower :: "relationship \<Rightarrow> bool" where
  [gate_simps]: "is_follower r = (rel_follow r = FollowAccepted \<or> rel_connection r = ConnAccepted)"

definition is_connection :: "relationship \<Rightarrow> bool" where
  [gate_simps]: "is_connection r = (rel_connection r = ConnAccepted)"

section \<open>Viewer gates\<close>

definition visible_to ::
  "section_visibility \<Rightarrow> uuid option \<Rightarrow> uuid \<Rightarrow> relationship \<Rightarrow> bool" where
  [gate_simps]: "visible_to vis viewer owner_id rel =
    (if viewer = Some owner_id then True
     else case vis of SecPublic \<Rightarrow> True
       | SecFollowers \<Rightarrow> is_follower rel
       | SecConnections \<Rightarrow> is_connection rel
       | SecPrivate \<Rightarrow> False)"

definition section_tier_for :: "uuid option \<Rightarrow> uuid \<Rightarrow> relationship \<Rightarrow> section_visibility" where
  "section_tier_for viewer owner_id rel =
    (if viewer = Some owner_id then SecPrivate
     else if is_connection rel then SecConnections
     else if is_follower rel then SecFollowers
     else SecPublic)"

definition list_visible_to ::
  "list_visibility \<Rightarrow> uuid option \<Rightarrow> uuid \<Rightarrow> relationship \<Rightarrow> bool" where
  [gate_simps]: "list_visible_to vis viewer owner_id rel =
    (if viewer = Some owner_id then True
     else case vis of ListPublic \<Rightarrow> True
       | ListFollowers \<Rightarrow> is_follower rel
       | ListConnections \<Rightarrow> is_connection rel
       | ListPrivate \<Rightarrow> False)"

definition post_visible_to ::
  "post_visibility \<Rightarrow> uuid option \<Rightarrow> uuid \<Rightarrow> relationship \<Rightarrow> bool" where
  [gate_simps]: "post_visible_to vis viewer author_id rel =
    (if viewer = Some author_id then True
     else case vis of PostPublic \<Rightarrow> True | PostUnlisted \<Rightarrow> True
       | PostFollowers \<Rightarrow> is_follower rel
       | PostConnections \<Rightarrow> is_connection rel)"

definition cv_downloadable_by :: "actor \<Rightarrow> uuid option \<Rightarrow> relationship \<Rightarrow> bool" where
  [gate_simps]: "cv_downloadable_by a viewer rel =
    (if viewer = Some (a_id a) then True
     else case priv_cv_download (a_privacy a) of CvPublic \<Rightarrow> True
       | CvFollowers \<Rightarrow> is_follower rel
       | CvSelfOnly \<Rightarrow> False)"

definition chatmail_visible_to :: "actor \<Rightarrow> uuid option \<Rightarrow> relationship \<Rightarrow> bool" where
  [gate_simps]: "chatmail_visible_to a viewer rel =
    (chatmail_visible (a_privacy a) \<or> viewer = Some (a_id a) \<or> is_follower rel)"

section \<open>Roles and status\<close>

definition role_may_moderate :: "instance_role \<Rightarrow> bool" where
  "role_may_moderate r = (r = RoleModerator \<or> r = RoleAdmin)"

definition role_may_administer :: "instance_role \<Rightarrow> bool" where
  "role_may_administer r = (r = RoleAdmin)"

definition status_is_active :: "actor_status \<Rightarrow> bool" where
  "status_is_active s = (case s of StatusActive \<Rightarrow> True | StatusSilenced \<Rightarrow> True
     | StatusPending \<Rightarrow> False | StatusSuspended \<Rightarrow> False)"

definition status_is_pending :: "actor_status \<Rightarrow> bool" where
  "status_is_pending s = (s = StatusPending)"

definition status_is_silenced :: "actor_status \<Rightarrow> bool" where
  "status_is_silenced s = (s = StatusSilenced)"

definition status_is_suspended :: "actor_status \<Rightarrow> bool" where
  "status_is_suspended s = (s = StatusSuspended)"

datatype owner_restriction = OwnerNone | OwnerBlocked
datatype viewer_restriction = ViewerNone | ViewerMuted

definition may_view_profile :: "owner_restriction \<Rightarrow> bool" where
  "may_view_profile r = (r \<noteq> OwnerBlocked)"

definition may_send_message :: "owner_restriction \<Rightarrow> bool" where
  "may_send_message r = (r \<noteq> OwnerBlocked)"

definition appears_in_feed :: "viewer_restriction \<Rightarrow> bool" where
  "appears_in_feed r = (r \<noteq> ViewerMuted)"

section \<open>Groups and organisations\<close>

datatype group_role = GroupMember | GroupModerator | GroupAdmin
datatype organization_role = OrgOwner | OrgRecruiter
datatype posting_access = CreatorOnly | AllRecruiters | Listed

definition may_post_to_group :: "group_role \<Rightarrow> bool \<Rightarrow> bool" where
  "may_post_to_group role moderators_only = (case (moderators_only, role) of
     (False, _) \<Rightarrow> True
   | (True, GroupModerator) \<Rightarrow> True
   | (True, GroupAdmin) \<Rightarrow> True
   | (True, GroupMember) \<Rightarrow> False)"

definition may_moderate_group :: "group_role \<Rightarrow> bool" where
  "may_moderate_group role = (role = GroupModerator \<or> role = GroupAdmin)"

definition may_access_job_applications ::
  "organization_role option \<Rightarrow> posting_access \<Rightarrow> bool \<Rightarrow> bool \<Rightarrow> bool" where
  "may_access_job_applications role access is_creator is_listed = (case role of
     None \<Rightarrow> False
   | Some OrgOwner \<Rightarrow> True
   | Some OrgRecruiter \<Rightarrow> is_creator \<or> (case access of
         CreatorOnly \<Rightarrow> False | AllRecruiters \<Rightarrow> True | Listed \<Rightarrow> is_listed))"

definition may_delegate_posting :: "organization_role option \<Rightarrow> bool \<Rightarrow> bool" where
  "may_delegate_posting role is_creator =
     (role = Some OrgOwner \<or> (role \<noteq> None \<and> is_creator))"

section \<open>The order of the tiers\<close>

text \<open>The section tiers are written in narrowing order; the order type class carries it.\<close>

instantiation section_visibility :: linorder
begin

fun sec_rank :: "section_visibility \<Rightarrow> nat" where
  "sec_rank SecPublic = 0"
| "sec_rank SecFollowers = 1"
| "sec_rank SecConnections = 2"
| "sec_rank SecPrivate = 3"

definition less_eq_section_visibility :: "section_visibility \<Rightarrow> section_visibility \<Rightarrow> bool" where
  [gate_simps]: "v \<le> w \<longleftrightarrow> sec_rank v \<le> sec_rank w"

definition less_section_visibility :: "section_visibility \<Rightarrow> section_visibility \<Rightarrow> bool" where
  "v < w \<longleftrightarrow> sec_rank v < sec_rank w"

instance
proof
  fix v w :: section_visibility
  show "v \<le> w \<Longrightarrow> w \<le> v \<Longrightarrow> v = w"
    by (cases v; cases w) (simp_all add: less_eq_section_visibility_def)
qed (auto simp: less_eq_section_visibility_def less_section_visibility_def)

end

text \<open>
  One relationship is at least as close as another when each axis that is accepted in the
  first is accepted in the second.
\<close>

definition closer :: "relationship \<Rightarrow> relationship \<Rightarrow> bool" where
  "closer r r' = ((rel_follow r = FollowAccepted \<longrightarrow> rel_follow r' = FollowAccepted)
     \<and> (rel_connection r = ConnAccepted \<longrightarrow> rel_connection r' = ConnAccepted))"

lemma closer_follower: "closer r r' \<Longrightarrow> is_follower r \<Longrightarrow> is_follower r'"
  by (auto simp: closer_def gate_simps)

lemma closer_connection: "closer r r' \<Longrightarrow> is_connection r \<Longrightarrow> is_connection r'"
  by (auto simp: closer_def gate_simps)

lemma connection_is_follower: "is_connection r \<Longrightarrow> is_follower r"
  by (simp add: gate_simps)

section \<open>The contract of a viewer gate\<close>

locale viewer_gate =
  fixes gate :: "'tier \<Rightarrow> uuid option \<Rightarrow> uuid \<Rightarrow> relationship \<Rightarrow> bool"
  assumes owner: "gate t (Some ow) ow r"
    and stranger: "v \<noteq> Some ow \<Longrightarrow> gate t v ow r = gate t None ow r"
    and mono: "closer r r' \<Longrightarrow> gate t None ow r \<Longrightarrow> gate t None ow r'"
begin

lemma admits_iff: "gate t v ow r \<longleftrightarrow> v = Some ow \<or> gate t None ow r"
  using owner [of t ow r] stranger [of v ow t r] by metis

lemma admits_mono: "closer r r' \<Longrightarrow> gate t v ow r \<Longrightarrow> gate t v ow r'"
  unfolding admits_iff [of t v] using mono by blast

lemma pending_grants_nothing:
  assumes "rel_follow r \<noteq> FollowAccepted" and "rel_connection r \<noteq> ConnAccepted"
    and "gate t v ow r"
  shows "gate t v ow rel_NONE"
  using assms admits_mono [of r rel_NONE t v ow] by (simp add: closer_def)

lemma anonymous_is_least: "gate t None ow rel_NONE \<Longrightarrow> gate t v ow r"
  unfolding admits_iff [of t v]
  using mono [of rel_NONE r t ow] by (simp add: closer_def rel_NONE_def)

end

lemmas gate_splits = section_visibility.splits list_visibility.splits post_visibility.splits
  cv_download.splits

interpretation section_gate: viewer_gate visible_to
  by unfold_locales (auto simp: gate_simps closer_def split: gate_splits)

interpretation list_gate: viewer_gate list_visible_to
  by unfold_locales (auto simp: gate_simps closer_def split: gate_splits)

interpretation post_gate: viewer_gate post_visible_to
  by unfold_locales (auto simp: gate_simps closer_def split: gate_splits)

text \<open>The CV and chat-address gates read their tier and their owner from the actor itself.\<close>

interpretation cv_gate: viewer_gate "\<lambda>a v ow r. cv_downloadable_by (a\<lparr>a_id := ow\<rparr>) v r"
  by unfold_locales (auto simp: gate_simps closer_def split: gate_splits)

interpretation chatmail_gate: viewer_gate "\<lambda>a v ow r. chatmail_visible_to (a\<lparr>a_id := ow\<rparr>) v r"
  by unfold_locales (auto simp: gate_simps closer_def)

lemma visible_to_antimono: "t \<le> t' \<Longrightarrow> visible_to t' v ow r \<Longrightarrow> visible_to t v ow r"
  by (cases t; cases t') (auto simp: gate_simps)

lemma tier_admits: "visible_to t v ow r \<longleftrightarrow> t \<le> section_tier_for v ow r"
  by (cases t) (auto simp: section_tier_for_def gate_simps)

section \<open>Properties\<close>

text \<open>The two ways the code decides what a viewer sees of a profile agree: the gate on one
  section admits a viewer exactly when the section's tier is at or above the widest tier the
  section query is given for that viewer, so the profile page, the CV and the federated document
  never disagree with a direct check.\<close>

theorem section_gate_agrees_with_tier:
  "visible_to vis viewer owner_id rel \<longleftrightarrow> vis \<le> section_tier_for viewer owner_id rel"
  by (rule tier_admits)

end
