(* ===== verification/Accounts.thy ===== *)
theory Accounts
  imports Repo EmailAddress Authorisation
begin

text \<open>
  Who is signed in: \<open>session.rs\<close>, \<open>login.rs\<close>, \<open>totp.rs\<close> and \<open>email.rs\<close> of \<open>noombat-identity\<close>,
  and \<open>resolve_viewer\<close>, \<open>require_acts_for\<close> and the interaction guards of \<open>noombat-api\<close>
  (\<open>middleware.rs\<close>, \<open>auth.rs\<close>, \<open>interactions.rs\<close>).
\<close>

section \<open>Parameters\<close>

record access_claims =
  cl_sub :: string
  cl_username :: string
  cl_role :: string
  cl_aud :: string
  cl_iat :: int
  cl_exp :: int

text \<open>
  \<open>jwt_decode secret audience now token\<close> is what \<open>jsonwebtoken\<close> reads with the validation of
  \<open>verify_access_token\<close>; \<open>argon2_verify\<close> is false on an unreadable hash and on a mismatch;
  \<open>totp_check\<close> builds the code generator of a secret and compares; \<open>sql_lower\<close> is PostgreSQL's.
\<close>

record account_env =
  jwt_encode :: "string \<Rightarrow> access_claims \<Rightarrow> string + string"
  jwt_decode :: "string \<Rightarrow> string \<Rightarrow> int \<Rightarrow> string \<Rightarrow> access_claims option"
  argon2_verify :: "string \<Rightarrow> string \<Rightarrow> bool"
  totp_secret :: "string \<Rightarrow> string"
  totp_url :: "string \<Rightarrow> string \<Rightarrow> string \<Rightarrow> string result"
  totp_check :: "string \<Rightarrow> timestamp \<Rightarrow> string \<Rightarrow> bool result"
  url_safe_b64 :: "string \<Rightarrow> string"
  sql_lower :: "string \<Rightarrow> string"
  show_uuid :: "uuid \<Rightarrow> string"
  parse_uuid :: "string \<Rightarrow> uuid option"

record session_config =
  jwt_secret :: string
  sc_domain :: string
  access_ttl_secs :: int
  refresh_ttl_secs :: int

definition quoted :: "string \<Rightarrow> string" where
  "quoted t = [CHR 0x27] @ t @ [CHR 0x27]"

section \<open>Updates of the account tables\<close>

definition on_sessions :: "(session_row list \<Rightarrow> session_row list) \<Rightarrow> world \<Rightarrow> world" where
  "on_sessions f s = s\<lparr>w_accounts := (w_accounts s)\<lparr>at_sessions := f (at_sessions (w_accounts s))\<rparr>\<rparr>"

definition on_challenges :: "(challenge_row list \<Rightarrow> challenge_row list) \<Rightarrow> world \<Rightarrow> world" where
  "on_challenges f s = s\<lparr>w_accounts := (w_accounts s)\<lparr>at_challenges := f (at_challenges (w_accounts s))\<rparr>\<rparr>"

definition on_totp :: "(totp_row list \<Rightarrow> totp_row list) \<Rightarrow> world \<Rightarrow> world" where
  "on_totp f s = s\<lparr>w_accounts := (w_accounts s)\<lparr>at_totp := f (at_totp (w_accounts s))\<rparr>\<rparr>"

definition update_actor_row :: "uuid \<Rightarrow> (actor_row \<Rightarrow> actor_row) \<Rightarrow> world \<Rightarrow> world" where
  "update_actor_row i f s = s\<lparr>w_actors := map (\<lambda>a. if a_id a = i then f a else a) (w_actors s)\<rparr>"

definition actor_by_id :: "uuid \<Rightarrow> world \<Rightarrow> actor_row option" where
  "actor_by_id i s = List.find (\<lambda>a. a_id a = i) (w_actors s)"

section \<open>Sessions\<close>

datatype session_origin = SignIn | Refresh

record session_tokens =
  tk_access_token :: string
  tk_refresh_token :: string
  tk_expires_in :: int
  tk_actor_id :: uuid
  tk_username :: string

definition role_str :: "instance_role \<Rightarrow> string" where
  "role_str r = (case r of RoleUser \<Rightarrow> ''user'' | RoleModerator \<Rightarrow> ''moderator'' | RoleAdmin \<Rightarrow> ''admin'')"

definition generate_refresh_token :: "account_env \<Rightarrow> string prog" where
  "generate_refresh_token A = bindE draw (\<lambda>buf. ret (url_safe_b64 A buf))"

definition session_live :: "string \<Rightarrow> world \<Rightarrow> session_row \<Rightarrow> bool" where
  "session_live token s x = (se_refresh_token x = token \<and> se_revoked_at x = None \<and> w_now s < se_expires_at x)"

definition insert_session :: "uuid \<Rightarrow> string \<Rightarrow> timestamp \<Rightarrow> unit prog" where
  "insert_session actor_id token expires = stmt (\<lambda>s.
     if \<not> actor_exists actor_id s
        \<or> list_ex (\<lambda>x. se_refresh_token x = token) (at_sessions (w_accounts s)) then (Inl Database, s)
     else (Inr (), (on_sessions (\<lambda>xs. xs @ [\<lparr>se_id = w_next_id s, se_actor = actor_id, se_refresh_token = token,
         se_expires_at = expires, se_revoked_at = None\<rparr>]) s)\<lparr>w_next_id := Suc (w_next_id s)\<rparr>))"

definition access_claims_for :: "session_config \<Rightarrow> account_env \<Rightarrow> uuid \<Rightarrow> string \<Rightarrow> instance_role \<Rightarrow> timestamp \<Rightarrow> access_claims" where
  "access_claims_for cfg A actor_id username role now =
    \<lparr> cl_sub = show_uuid A actor_id, cl_username = username, cl_role = role_str role, cl_aud = sc_domain cfg,
      cl_iat = now div 1000, cl_exp = (now + 1000 * access_ttl_secs cfg) div 1000 \<rparr>"

definition create_session ::
  "account_env \<Rightarrow> session_config \<Rightarrow> uuid \<Rightarrow> string \<Rightarrow> instance_role \<Rightarrow> session_origin \<Rightarrow> session_tokens prog" where
  "create_session A cfg actor_id username role origin =
    bindE (gets w_now) (\<lambda>now.
    case jwt_encode A (jwt_secret cfg) (access_claims_for cfg A actor_id username role now) of
      Inl e \<Rightarrow> throw (Internal (''JWT encoding failed: '' @ e))
    | Inr access_token \<Rightarrow>
      bindE (generate_refresh_token A) (\<lambda>refresh_token.
      bindE (insert_session actor_id refresh_token (now + 1000 * refresh_ttl_secs cfg)) (\<lambda>_.
      bindE (if origin = SignIn
             then execute (\<lambda>s. update_actor_row actor_id (\<lambda>a. a\<lparr>ar_last_sign_in_at := Some (w_now s)\<rparr>) s)
             else ret ()) (\<lambda>_.
      ret \<lparr>tk_access_token = access_token, tk_refresh_token = refresh_token,
           tk_expires_in = access_ttl_secs cfg, tk_actor_id = actor_id, tk_username = username\<rparr>))))"

definition verify_access_token :: "account_env \<Rightarrow> session_config \<Rightarrow> timestamp \<Rightarrow> string \<Rightarrow> access_claims result" where
  "verify_access_token A cfg now token =
    (case jwt_decode A (jwt_secret cfg) (sc_domain cfg) (now div 1000) token of
       None \<Rightarrow> Inl Forbidden | Some c \<Rightarrow> Inr c)"

text \<open>The two statements of a refresh are separate: another request may run between them.\<close>

definition refresh_lookup :: "string \<Rightarrow> (uuid \<times> uuid \<times> string \<times> instance_role) prog" where
  "refresh_lookup token =
    bindE (query (\<lambda>s. Option.bind (List.find (session_live token s) (at_sessions (w_accounts s))) (\<lambda>x.
      map_option (\<lambda>a. (se_id x, se_actor x, a_username a, a_instance_role a)) (actor_by_id (se_actor x) s))))
    (ok_or Forbidden)"

definition refresh_rotate ::
  "account_env \<Rightarrow> session_config \<Rightarrow> uuid \<times> uuid \<times> string \<times> instance_role \<Rightarrow> session_tokens prog" where
  "refresh_rotate A cfg row = (case row of (session_id, actor_id, username, role) \<Rightarrow>
    bindE (execute (\<lambda>s. on_sessions (map (\<lambda>x. if se_id x = session_id
        then x\<lparr>se_revoked_at := Some (w_now s)\<rparr> else x)) s)) (\<lambda>_.
    create_session A cfg actor_id username role Refresh))"

definition refresh_session :: "account_env \<Rightarrow> session_config \<Rightarrow> string \<Rightarrow> session_tokens prog" where
  "refresh_session A cfg token = bindE (refresh_lookup token) (refresh_rotate A cfg)"

definition revoke_session :: "string \<Rightarrow> unit prog" where
  "revoke_session token = execute (\<lambda>s. on_sessions (map (\<lambda>x. if se_refresh_token x = token
     then x\<lparr>se_revoked_at := Some (w_now s)\<rparr> else x)) s)"

section \<open>Two-factor authentication\<close>

definition seal_auto :: "('u, 'z) env_scheme \<Rightarrow> string \<Rightarrow> string prog" where
  "seal_auto E plaintext = (case kek E of None \<Rightarrow> ret plaintext
     | Some k \<Rightarrow> bindE draw (\<lambda>nonce. of_result (seal_opt (aead E) (Some nonce) (kek E) plaintext)))"

definition totp_verified :: "uuid \<Rightarrow> world \<Rightarrow> bool" where
  "totp_verified i s = list_ex (\<lambda>x. tt_actor x = i \<and> tt_verified x) (at_totp (w_accounts s))"

text \<open>\<open>.unwrap_or(false)\<close>: a failed query answers no.\<close>

definition totp_enrolled :: "uuid \<Rightarrow> bool prog" where
  "totp_enrolled i = bindE (attempt (query (totp_verified i))) (\<lambda>r.
     ret (case r of Inr b \<Rightarrow> b | Inl _ \<Rightarrow> False))"

definition enrol_totp :: "('u, 'z) env_scheme \<Rightarrow> account_env \<Rightarrow> uuid \<Rightarrow> string \<Rightarrow> string \<Rightarrow> (string \<times> string) prog" where
  "enrol_totp E A actor_id username issuer =
    bindE (totp_enrolled actor_id) (\<lambda>verified.
    if verified then throw (BadRequest ''TOTP is already enrolled; disable it first'')
    else
      bindE draw (\<lambda>buf. let secret_base32 = totp_secret A buf in
      bindE (of_result (totp_url A secret_base32 username issuer)) (\<lambda>otpauth_uri.
      bindE (seal_auto E secret_base32) (\<lambda>sealed_secret.
      bindE (execute_if (actor_exists actor_id) (\<lambda>s. on_totp (\<lambda>xs.
          filter (\<lambda>x. tt_actor x \<noteq> actor_id) xs
            @ [\<lparr>tt_actor = actor_id, tt_secret = sealed_secret, tt_verified = False\<rparr>]) s)) (\<lambda>_.
      ret (otpauth_uri, secret_base32))))))"

definition verify_totp :: "('u, 'z) env_scheme \<Rightarrow> account_env \<Rightarrow> uuid \<Rightarrow> string \<Rightarrow> unit prog" where
  "verify_totp E A actor_id code =
    bindE (query (\<lambda>s. List.find (\<lambda>x. tt_actor x = actor_id) (at_totp (w_accounts s)))) (\<lambda>found.
    bindE (ok_or Forbidden found) (\<lambda>row.
    bindE (of_result (open_auto E (tt_secret row))) (\<lambda>secret_base32.
    bindE (gets w_now) (\<lambda>now.
    bindE (of_result (totp_check A secret_base32 now code)) (\<lambda>valid.
    if \<not> valid then throw Forbidden
    else if \<not> tt_verified row
    then execute (on_totp (map (\<lambda>x. if tt_actor x = actor_id then x\<lparr>tt_verified := True\<rparr> else x)))
    else ret ())))))"

definition disable_totp :: "uuid \<Rightarrow> unit prog" where
  "disable_totp actor_id = execute (on_totp (filter (\<lambda>x. tt_actor x \<noteq> actor_id)))"

section \<open>Login\<close>

record login_request =
  lr_username :: string
  lr_auth_key :: string
  lr_totp_code :: "string option"

definition may_sign_in :: "string \<Rightarrow> actor_row \<Rightarrow> bool" where
  "may_sign_in username a = (a_username a = username \<and> a_is_local a
     \<and> (a_status a = StatusActive \<or> a_status a = StatusSilenced))"

definition verify_credentials ::
  "('u, 'z) env_scheme \<Rightarrow> account_env \<Rightarrow> login_request \<Rightarrow> (uuid \<times> string \<times> instance_role \<times> bool) prog" where
  "verify_credentials E A req =
    bindE (query (\<lambda>s. List.find (may_sign_in (lr_username req)) (w_actors s))) (\<lambda>found.
    bindE (ok_or Forbidden found) (\<lambda>row.
    bindE (ok_or Forbidden (ar_auth_key_hash row)) (\<lambda>auth_key_hash.
    bindE (totp_enrolled (a_id row)) (\<lambda>has_totp.
    if \<not> argon2_verify A (lr_auth_key req) auth_key_hash then throw Forbidden
    else
      bindE (if has_totp then
          bindE (ok_or (BadRequest ''TOTP code required'') (lr_totp_code req)) (verify_totp E A (a_id row))
        else ret ()) (\<lambda>_.
      ret (a_id row, a_username row, a_instance_role row, has_totp))))))"

section \<open>Proving an address\<close>

definition hex_digit :: "nat \<Rightarrow> char" where
  "hex_digit n = (if n < 10 then char_of (48 + n) else char_of (87 + n))"

definition to_hex :: "string \<Rightarrow> string" where
  "to_hex bytes = concat (map (\<lambda>b. [hex_digit (byte b div 16), hex_digit (byte b mod 16)]) bytes)"

definition hash_token :: "('u, 'z) env_scheme \<Rightarrow> string \<Rightarrow> string" where
  "hash_token E token = to_hex (sha256 E token)"

definition mint_token :: "string prog" where
  "mint_token = bindE draw (\<lambda>buf. ret (to_hex buf))"

definition TOKEN_TTL_HOURS :: int where "TOKEN_TTL_HOURS = 24"

definition MAX_CHALLENGES_PER_HOUR :: nat where "MAX_CHALLENGES_PER_HOUR = 5"

record challenge =
  ch_token :: string
  ch_email :: string
  ch_expires_at :: timestamp

text \<open>The rows of the unique index on the folded address of local accounts.\<close>

definition address_of :: "account_env \<Rightarrow> actor_row \<Rightarrow> string option" where
  "address_of A a = (if a_is_local a then map_option (sql_lower A) (ar_email a) else None)"

definition address_taken :: "account_env \<Rightarrow> string \<Rightarrow> uuid \<Rightarrow> world \<Rightarrow> bool" where
  "address_taken A folded i s = list_ex (\<lambda>a. address_of A a = Some folded \<and> a_id a \<noteq> i) (w_actors s)"

definition recent_challenges :: "uuid \<Rightarrow> world \<Rightarrow> nat" where
  "recent_challenges i s = length (filter (\<lambda>c. ec_actor c = i \<and> w_now s - 3600 * 1000 < ec_created_at c)
     (at_challenges (w_accounts s)))"

definition insert_challenge :: "uuid \<Rightarrow> string \<Rightarrow> string \<Rightarrow> timestamp \<Rightarrow> unit prog" where
  "insert_challenge actor_id email hash expires = execute_if
     (\<lambda>s. actor_exists actor_id s \<and> \<not> list_ex (\<lambda>c. ec_token_hash c = hash) (at_challenges (w_accounts s)))
     (\<lambda>s. on_challenges (\<lambda>cs. cs @ [\<lparr>ec_actor = actor_id, ec_email = email, ec_token_hash = hash,
        ec_expires_at = expires, ec_consumed_at = None, ec_created_at = w_now s\<rparr>]) s)"

definition request_verification ::
  "('u, 'z) env_scheme \<Rightarrow> account_env \<Rightarrow> uuid \<Rightarrow> string \<Rightarrow> challenge prog" where
  "request_verification E A actor_id email =
    bindE (of_result (qualify email ''email'')) (\<lambda>_.
    let folded = fold_address (to_lowercase E) email in
    bindE (query (address_taken A folded actor_id)) (\<lambda>taken.
    if taken then throw (BadRequest ''that address is already in use on this instance'')
    else
      bindE (query (recent_challenges actor_id)) (\<lambda>recent.
      if MAX_CHALLENGES_PER_HOUR \<le> recent then
        throw (BadRequest ''too many verification requests; try again later'')
      else
        bindE mint_token (\<lambda>token.
        bindE (gets w_now) (\<lambda>now.
        let expires_at = now + TOKEN_TTL_HOURS * 3600 * 1000 in
        bindE (insert_challenge actor_id folded (hash_token E token) expires_at) (\<lambda>_.
        ret \<lparr>ch_token = token, ch_email = folded, ch_expires_at = expires_at\<rparr>))))))"

definition redeemable :: "string \<Rightarrow> world \<Rightarrow> challenge_row \<Rightarrow> bool" where
  "redeemable hash s c = (ec_token_hash c = hash \<and> ec_consumed_at c = None \<and> w_now s < ec_expires_at c)"

definition consume_challenge :: "string \<Rightarrow> (uuid \<times> string) option prog" where
  "consume_challenge hash = stmt (\<lambda>s.
     (Inr (map_option (\<lambda>c. (ec_actor c, ec_email c)) (List.find (redeemable hash s) (at_challenges (w_accounts s)))),
      on_challenges (map (\<lambda>c. if redeemable hash s c then c\<lparr>ec_consumed_at := Some (w_now s)\<rparr> else c)) s))"

text \<open>A violation of the unique index is told apart from the other failures of the statement.\<close>

definition write_address :: "account_env \<Rightarrow> uuid \<Rightarrow> string \<Rightarrow> unit prog" where
  "write_address A actor_id email = stmt (\<lambda>s.
     if list_ex (\<lambda>a. a_id a = actor_id \<and> a_is_local a) (w_actors s) \<and> address_taken A (sql_lower A email) actor_id s
     then (Inl (BadRequest ''that address is already in use on this instance''), s)
     else (Inr (), update_actor_row actor_id (\<lambda>a. a\<lparr>ar_email := Some email,
        ar_email_verified_at := Some (w_now s), a_updated_at := w_now s\<rparr>) s))"

definition verify_email :: "('u, 'z) env_scheme \<Rightarrow> account_env \<Rightarrow> string \<Rightarrow> uuid prog" where
  "verify_email E A token = transaction (
    bindE (consume_challenge (hash_token E token)) (\<lambda>redeemed.
    bindE (ok_or (BadRequest ''that verification link is not valid'') redeemed) (\<lambda>(actor_id, email).
    bindE (write_address A actor_id email) (\<lambda>_. ret actor_id))))"

definition has_verified_email :: "uuid \<Rightarrow> bool prog" where
  "has_verified_email i = query (\<lambda>s. case actor_by_id i s of None \<Rightarrow> False
     | Some a \<Rightarrow> ar_email_verified_at a \<noteq> None)"

definition expired_challenge :: "world \<Rightarrow> challenge_row \<Rightarrow> bool" where
  "expired_challenge s c = (ec_consumed_at c = None \<and> ec_expires_at c \<le> w_now s)"

definition purge_expired :: "nat prog" where
  "purge_expired = stmt (\<lambda>s.
     (Inr (length (filter (expired_challenge s) (at_challenges (w_accounts s)))),
      on_challenges (filter (\<lambda>c. \<not> expired_challenge s c)) s))"

section \<open>The viewer of a request\<close>

record viewer =
  v_actor_id :: uuid
  v_username :: string
  v_instance_role :: instance_role
  v_actor_status :: actor_status

definition viewer_may_moderate :: "viewer \<Rightarrow> bool" where
  "viewer_may_moderate v = role_may_moderate (v_instance_role v)"

definition viewer_may_administer :: "viewer \<Rightarrow> bool" where
  "viewer_may_administer v = role_may_administer (v_instance_role v)"

definition viewer_is_active :: "viewer \<Rightarrow> bool" where
  "viewer_is_active v = status_is_active (v_actor_status v)"

definition viewer_is_pending :: "viewer \<Rightarrow> bool" where
  "viewer_is_pending v = status_is_pending (v_actor_status v)"

definition viewer_is_suspended :: "viewer \<Rightarrow> bool" where
  "viewer_is_suspended v = status_is_suspended (v_actor_status v)"

text \<open>The header values are the first of their name, and \<open>None\<close> where they are no text.\<close>

definition bearer_or_cookie_token :: "string option \<Rightarrow> string option \<Rightarrow> string option" where
  "bearer_or_cookie_token authorization cookie =
    (case Option.bind authorization (strip_prefix ''Bearer '') of
       Some t \<Rightarrow> Some t
     | None \<Rightarrow> Option.bind cookie (\<lambda>cookies.
         Option.bind (List.find (\<lambda>c. prefix ''noombat_session='' (trim c)) (split_on CHR '';'' cookies))
           (\<lambda>c. strip_prefix ''noombat_session='' (trim c))))"

text \<open>\<open>session_config\<close> is \<open>None\<close> on an instance that issues no sessions.\<close>

definition resolve_viewer :: "account_env \<Rightarrow> session_config option \<Rightarrow> string \<Rightarrow> world \<Rightarrow> viewer option \<times> world" where
  "resolve_viewer A config token s = (case config of None \<Rightarrow> (None, s)
   | Some cfg \<Rightarrow> (case verify_access_token A cfg (w_now s) token of Inl _ \<Rightarrow> (None, s)
     | Inr claims \<Rightarrow> (case parse_uuid A (cl_sub claims) of None \<Rightarrow> (None, s)
       | Some actor_id \<Rightarrow>
         (case query (\<lambda>s. List.find (\<lambda>a. a_id a = actor_id \<and> a_is_local a) (w_actors s)) s of
            (Inr (Some a), t) \<Rightarrow> (Some \<lparr>v_actor_id = actor_id, v_username = cl_username claims,
               v_instance_role = a_instance_role a, v_actor_status = a_status a\<rparr>, t)
          | (_, t) \<Rightarrow> (None, t)))))"

definition authentication ::
  "account_env \<Rightarrow> session_config option \<Rightarrow> string option \<Rightarrow> string option \<Rightarrow> world \<Rightarrow> viewer option \<times> world" where
  "authentication A config authorization cookie s =
    (case bearer_or_cookie_token authorization cookie of None \<Rightarrow> (None, s)
     | Some token \<Rightarrow> resolve_viewer A config token s)"

section \<open>Acting for an account\<close>

definition organization_role_of :: "string \<Rightarrow> organization_role option" where
  "organization_role_of s = (if s = ''owner'' then Some OrgOwner else if s = ''recruiter'' then Some OrgRecruiter
     else None)"

definition member_role :: "uuid \<Rightarrow> uuid \<Rightarrow> world \<Rightarrow> string option" where
  "member_role organization member s = map_option om_role (List.find (\<lambda>m. om_organization m = organization
     \<and> om_member m = member \<and> om_accepted_at m \<noteq> None) (at_members (w_accounts s)))"

text \<open>A failed query and a role that does not decode are both internal errors.\<close>

definition require_acts_for :: "uuid \<Rightarrow> viewer option \<Rightarrow> organization_role option prog" where
  "require_acts_for subject_id viewer = (case viewer of
     None \<Rightarrow> throw Forbidden
   | Some v \<Rightarrow>
     if v_actor_id v = subject_id then ret None
     else bindE (attempt (query (member_role subject_id (v_actor_id v)))) (\<lambda>r. case r of
         Inl e \<Rightarrow> throw (Internal ''database'')
       | Inr None \<Rightarrow> throw Forbidden
       | Inr (Some text) \<Rightarrow> bindE (ok_or (Internal ''database'') (organization_role_of text)) (\<lambda>role. ret (Some role))))"

definition require_local_actor :: "('u, 'z) env_scheme \<Rightarrow> viewer option \<Rightarrow> string \<Rightarrow> actor prog" where
  "require_local_actor E viewer username = (case viewer of
     None \<Rightarrow> throw Forbidden
   | Some _ \<Rightarrow>
       bindE (find_local_by_username E username) (\<lambda>actor.
       bindE (require_acts_for (a_id actor) viewer) (\<lambda>_. ret actor)))"

section \<open>Blocks and mutes\<close>

definition blocks_pair :: "uuid \<Rightarrow> uuid \<Rightarrow> world \<Rightarrow> bool" where
  "blocks_pair owner viewer s = list_ex (\<lambda>b. b_actor b = owner \<and> b_target b = viewer) (w_blocks s)"

definition mutes_pair :: "uuid \<Rightarrow> uuid \<Rightarrow> world \<Rightarrow> bool" where
  "mutes_pair viewer author s = list_ex (\<lambda>m. b_actor m = viewer \<and> b_target m = author
     \<and> (case mu_expires_at m of None \<Rightarrow> True | Some t \<Rightarrow> w_now s < t)) (w_mutes s)"

definition owner_restriction :: "uuid \<Rightarrow> uuid \<Rightarrow> owner_restriction prog" where
  "owner_restriction owner viewer =
    (if owner = viewer then ret OwnerNone
     else bindE (attempt (query (blocks_pair owner viewer))) (\<lambda>r.
       ret (if r = Inr False then OwnerNone else OwnerBlocked)))"

definition viewer_restriction :: "uuid \<Rightarrow> uuid \<Rightarrow> viewer_restriction prog" where
  "viewer_restriction viewer author =
    (if viewer = author then ret ViewerNone
     else bindE (attempt (query (mutes_pair viewer author))) (\<lambda>r.
       ret (if r = Inr False then ViewerNone else ViewerMuted)))"

text \<open>The muted authors of a page: all of them when the query fails.\<close>

definition muted_among :: "uuid \<Rightarrow> uuid list \<Rightarrow> uuid list prog" where
  "muted_among viewer authors =
    (if authors = [] then ret []
     else bindE (attempt (query (\<lambda>s. filter (\<lambda>i. mutes_pair viewer i s) authors))) (\<lambda>r.
       ret (case r of Inr muted \<Rightarrow> muted | Inl _ \<Rightarrow> authors)))"

definition muted_restriction :: "uuid list \<Rightarrow> uuid \<Rightarrow> viewer_restriction" where
  "muted_restriction muted author = (if author \<in> set muted then ViewerMuted else ViewerNone)"

end
