(* ===== verification/Connections.thy ===== *)
theory Connections
  imports Accounts
begin

text \<open>
  The mutual half of the social graph: \<open>noombat-identity/src/connections.rs\<close> and the routes of
  \<open>noombat-api/src/routes/connections.rs\<close>.
\<close>

section \<open>The lifecycle\<close>

definition same_pair :: "uuid \<Rightarrow> uuid \<Rightarrow> connection_row \<Rightarrow> bool" where
  "same_pair a b c = ((cn_requester c = a \<and> cn_addressee c = b) \<or> (cn_requester c = b \<and> cn_addressee c = a))"

definition on_connections :: "(connection_row list \<Rightarrow> connection_row list) \<Rightarrow> world \<Rightarrow> world" where
  "on_connections f s = s\<lparr>w_connections := f (w_connections s)\<rparr>"

text \<open>\<open>ON CONFLICT DO NOTHING\<close> covers the index on the unordered pair and the one on \<open>ap_id\<close>.\<close>

definition insert_connection :: "uuid \<Rightarrow> uuid \<Rightarrow> string option \<Rightarrow> uuid option prog" where
  "insert_connection requester_id addressee_id ap_id = stmt (\<lambda>s.
     if requester_id = addressee_id then (Inl Database, s)
     else if list_ex (\<lambda>c. same_pair requester_id addressee_id c \<or> (ap_id \<noteq> None \<and> cn_ap_id c = ap_id))
       (w_connections s) then (Inr None, s)
     else if \<not> actor_exists requester_id s \<or> \<not> actor_exists addressee_id s then (Inl Database, s)
     else (Inr (Some (w_next_id s)), (on_connections (\<lambda>cs. cs @ [\<lparr>cn_id = w_next_id s, cn_requester = requester_id,
        cn_addressee = addressee_id, cn_ap_id = ap_id, cn_accepted_at = None, cn_created_at = w_now s\<rparr>]) s)
        \<lparr>w_next_id := Suc (w_next_id s)\<rparr>))"

definition invite :: "uuid \<Rightarrow> uuid \<Rightarrow> string option \<Rightarrow> uuid option prog" where
  "invite requester_id addressee_id ap_id =
    (if requester_id = addressee_id then throw (BadRequest ''an actor cannot connect to itself'')
     else insert_connection requester_id addressee_id ap_id)"

definition pending_between :: "uuid \<Rightarrow> uuid \<Rightarrow> connection_row \<Rightarrow> bool" where
  "pending_between requester_id addressee_id c = (cn_requester c = requester_id \<and> cn_addressee c = addressee_id
     \<and> cn_accepted_at c = None)"

definition accept :: "uuid \<Rightarrow> uuid \<Rightarrow> bool prog" where
  "accept addressee_id requester_id = stmt (\<lambda>s. let P = pending_between requester_id addressee_id in
     (Inr (list_ex P (w_connections s)),
      on_connections (map (\<lambda>c. if P c then c\<lparr>cn_accepted_at := Some (w_now s)\<rparr> else c)) s))"

definition delete_connections :: "(connection_row \<Rightarrow> bool) \<Rightarrow> bool prog" where
  "delete_connections P = stmt (\<lambda>s. (Inr (list_ex P (w_connections s)), on_connections (filter (\<lambda>c. \<not> P c)) s))"

definition reject :: "uuid \<Rightarrow> uuid \<Rightarrow> bool prog" where
  "reject addressee_id requester_id = delete_connections (pending_between requester_id addressee_id)"

definition withdraw :: "uuid \<Rightarrow> uuid \<Rightarrow> bool prog" where
  "withdraw requester_id addressee_id = delete_connections (pending_between requester_id addressee_id)"

definition disconnect :: "uuid \<Rightarrow> uuid \<Rightarrow> bool prog" where
  "disconnect actor_id other_id =
     delete_connections (\<lambda>c. cn_accepted_at c \<noteq> None \<and> same_pair actor_id other_id c)"

section \<open>Reads\<close>

definition connection_state_of :: "uuid \<Rightarrow> uuid \<Rightarrow> world \<Rightarrow> connection_state" where
  "connection_state_of a b s = (case List.find (same_pair a b) (w_connections s) of
     None \<Rightarrow> ConnNone
   | Some c \<Rightarrow> if cn_accepted_at c = None then ConnPending else ConnAccepted)"

definition follow_status_of :: "uuid \<Rightarrow> uuid \<Rightarrow> world \<Rightarrow> follow_status" where
  "follow_status_of a b s = (case List.find (\<lambda>f. f_follower f = a \<and> f_following f = b) (w_follows s) of
     None \<Rightarrow> FollowNone
   | Some f \<Rightarrow> if f_accepted f then FollowAccepted else FollowPending)"

definition connection_state :: "uuid \<Rightarrow> uuid \<Rightarrow> connection_state prog" where
  "connection_state actor_id other_id =
    (if actor_id = other_id then ret ConnNone else query (connection_state_of actor_id other_id))"

definition relationship :: "uuid option \<Rightarrow> uuid \<Rightarrow> relationship prog" where
  "relationship viewer_id target_id = (case viewer_id of
     None \<Rightarrow> ret rel_NONE
   | Some v \<Rightarrow>
       if v = target_id then ret rel_NONE
       else query (\<lambda>s. \<lparr>rel_follow = follow_status_of v target_id s,
                        rel_connection = connection_state_of v target_id s\<rparr>))"

definition accepted_with :: "uuid \<Rightarrow> connection_row \<Rightarrow> bool" where
  "accepted_with i c = (cn_accepted_at c \<noteq> None \<and> (cn_requester c = i \<or> cn_addressee c = i))"

definition count_connections :: "uuid \<Rightarrow> nat prog" where
  "count_connections actor_id = query (\<lambda>s. length (filter (accepted_with actor_id) (w_connections s)))"

definition other_end :: "uuid \<Rightarrow> connection_row \<Rightarrow> uuid" where
  "other_end i c = (if cn_requester c = i then cn_addressee c else cn_requester c)"

definition list_connection_ap_ids :: "uuid \<Rightarrow> nat \<Rightarrow> nat \<Rightarrow> string list prog" where
  "list_connection_ap_ids actor_id limit offset = query (\<lambda>s.
     List.map_filter (\<lambda>c. map_option a_ap_id (actor_by_id (other_end actor_id c) s))
       (take limit (drop offset (sort_key (\<lambda>c. - the (cn_accepted_at c))
         (filter (accepted_with actor_id) (w_connections s))))))"

definition list_pending_for :: "uuid \<Rightarrow> (uuid \<times> string) list prog" where
  "list_pending_for addressee_id = query (\<lambda>s.
     List.map_filter (\<lambda>c. map_option (\<lambda>a. (cn_requester c, a_username a)) (actor_by_id (cn_requester c) s))
       (sort_key (\<lambda>c. - cn_created_at c)
         (filter (\<lambda>c. cn_addressee c = addressee_id \<and> cn_accepted_at c = None) (w_connections s))))"

section \<open>Who may read the lists\<close>

record list_settings =
  ls_connections :: list_visibility
  ls_following :: list_visibility
  ls_followers :: list_visibility

definition list_visibility_str :: "list_visibility \<Rightarrow> string" where
  "list_visibility_str v = (case v of ListPublic \<Rightarrow> ''public'' | ListFollowers \<Rightarrow> ''followers''
     | ListConnections \<Rightarrow> ''connections'' | ListPrivate \<Rightarrow> ''private'')"

definition parse_list_visibility :: "string \<Rightarrow> list_visibility" where
  "parse_list_visibility s = (if s = ''public'' then ListPublic else if s = ''followers'' then ListFollowers
     else if s = ''connections'' then ListConnections else ListPrivate)"

definition list_settings :: "uuid \<Rightarrow> list_settings prog" where
  "list_settings actor_id = bindE (query (actor_by_id actor_id)) (\<lambda>found.
     bindE (ok_or Database found) (\<lambda>a. ret
       \<lparr>ls_connections = parse_list_visibility (ar_connections_visibility a),
        ls_following = parse_list_visibility (ar_following_visibility a),
        ls_followers = parse_list_visibility (ar_followers_visibility a)\<rparr>))"

definition set_list_settings :: "uuid \<Rightarrow> list_settings \<Rightarrow> unit prog" where
  "set_list_settings actor_id settings = execute (update_actor_row actor_id (\<lambda>a. a
     \<lparr>ar_connections_visibility := list_visibility_str (ls_connections settings),
      ar_following_visibility := list_visibility_str (ls_following settings),
      ar_followers_visibility := list_visibility_str (ls_followers settings)\<rparr>))"

definition parse_list_setting :: "('u, 'z) env_scheme \<Rightarrow> string \<Rightarrow> list_visibility result" where
  "parse_list_setting E s = (if s = ''public'' then Inr ListPublic else if s = ''followers'' then Inr ListFollowers
     else if s = ''connections'' then Inr ListConnections else if s = ''private'' then Inr ListPrivate
     else Inl (BadRequest (concat [''list visibility must be '', quoted ''public'', '', '', quoted ''followers'', '', '',
       quoted ''connections'', '' or '', quoted ''private'', '', not '', debug_str E s])))"

section \<open>Activities\<close>

definition invite_activity :: "string \<Rightarrow> string \<Rightarrow> string \<Rightarrow> json" where
  "invite_activity requester addressee invite_id = JObj [(''@context'', context_with [ExtSchema]),
     (''id'', JStr invite_id), (''type'', JStr ''Invite''), (''actor'', JStr requester),
     (''object'', JObj [(''type'', JStr ''Relationship''), (''subject'', JStr requester),
        (''relationship'', JStr ''schema:knows''), (''object'', JStr addressee)]),
     (''to'', JStr addressee)]"

definition answer_activity :: "string \<Rightarrow> string \<Rightarrow> bool \<Rightarrow> timestamp \<Rightarrow> json" where
  "answer_activity answerer invite_id accepted now = JObj [(''@context'', context_with []),
     (''id'', JStr (answerer @ ''#answer-'' @ show_int now)),
     (''type'', JStr (if accepted then ''Accept'' else ''Reject'')), (''actor'', JStr answerer),
     (''object'', JStr invite_id)]"

section \<open>Routes\<close>

definition connections_collection :: "actor \<Rightarrow> string list \<Rightarrow> nat option \<Rightarrow> json" where
  "connections_collection a items known_total = JObj ([(''@context'', context_with [ExtSchema]),
     (''id'', JStr (a_ap_id a @ ''/connections'')), (''type'', JStr ''OrderedCollection''),
     (''orderedItems'', JArr (map JStr items))]
     @ (case known_total of None \<Rightarrow> [] | Some n \<Rightarrow> [(''totalItems'', JNum (show_nat n))]))"

definition get_connections :: "('u, 'z) env_scheme \<Rightarrow> viewer option \<Rightarrow> string \<Rightarrow> json prog" where
  "get_connections E viewer username =
    bindE (find_local_by_username E username) (\<lambda>a.
    let viewer_id = map_option v_actor_id viewer in
    bindE (list_settings (a_id a)) (\<lambda>settings.
    bindE (relationship viewer_id (a_id a)) (\<lambda>rel.
    if \<not> list_visible_to (ls_connections settings) viewer_id (a_id a) rel then throw (ActorNotFound username)
    else
      bindE (count_connections (a_id a)) (\<lambda>total.
      bindE (list_connection_ap_ids (a_id a) 40 0) (\<lambda>items.
      ret (connections_collection a items
        (if viewer_id = Some (a_id a) \<or> show_followers_count (a_privacy a) then Some total else None)))))))"

definition blocked_either_way :: "uuid \<Rightarrow> uuid \<Rightarrow> bool prog" where
  "blocked_either_way requester addressee =
    bindE (owner_restriction addressee requester) (\<lambda>r.
    if \<not> may_send_message r then ret True
    else bindE (owner_restriction requester addressee) (\<lambda>r. ret (\<not> may_send_message r)))"

definition invite_connection :: "('u, 'z) env_scheme \<Rightarrow> viewer option \<Rightarrow> string \<Rightarrow> string \<Rightarrow> unit prog" where
  "invite_connection E viewer username target =
    bindE (require_local_actor E viewer username) (\<lambda>requester.
    bindE (find_local_by_username E (trim target)) (\<lambda>addressee.
    if a_id requester = a_id addressee then throw (BadRequest ''an actor cannot connect to itself'')
    else
      bindE (blocked_either_way (a_id requester) (a_id addressee)) (\<lambda>blocked.
      if blocked then throw (ActorNotFound target)
      else
        bindE (gets w_now) (\<lambda>now.
        bindE (invite (a_id requester) (a_id addressee) (Some (a_ap_id requester @ ''#invite-'' @ show_int now)))
          (\<lambda>created. ret ())))))"

definition list_pending_connections :: "('u, 'z) env_scheme \<Rightarrow> viewer option \<Rightarrow> string \<Rightarrow> (uuid \<times> string) list prog" where
  "list_pending_connections E viewer username =
    bindE (require_local_actor E viewer username) (\<lambda>a. list_pending_for (a_id a))"

definition accept_pending_connection :: "('u, 'z) env_scheme \<Rightarrow> viewer option \<Rightarrow> string \<Rightarrow> uuid \<Rightarrow> unit prog" where
  "accept_pending_connection E viewer username i =
    bindE (require_local_actor E viewer username) (\<lambda>a.
    bindE (accept (a_id a) i) (\<lambda>found.
    if \<not> found then throw (NotFound ''connection'' i)
    else bindE (find_by_id E i) (\<lambda>requester. ret ())))"

definition reject_pending_connection :: "('u, 'z) env_scheme \<Rightarrow> viewer option \<Rightarrow> string \<Rightarrow> uuid \<Rightarrow> unit prog" where
  "reject_pending_connection E viewer username i =
    bindE (require_local_actor E viewer username) (\<lambda>a.
    bindE (reject (a_id a) i) (\<lambda>found.
    if \<not> found then throw (NotFound ''connection'' i) else ret ()))"

definition remove_connection :: "('u, 'z) env_scheme \<Rightarrow> viewer option \<Rightarrow> string \<Rightarrow> uuid \<Rightarrow> unit prog" where
  "remove_connection E viewer username i =
    bindE (require_local_actor E viewer username) (\<lambda>a.
    bindE (withdraw (a_id a) i) (\<lambda>withdrawn.
    bindE (if withdrawn then ret False else disconnect (a_id a) i) (\<lambda>disconnected.
    if \<not> withdrawn \<and> \<not> disconnected then throw (NotFound ''connection'' i) else ret ())))"

end
