(* ===== verification/ConnectionGraph.thy ===== *)
theory ConnectionGraph
  imports Connections
begin

text \<open>
  What the table of connections is meant to be: an undirected graph whose edges are invitations
  or connections.  Every operation of \<open>connections.rs\<close> is shown to do to the table what the
  abstract operation does to the graph.
\<close>

section \<open>The graph\<close>

datatype link = NoLink | InvitedBy uuid | Linked

type_synonym graph = "uuid set \<Rightarrow> link"

datatype conn_op =
    CInvite uuid uuid "string option"
  | CAccept uuid uuid
  | CReject uuid uuid
  | CWithdraw uuid uuid
  | CDisconnect uuid uuid

text \<open>The first argument acts; the second is the other end.\<close>

fun graph_op :: "conn_op \<Rightarrow> graph \<Rightarrow> graph" where
  "graph_op (CInvite a b ap) g = (if a \<noteq> b \<and> g {a, b} = NoLink then g({a, b} := InvitedBy a) else g)"
| "graph_op (CAccept b a) g = (if g {a, b} = InvitedBy a then g({a, b} := Linked) else g)"
| "graph_op (CReject b a) g = (if g {a, b} = InvitedBy a then g({a, b} := NoLink) else g)"
| "graph_op (CWithdraw a b) g = (if g {a, b} = InvitedBy a then g({a, b} := NoLink) else g)"
| "graph_op (CDisconnect a b) g = (if g {a, b} = Linked then g({a, b} := NoLink) else g)"

fun graph_ok :: "conn_op \<Rightarrow> graph \<Rightarrow> bool" where
  "graph_ok (CInvite a b ap) g = (g {a, b} = NoLink)"
| "graph_ok (CAccept b a) g = (g {a, b} = InvitedBy a)"
| "graph_ok (CReject b a) g = (g {a, b} = InvitedBy a)"
| "graph_ok (CWithdraw a b) g = (g {a, b} = InvitedBy a)"
| "graph_ok (CDisconnect a b) g = (g {a, b} = Linked)"

fun conn_step :: "conn_op \<Rightarrow> bool prog" where
  "conn_step (CInvite a b ap) = bindE (invite a b ap) (\<lambda>i. ret (i \<noteq> None))"
| "conn_step (CAccept b a) = accept b a"
| "conn_step (CReject b a) = reject b a"
| "conn_step (CWithdraw a b) = withdraw a b"
| "conn_step (CDisconnect a b) = disconnect a b"

section \<open>The graph of a table\<close>

definition ends :: "connection_row \<Rightarrow> uuid set" where
  "ends c = {cn_requester c, cn_addressee c}"

definition link_of :: "connection_row \<Rightarrow> link" where
  "link_of c = (if cn_accepted_at c = None then InvitedBy (cn_requester c) else Linked)"

definition row_between :: "uuid set \<Rightarrow> connection_row list \<Rightarrow> connection_row option" where
  "row_between p cs = List.find (\<lambda>c. ends c = p) cs"

definition links :: "world \<Rightarrow> graph" where
  "links s p = (case row_between p (w_connections s) of None \<Rightarrow> NoLink | Some c \<Rightarrow> link_of c)"

definition conn_inv :: "world \<Rightarrow> bool" where
  "conn_inv s \<longleftrightarrow> distinct (map ends (w_connections s))
     \<and> (\<forall>c\<in>set (w_connections s). cn_requester c \<noteq> cn_addressee c)"

text \<open>The identifier of an invitation is new: the table has a unique index on it.\<close>

fun id_is_new :: "conn_op \<Rightarrow> world \<Rightarrow> bool" where
  "id_is_new (CInvite a b ap) s = (ap = None \<or> list_all (\<lambda>c. cn_ap_id c \<noteq> ap) (w_connections s))"
| "id_is_new _ s = True"

lemma same_pair_ends: "same_pair a b c \<longleftrightarrow> ends c = {a, b}"
  by (auto simp: same_pair_def ends_def doubleton_eq_iff)

lemma row_between_SomeD: "row_between p cs = Some c \<Longrightarrow> c \<in> set cs \<and> ends c = p"
  by (auto simp: row_between_def dest: find_SomeD)

lemma row_between_None: "row_between p cs = None \<longleftrightarrow> p \<notin> ends ` set cs"
  by (auto simp: row_between_def find_None_iff')

lemma row_between_map: "(\<And>c. ends (f c) = ends c) \<Longrightarrow> row_between p (map f cs) = map_option f (row_between p cs)"
  unfolding row_between_def by (induction cs) auto

lemma row_between_filter:
  "distinct (map ends cs) \<Longrightarrow> row_between p (filter P cs) =
     (case row_between p cs of Some c \<Rightarrow> if P c then Some c else None | None \<Rightarrow> None)"
  unfolding row_between_def
  by (induction cs) (auto simp: find_None_iff' image_iff split: option.splits dest: find_SomeD)

lemma row_between_snoc: "row_between p (cs @ [c]) = (case row_between p cs of Some x \<Rightarrow> Some x
    | None \<Rightarrow> if ends c = p then Some c else None)"
  unfolding row_between_def by (induction cs) auto

lemma row_between_unique:
  "distinct (map ends cs) \<Longrightarrow> c \<in> set cs \<Longrightarrow> row_between (ends c) cs = Some c"
  unfolding row_between_def by (induction cs) (auto simp: image_iff)

text \<open>A pending row from \<open>a\<close> to \<open>b\<close> is an edge to which \<open>a\<close> invited.\<close>

lemma pending_ends: "pending_between a b c \<Longrightarrow> ends c = {a, b}"
  by (auto simp: pending_between_def ends_def)

lemma pending_link:
  assumes "ends c = {a, b}" and "cn_requester c \<noteq> cn_addressee c"
  shows "pending_between a b c \<longleftrightarrow> link_of c = InvitedBy a"
  using assms by (auto simp: pending_between_def ends_def link_of_def doubleton_eq_iff)

text \<open>A test that only rows of one pair can pass is decided by the row of that pair.\<close>

lemma any_between:
  assumes "conn_inv s" and "\<And>c. P c \<Longrightarrow> ends c = p"
  shows "list_ex P (w_connections s) \<longleftrightarrow> (case row_between p (w_connections s) of None \<Rightarrow> False | Some c \<Rightarrow> P c)"
proof (cases "row_between p (w_connections s)")
  case None
  then have "\<not> P c" if "c \<in> set (w_connections s)" for c
    using assms(2) [of c] that by (auto simp: row_between_None)
  then show ?thesis using None by (simp add: list_ex_iff)
next
  case (Some c)
  have "x = c" if "x \<in> set (w_connections s)" "P x" for x
    using row_between_unique [of "w_connections s" x] that assms Some by (simp add: conn_inv_def)
  then have "list_ex P (w_connections s) \<longleftrightarrow> P c"
    using row_between_SomeD [OF Some] by (auto simp: list_ex_iff)
  then show ?thesis using Some by simp
qed

lemma inv_row: "conn_inv s \<Longrightarrow> row_between p (w_connections s) = Some c \<Longrightarrow> ends c = p \<and> cn_requester c \<noteq> cn_addressee c"
  using row_between_SomeD [of p "w_connections s" c] by (simp add: conn_inv_def)

lemma any_pending:
  assumes "conn_inv s"
  shows "list_ex (pending_between a b) (w_connections s) \<longleftrightarrow> links s {a, b} = InvitedBy a"
proof -
  have "list_ex (pending_between a b) (w_connections s)
      \<longleftrightarrow> (case row_between {a, b} (w_connections s) of None \<Rightarrow> False | Some c \<Rightarrow> pending_between a b c)"
    by (rule any_between [OF assms pending_ends])
  then show ?thesis
    using inv_row [OF assms, of "{a, b}"] pending_link by (simp add: links_def split: option.split)
qed

lemma any_linked:
  assumes "conn_inv s"
  shows "list_ex (\<lambda>c. cn_accepted_at c \<noteq> None \<and> same_pair a b c) (w_connections s) \<longleftrightarrow> links s {a, b} = Linked"
proof -
  have "list_ex (\<lambda>c. cn_accepted_at c \<noteq> None \<and> same_pair a b c) (w_connections s)
      \<longleftrightarrow> (case row_between {a, b} (w_connections s) of None \<Rightarrow> False
          | Some c \<Rightarrow> cn_accepted_at c \<noteq> None \<and> same_pair a b c)"
    by (rule any_between [OF assms]) (simp add: same_pair_ends)
  then show ?thesis
    using inv_row [OF assms, of "{a, b}"] by (simp add: links_def link_of_def same_pair_ends split: option.split)
qed

section \<open>Each operation refines its abstract one\<close>

abbreviation ticked :: "world \<Rightarrow> world" where
  "ticked s \<equiv> s\<lparr>w_tick := Suc (w_tick s)\<rparr>"

lemma links_cong: "w_connections t = w_connections s \<Longrightarrow> links t = links s \<and> conn_inv t = conn_inv s"
  by (simp add: links_def conn_inv_def fun_eq_iff)

lemma on_connections_rows [simp]: "w_connections (on_connections f s) = f (w_connections s)"
  by (simp add: on_connections_def)

lemma delete_refines:
  assumes inv: "conn_inv s" and "delete_connections P s = (Inr b, t)"
    and P: "\<And>c. P c \<Longrightarrow> ends c = p" and link: "\<And>c. c \<in> set (w_connections s) \<Longrightarrow> ends c = p \<Longrightarrow> P c \<longleftrightarrow> link_of c = l"
    and l: "l \<noteq> NoLink"
  shows "conn_inv t \<and> links t = (if links s p = l then (links s)(p := NoLink) else links s)"
proof -
  have t: "w_connections t = filter (\<lambda>c. \<not> P c) (w_connections s)"
    using assms(2) by (auto simp: delete_connections_def stmt_def Let_def split: if_splits)
  have d: "distinct (map ends (w_connections s))" using inv by (simp add: conn_inv_def)
  have "conn_inv t" using inv by (simp add: conn_inv_def t distinct_map_filter)
  moreover have "links t q = (if links s p = l then (links s)(p := NoLink) else links s) q" for q
  proof (cases "row_between q (w_connections s)")
    case None
    then show ?thesis using l by (simp add: links_def t row_between_filter [OF d])
  next
    case (Some c)
    note c = row_between_SomeD [OF Some]
    show ?thesis
    proof (cases "q = p")
      case True
      then show ?thesis using Some c link [of c] l by (simp add: links_def t row_between_filter [OF d])
    next
      case False
      then have "\<not> P c" using P c by blast
      then show ?thesis using False Some by (simp add: links_def t row_between_filter [OF d])
    qed
  qed
  ultimately show ?thesis by blast
qed

lemma delete_result: "delete_connections P s = (Inr b, t) \<Longrightarrow> b \<longleftrightarrow> list_ex P (w_connections s)"
  by (auto simp: delete_connections_def stmt_def Let_def split: if_splits)

lemma accept_refines:
  assumes inv: "conn_inv s" and "accept b a s = (Inr r, t)"
  shows "conn_inv t \<and> links t = graph_op (CAccept b a) (links s) \<and> (r \<longleftrightarrow> links s {a, b} = InvitedBy a)"
proof -
  define f where "f = (\<lambda>c. if pending_between a b c then c\<lparr>cn_accepted_at := Some (w_now s)\<rparr> else c)"
  have t: "w_connections t = map f (w_connections s)" and r: "r = list_ex (pending_between a b) (w_connections s)"
    using assms(2) by (auto simp: accept_def stmt_def Let_def f_def split: if_splits)
  have f: "ends (f c) = ends c" "cn_requester (f c) = cn_requester c" "cn_addressee (f c) = cn_addressee c" for c
    by (simp_all add: f_def ends_def)
  have "conn_inv t"
    using inv by (auto simp: conn_inv_def t o_def f)
  moreover have "links t q = graph_op (CAccept b a) (links s) q" for q
  proof (cases "row_between q (w_connections s)")
    case None
    then show ?thesis by (auto simp: links_def t row_between_map f)
  next
    case (Some c)
    note c = row_between_SomeD [OF Some]
    have ne: "cn_requester c \<noteq> cn_addressee c" using inv c by (simp add: conn_inv_def)
    have q: "links s q = link_of c" "links t q = link_of (f c)"
      using Some by (simp_all add: links_def t row_between_map f)
    show ?thesis
    proof (cases "q = {a, b}")
      case True
      then show ?thesis
        using q c pending_link [of c a b] ne by (auto simp: f_def link_of_def)
    next
      case False
      then have "\<not> pending_between a b c" using c pending_ends by blast
      then show ?thesis using False q by (simp add: f_def)
    qed
  qed
  ultimately show ?thesis using any_pending [OF inv] r by auto
qed

lemma invite_refines:
  assumes inv: "conn_inv s" and "invite a b ap s = (Inr r, t)"
  shows "conn_inv t \<and> (id_is_new (CInvite a b ap) s \<longrightarrow>
      links t = graph_op (CInvite a b ap) (links s) \<and> (r \<noteq> None \<longleftrightarrow> links s {a, b} = NoLink))
    \<and> (links t = links s \<or> links t = graph_op (CInvite a b ap) (links s))"
proof -
  have ne: "a \<noteq> b" using assms(2) by (auto simp: invite_def)
  have none: "links s {a, b} = NoLink \<longleftrightarrow> \<not> list_ex (same_pair a b) (w_connections s)"
    by (auto simp: links_def link_of_def list_ex_iff same_pair_ends row_between_None split: option.splits
        dest: row_between_SomeD)
  consider (no) "w_connections t = w_connections s" "r = None"
      "list_ex (\<lambda>c. same_pair a b c \<or> (ap \<noteq> None \<and> cn_ap_id c = ap)) (w_connections s)"
    | (yes) c where "w_connections t = w_connections s @ [c]" "r \<noteq> None" "cn_requester c = a" "cn_addressee c = b"
      "cn_accepted_at c = None" "\<not> list_ex (same_pair a b) (w_connections s)"
    using assms(2) ne by (auto simp: invite_def insert_connection_def stmt_def Let_def list_ex_iff split: if_splits)
  then show ?thesis
  proof cases
    case no
    then show ?thesis using inv links_cong [OF no(1)] none
      by (auto simp: list_all_iff list_ex_iff fun_eq_iff)
  next
    case yes
    have e: "ends c = {a, b}" "link_of c = InvitedBy a" using yes by (simp_all add: ends_def link_of_def)
    have free: "{a, b} \<notin> ends ` set (w_connections s)"
      using yes(6) by (auto simp: list_ex_iff same_pair_ends)
    have "conn_inv t" using inv yes(3,4) ne e(1) free by (auto simp: conn_inv_def yes(1))
    moreover have "links t = (links s)({a, b} := InvitedBy a)"
      using free by (auto simp: fun_eq_iff links_def yes(1) row_between_snoc e row_between_None [symmetric] split: option.splits)
    ultimately show ?thesis using ne none yes(2,6) by simp
  qed
qed

lemma step_refines:
  assumes inv: "conn_inv s" and "conn_step op s = (Inr r, t)" and "id_is_new op s"
  shows "conn_inv t \<and> links t = graph_op op (links s) \<and> (r \<longleftrightarrow> graph_ok op (links s))"
proof (cases op)
  case (CInvite a b ap)
  then obtain x where x: "invite a b ap s = (Inr x, t)" "r \<longleftrightarrow> x \<noteq> None"
    using assms(2) by (auto simp: bindE_Inr)
  then show ?thesis using invite_refines [OF inv x(1)] assms(3) unfolding CInvite graph_ok.simps by blast
next
  case (CAccept b a)
  then show ?thesis using accept_refines [OF inv] assms(2) by simp
next
  case (CReject b a)
  then have d: "delete_connections (pending_between a b) s = (Inr r, t)" using assms(2) by (simp add: reject_def)
  have "conn_inv t \<and> links t = (if links s {a, b} = InvitedBy a then (links s)({a, b} := NoLink) else links s)"
    by (rule delete_refines [OF inv d pending_ends])
      (use inv in \<open>auto simp: conn_inv_def pending_link\<close>)
  then show ?thesis using delete_result [OF d] any_pending [OF inv] by (simp add: CReject)
next
  case (CWithdraw a b)
  then have d: "delete_connections (pending_between a b) s = (Inr r, t)" using assms(2) by (simp add: withdraw_def)
  have "conn_inv t \<and> links t = (if links s {a, b} = InvitedBy a then (links s)({a, b} := NoLink) else links s)"
    by (rule delete_refines [OF inv d pending_ends])
      (use inv in \<open>auto simp: conn_inv_def pending_link\<close>)
  then show ?thesis using delete_result [OF d] any_pending [OF inv] by (simp add: CWithdraw)
next
  case (CDisconnect a b)
  then have d: "delete_connections (\<lambda>c. cn_accepted_at c \<noteq> None \<and> same_pair a b c) s = (Inr r, t)"
    using assms(2) by (simp add: disconnect_def)
  have "conn_inv t \<and> links t = (if links s {a, b} = Linked then (links s)({a, b} := NoLink) else links s)"
    by (rule delete_refines [OF inv d]) (auto simp: same_pair_ends link_of_def)
  then show ?thesis using delete_result [OF d] any_linked [OF inv] by (simp add: CDisconnect)
qed

section \<open>Runs\<close>

definition conn_run :: "conn_op list \<Rightarrow> world \<Rightarrow> world" where
  "conn_run ops s = fold (\<lambda>op s. snd (conn_step op s)) ops s"

lemma failed_step: "conn_step op s = (Inl e, t) \<Longrightarrow> w_connections t = w_connections s"
  by (cases op) (auto simp: bindE_def ret_def throw_def invite_def insert_connection_def accept_def reject_def
      withdraw_def disconnect_def delete_connections_def stmt_def Let_def split: if_splits prod.splits sum.splits)

text \<open>Whatever a statement does, the graph makes the abstract step or stays.\<close>

lemma any_step:
  assumes "conn_inv s"
  shows "conn_inv (snd (conn_step op s)) \<and>
    (links (snd (conn_step op s)) = links s \<or> links (snd (conn_step op s)) = graph_op op (links s))"
proof -
  obtain r t where r: "conn_step op s = (r, t)" by fastforce
  show ?thesis
  proof (cases r)
    case (Inl e)
    then show ?thesis using failed_step [of op s e t] links_cong [of t s] r assms by simp
  next
    case (Inr b)
    show ?thesis
    proof (cases "id_is_new op s")
      case True
      then show ?thesis using step_refines [OF assms, of op b t] r Inr by simp
    next
      case False
      then obtain x y ap where op: "op = CInvite x y ap" by (cases op) auto
      then obtain i where i: "invite x y ap s = (Inr i, t)" using r Inr by (auto simp: bindE_Inr)
      have "snd (conn_step op s) = t" by (simp add: r)
      then show ?thesis using invite_refines [OF assms i] unfolding op by auto
    qed
  qed
qed

text \<open>Who has asked and who has agreed, in a list of requests.\<close>

definition agreed :: "conn_op list \<Rightarrow> uuid \<Rightarrow> uuid \<Rightarrow> bool" where
  "agreed ops x y \<longleftrightarrow> (\<exists>xs ap ys zs. ops = xs @ CInvite x y ap # ys @ CAccept y x # zs)"

definition backed :: "conn_op list \<Rightarrow> uuid set \<Rightarrow> link \<Rightarrow> bool" where
  "backed ops p l \<longleftrightarrow> (case l of NoLink \<Rightarrow> True
     | InvitedBy x \<Rightarrow> \<exists>y ap. p = {x, y} \<and> CInvite x y ap \<in> set ops
     | Linked \<Rightarrow> \<exists>x y. p = {x, y} \<and> agreed ops x y)"

lemma agreed_more: "agreed ops x y \<Longrightarrow> agreed (ops @ [op]) x y"
  unfolding agreed_def by (elim exE) (metis append.assoc append_Cons)

lemma backed_more: "backed ops p l \<Longrightarrow> backed (ops @ [op]) p l"
  unfolding backed_def by (cases l) (auto dest: agreed_more)

lemma agreedI: "CInvite x y ap \<in> set ops \<Longrightarrow> agreed (ops @ [CAccept y x]) x y"
  unfolding agreed_def
proof -
  assume "CInvite x y ap \<in> set ops"
  then obtain xs ys where "ops = xs @ CInvite x y ap # ys" by (meson split_list)
  then have "ops @ [CAccept y x] = xs @ CInvite x y ap # ys @ CAccept y x # []" by simp
  then show "\<exists>xs ap' ys zs. ops @ [CAccept y x] = xs @ CInvite x y ap' # ys @ CAccept y x # zs" by blast
qed

lemma backed_accept:
  assumes "backed ops {x, y} (InvitedBy x)" shows "backed (ops @ [CAccept y x]) {x, y} Linked"
proof -
  obtain z ap where "{x, y} = {x, z}" "CInvite x z ap \<in> set ops" using assms by (auto simp: backed_def)
  moreover from this have "z = y" by (auto simp: doubleton_eq_iff)
  ultimately show ?thesis unfolding backed_def link.case using agreedI by blast
qed

lemma backed_step:
  assumes "backed ops p (g p)" shows "backed (ops @ [op]) p (graph_op op g p)"
proof (cases op)
  case (CInvite x y ap)
  then show ?thesis
    using backed_more [OF assms] by (cases "p = {x, y} \<and> x \<noteq> y \<and> g p = NoLink") (auto simp: backed_def)
next
  case (CAccept y x)
  then show ?thesis
    using backed_more [OF assms] backed_accept assms by (cases "p = {x, y}") auto
next
  case (CReject b a)
  then show ?thesis
    using backed_more [OF assms] by (cases "p = {a, b}") (auto simp: backed_def)
next
  case (CWithdraw a b)
  then show ?thesis
    using backed_more [OF assms] by (cases "p = {a, b}") (auto simp: backed_def)
next
  case (CDisconnect a b)
  then show ?thesis
    using backed_more [OF assms] by (cases "p = {a, b}") (auto simp: backed_def)
qed

lemma run_backed:
  assumes "conn_inv s" and "links s p = NoLink"
  shows "conn_inv (conn_run ops s) \<and> backed ops p (links (conn_run ops s) p)"
proof (induction ops rule: rev_induct)
  case Nil
  then show ?case using assms by (simp add: conn_run_def backed_def)
next
  case (snoc op ops)
  let ?t = "conn_run ops s"
  have u: "conn_run (ops @ [op]) s = snd (conn_step op ?t)" by (simp add: conn_run_def)
  have "conn_inv ?t" using snoc by simp
  note step = any_step [OF this, of op]
  from step have "links (conn_run (ops @ [op]) s) = links ?t \<or> links (conn_run (ops @ [op]) s) = graph_op op (links ?t)"
    by (simp add: u)
  then have "backed (ops @ [op]) p (links (conn_run (ops @ [op]) s) p)"
    using snoc backed_more backed_step by (elim disjE) simp_all
  then show ?case using step u by simp
qed

lemma connection_state_links:
  "connection_state_of a b s = (case links s {a, b} of NoLink \<Rightarrow> ConnNone | InvitedBy x \<Rightarrow> ConnPending | Linked \<Rightarrow> ConnAccepted)"
  by (simp add: connection_state_of_def links_def row_between_def same_pair_ends [abs_def] link_of_def
      split: option.split)

end
