(* ===== verification/Applications.thy ===== *)
theory Applications
  imports Accounts SearchQueue
begin

text \<open>
  Job postings and the applications to them: \<open>noombat-jobs\<close> (\<open>lib.rs\<close>, \<open>applications.rs\<close>), the
  routes of \<open>noombat-api/src/routes/applications.rs\<close>, and the outbound half of
  \<open>noombat-federation/src/move_actor.rs\<close>, which revokes the grants of an account that leaves.
\<close>

section \<open>Parameters\<close>

text \<open>
  \<open>render_markdown\<close> is the markup pipeline of \<open>noombat-markup\<close>; \<open>cv_pdf\<close> the CV the generator
  makes of a profile, \<open>None\<close> when it fails.
\<close>

record job_env = account_env +
  render_markdown :: "string \<Rightarrow> string result"
  cv_pdf :: "uuid \<Rightarrow> world \<Rightarrow> string option"

definition on_jobs :: "(job_tables \<Rightarrow> job_tables) \<Rightarrow> world \<Rightarrow> world" where
  "on_jobs f s = s\<lparr>w_jobs := f (w_jobs s)\<rparr>"

section \<open>Postings\<close>

record job_posting = job_row +
  jp_org_kind :: "org_kind option"

record new_job_posting =
  nj_title :: string
  nj_description_md :: string
  nj_location :: "string option"
  nj_remote :: "bool option"
  nj_salary_min :: "int option"
  nj_salary_max :: "int option"
  nj_currency :: "string option"
  nj_requirements :: "string list option"
  nj_expires_at :: "timestamp option"
  nj_publish :: bool

text \<open>A row with the declaration of the actor that published it.\<close>

definition job_posting_of :: "world \<Rightarrow> job_row \<Rightarrow> job_posting" where
  "job_posting_of s j = job_row.extend j
     \<lparr>jp_org_kind = Option.bind (actor_by_id (jb_actor_id j) s) a_org_kind\<rparr>"

definition requirements_json :: "string list option \<Rightarrow> json option" where
  "requirements_json r = map_option (\<lambda>xs. JArr (map JStr xs)) r"

definition insert_job :: "job_row \<Rightarrow> job_posting prog" where
  "insert_job j = stmt (\<lambda>s.
     if \<not> actor_exists (jb_actor_id j) s \<or> (case jb_created_by j of None \<Rightarrow> False | Some i \<Rightarrow> \<not> actor_exists i s)
        \<or> list_ex (\<lambda>x. jb_ap_id x = jb_ap_id j \<or> jb_id x = jb_id j) (jt_jobs (w_jobs s))
     then (Inl Database, s)
     else (Inr (job_posting_of s j), on_jobs (\<lambda>t. t\<lparr>jt_jobs := jt_jobs t @ [j]\<rparr>) s))"

definition create_job ::
  "job_env \<Rightarrow> uuid \<Rightarrow> uuid option \<Rightarrow> string \<Rightarrow> new_job_posting \<Rightarrow> job_posting prog" where
  "create_job J actor_id created_by domain params =
    bindE new_uuid (\<lambda>i.
    bindE (of_result (render_markdown J (nj_description_md params))) (\<lambda>html.
    bindE (gets w_now) (\<lambda>now.
    insert_job
      \<lparr> jb_id = i, jb_actor_id = actor_id,
        jb_created_by = (if created_by = Some actor_id then None else created_by),
        jb_ap_id = ''https://'' @ domain @ ''/jobs/'' @ show_uuid J i, jb_title = nj_title params,
        jb_description_md = nj_description_md params, jb_description_html = html,
        jb_location = nj_location params, jb_remote = (nj_remote params = Some True),
        jb_salary_min = nj_salary_min params, jb_salary_max = nj_salary_max params,
        jb_currency = nj_currency params, jb_requirements = requirements_json (nj_requirements params),
        jb_published_at = (if nj_publish params then Some now else None),
        jb_expires_at = nj_expires_at params, jb_created_at = now, jb_readers = ''creator_only'' \<rparr>)))"

definition job_by_id :: "uuid \<Rightarrow> world \<Rightarrow> job_posting option" where
  "job_by_id i s = map_option (job_posting_of s) (List.find (\<lambda>j. jb_id j = i) (jt_jobs (w_jobs s)))"

definition get_job :: "uuid \<Rightarrow> job_posting prog" where
  "get_job i = bindE (query (job_by_id i)) (ok_or (NotFound ''job_posting'' i))"

text \<open>\<open>ORDER BY published_at DESC LIMIT .. OFFSET ..\<close>\<close>

definition newest_page :: "nat \<Rightarrow> nat \<Rightarrow> job_row list \<Rightarrow> job_row list" where
  "newest_page limit offset rows =
     take limit (drop offset (sort_key (\<lambda>j. case jb_published_at j of None \<Rightarrow> 0 | Some t \<Rightarrow> - t) rows))"

definition list_jobs_by_actor :: "uuid \<Rightarrow> nat \<Rightarrow> nat \<Rightarrow> job_posting list prog" where
  "list_jobs_by_actor actor_id limit offset = query (\<lambda>s. map (job_posting_of s) (newest_page limit offset
     (filter (\<lambda>j. jb_actor_id j = actor_id \<and> jb_published_at j \<noteq> None) (jt_jobs (w_jobs s)))))"

definition listed :: "org_kind option \<Rightarrow> world \<Rightarrow> job_row \<Rightarrow> bool" where
  "listed kind s j = (jb_published_at j \<noteq> None
     \<and> (case jb_expires_at j of None \<Rightarrow> True | Some t \<Rightarrow> w_now s < t)
     \<and> (kind = None \<or> Option.bind (actor_by_id (jb_actor_id j) s) a_org_kind = kind))"

definition list_published_jobs :: "org_kind option \<Rightarrow> nat \<Rightarrow> nat \<Rightarrow> job_posting list prog" where
  "list_published_jobs kind limit offset = query (\<lambda>s. map (job_posting_of s) (newest_page limit offset
     (filter (listed kind s) (jt_jobs (w_jobs s)))))"

definition delete_job_stmt :: "uuid \<Rightarrow> uuid \<Rightarrow> nat prog" where
  "delete_job_stmt actor_id i = stmt (\<lambda>s. let P = (\<lambda>j. jb_id j = i \<and> jb_actor_id j = actor_id) in
     (Inr (length (filter P (jt_jobs (w_jobs s)))), on_jobs (delete_jobs_where P) s))"

definition delete_job :: "uuid \<Rightarrow> uuid \<Rightarrow> unit prog" where
  "delete_job actor_id i = bindE (delete_job_stmt actor_id i) (\<lambda>n.
     if n = 0 then throw (NotFound ''job_posting'' i) else ret ())"

record update_job_posting =
  uj_title :: "string option"
  uj_description_md :: "string option"
  uj_location :: "string option"
  uj_remote :: "bool option"
  uj_salary_min :: "int option"
  uj_salary_max :: "int option"
  uj_currency :: "string option"
  uj_requirements :: "string list option"
  uj_expires_at :: "timestamp option"

definition coalesce :: "'a option \<Rightarrow> 'a option \<Rightarrow> 'a option" where
  "coalesce x y = (case x of Some v \<Rightarrow> Some v | None \<Rightarrow> y)"

definition updated_job :: "update_job_posting \<Rightarrow> string \<Rightarrow> string \<Rightarrow> string \<Rightarrow> json option \<Rightarrow> job_row \<Rightarrow> job_row" where
  "updated_job u title md html requirements j =
    j\<lparr> jb_title := title, jb_description_md := md, jb_description_html := html,
       jb_location := coalesce (uj_location u) (jb_location j),
       jb_remote := (case uj_remote u of Some b \<Rightarrow> b | None \<Rightarrow> jb_remote j),
       jb_salary_min := coalesce (uj_salary_min u) (jb_salary_min j),
       jb_salary_max := coalesce (uj_salary_max u) (jb_salary_max j),
       jb_currency := coalesce (uj_currency u) (jb_currency j), jb_requirements := requirements,
       jb_expires_at := coalesce (uj_expires_at u) (jb_expires_at j) \<rparr>"

text \<open>\<open>fetch_one\<close> on no row is an error of the database driver.\<close>

definition update_job_stmt :: "uuid \<Rightarrow> uuid \<Rightarrow> (job_row \<Rightarrow> job_row) \<Rightarrow> job_posting prog" where
  "update_job_stmt actor_id i f = stmt (\<lambda>s. let P = (\<lambda>j. jb_id j = i \<and> jb_actor_id j = actor_id) in
     case List.find P (jt_jobs (w_jobs s)) of None \<Rightarrow> (Inl Database, s)
     | Some j \<Rightarrow> (Inr (job_posting_of s (f j)),
         on_jobs (\<lambda>t. t\<lparr>jt_jobs := map (\<lambda>j. if P j then f j else j) (jt_jobs t)\<rparr>) s))"

definition update_job :: "job_env \<Rightarrow> uuid \<Rightarrow> uuid \<Rightarrow> update_job_posting \<Rightarrow> job_posting prog" where
  "update_job J actor_id i params =
    bindE (query (\<lambda>s. List.find (\<lambda>j. jb_id j = i \<and> jb_actor_id j = actor_id) (jt_jobs (w_jobs s)))) (\<lambda>found.
    bindE (ok_or (NotFound ''job_posting'' i) found) (\<lambda>existing.
    let title = (case uj_title params of Some t \<Rightarrow> t | None \<Rightarrow> jb_title existing);
        requirements = coalesce (requirements_json (uj_requirements params)) (jb_requirements existing) in
    bindE (case uj_description_md params of
        Some md \<Rightarrow> bindE (of_result (render_markdown J md)) (\<lambda>html. ret (md, html))
      | None \<Rightarrow> ret (jb_description_md existing, jb_description_html existing)) (\<lambda>(md, html).
    update_job_stmt actor_id i (updated_job params title md html requirements))))"

section \<open>Applying\<close>

definition GRANT_TTL_DAYS :: int where "GRANT_TTL_DAYS = 90"

definition DOCUMENT_USES :: int where "DOCUMENT_USES = 50"

definition CV_USES :: int where "CV_USES = 20"

record new_application =
  na_cover_letter_md :: "string option"
  na_include_cv :: bool

record job_application =
  ap_application_id :: uuid
  ap_application_ap_id :: string
  ap_grant_token :: string
  ap_grant_expires_at :: timestamp

definition origin_of :: "string \<Rightarrow> string result" where
  "origin_of ap_id =
    (case (case strip_prefix ''https://'' ap_id of Some r \<Rightarrow> Some r | None \<Rightarrow> strip_prefix ''http://'' ap_id) of
       None \<Rightarrow> Inl (BadRequest (''actor id is not a URL: '' @ ap_id))
     | Some rest \<Rightarrow>
         let host = hd (split_on CHR ''/'' rest) in
         if host = [] then Inl (BadRequest (''actor id names no host: '' @ ap_id))
         else Inr ((if prefix ''https://'' ap_id then ''https'' else ''http'') @ ''://'' @ host))"

definition insert_application :: "application_row \<Rightarrow> unit prog" where
  "insert_application a = stmt (\<lambda>s. let t = w_jobs s in
     if list_ex (\<lambda>x. ja_id x = ja_id a \<or> ja_ap_id x = ja_ap_id a
          \<or> (ja_applicant x = ja_applicant a \<and> ja_job a \<noteq> None \<and> ja_job x = ja_job a)) (jt_applications t)
     then (Inl (BadRequest ''you have already applied to this posting''), s)
     else if \<not> actor_exists (ja_applicant a) s
       \<or> (case ja_job a of None \<Rightarrow> False | Some i \<Rightarrow> \<not> list_ex (\<lambda>j. jb_id j = i) (jt_jobs t)) then (Inl Database, s)
     else (Inr (), on_jobs (\<lambda>t. t\<lparr>jt_applications := jt_applications t @ [a]\<rparr>) s))"

definition insert_grant :: "uuid \<Rightarrow> string \<Rightarrow> string \<Rightarrow> string \<Rightarrow> timestamp \<Rightarrow> int \<Rightarrow> int \<Rightarrow> unit prog" where
  "insert_grant application hash audience audience_origin expires document_uses cv_uses = stmt (\<lambda>s.
     if list_ex (\<lambda>g. gr_token_hash g = hash) (jt_grants (w_jobs s))
       \<or> \<not> list_ex (\<lambda>a. ja_id a = application) (jt_applications (w_jobs s)) then (Inl Database, s)
     else (Inr (), (on_jobs (\<lambda>t. t\<lparr>jt_grants := jt_grants t @ [\<lparr>gr_id = w_next_id s, gr_application = application,
         gr_token_hash = hash, gr_audience_ap_id = audience, gr_audience_origin = audience_origin,
         gr_state = ''active'', gr_expires_at = expires, gr_document_uses = document_uses,
         gr_cv_uses = cv_uses, gr_revoked_at = None, gr_revoked_reason = None\<rparr>]\<rparr>) s)
         \<lparr>w_next_id := Suc (w_next_id s)\<rparr>))"

definition display_name_of :: "actor_row \<Rightarrow> string" where
  "display_name_of a = (case a_display_name a of Some n \<Rightarrow> n | None \<Rightarrow> a_username a)"

definition render_cover_letter :: "job_env \<Rightarrow> string option \<Rightarrow> string option prog" where
  "render_cover_letter J md = (case md of None \<Rightarrow> ret None
     | Some text \<Rightarrow> if trim text = [] then ret None
         else bindE (of_result (render_markdown J text)) (\<lambda>html. ret (Some html)))"

definition apply_for ::
  "('u, 'z) env_scheme \<Rightarrow> job_env \<Rightarrow> uuid \<Rightarrow> uuid \<Rightarrow> string \<Rightarrow> new_application \<Rightarrow> string option \<Rightarrow> job_application prog" where
  "apply_for E J applicant_id job_id domain params cv_snapshot =
    bindE (get_job job_id) (\<lambda>job.
    if jb_published_at job = None then throw (NotFound ''job_posting'' job_id)
    else if jb_actor_id job = applicant_id then
      throw (BadRequest ''an organisation cannot apply to its own posting'')
    else
      bindE (query (actor_by_id (jb_actor_id job))) (\<lambda>found.
      bindE (ok_or (NotFound ''job_posting'' job_id) found) (\<lambda>organisation.
      bindE (of_result (origin_of (a_ap_id organisation))) (\<lambda>audience_origin.
      bindE (render_cover_letter J (na_cover_letter_md params)) (\<lambda>cover_letter_html.
      bindE new_uuid (\<lambda>i.
      bindE mint_token (\<lambda>token.
      bindE (gets w_now) (\<lambda>now.
      let ap_id = ''https://'' @ domain @ ''/applications/'' @ show_uuid J i;
          expires_at = now + GRANT_TTL_DAYS * 86400 * 1000 in
      bindE (transaction (
        bindE (insert_application
          \<lparr> ja_id = i, ja_applicant = applicant_id, ja_job = Some job_id, ja_posting_title = jb_title job,
            ja_posting_organization = display_name_of organisation, ja_applied_on = now div (86400 * 1000),
            ja_ap_id = ap_id, ja_cover_letter_md = na_cover_letter_md params,
            ja_cover_letter_html = cover_letter_html, ja_include_cv = na_include_cv params,
            ja_cv_snapshot = (if na_include_cv params then cv_snapshot else None),
            ja_status = ''submitted'', ja_created_at = now, ja_updated_at = now \<rparr>) (\<lambda>_.
        insert_grant i (hash_token E token) (a_ap_id organisation) audience_origin expires_at
          DOCUMENT_USES (if na_include_cv params then CV_USES else 0)))) (\<lambda>_.
      ret \<lparr>ap_application_id = i, ap_application_ap_id = ap_id, ap_grant_token = token,
           ap_grant_expires_at = expires_at\<rparr>)))))))))"

section \<open>Redeeming a grant\<close>

datatype document = DocApplication | DocCv

record redeemed =
  rd_grant_id :: uuid
  rd_job_application_id :: uuid
  rd_applicant_id :: uuid

definition uses_left :: "document \<Rightarrow> grant_row \<Rightarrow> int" where
  "uses_left d g = (case d of DocApplication \<Rightarrow> gr_document_uses g | DocCv \<Rightarrow> gr_cv_uses g)"

definition spend_use :: "document \<Rightarrow> grant_row \<Rightarrow> grant_row" where
  "spend_use d g = (case d of DocApplication \<Rightarrow> g\<lparr>gr_document_uses := gr_document_uses g - 1\<rparr>
     | DocCv \<Rightarrow> g\<lparr>gr_cv_uses := gr_cv_uses g - 1\<rparr>)"

definition grant_opens :: "string \<Rightarrow> string \<Rightarrow> document \<Rightarrow> world \<Rightarrow> grant_row \<Rightarrow> bool" where
  "grant_opens hash reader_origin d s g = (gr_token_hash g = hash \<and> gr_audience_origin g = reader_origin
     \<and> gr_revoked_at g = None \<and> w_now s < gr_expires_at g \<and> 0 < uses_left d g)"

definition spend_grant :: "string \<Rightarrow> string \<Rightarrow> document \<Rightarrow> (uuid \<times> uuid) option prog" where
  "spend_grant hash reader_origin d = stmt (\<lambda>s.
     (Inr (map_option (\<lambda>g. (gr_id g, gr_application g))
        (List.find (grant_opens hash reader_origin d s) (jt_grants (w_jobs s)))),
      on_jobs (\<lambda>t. t\<lparr>jt_grants := map (\<lambda>g. if grant_opens hash reader_origin d s g then spend_use d g else g)
        (jt_grants t)\<rparr>) s))"

text \<open>The kind follows from the grant; the check on moderators' reasons is the table's.\<close>

definition log_access ::
  "uuid \<Rightarrow> uuid option \<Rightarrow> uuid option \<Rightarrow> string \<Rightarrow> string option \<Rightarrow> unit prog" where
  "log_access application grant_id reader_id outcome reason = execute_if
     (\<lambda>s. list_ex (\<lambda>a. ja_id a = application) (jt_applications (w_jobs s))
        \<and> outcome \<in> set [''disclosed'', ''denied'']
        \<and> (case grant_id of Some g \<Rightarrow> list_ex (\<lambda>x. gr_id x = g) (jt_grants (w_jobs s))
           | None \<Rightarrow> reader_id \<noteq> None \<and> (case reason of None \<Rightarrow> False
               | Some r \<Rightarrow> list_ex (\<lambda>c. c \<noteq> CHR '' '') r))
        \<and> (case reader_id of None \<Rightarrow> True | Some i \<Rightarrow> actor_exists i s))
     (\<lambda>s. on_jobs (\<lambda>t. t\<lparr>jt_accesses := jt_accesses t @ [\<lparr>ac_application = application, ac_grant = grant_id,
        ac_reader = reader_id, ac_kind = (if grant_id \<noteq> None then ''grant_dereference'' else ''moderator_review''),
        ac_outcome = outcome, ac_reason = reason, ac_occurred_at = w_now s\<rparr>]\<rparr>) s)"

definition log_refusal :: "string \<Rightarrow> unit prog" where
  "log_refusal hash =
    bindE (attempt (query (\<lambda>s. map_option (\<lambda>g. (gr_id g, gr_application g))
       (List.find (\<lambda>g. gr_token_hash g = hash) (jt_grants (w_jobs s)))))) (\<lambda>r. case r of
      Inr (Some (grant_id, application)) \<Rightarrow> ignore_errors (log_access application (Some grant_id) None ''denied'' None)
    | _ \<Rightarrow> ret ())"

definition redeem :: "('u, 'z) env_scheme \<Rightarrow> string \<Rightarrow> string \<Rightarrow> document \<Rightarrow> redeemed prog" where
  "redeem E token reader_origin d =
    bindE (spend_grant (hash_token E token) reader_origin d) (\<lambda>spent. case spent of
      None \<Rightarrow> bindE (log_refusal (hash_token E token)) (\<lambda>_. throw Forbidden)
    | Some (grant_id, application) \<Rightarrow>
        bindE (query (\<lambda>s. List.find (\<lambda>a. ja_id a = application) (jt_applications (w_jobs s)))) (\<lambda>found.
        bindE (ok_or Database found) (\<lambda>a.
        bindE (log_access application (Some grant_id) None ''disclosed'' None) (\<lambda>_.
        ret \<lparr>rd_grant_id = grant_id, rd_job_application_id = application, rd_applicant_id = ja_applicant a\<rparr>))))"

section \<open>Withdrawing and leaving\<close>

definition applicant_of :: "uuid \<Rightarrow> job_tables \<Rightarrow> uuid option" where
  "applicant_of i t = map_option ja_applicant (List.find (\<lambda>a. ja_id a = i) (jt_applications t))"

definition known_reasons_for_revocation :: "string list" where
  "known_reasons_for_revocation = [''applicant_withdrew'', ''applicant_revoked'', ''rejected_by_employer'',
     ''posting_removed'', ''posting_fraud_takedown'', ''account_deleted'', ''account_migrated'', ''superseded'', ''expired'']"

definition revoke_where :: "(job_tables \<Rightarrow> grant_row \<Rightarrow> bool) \<Rightarrow> string \<Rightarrow> nat prog" where
  "revoke_where P reason = stmt (\<lambda>s. let hit = P (w_jobs s) in
     if list_ex hit (jt_grants (w_jobs s)) \<and> reason \<notin> set known_reasons_for_revocation then (Inl Database, s)
     else (Inr (length (filter hit (jt_grants (w_jobs s)))),
       on_jobs (\<lambda>t. t\<lparr>jt_grants := map (\<lambda>g. if hit g then g\<lparr>gr_state := ''revoked'',
         gr_revoked_at := Some (w_now s), gr_revoked_reason := Some reason\<rparr> else g) (jt_grants t)\<rparr>) s))"

definition revoke_for_application :: "uuid \<Rightarrow> uuid \<Rightarrow> string \<Rightarrow> nat prog" where
  "revoke_for_application applicant_id application reason = revoke_where (\<lambda>t g. gr_application g = application
     \<and> applicant_of application t = Some applicant_id \<and> gr_revoked_at g = None) reason"

definition revoke_grants_for_migration :: "uuid \<Rightarrow> nat prog" where
  "revoke_grants_for_migration source = revoke_where (\<lambda>t g. applicant_of (gr_application g) t = Some source
     \<and> gr_state g = ''active'') ''account_migrated''"

definition add_alias :: "uuid \<Rightarrow> string \<Rightarrow> uuid prog" where
  "add_alias actor_id alias_uri = stmt (\<lambda>s.
     case List.find (\<lambda>x. al_actor x = actor_id \<and> al_alias x = alias_uri) (w_aliases s) of
       Some x \<Rightarrow> (Inr (al_id x), s)
     | None \<Rightarrow> if \<not> actor_exists actor_id s then (Inl Database, s)
         else (Inr (w_next_id s), s\<lparr>w_aliases := w_aliases s @ [\<lparr>al_id = w_next_id s, al_actor = actor_id,
           al_alias = alias_uri\<rparr>], w_next_id := Suc (w_next_id s)\<rparr>))"

definition remove_alias_by_id :: "uuid \<Rightarrow> uuid \<Rightarrow> unit prog" where
  "remove_alias_by_id actor_id i = execute (\<lambda>s. s\<lparr>w_aliases :=
     filter (\<lambda>x. \<not> (al_id x = i \<and> al_actor x = actor_id)) (w_aliases s)\<rparr>)"

definition list_aliases :: "uuid \<Rightarrow> string list prog" where
  "list_aliases actor_id = query (\<lambda>s. map al_alias (filter (\<lambda>x. al_actor x = actor_id) (w_aliases s)))"

definition move_activity :: "string \<Rightarrow> string \<Rightarrow> timestamp \<Rightarrow> json" where
  "move_activity source target now = JObj [(''@context'', default_context),
     (''id'', JStr (source @ ''#move-'' @ show_int now)), (''type'', JStr ''Move''),
     (''actor'', JStr source), (''object'', JStr source), (''target'', JStr target)]"

definition initiate_move :: "uuid \<Rightarrow> string \<Rightarrow> string \<Rightarrow> unit prog" where
  "initiate_move source_actor_id source target =
    bindE (revoke_grants_for_migration source_actor_id) (\<lambda>_.
    bindE (execute (update_actor_row source_actor_id (\<lambda>a. a\<lparr>a_moved_to := Some target\<rparr>))) (\<lambda>_.
    bindE (gets w_now) (\<lambda>now.
    bindE (get_follower_inboxes source_actor_id) (\<lambda>inboxes.
    for_each (\<lambda>inbox. ignore_errors (enqueue_delivery source_actor_id (move_activity source target now) inbox))
      inboxes))))"

section \<open>Routes\<close>

definition apply_route ::
  "('u, 'z) env_scheme \<Rightarrow> job_env \<Rightarrow> string \<Rightarrow> viewer option \<Rightarrow> uuid \<Rightarrow> new_application \<Rightarrow> job_application prog" where
  "apply_route E J domain viewer job_id body =
    bindE (ok_or Forbidden viewer) (\<lambda>v.
    bindE (gets (cv_pdf J (v_actor_id v))) (\<lambda>pdf.
    apply_for E J (v_actor_id v) job_id domain body (if na_include_cv body then pdf else None)))"

definition require_applicant :: "uuid \<Rightarrow> uuid \<Rightarrow> unit prog" where
  "require_applicant application actor_id = bindE (query (\<lambda>s. applicant_of application (w_jobs s))) (\<lambda>owner.
     if owner = Some actor_id then ret () else throw Forbidden)"

definition list_own_applications :: "viewer option \<Rightarrow> application_row list prog" where
  "list_own_applications viewer = bindE (ok_or Forbidden viewer) (\<lambda>v.
     query (\<lambda>s. sort_key (\<lambda>a. - ja_applied_on a) (sort_key (\<lambda>a. - ja_created_at a)
       (filter (\<lambda>a. ja_applicant a = v_actor_id v) (jt_applications (w_jobs s))))))"

definition list_disclosures :: "viewer option \<Rightarrow> uuid \<Rightarrow> access_row list prog" where
  "list_disclosures viewer application =
    bindE (ok_or Forbidden viewer) (\<lambda>v.
    bindE (require_applicant application (v_actor_id v)) (\<lambda>_.
    query (\<lambda>s. sort_key (\<lambda>x. - ac_occurred_at x) (filter (\<lambda>x. ac_application x = application)
      (jt_accesses (w_jobs s))))))"

definition withdraw_application :: "viewer option \<Rightarrow> uuid \<Rightarrow> unit prog" where
  "withdraw_application viewer application =
    bindE (ok_or Forbidden viewer) (\<lambda>v.
    bindE (require_applicant application (v_actor_id v)) (\<lambda>_.
    bindE (revoke_for_application (v_actor_id v) application ''applicant_withdrew'') (\<lambda>_.
    execute (\<lambda>s. on_jobs (\<lambda>t. t\<lparr>jt_applications := map (\<lambda>a. if ja_id a = application
      then a\<lparr>ja_status := ''withdrawn'', ja_updated_at := w_now s\<rparr> else a) (jt_applications t)\<rparr>) s))))"

text \<open>What the employer is shown: the stored PDF, or the row.\<close>

definition requested_document :: "('u, 'z) env_scheme \<Rightarrow> string option \<Rightarrow> document result" where
  "requested_document E d = (case d of None \<Rightarrow> Inr DocApplication
     | Some name \<Rightarrow> if name = ''cv'' then Inr DocCv else if name = ''application'' then Inr DocApplication
         else Inl (BadRequest (''document must be '' @ quoted ''application'' @ '' or '' @ quoted ''cv'' @ '', not ''
           @ debug_str E name)))"

definition application_by_id :: "uuid \<Rightarrow> application_row prog" where
  "application_by_id i = bindE (query (\<lambda>s. List.find (\<lambda>a. ja_id a = i) (jt_applications (w_jobs s)))) (ok_or Database)"

definition dereference ::
  "('u, 'z) env_scheme \<Rightarrow> string \<Rightarrow> uuid \<Rightarrow> string \<Rightarrow> string option \<Rightarrow> (string + application_row) prog" where
  "dereference E reader_origin application token requested =
    bindE (of_result (requested_document E requested)) (\<lambda>d.
    bindE (redeem E token reader_origin d) (\<lambda>r.
    if rd_job_application_id r \<noteq> application then throw Forbidden
    else
      bindE (application_by_id application) (\<lambda>row.
      case d of
        DocApplication \<Rightarrow> ret (Inr row)
      | DocCv \<Rightarrow>
          if \<not> ja_include_cv row then throw Forbidden
          else bindE (application_by_id application) (\<lambda>row.
            bindE (ok_or (NotFound ''cv_snapshot'' application) (ja_cv_snapshot row)) (\<lambda>pdf. ret (Inl pdf))))))"

section \<open>This instance's origin\<close>

definition is_local_domain :: "string \<Rightarrow> bool" where
  "is_local_domain domain =
    (if domain = ''[::1]'' \<or> prefix ''[::1]:'' domain then True
     else let host = hd (split_on CHR '':'' domain) in host = ''localhost'' \<or> host = ''127.0.0.1'')"

definition origin_authority :: "string \<Rightarrow> nat \<Rightarrow> string" where
  "origin_authority domain public_port =
    (if \<not> is_local_domain domain \<or> CHR '':'' \<in> set domain then domain
     else domain @ '':'' @ show_nat public_port)"

definition http_origin :: "string \<Rightarrow> nat \<Rightarrow> string" where
  "http_origin domain public_port =
    (if is_local_domain domain then ''http'' else ''https'') @ ''://'' @ origin_authority domain public_port"

definition websocket_origin :: "string \<Rightarrow> nat \<Rightarrow> string" where
  "websocket_origin domain public_port =
    (if is_local_domain domain then ''ws'' else ''wss'') @ ''://'' @ origin_authority domain public_port"

end
