(* ===== verification/GrantSafety.thy ===== *)
theory GrantSafety
  imports Applications
begin

text \<open>
  What an employer's capability can and cannot do: the contract of the statements that touch
  grants, what the operations keep under it, and its two instances, a withdrawn application and
  a grant whose budget is being spent.
\<close>

lemma of_result_Inr [simp]: "of_result (Inr x) = ret x"
  by (simp add: of_result_def ret_def)

section \<open>Sequences of requests\<close>

text \<open>
  What may happen to applications: an employer opens a document, somebody applies, an applicant
  withdraws or moves away, a posting is deleted, time passes.
\<close>

datatype grant_op =
    Dereference string uuid string "string option"
  | Apply "viewer option" uuid new_application
  | Withdraw "viewer option" uuid
  | MoveAway uuid string string
  | DeletePosting uuid uuid
  | Clock timestamp

definition set_clock :: "timestamp \<Rightarrow> unit prog" where
  "set_clock t = (\<lambda>s. (Inr (), s\<lparr>w_now := t\<rparr>))"

definition grant_step :: "('u, 'z) env_scheme \<Rightarrow> job_env \<Rightarrow> string \<Rightarrow> grant_op \<Rightarrow> world \<Rightarrow> world" where
  "grant_step E J domain op s = (case op of
     Dereference orig i token requested \<Rightarrow> snd (dereference E orig i token requested s)
   | Apply v i body \<Rightarrow> snd (apply_route E J domain v i body s)
   | Withdraw v i \<Rightarrow> snd (withdraw_application v i s)
   | MoveAway i source target \<Rightarrow> snd (initiate_move i source target s)
   | DeletePosting owner i \<Rightarrow> snd (delete_job owner i s)
   | Clock t \<Rightarrow> snd (set_clock t s))"

definition grant_run :: "('u, 'z) env_scheme \<Rightarrow> job_env \<Rightarrow> string \<Rightarrow> grant_op list \<Rightarrow> world \<Rightarrow> world" where
  "grant_run E J domain ops s = fold (grant_step E J domain) ops s"

text \<open>Whether a request is answered with the document \<open>d\<close>, for the token.\<close>

definition serves :: "('u, 'z) env_scheme \<Rightarrow> string \<Rightarrow> document \<Rightarrow> grant_op \<Rightarrow> world \<Rightarrow> bool" where
  "serves E token d op s = (case op of
     Dereference orig i tk requested \<Rightarrow> tk = token \<and> requested_document E requested = Inr d
       \<and> \<not> isl (fst (dereference E orig i tk requested s))
   | _ \<Rightarrow> False)"

primrec reads :: "('u, 'z) env_scheme \<Rightarrow> job_env \<Rightarrow> string \<Rightarrow> string \<Rightarrow> document \<Rightarrow> grant_op list \<Rightarrow> world \<Rightarrow> nat" where
  "reads E J domain token d [] s = 0"
| "reads E J domain token d (op # ops) s =
     (if serves E token d op s then 1 else 0) + reads E J domain token d ops (grant_step E J domain op s)"

section \<open>The contract of the statements\<close>

definition mark_withdrawn :: "uuid \<Rightarrow> unit prog" where
  "mark_withdrawn application = execute (\<lambda>s. on_jobs (\<lambda>t. t\<lparr>jt_applications := map (\<lambda>a. if ja_id a = application
      then a\<lparr>ja_status := ''withdrawn'', ja_updated_at := w_now s\<rparr> else a) (jt_applications t)\<rparr>) s)"

locale grants_invariant =
  fixes I :: "world \<Rightarrow> bool"
  assumes elsewhere: "\<lbrakk>I s; w_jobs t = w_jobs s; w_next_id s \<le> w_next_id t\<rbrakk> \<Longrightarrow> I t"
    and keeps_application: "keeps I (insert_application a)"
    and keeps_grant: "I s \<Longrightarrow> keeps I (insert_grant (w_next_id s) h u w e m n)"
    and keeps_spend: "keeps I (spend_grant h w d)"
    and keeps_revoke: "keeps I (revoke_where P r)"
    and keeps_access: "keeps I (log_access i g v outcome why)"
    and keeps_withdrawn: "keeps I (mark_withdrawn i)"
    and keeps_delete_job: "keeps I (delete_job_stmt i j)"
begin

lemma keeps_reading: "keeps I (query f)"
  unfolding query_def stmt_def Let_def by (rule keepsI) (auto elim!: elsewhere)

lemma keeps_other: "(\<And>s. w_jobs (f s) = w_jobs s \<and> w_next_id (f s) = w_next_id s) \<Longrightarrow> keeps I (execute f)"
  "(\<And>s. w_jobs (f s) = w_jobs s \<and> w_next_id (f s) = w_next_id s) \<Longrightarrow> keeps I (execute_if ok f)"
  unfolding execute_def execute_if_def stmt_def Let_def by (auto intro!: keepsI elim!: elsewhere)

lemma keeps_draws: "keeps I mint_token" "keeps I (set_clock t)"
  unfolding mint_token_def draw_def bindE_def ret_def set_clock_def
  by (auto intro!: keepsI elim!: elsewhere)

lemma keeps_transaction:
  assumes "keeps I m" and "\<And>n. keeps (\<lambda>t. n \<le> w_next_id t) m"
  shows "keeps I (transaction m)"
proof (rule keepsI)
  fix s assume s: "I s"
  let ?body = "bindE (execute id) (\<lambda>_. bindE m (\<lambda>x. bindE (execute id) (\<lambda>_. ret x)))"
  have tick: "keeps (\<lambda>t. n \<le> w_next_id t) (execute id)" for n
    by (simp add: keeps_def execute_def stmt_def Let_def)
  have "keeps I ?body"
    by (intro keeps_bindE keeps_ret assms(1) keeps_other) simp_all
  then have "I (snd (?body s))" using s by (rule keepsD)
  moreover have "keeps (\<lambda>t. w_next_id s \<le> w_next_id t) ?body"
    by (intro keeps_bindE keeps_ret assms(2) tick)
  then have "w_next_id s \<le> w_next_id (snd (?body s))" by (rule keepsD) simp
  ultimately show "I (snd (transaction m s))"
    unfolding transaction_def by (auto split: prod.splits sum.splits intro: elsewhere [OF s])
qed

lemma keeps_redeem: "keeps I (redeem E token w d)"
  unfolding redeem_def log_refusal_def
  by (intro keeps_intros keeps_spend keeps_access keeps_reading)

lemma keeps_by_id: "keeps I (application_by_id i)"
  unfolding application_by_id_def by (intro keeps_intros keeps_reading)

lemma keeps_document: "keeps I m \<Longrightarrow> keeps I n \<Longrightarrow> keeps I (case d of DocApplication \<Rightarrow> m | DocCv \<Rightarrow> n)"
  by (cases d) simp_all

lemma keeps_dereference: "keeps I (dereference E w i token requested)"
  unfolding dereference_def
  by (intro keeps_intros keeps_redeem keeps_by_id keeps_document)

lemma keeps_withdraw: "keeps I (withdraw_application v i)"
  unfolding withdraw_application_def require_applicant_def revoke_for_application_def mark_withdrawn_def [symmetric]
  by (intro keeps_intros keeps_revoke keeps_withdrawn keeps_reading)

lemma keeps_move: "keeps I (initiate_move i source target)"
  unfolding initiate_move_def revoke_grants_for_migration_def get_follower_inboxes_def enqueue_delivery_def
  by (intro keeps_intros keeps_revoke keeps_reading keeps_other) (simp_all add: update_actor_row_def)

lemma keeps_delete: "keeps I (delete_job owner i)"
  unfolding delete_job_def by (intro keeps_intros keeps_delete_job)

lemma keeps_with_new_uuid:
  assumes "\<And>s. I s \<Longrightarrow> keeps I (f (w_next_id s))"
  shows "keeps I (bindE new_uuid f)"
proof (rule keepsI)
  fix s assume s: "I s"
  have "I (s\<lparr>w_next_id := Suc (w_next_id s)\<rparr>)" by (rule elsewhere [OF s]) simp_all
  then show "I (snd (bindE new_uuid f s))"
    using keepsD [OF assms [OF s]] by (simp add: bindE_def new_uuid_def)
qed

lemma next_id_grows:
  "keeps (\<lambda>t. n \<le> w_next_id t) (insert_application a)" "keeps (\<lambda>t. n \<le> w_next_id t) (insert_grant i h u w e m k)"
  by (auto simp: keeps_def insert_application_def insert_grant_def stmt_def Let_def on_jobs_def split: option.splits)

lemma keeps_apply: "keeps I (apply_for E J applicant job domain params cv)"
  unfolding apply_for_def get_job_def render_cover_letter_def Let_def
  by (intro keeps_intros keeps_reading keeps_with_new_uuid keeps_draws keeps_transaction keeps_application
      keeps_grant next_id_grows) assumption+

lemma keeps_step: "I s \<Longrightarrow> I (grant_step E J domain op s)"
  unfolding grant_step_def apply_route_def
  by (cases op) (simp_all add: keepsD [OF keeps_dereference] keepsD [OF keeps_withdraw] keepsD [OF keeps_move]
    keepsD [OF keeps_delete] keepsD [OF keeps_draws(2)]
    keepsD [OF keeps_bindE [OF keeps_ok_or keeps_bindE [OF keeps_gets keeps_apply]]])

lemma keeps_run: "I s \<Longrightarrow> I (grant_run E J domain ops s)"
  unfolding grant_run_def by (induction ops arbitrary: s) (auto intro: keeps_step)

end

section \<open>What the statements do to grants\<close>

abbreviation grants :: "world \<Rightarrow> grant_row list" where
  "grants s \<equiv> jt_grants (w_jobs s)"

lemma on_jobs_fields [simp]:
  "w_jobs (on_jobs f s) = f (w_jobs s)" "w_next_id (on_jobs f s) = w_next_id s" "w_now (on_jobs f s) = w_now s"
  by (simp_all add: on_jobs_def)

lemma same_grants:
  "grants (snd (insert_application a s)) = grants s" "w_next_id (snd (insert_application a s)) = w_next_id s"
  "grants (snd (log_access i g v outcome why s)) = grants s" "w_next_id (snd (log_access i g v outcome why s)) = w_next_id s"
  "grants (snd (mark_withdrawn i s)) = grants s" "w_next_id (snd (mark_withdrawn i s)) = w_next_id s"
  "grants (snd (delete_job_stmt i j s)) = grants s" "w_next_id (snd (delete_job_stmt i j s)) = w_next_id s"
  by (simp_all add: insert_application_def log_access_def mark_withdrawn_def delete_job_stmt_def execute_def
      execute_if_def stmt_def Let_def delete_jobs_where_def)

lemma insert_grant_cases:
  "grants (snd (insert_grant i h u w e m n s)) = grants s
   \<or> (\<exists>g. grants (snd (insert_grant i h u w e m n s)) = grants s @ [g] \<and> gr_application g = i \<and> gr_token_hash g = h
        \<and> h \<notin> gr_token_hash ` set (grants s))"
  "w_next_id s \<le> w_next_id (snd (insert_grant i h u w e m n s))"
  by (auto simp: insert_grant_def stmt_def Let_def list_ex_iff)

lemma grant_opens_tick [simp]: "grant_opens h w d (s\<lparr>w_tick := n\<rparr>) = grant_opens h w d s"
  by (rule ext) (simp add: grant_opens_def)

lemma spend_grants:
  "grants (snd (spend_grant h w d s)) = (if w_fault s (w_tick s) then grants s
     else map (\<lambda>g. if grant_opens h w d s g then spend_use d g else g) (grants s))"
  "w_next_id (snd (spend_grant h w d s)) = w_next_id s"
  by (simp_all add: spend_grant_def stmt_def Let_def)

lemma revoke_grants:
  "\<exists>hit why. grants (snd (revoke_where P r s)) = map (\<lambda>g. if hit g then g\<lparr>gr_state := ''revoked'',
         gr_revoked_at := Some (w_now s), gr_revoked_reason := why\<rparr> else g) (grants s)"
  "w_next_id (snd (revoke_where P r s)) = w_next_id s"
  by (auto simp: revoke_where_def stmt_def Let_def intro: exI [of _ "\<lambda>g. False"])

lemma spend_use_fields [simp]:
  "gr_application (spend_use d g) = gr_application g" "gr_revoked_at (spend_use d g) = gr_revoked_at g"
  "gr_token_hash (spend_use d g) = gr_token_hash g" "gr_id (spend_use d g) = gr_id g"
  "uses_left d (spend_use d' g) = (if d = d' then uses_left d g - 1 else uses_left d g)"
  by (simp_all add: spend_use_def uses_left_def split: document.splits)

section \<open>A withdrawn application\<close>

definition closed_application :: "uuid \<Rightarrow> world \<Rightarrow> bool" where
  "closed_application i s \<longleftrightarrow> i < w_next_id s \<and> (\<forall>g\<in>set (grants s). gr_application g = i \<longrightarrow> gr_revoked_at g \<noteq> None)"

interpretation closed: grants_invariant "closed_application i" for i
proof
  show "keeps (closed_application i) (revoke_where P r)" for P r
  proof (rule keepsI)
    fix s assume "closed_application i s"
    then show "closed_application i (snd (revoke_where P r s))"
      using revoke_grants [of P r s] by (auto simp: closed_application_def)
  qed
  show "keeps (closed_application i) (insert_grant (w_next_id s) h u w e m n)" if "closed_application i s" for s h u w e m n
  proof (rule keepsI)
    fix t assume "closed_application i t"
    then show "closed_application i (snd (insert_grant (w_next_id s) h u w e m n t))"
      using insert_grant_cases [where i = "w_next_id s" and h = h and u = u and w = w and e = e and m = m
        and n = n and s = t] that by (auto simp: closed_application_def)
  qed
qed (auto simp: keeps_def closed_application_def same_grants spend_grants)

text \<open>Redeeming answers with the application of a grant that is not revoked.\<close>

lemma redeem_open:
  assumes "redeem E token w d s = (Inr r, t)"
  shows "\<exists>g\<in>set (grants s). grant_opens (hash_token E token) w d s g \<and> gr_application g = rd_job_application_id r
     \<and> gr_id g = rd_grant_id r"
proof -
  obtain gid i u where "spend_grant (hash_token E token) w d s = (Inr (Some (gid, i)), u)"
      "rd_job_application_id r = i" "rd_grant_id r = gid"
    using assms by (auto simp: redeem_def bindE_Inr split: option.splits)
  then show ?thesis
    by (auto simp: spend_grant_def stmt_def Let_def split: if_splits dest: find_SomeD)
qed

lemma closed_not_redeemed:
  assumes "closed_application i s" and "redeem E token w d s = (Inr r, t)"
  shows "rd_job_application_id r \<noteq> i"
proof -
  obtain g where "g \<in> set (grants s)" "gr_revoked_at g = None" "gr_application g = rd_job_application_id r"
    using redeem_open [OF assms(2)] by (auto simp: grant_opens_def)
  then show ?thesis using assms(1) by (auto simp: closed_application_def)
qed

lemma dereference_redeemed:
  assumes "dereference E w i token requested s = (Inr x, t)"
  shows "\<exists>d r u. requested_document E requested = Inr d \<and> redeem E token w d s = (Inr r, u)
     \<and> rd_job_application_id r = i"
  using assms by (auto simp: dereference_def bindE_Inr of_result_def split: if_splits)

definition applications_fresh :: "world \<Rightarrow> bool" where
  "applications_fresh s = list_all (\<lambda>a. ja_id a < w_next_id s) (jt_applications (w_jobs s))"

lemma revoke_where_Inr:
  assumes "revoke_where P r s = (Inr n, t)"
  shows "grants t = map (\<lambda>g. if P (w_jobs s) g then g\<lparr>gr_state := ''revoked'',
       gr_revoked_at := Some (w_now s), gr_revoked_reason := Some r\<rparr> else g) (grants s)"
    and "w_next_id t = w_next_id s"
  using assms by (auto simp: revoke_where_def stmt_def Let_def split: if_splits)

lemma revoke_closes:
  assumes "revoke_for_application v i r s = (Inr n, t)" and "applicant_of i (w_jobs s) = Some v"
  shows "\<forall>g\<in>set (grants t). gr_application g = i \<longrightarrow> gr_revoked_at g \<noteq> None"
proof (intro ballI impI)
  fix y assume y: "y \<in> set (grants t)" "gr_application y = i"
  note t = revoke_where_Inr(1) [OF assms(1) [unfolded revoke_for_application_def]]
  obtain x where x: "x \<in> set (grants s)" "y = (if gr_application x = i \<and> applicant_of i (w_jobs s) = Some v
      \<and> gr_revoked_at x = None then x\<lparr>gr_state := ''revoked'', gr_revoked_at := Some (w_now s),
        gr_revoked_reason := Some r\<rparr> else x)"
    using y(1) unfolding t set_map by (rule imageE)
  show "gr_revoked_at y \<noteq> None"
    using x(2) y(2) assms(2) by (cases "gr_revoked_at x") (simp_all split: if_splits)
qed

lemma withdraw_closes:
  assumes "withdraw_application v i s = (Inr (), t)" and "applications_fresh s"
  shows "closed_application i t"
proof -
  obtain a u1 u2 n where a: "require_applicant i a s = (Inr (), u1)"
    and n: "revoke_for_application a i ''applicant_withdrew'' u1 = (Inr n, u2)"
    and t: "mark_withdrawn i u2 = (Inr (), t)"
    using assms(1) by (auto simp: withdraw_application_def bindE_Inr mark_withdrawn_def ok_or_def split: option.splits)
  have u1: "w_jobs u1 = w_jobs s" "w_next_id u1 = w_next_id s" "applicant_of i (w_jobs s) = Some a"
    using a unfolding require_applicant_def bindE_Inr query_Inr by (auto split: if_splits)
  from u1(3) obtain x where "x \<in> set (jt_applications (w_jobs s))" "ja_id x = i"
    by (auto simp: applicant_of_def dest: find_SomeD)
  then have "i < w_next_id s" using assms(2) by (auto simp: applications_fresh_def list_all_iff)
  moreover have "w_next_id t = w_next_id s"
    using revoke_where_Inr(2) [OF n [unfolded revoke_for_application_def]] same_grants(6) [of i u2]
    unfolding t u1 by simp
  moreover have "grants t = grants u2" using same_grants(5) [of i u2] t by simp
  ultimately show ?thesis
    using revoke_closes [OF n] u1 by (simp add: closed_application_def)
qed

section \<open>A grant that is being spent\<close>

definition within_budget :: "string \<Rightarrow> document \<Rightarrow> nat \<Rightarrow> world \<Rightarrow> bool" where
  "within_budget h d n s \<longleftrightarrow> distinct (map gr_token_hash (grants s)) \<and> h \<in> gr_token_hash ` set (grants s)
     \<and> (\<forall>g\<in>set (grants s). gr_token_hash g = h \<longrightarrow> uses_left d g \<le> int n)"

lemma map_hashes:
  assumes "\<And>g. gr_token_hash (f g) = gr_token_hash g" and "\<And>g. uses_left d (f g) \<le> uses_left d g"
    and "grants t = map f (grants s)" and "within_budget h d n s"
  shows "within_budget h d n t"
proof -
  have "map gr_token_hash (grants t) = map gr_token_hash (grants s)" by (simp add: assms(1,3))
  moreover have "gr_token_hash ` set (grants t) = gr_token_hash ` set (grants s)" by (simp add: assms(1,3) image_image)
  moreover have "uses_left d g \<le> int n" if g: "g \<in> set (grants t)" "gr_token_hash g = h" for g
  proof -
    obtain x where "x \<in> set (grants s)" "g = f x" using g(1) by (auto simp: assms(3))
    then show ?thesis using assms(2) [of x] assms(1) [of x] assms(4) g(2) by (fastforce simp: within_budget_def)
  qed
  ultimately show ?thesis using assms(4) by (simp add: within_budget_def)
qed

interpretation budget: grants_invariant "within_budget h d n" for h d n
proof
  show "keeps (within_budget h d n) (revoke_where P r)" for P r
  proof (rule keepsI)
    fix s assume s: "within_budget h d n s"
    show "within_budget h d n (snd (revoke_where P r s))"
      using revoke_grants(1) [of P r s]
      by (elim exE) (rule map_hashes [OF _ _ _ s, rotated 2], assumption, auto simp: uses_left_def split: document.splits)
  qed
  show "keeps (within_budget h d n) (spend_grant h' w d')" for h' w d'
  proof (rule keepsI)
    fix s assume s: "within_budget h d n s"
    have "grants (snd (spend_grant h' w d' s)) = map (\<lambda>g. if \<not> w_fault s (w_tick s) \<and> grant_opens h' w d' s g
        then spend_use d' g else g) (grants s)"
      by (simp add: spend_grants)
    then show "within_budget h d n (snd (spend_grant h' w d' s))"
      by (rule map_hashes [OF _ _ _ s, rotated 2]) auto
  qed
  show "keeps (within_budget h d n) (insert_grant (w_next_id s) h' u w e m k)" if "within_budget h d n s" for s h' u w e m k
  proof (rule keepsI)
    fix t assume "within_budget h d n t"
    then show "within_budget h d n (snd (insert_grant (w_next_id s) h' u w e m k t))"
      using insert_grant_cases(1) [where i = "w_next_id s" and h = h' and u = u and w = w and e = e and m = m
        and n = k and s = t] by (auto simp: within_budget_def)
  qed
qed (auto simp: keeps_def within_budget_def same_grants)

lemma spend_within:
  assumes "spend_grant h w d s = (Inr (Some x), t)" and "within_budget h d n s"
  shows "0 < n \<and> within_budget h d (n - 1) t"
proof -
  obtain g where g: "g \<in> set (grants s)" "grant_opens h w d s g"
    using assms(1) by (auto simp: spend_grant_def stmt_def Let_def split: if_splits dest: find_SomeD)
  have ok: "\<not> w_fault s (w_tick s)" using assms(1) by (auto simp: spend_grant_def stmt_def Let_def split: if_splits)
  have t: "grants t = map (\<lambda>g. if grant_opens h w d s g then spend_use d g else g) (grants s)"
    using spend_grants(1) [of h w d s] assms(1) ok by simp
  have hg: "gr_token_hash g = h" "0 < uses_left d g" using g(2) by (simp_all add: grant_opens_def)
  have n: "uses_left d g \<le> int n" using assms(2) g(1) hg(1) by (simp add: within_budget_def)
  have only: "x = g" if "x \<in> set (grants s)" "gr_token_hash x = h" for x
    using assms(2) that g(1) hg(1) inj_onD [of gr_token_hash "set (grants s)" x g]
    by (simp add: within_budget_def distinct_map)
  have "uses_left d y \<le> int (n - 1)" if y: "y \<in> set (grants t)" "gr_token_hash y = h" for y
  proof -
    obtain x where x: "x \<in> set (grants s)" "y = (if grant_opens h w d s x then spend_use d x else x)"
      using y(1) by (auto simp: t)
    then have "x = g" using only y(2) by (simp split: if_splits)
    then show ?thesis using x(2) g(2) n hg(2) by simp
  qed
  moreover have "map gr_token_hash (grants t) = map gr_token_hash (grants s)" by (simp add: t)
  then have "distinct (map gr_token_hash (grants t))" "gr_token_hash ` set (grants t) = gr_token_hash ` set (grants s)"
    using assms(2) by (simp_all add: within_budget_def flip: set_map)
  ultimately show ?thesis
    using n hg(2) assms(2) by (simp add: within_budget_def)
qed

lemma redeem_spends:
  assumes "redeem E token w d s = (Inr r, t)" and "within_budget (hash_token E token) d n s"
  shows "0 < n \<and> within_budget (hash_token E token) d (n - 1) t"
proof -
  obtain gid i u where x: "spend_grant (hash_token E token) w d s = (Inr (Some (gid, i)), u)"
    using assms(1) by (auto simp: redeem_def bindE_Inr split: option.splits)
  note b = spend_within [OF x assms(2)]
  define rest where "rest = bindE (query (\<lambda>s. List.find (\<lambda>a. ja_id a = i) (jt_applications (w_jobs s)))) (\<lambda>found.
        bindE (ok_or Database found) (\<lambda>a.
        bindE (log_access i (Some gid) None ''disclosed'' None) (\<lambda>_.
        ret \<lparr>rd_grant_id = gid, rd_job_application_id = i, rd_applicant_id = ja_applicant a\<rparr>)))"
  have "redeem E token w d s = rest u" by (simp add: redeem_def bindE_run [where m = "spend_grant _ _ _", OF x] rest_def)
  then have "t = snd (rest u)" using arg_cong [OF assms(1), of snd] by simp
  moreover have "keeps (within_budget (hash_token E token) d (n - 1)) rest"
    unfolding rest_def by (intro keeps_intros budget.keeps_reading budget.keeps_access)
  ultimately show ?thesis using b keepsD by blast
qed

lemma not_isl_fst: "\<not> isl (fst p) \<Longrightarrow> \<exists>x t. p = (Inr x, t)"
  by (cases p; cases "fst p") auto

lemma serves_within:
  assumes "within_budget (hash_token E token) d n s"
  shows "(serves E token d op s \<longrightarrow> 0 < n) \<and>
    within_budget (hash_token E token) d (if serves E token d op s then n - 1 else n) (grant_step E J domain op s)"
proof (cases "serves E token d op s")
  case False
  then show ?thesis using budget.keeps_step [OF assms] by simp
next
  case True
  then obtain w i req where op: "op = Dereference w i token req" and req: "requested_document E req = Inr d"
    and served: "\<not> isl (fst (dereference E w i token req s))"
    by (cases op) (auto simp: serves_def)
  obtain x t where deref: "dereference E w i token req s = (Inr x, t)" using not_isl_fst [OF served] by blast
  obtain r u where r: "redeem E token w d s = (Inr r, u)"
    using dereference_redeemed [OF deref] req by auto
  note b = redeem_spends [OF r assms]
  define rest where "rest = (if rd_job_application_id r \<noteq> i then throw Forbidden
    else bindE (application_by_id i) (\<lambda>row. case d of
        DocApplication \<Rightarrow> ret (Inr row)
      | DocCv \<Rightarrow>
          if \<not> ja_include_cv row then throw Forbidden
          else bindE (application_by_id i) (\<lambda>row.
            bindE (ok_or (NotFound ''cv_snapshot'' i) (ja_cv_snapshot row)) (\<lambda>pdf. ret (Inl pdf)))))"
  have "dereference E w i token req s = rest u"
    by (simp add: dereference_def req bindE_run [where m = "redeem _ _ _ _", OF r] rest_def)
  then have "t = snd (rest u)" using arg_cong [OF deref, of snd] by simp
  moreover have "keeps (within_budget (hash_token E token) d (n - 1)) rest"
    unfolding rest_def by (intro keeps_intros budget.keeps_by_id budget.keeps_document)
  ultimately have "within_budget (hash_token E token) d (n - 1) t" using b keepsD by blast
  then show ?thesis using True b by (simp add: grant_step_def op deref)
qed

lemma reads_bounded: "within_budget (hash_token E token) d n s \<Longrightarrow> reads E J domain token d ops s \<le> n"
proof (induction ops arbitrary: s n)
  case (Cons op ops)
  note step = serves_within [OF Cons.prems, of op J domain]
  show ?case
  proof (cases "serves E token d op s")
    case True
    then have "reads E J domain token d ops (grant_step E J domain op s) \<le> n - 1" "0 < n"
      using step Cons.IH by simp_all
    then show ?thesis using True by simp
  next
    case False
    then show ?thesis using step Cons.IH by simp
  qed
qed simp

end
