(* ===== verification/AccountClaims.thy ===== *)
theory AccountClaims
  imports Samples ConnectionGraph GrantSafety
begin

text \<open>
  The properties of accounts, connections and applications, with witnesses on the instance of
  \<open>Samples\<close>.
\<close>

section \<open>Parameters of the witnesses\<close>

text \<open>A token that is its claims, spelled out.\<close>

definition sample_claims :: access_claims where
  "sample_claims = \<lparr>cl_sub = ''1'', cl_username = ''alice'', cl_role = ''user'', cl_aud = ''home.example'',
     cl_iat = 1, cl_exp = 901\<rparr>"

definition sample_jobs_env :: job_env where
  "sample_jobs_env = \<lparr> jwt_encode = (\<lambda>secret c. Inr ''token''), 
     jwt_decode = (\<lambda>secret aud now t. if aud = ''home.example'' \<and> now < 901 then Some sample_claims else None),
     argon2_verify = (\<lambda>key hash. key = hash), totp_secret = (\<lambda>b. b), totp_url = (\<lambda>s u i. Inr s),
     totp_check = (\<lambda>s now code. Inr (code = s)), url_safe_b64 = (\<lambda>b. b), sql_lower = to_ascii_lowercase,
     show_uuid = show_nat, parse_uuid = read_nat, render_markdown = Inr, cv_pdf = (\<lambda>i s. None) \<rparr>"

definition sample_account_env :: account_env where
  "sample_account_env = account_env.truncate sample_jobs_env"

definition sample_config :: session_config where
  "sample_config = \<lparr>jwt_secret = ''secret'', sc_domain = ''home.example'', access_ttl_secs = 900,
     refresh_ttl_secs = 2592000\<rparr>"

lemma sample_account_env_simps [simp]:
  "jwt_encode sample_account_env = (\<lambda>secret c. Inr ''token'')"
  "argon2_verify sample_account_env = (\<lambda>key hash. key = hash)"
  "url_safe_b64 sample_account_env = (\<lambda>b. b)" "sql_lower sample_account_env = to_ascii_lowercase"
  "totp_check sample_account_env = (\<lambda>s now code. Inr (code = s))"
  by (simp_all add: sample_account_env_def sample_jobs_env_def account_env.truncate_def)

section \<open>Sessions\<close>

abbreviation sessions :: "world \<Rightarrow> session_row list" where
  "sessions s \<equiv> at_sessions (w_accounts s)"

lemma on_sessions_fields [simp]:
  "sessions (on_sessions f s) = f (sessions s)" "w_actors (on_sessions f s) = w_actors s"
  "w_now (on_sessions f s) = w_now s" "w_fault (on_sessions f s) = w_fault s"
  "w_entropy (on_sessions f s) = w_entropy s" "w_tick (on_sessions f s) = w_tick s"
  by (simp_all add: on_sessions_def)

lemma update_actor_fields [simp]:
  "w_accounts (update_actor_row i f s) = w_accounts s" "w_now (update_actor_row i f s) = w_now s"
  by (simp_all add: update_actor_row_def)

lemma refresh_lookup_Inr:
  assumes "refresh_lookup token s = (Inr row, t)"
  shows "\<exists>x a. x \<in> set (sessions s) \<and> session_live token s x \<and> a \<in> set (w_actors s) \<and> a_id a = se_actor x
     \<and> row = (se_id x, se_actor x, a_username a, a_instance_role a)" and "t = s\<lparr>w_tick := Suc (w_tick s)\<rparr>"
proof -
  let ?s = "s\<lparr>w_tick := Suc (w_tick s)\<rparr>"
  have live: "session_live token ?s = session_live token s"
    by (rule ext) (simp add: session_live_def)
  have "Option.bind (List.find (session_live token ?s) (sessions ?s)) (\<lambda>x.
      map_option (\<lambda>a. (se_id x, se_actor x, a_username a, a_instance_role a)) (actor_by_id (se_actor x) ?s)) = Some row"
    and t: "t = ?s"
    using assms unfolding refresh_lookup_def bindE_Inr query_Inr ok_or_def by (auto split: option.splits)
  then obtain x a where x: "List.find (session_live token s) (sessions s) = Some x" "actor_by_id (se_actor x) s = Some a"
    "row = (se_id x, se_actor x, a_username a, a_instance_role a)"
    by (auto simp: live actor_by_id_def split: Option.bind_splits)
  then show "\<exists>x a. x \<in> set (sessions s) \<and> session_live token s x \<and> a \<in> set (w_actors s) \<and> a_id a = se_actor x
     \<and> row = (se_id x, se_actor x, a_username a, a_instance_role a)"
    by (auto simp: actor_by_id_def dest!: find_SomeD)
  show "t = ?s" by (rule t)
qed

lemma create_session_rows:
  assumes "create_session A cfg i u role origin s = (Inr tk, t)"
  shows "sessions t = sessions s @ [\<lparr>se_id = w_next_id s, se_actor = i, se_refresh_token = tk_refresh_token tk,
      se_expires_at = w_now s + 1000 * refresh_ttl_secs cfg, se_revoked_at = None\<rparr>]"
    and "tk_refresh_token tk \<notin> se_refresh_token ` set (sessions s)" and "w_now t = w_now s"
  using assms
  by (auto simp: create_session_def bindE_Inr generate_refresh_token_def draw_def insert_session_def stmt_def Let_def
      list_ex_iff execute_Inr split: sum.splits if_splits)

lemma refresh_rotate_Inr:
  assumes "refresh_rotate A cfg (i, actor, u, role) s = (Inr tk, t)"
  shows "\<exists>v. sessions v = map (\<lambda>x. if se_id x = i then x\<lparr>se_revoked_at := Some (w_now s)\<rparr> else x) (sessions s)
     \<and> w_now v = w_now s \<and> create_session A cfg actor u role Refresh v = (Inr tk, t)"
proof -
  obtain v where v: "v = on_sessions (map (\<lambda>x. if se_id x = i then x\<lparr>se_revoked_at := Some (w_now (ticked s))\<rparr> else x)) (ticked s)"
    and c: "create_session A cfg actor u role Refresh v = (Inr tk, t)"
    using assms by (auto simp: refresh_rotate_def bindE_Inr execute_Inr)
  have "sessions v = map (\<lambda>x. if se_id x = i then x\<lparr>se_revoked_at := Some (w_now s)\<rparr> else x) (sessions s)" "w_now v = w_now s"
    by (simp_all add: v cong: if_cong)
  with c show ?thesis by blast
qed

text \<open>C11. A refresh token is used once: after a refresh the old token opens nothing, at any later time,
  and the new one stands until its own expiry.\<close>

theorem refreshed_token_is_spent:
  assumes "refresh_session A cfg token s = (Inr tk, t)" and "distinct (map se_refresh_token (sessions s))"
  shows "isl (fst (refresh_session A cfg token (t\<lparr>w_now := now\<rparr>)))
    \<and> (now < w_now s + 1000 * refresh_ttl_secs cfg
        \<longrightarrow> list_ex (session_live (tk_refresh_token tk) (t\<lparr>w_now := now\<rparr>)) (sessions t))"
proof -
  obtain row u where row: "refresh_lookup token s = (Inr row, u)" and rot: "refresh_rotate A cfg row u = (Inr tk, t)"
    using assms(1) by (auto simp: refresh_session_def bindE_Inr)
  obtain x and a :: actor_row where x: "x \<in> set (sessions s)" "session_live token s x"
      "row = (se_id x, se_actor x, a_username a, a_instance_role a)"
    using refresh_lookup_Inr(1) [OF row] by blast
  have u: "u = ticked s" by (rule refresh_lookup_Inr(2) [OF row])
  define f where "f = (\<lambda>y :: session_row. if se_id y = se_id x then y\<lparr>se_revoked_at := Some (w_now s)\<rparr> else y)"
  obtain v where v: "sessions v = map f (sessions s)" "w_now v = w_now s"
      and new: "create_session A cfg (se_actor x) (a_username a) (a_instance_role a) Refresh v = (Inr tk, t)"
    using refresh_rotate_Inr [OF rot [unfolded x(3)]] unfolding u f_def by (auto cong: if_cong)
  note rows = create_session_rows [OF new]
  have hash: "se_refresh_token (f y) = se_refresh_token y" for y by (simp add: f_def)
  have only: "y = x" if "y \<in> set (sessions s)" "se_refresh_token y = token" for y
    using assms(2) that x inj_onD [of se_refresh_token "set (sessions s)" y x]
    by (simp add: distinct_map session_live_def)
  have token: "token \<in> se_refresh_token ` set (sessions s)"
    using x(1,2) by (auto simp: session_live_def)
  have "se_refresh_token ` set (sessions v) = se_refresh_token ` set (sessions s)"
    by (simp add: v(1) image_image hash)
  then have other: "tk_refresh_token tk \<noteq> token" using rows(2) token by auto
  have spent: "se_revoked_at y \<noteq> None" if y: "y \<in> set (sessions t)" "se_refresh_token y = token" for y
  proof -
    have "y \<in> f ` set (sessions s)" using y other by (auto simp: rows(1) v(1))
    then obtain z where "z \<in> set (sessions s)" "y = f z" by blast
    then show ?thesis using only y(2) hash by (simp add: f_def)
  qed
  have "\<not> session_live token (t\<lparr>w_now := now\<rparr>) y" if "y \<in> set (sessions t)" for y
    using spent [OF that] by (auto simp: session_live_def)
  moreover have "sessions (t\<lparr>w_now := now\<rparr>) = sessions t" by simp
  ultimately have "fst (refresh_lookup token (t\<lparr>w_now := now\<rparr>)) \<noteq> Inr r" for r
    using refresh_lookup_Inr(1) [of token "t\<lparr>w_now := now\<rparr>" r] by (metis prod.collapse)
  then have "isl (fst (refresh_session A cfg token (t\<lparr>w_now := now\<rparr>)))"
    using not_isl_fst [of "refresh_session A cfg token (t\<lparr>w_now := now\<rparr>)"]
    by (auto simp: refresh_session_def bindE_Inr) (metis fst_conv)
  moreover have "list_ex (session_live (tk_refresh_token tk) (t\<lparr>w_now := now\<rparr>)) (sessions t)"
    if "now < w_now s + 1000 * refresh_ttl_secs cfg"
    using that by (auto simp: list_ex_iff rows(1) session_live_def v(2))
  ultimately show ?thesis by simp
qed

text \<open>A session of alice, and what is true of her.\<close>

definition sample_session :: session_row where
  "sample_session = \<lparr>se_id = 40, se_actor = 1, se_refresh_token = ''old'', se_expires_at = 5000, se_revoked_at = None\<rparr>"

definition sample_login :: "actor_status \<Rightarrow> world" where
  "sample_login status = sample_world\<lparr>w_actors := [alice\<lparr>a_status := status, ar_auth_key_hash := Some ''key''\<rparr>, bob],
     w_accounts := sample_accounts\<lparr>at_sessions := [sample_session],
       at_totp := [\<lparr>tt_actor = 1, tt_secret = ''123456'', tt_verified = True\<rparr>]\<rparr>\<rparr>"

definition sample_refresh :: "session_tokens result \<times> world" where
  "sample_refresh = refresh_session sample_account_env sample_config ''old'' (sample_login StatusActive)"

lemma sample_login_simps [simp]:
  "sessions (sample_login x) = [sample_session]" "w_now (sample_login x) = 1000" "w_tick (sample_login x) = 0"
  "w_fault (sample_login x) = (\<lambda>n. False)" "w_entropy (sample_login x) = (\<lambda>n. show_nat n)"
  "w_actors (sample_login x) = [alice\<lparr>a_status := x, ar_auth_key_hash := Some ''key''\<rparr>, bob]"
  "w_next_id (sample_login x) = 5"
  by (simp_all add: sample_login_def sample_world_def sample_accounts_def)

theorem refreshed_token_is_spent_witness:
  "\<exists>tk t. refresh_session sample_account_env sample_config ''old'' (sample_login StatusActive) = (Inr tk, t)
     \<and> isl (fst (refresh_session sample_account_env sample_config ''old'' (t\<lparr>w_now := 2000\<rparr>)))"
proof -
  have "\<not> isl (fst sample_refresh)" by code_simp
  then obtain tk t where r: "refresh_session sample_account_env sample_config ''old'' (sample_login StatusActive) = (Inr tk, t)"
    using not_isl_fst [of sample_refresh] by (auto simp: sample_refresh_def)
  then show ?thesis
    using refreshed_token_is_spent [OF r, of 2000] by simp
qed

text \<open>A refresh when the database answers and the token drawn is new.\<close>

definition token_drawn :: "account_env \<Rightarrow> nat \<Rightarrow> world \<Rightarrow> string" where
  "token_drawn A n s = url_safe_b64 A (w_entropy s n)"

lemma revoking_tokens:
  "map se_refresh_token (map (\<lambda>x. if P x then x\<lparr>se_revoked_at := r\<rparr> else x) xs) = map se_refresh_token xs"
  by (induction xs) auto

lemma create_session_run:
  assumes "no_fault s" "jwt_encode A (jwt_secret cfg) (access_claims_for cfg A i u role (w_now s)) = Inr j"
    and "actor_exists i s" "token_drawn A 0 s \<notin> se_refresh_token ` set (sessions s)"
  obtains t where "create_session A cfg i u role Refresh s = (Inr \<lparr>tk_access_token = j,
        tk_refresh_token = token_drawn A 0 s, tk_expires_in = access_ttl_secs cfg, tk_actor_id = i, tk_username = u\<rparr>, t)"
    "no_fault t" "w_actors t = w_actors s" "w_now t = w_now s" "w_next_id t = Suc (w_next_id s)"
    "w_entropy t = (\<lambda>n. w_entropy s (Suc n))"
proof
  have new: "\<not> list_ex (\<lambda>x. se_refresh_token x = token_drawn A 0 s) (sessions s)"
    using assms(4) unfolding list_ex_iff by (metis imageI)
  define v where "v = s\<lparr>w_entropy := (\<lambda>n. w_entropy s (Suc n)), w_tick := Suc (w_tick s)\<rparr>"
  define t where "t = (on_sessions (\<lambda>xs. xs @ [\<lparr>se_id = w_next_id s, se_actor = i, se_refresh_token = token_drawn A 0 s,
         se_expires_at = w_now s + 1000 * refresh_ttl_secs cfg, se_revoked_at = None\<rparr>]) v)\<lparr>w_next_id := Suc (w_next_id s)\<rparr>"
  have "insert_session i (token_drawn A 0 s) (w_now s + 1000 * refresh_ttl_secs cfg)
      (s\<lparr>w_entropy := (\<lambda>n. w_entropy s (Suc n))\<rparr>) = (Inr (), t)"
    using assms(1,3) new by (simp add: insert_session_def stmt_def Let_def no_fault_def t_def v_def actor_exists_def)
  then show "create_session A cfg i u role Refresh s = (Inr \<lparr>tk_access_token = j,
        tk_refresh_token = token_drawn A 0 s, tk_expires_in = access_ttl_secs cfg, tk_actor_id = i, tk_username = u\<rparr>, t)"
    using assms(2) by (simp add: create_session_def bindE_def gets_def generate_refresh_token_def draw_def token_drawn_def ret_def)
  show "no_fault t" "w_actors t = w_actors s" "w_now t = w_now s" "w_next_id t = Suc (w_next_id s)"
    "w_entropy t = (\<lambda>n. w_entropy s (Suc n))"
    using assms(1) by (simp_all add: t_def v_def no_fault_def on_sessions_def)
qed

lemma refresh_rotate_run:
  assumes "no_fault s" "jwt_encode A (jwt_secret cfg) (access_claims_for cfg A actor u role (w_now s)) \<in> range Inr"
    and "actor_exists actor s" "token_drawn A 0 s \<notin> se_refresh_token ` set (sessions s)"
  obtains tk t where "refresh_rotate A cfg (i, actor, u, role) s = (Inr tk, t)" "tk_refresh_token tk = token_drawn A 0 s"
    "sessions t = map (\<lambda>x. if se_id x = i then x\<lparr>se_revoked_at := Some (w_now s)\<rparr> else x) (sessions s)
       @ [\<lparr>se_id = w_next_id s, se_actor = actor, se_refresh_token = token_drawn A 0 s,
           se_expires_at = w_now s + 1000 * refresh_ttl_secs cfg, se_revoked_at = None\<rparr>]"
    "no_fault t" "w_actors t = w_actors s" "w_now t = w_now s" "w_next_id t = Suc (w_next_id s)"
    "w_entropy t = (\<lambda>n. w_entropy s (Suc n))"
    "jwt_encode A (jwt_secret cfg) (access_claims_for cfg A actor u role (w_now s)) = Inr (tk_access_token tk)"
proof -
  define v where "v = on_sessions (map (\<lambda>x. if se_id x = i then x\<lparr>se_revoked_at := Some (w_now s)\<rparr> else x)) (ticked s)"
  have v: "no_fault v" "w_actors v = w_actors s" "w_now v = w_now s" "w_next_id v = w_next_id s" "w_entropy v = w_entropy s"
    "sessions v = map (\<lambda>x. if se_id x = i then x\<lparr>se_revoked_at := Some (w_now s)\<rparr> else x) (sessions s)"
    using assms(1) by (simp_all add: v_def no_fault_def on_sessions_def)
  have rot: "refresh_rotate A cfg (i, actor, u, role) s = create_session A cfg actor u role Refresh v"
    using assms(1) by (simp add: refresh_rotate_def bindE_def execute_ok v_def cong: if_cong)
  obtain j where j: "jwt_encode A (jwt_secret cfg) (access_claims_for cfg A actor u role (w_now v)) = Inr j"
    using assms(2) unfolding v(3) by blast
  have "set (map se_refresh_token (sessions v)) = set (map se_refresh_token (sessions s))"
    unfolding v(6) revoking_tokens ..
  then have new: "token_drawn A 0 v \<notin> se_refresh_token ` set (sessions v)"
    using assms(4) v(5) by (simp add: token_drawn_def)
  have ex: "actor_exists actor v" using assms(3) v(2) by (simp add: actor_exists_def)
  obtain t where t: "create_session A cfg actor u role Refresh v = (Inr \<lparr>tk_access_token = j,
        tk_refresh_token = token_drawn A 0 v, tk_expires_in = access_ttl_secs cfg, tk_actor_id = actor, tk_username = u\<rparr>, t)"
    "no_fault t" "w_actors t = w_actors v" "w_now t = w_now v" "w_next_id t = Suc (w_next_id v)"
    "w_entropy t = (\<lambda>n. w_entropy v (Suc n))"
    by (rule create_session_run [OF v(1) j ex new])
  show thesis
    by (rule that [OF rot [unfolded t(1)]])
      (use t v j create_session_rows(1) [OF t(1)] in \<open>simp_all add: token_drawn_def\<close>)
qed

text \<open>The single use holds only one request at a time.  Two requests that look the same token up
  before either revokes it are both answered with a session of their own, and both stand.\<close>

theorem concurrent_refreshes_both_succeed:
  assumes ok: "no_fault s" and jwt: "\<And>c. jwt_encode A (jwt_secret cfg) c \<in> range Inr"
    and first: "refresh_lookup token s = (Inr row, u)"
    and new: "token_drawn A 0 s \<notin> se_refresh_token ` set (sessions s)"
      "token_drawn A 1 s \<notin> se_refresh_token ` set (sessions s)" "token_drawn A 0 s \<noteq> token_drawn A 1 s"
    and ids: "list_all (\<lambda>x. se_id x < w_next_id s) (sessions s)" and ttl: "0 < refresh_ttl_secs cfg"
  shows "\<exists>k1 t1 k2 t2. refresh_lookup token u = (Inr row, ticked u)
    \<and> refresh_rotate A cfg row (ticked u) = (Inr k1, t1) \<and> refresh_rotate A cfg row t1 = (Inr k2, t2)
    \<and> tk_refresh_token k1 \<noteq> tk_refresh_token k2
    \<and> list_ex (session_live (tk_refresh_token k1) t2) (sessions t2)
    \<and> list_ex (session_live (tk_refresh_token k2) t2) (sessions t2)"
proof -
  obtain x and a :: actor_row where x: "x \<in> set (sessions s)" "a \<in> set (w_actors s)" "a_id a = se_actor x"
      and row: "row = (se_id x, se_actor x, a_username a, a_instance_role a)"
    using refresh_lookup_Inr(1) [OF first] by blast
  have u: "u = ticked s" by (rule refresh_lookup_Inr(2) [OF first])
  have live: "session_live token (s\<lparr>w_tick := n\<rparr>) = session_live token s" for n
    by (rule ext) (simp add: session_live_def)
  have again: "refresh_lookup token u = (Inr row, ticked u)"
    using first ok by (simp add: refresh_lookup_def bindE_def query_ok u live no_fault_def actor_by_id_def
        split: sum.splits) (auto simp: row ok_or_def ret_def throw_def split: option.splits)
  let ?s = "ticked u"
  have s: "no_fault ?s" "sessions ?s = sessions s" "w_actors ?s = w_actors s" "w_next_id ?s = w_next_id s"
    "w_now ?s = w_now s" "w_entropy ?s = w_entropy s"
    using ok by (simp_all add: u no_fault_def)
  have drawn: "token_drawn A n ?s = token_drawn A n s" for n by (simp add: token_drawn_def u)
  have ex: "actor_exists (se_actor x) ?s" using x(2,3) s(3) by (auto simp: actor_exists_def list_ex_iff)
  obtain k1 t1 where k1: "refresh_rotate A cfg row ?s = (Inr k1, t1)" "tk_refresh_token k1 = token_drawn A 0 s"
    "sessions t1 = map (\<lambda>y. if se_id y = se_id x then y\<lparr>se_revoked_at := Some (w_now s)\<rparr> else y) (sessions s)
       @ [\<lparr>se_id = w_next_id s, se_actor = se_actor x, se_refresh_token = token_drawn A 0 s,
           se_expires_at = w_now s + 1000 * refresh_ttl_secs cfg, se_revoked_at = None\<rparr>]"
    "no_fault t1" "w_actors t1 = w_actors s" "w_now t1 = w_now s" "w_entropy t1 = (\<lambda>n. w_entropy s (Suc n))"
    using refresh_rotate_run [OF s(1) jwt ex, of "se_id x" "a_username a" "a_instance_role a"] new(1)
    unfolding row drawn s by blast
  have "set (map se_refresh_token (sessions t1)) = insert (token_drawn A 0 s) (set (map se_refresh_token (sessions s)))"
    unfolding k1(3) map_append revoking_tokens by simp
  moreover have d1: "token_drawn A 0 t1 = token_drawn A 1 s" by (simp add: token_drawn_def k1(7))
  ultimately have new1: "token_drawn A 0 t1 \<notin> se_refresh_token ` set (sessions t1)"
    using new by simp
  have ex1: "actor_exists (se_actor x) t1" using ex s(3) k1(5) by (simp add: actor_exists_def)
  obtain k2 t2 where k2: "refresh_rotate A cfg row t1 = (Inr k2, t2)" "tk_refresh_token k2 = token_drawn A 1 s"
    "sessions t2 = map (\<lambda>y. if se_id y = se_id x then y\<lparr>se_revoked_at := Some (w_now s)\<rparr> else y) (sessions t1)
       @ [\<lparr>se_id = w_next_id t1, se_actor = se_actor x, se_refresh_token = token_drawn A 1 s,
           se_expires_at = w_now s + 1000 * refresh_ttl_secs cfg, se_revoked_at = None\<rparr>]" "w_now t2 = w_now s"
    using refresh_rotate_run [OF k1(4) jwt ex1 new1, of "se_id x" "a_username a" "a_instance_role a"]
    unfolding row d1 k1(6) by blast
  have "se_id x < w_next_id s" using ids x(1) by (auto simp: list_all_iff)
  then have "list_ex (session_live (tk_refresh_token k1) t2) (sessions t2)"
    using ttl by (auto simp: list_ex_iff k2(3,4) k1(2,3) session_live_def)
  moreover have "list_ex (session_live (tk_refresh_token k2) t2) (sessions t2)"
    using ttl by (auto simp: list_ex_iff k2(2,3,4) session_live_def)
  ultimately show ?thesis using again k1(1,2) k2(1,2) new(3) by auto
qed

theorem concurrent_refreshes_both_succeed_witness:
  "\<exists>row u k1 t1 k2 t2. refresh_lookup ''old'' u = (Inr row, ticked u)
    \<and> refresh_rotate sample_account_env sample_config row (ticked u) = (Inr k1, t1)
    \<and> refresh_rotate sample_account_env sample_config row t1 = (Inr k2, t2)
    \<and> tk_refresh_token k1 \<noteq> tk_refresh_token k2
    \<and> list_ex (session_live (tk_refresh_token k1) t2) (sessions t2)
    \<and> list_ex (session_live (tk_refresh_token k2) t2) (sessions t2)"
proof -
  let ?s = "(sample_login StatusActive)\<lparr>w_next_id := 50\<rparr>"
  have "\<not> isl (fst (refresh_lookup ''old'' ?s))" by code_simp
  then obtain row u where row: "refresh_lookup ''old'' ?s = (Inr row, u)" using not_isl_fst by blast
  have e: "show_nat 0 = ''0''" "show_nat (Suc 0) = ''1''" by code_simp+
  show ?thesis
    by (intro exI [of _ row] exI [of _ u], rule concurrent_refreshes_both_succeed [OF _ _ row])
      (simp_all add: no_fault_def token_drawn_def e sample_session_def sample_config_def)
qed

text \<open>What the documentation of \<open>jsonwebtoken\<close> promises of a token with these claims.\<close>

definition jwt_round_trip :: "account_env \<Rightarrow> session_config \<Rightarrow> access_claims \<Rightarrow> bool" where
  "jwt_round_trip A cfg c \<longleftrightarrow> (\<exists>j. jwt_encode A (jwt_secret cfg) c = Inr j
     \<and> (\<forall>now. now < cl_exp c \<longrightarrow> jwt_decode A (jwt_secret cfg) (cl_aud c) now j = Some c))"

text \<open>Suspending an account ends no session of it.  The holder of a refresh token of a suspended
  account gets a new pair of tokens, and the access token names a viewer that acts for the account.\<close>

theorem suspended_account_keeps_its_session:
  assumes ok: "no_fault s" and a: "a \<in> set (w_actors s)" "a_is_local a" "a_status a = StatusSuspended"
    and x: "x \<in> set (sessions s)" "session_live token s x" "se_actor x = a_id a"
    and keys: "distinct (map a_id (w_actors s))" "distinct (map se_refresh_token (sessions s))"
    and new: "token_drawn A 0 s \<notin> se_refresh_token ` set (sessions s)" and ttl: "0 < access_ttl_secs cfg"
    and jwt: "jwt_round_trip A cfg (access_claims_for cfg A (a_id a) (a_username a) (a_instance_role a) (w_now s))"
    and ids: "parse_uuid A (show_uuid A (a_id a)) = Some (a_id a)"
  shows "\<exists>tk t v u. refresh_session A cfg token s = (Inr tk, t)
    \<and> resolve_viewer A (Some cfg) (tk_access_token tk) t = (Some v, u) \<and> v_actor_id v = a_id a
    \<and> viewer_is_suspended v \<and> require_acts_for (a_id a) (Some v) u = (Inr None, u)"
proof -
  let ?row = "(se_id x, a_id a, a_username a, a_instance_role a)"
  let ?c = "access_claims_for cfg A (a_id a) (a_username a) (a_instance_role a) (w_now s)"
  have only: "y = x" if "y \<in> set (sessions s)" "session_live token s y" for y
    using keys(2) that x inj_onD [of se_refresh_token "set (sessions s)" y x]
    by (simp add: distinct_map session_live_def)
  have live: "session_live token (s\<lparr>w_tick := n\<rparr>) = session_live token s" for n
    by (rule ext) (simp add: session_live_def)
  have fx: "List.find (session_live token s) (sessions s) = Some x"
    using x(1,2) only by (rule find_unique)
  have same: "b = a" if "b \<in> set (w_actors s)" "a_id b = a_id a" for b
    using keys(1) that a inj_onD [of a_id "set (w_actors s)" b a] by (simp add: distinct_map)
  have fa: "actor_by_id (a_id a) s = Some a"
    unfolding actor_by_id_def using a(1) refl same by (rule find_unique)
  have look: "refresh_lookup token s = (Inr ?row, ticked s)"
    using ok fx fa x(3) by (simp add: refresh_lookup_def bindE_def query_ok live actor_by_id_def ret_def)
  have s: "no_fault (ticked s)" "w_now (ticked s) = w_now s" "token_drawn A 0 (ticked s) = token_drawn A 0 s"
    "actor_exists (a_id a) (ticked s)"
    using ok a(1) by (auto simp: no_fault_def token_drawn_def actor_exists_def list_ex_iff)
  obtain j where j: "jwt_encode A (jwt_secret cfg) ?c = Inr j"
    "\<And>now. now < cl_exp ?c \<Longrightarrow> jwt_decode A (jwt_secret cfg) (cl_aud ?c) now j = Some ?c"
    using jwt unfolding jwt_round_trip_def by blast
  have in_range: "jwt_encode A (jwt_secret cfg) (access_claims_for cfg A (a_id a) (a_username a) (a_instance_role a)
      (w_now (ticked s))) \<in> range Inr"
    using j(1) by simp
  have new': "token_drawn A 0 (ticked s) \<notin> se_refresh_token ` set (sessions (ticked s))"
    using new s(3) by simp
  obtain tk t where t': "refresh_rotate A cfg ?row (ticked s) = (Inr tk, t)" "no_fault t"
    "w_actors t = w_actors (ticked s)" "w_now t = w_now (ticked s)"
    "jwt_encode A (jwt_secret cfg) (access_claims_for cfg A (a_id a) (a_username a) (a_instance_role a)
      (w_now (ticked s))) = Inr (tk_access_token tk)"
    using refresh_rotate_run [OF s(1) in_range s(4) new', of "se_id x"] by blast
  have t: "w_actors t = w_actors s" "w_now t = w_now s" "tk_access_token tk = j"
    using t'(3-5) j(1) by simp_all
  have exp: "w_now s div 1000 < cl_exp ?c"
    using ttl by (simp add: access_claims_for_def)
  have verified: "verify_access_token A cfg (w_now t) (tk_access_token tk) = Inr ?c"
    using j(2) [OF exp] by (simp add: verify_access_token_def t(2,3)) (simp add: access_claims_for_def)
  have sub: "cl_sub ?c = show_uuid A (a_id a)" by (simp add: access_claims_for_def)
  have found: "List.find (\<lambda>b. a_id b = a_id a \<and> a_is_local b) (w_actors t) = Some a"
    unfolding t(1) using a same by (intro find_unique) auto
  define v where "v = \<lparr>v_actor_id = a_id a, v_username = cl_username ?c, v_instance_role = a_instance_role a,
     v_actor_status = a_status a\<rparr>"
  have "resolve_viewer A (Some cfg) (tk_access_token tk) t = (Some v, ticked t)"
    using found t'(2) by (simp add: resolve_viewer_def verified sub ids query_ok v_def)
  moreover have "refresh_session A cfg token s = (Inr tk, t)"
    unfolding refresh_session_def bindE_def look using t'(1) by simp
  moreover have "viewer_is_suspended v" "v_actor_id v = a_id a" "require_acts_for (a_id a) (Some v) (ticked t) = (Inr None, ticked t)"
    by (simp_all add: v_def viewer_is_suspended_def status_is_suspended_def a(3) require_acts_for_def ret_def)
  ultimately show ?thesis by blast
qed

theorem suspended_account_keeps_its_session_witness:
  "\<exists>tk t v u. refresh_session sample_account_env sample_config ''old'' (sample_login StatusSuspended) = (Inr tk, t)
    \<and> resolve_viewer sample_account_env (Some sample_config) (tk_access_token tk) t = (Some v, u) \<and> v_actor_id v = 1
    \<and> viewer_is_suspended v \<and> require_acts_for 1 (Some v) u = (Inr None, u)"
proof -
  let ?a = "alice\<lparr>a_status := StatusSuspended, ar_auth_key_hash := Some ''key''\<rparr>"
  have a: "a_id ?a = 1" "a_username ?a = ''alice''" "a_instance_role ?a = RoleUser" "a_is_local ?a" "a_id bob = 2"
    by (simp_all add: sample_rows)
  have e: "show_nat 0 = ''0''" "show_nat 1 = ''1''" "read_nat ''1'' = Some 1" by code_simp+
  have "access_claims_for sample_config sample_account_env (a_id ?a) (a_username ?a) (a_instance_role ?a) 1000 = sample_claims"
    unfolding a by code_simp
  then have jwt: "jwt_round_trip sample_account_env sample_config
      (access_claims_for sample_config sample_account_env (a_id ?a) (a_username ?a) (a_instance_role ?a)
        (w_now (sample_login StatusSuspended)))"
    by (simp add: jwt_round_trip_def sample_claims_def sample_account_env_def sample_jobs_env_def account_env.truncate_def)
  have ids: "parse_uuid sample_account_env (show_uuid sample_account_env (a_id ?a)) = Some (a_id ?a)"
    unfolding a by (simp add: sample_account_env_def sample_jobs_env_def account_env.truncate_def)
  show ?thesis
    unfolding a(1) [symmetric]
    by (rule suspended_account_keeps_its_session [OF _ _ _ _ _ _ _ _ _ _ _ jwt ids, where x = sample_session])
      (simp_all add: a e no_fault_def sample_session_def session_live_def token_drawn_def sample_config_def)
qed

section \<open>Login\<close>

text \<open>The code of the second factor of an account, at a time.\<close>

definition accepts_code :: "('u, 'z) env_scheme \<Rightarrow> account_env \<Rightarrow> uuid \<Rightarrow> string \<Rightarrow> world \<Rightarrow> bool" where
  "accepts_code E A i code s = (case List.find (\<lambda>x. tt_actor x = i) (at_totp (w_accounts s)) of
     None \<Rightarrow> False
   | Some row \<Rightarrow> (case open_auto E (tt_secret row) of Inl _ \<Rightarrow> False
     | Inr secret \<Rightarrow> totp_check A secret (w_now s) code = Inr True))"

lemma verify_totp_accepts: "verify_totp E A i code s = (Inr (), t) \<Longrightarrow> accepts_code E A i code s"
  by (auto simp: verify_totp_def bindE_Inr query_Inr ok_or_def of_result_def accepts_code_def split: option.splits if_splits)

text \<open>What a login has checked; the second factor, if the query that looks for it was answered.\<close>

definition signed_in ::
  "('u, 'z) env_scheme \<Rightarrow> account_env \<Rightarrow> login_request \<Rightarrow> world \<Rightarrow> actor_row \<Rightarrow> bool" where
  "signed_in E A req s a = (may_sign_in (lr_username req) a
     \<and> (case ar_auth_key_hash a of None \<Rightarrow> False | Some h \<Rightarrow> argon2_verify A (lr_auth_key req) h)
     \<and> (if totp_verified (a_id a) s \<and> \<not> w_fault s (Suc (w_tick s))
        then (case lr_totp_code req of None \<Rightarrow> False | Some code \<Rightarrow> accepts_code E A (a_id a) code s) else True))"

lemma totp_enrolled_run:
  "totp_enrolled i s = (Inr (\<not> w_fault s (w_tick s) \<and> totp_verified i s), ticked s)"
  by (simp add: totp_enrolled_def attempt_def bindE_def query_def stmt_def Let_def ret_def totp_verified_def)


definition sample_login_request :: "string option \<Rightarrow> login_request" where
  "sample_login_request code = \<lparr>lr_username = ''alice'', lr_auth_key = ''key'', lr_totp_code = code\<rparr>"


text \<open>
  The query that looks for a second factor is read with \<open>unwrap_or(false)\<close>: when it fails, the key
  alone signs in to an account that has a second factor.
\<close>

theorem failed_query_skips_second_factor:
  assumes "List.find (may_sign_in (lr_username req)) (w_actors s) = Some a" and "ar_auth_key_hash a = Some hash"
    and "argon2_verify A (lr_auth_key req) hash" and "\<not> w_fault s (w_tick s)" and "w_fault s (Suc (w_tick s))"
  shows "\<exists>t. verify_credentials E A req s = (Inr (a_id a, a_username a, a_instance_role a, False), t)"
proof -
  have "query (\<lambda>s. List.find (may_sign_in (lr_username req)) (w_actors s)) s = (Inr (Some a), ticked s)"
    using assms(1,4) by (simp add: query_def stmt_def Let_def)
  then show ?thesis
    using assms(2,3,5) unfolding verify_credentials_def by (simp add: bindE_def totp_enrolled_run ret_def)
qed

section \<open>Verified addresses\<close>

definition addresses_unique :: "account_env \<Rightarrow> world \<Rightarrow> bool" where
  "addresses_unique A s \<longleftrightarrow> (\<forall>a\<in>set (w_actors s). \<forall>b\<in>set (w_actors s).
     address_of A a \<noteq> None \<longrightarrow> address_of A a = address_of A b \<longrightarrow> a_id a = a_id b)"

abbreviation challenges :: "world \<Rightarrow> challenge_row list" where
  "challenges s \<equiv> at_challenges (w_accounts s)"

lemma transaction_Inr:
  assumes "transaction m s = (Inr x, t)"
  shows "\<exists>u. m (ticked s) = (Inr x, u) \<and> t = ticked u"
  using assms by (auto simp: transaction_def bindE_Inr execute_Inr split: prod.splits sum.splits)

lemma verify_email_Inr:
  assumes "verify_email E A token s = (Inr i, t)"
  shows "\<exists>c u. c \<in> set (challenges s) \<and> redeemable (hash_token E token) s c \<and> ec_actor c = i
    \<and> challenges u = map (\<lambda>c. if redeemable (hash_token E token) s c then c\<lparr>ec_consumed_at := Some (w_now s)\<rparr> else c) (challenges s)
    \<and> w_actors u = w_actors s \<and> w_now u = w_now s \<and> (\<exists>v. write_address A i (ec_email c) u = (Inr (), v) \<and> t = ticked v)"
proof -
  have red: "redeemable h (s\<lparr>w_tick := n\<rparr>) = redeemable h s" for h n
    by (rule ext) (simp add: redeemable_def)
  obtain u1 email v where c: "consume_challenge (hash_token E token) (ticked s) = (Inr (Some (i, email)), u1)"
    and w: "write_address A i email u1 = (Inr (), v)" "t = ticked v"
    using transaction_Inr [OF assms [unfolded verify_email_def]] by (auto simp: bindE_Inr ok_or_def split: option.splits prod.splits)
  obtain c where f: "List.find (redeemable (hash_token E token) s) (challenges s) = Some c" "ec_actor c = i" "ec_email c = email"
    and u: "u1 = on_challenges (map (\<lambda>c. if redeemable (hash_token E token) s c
      then c\<lparr>ec_consumed_at := Some (w_now (ticked (ticked s)))\<rparr> else c)) (ticked (ticked s))"
    using c by (auto simp: consume_challenge_def stmt_def Let_def red split: if_splits)
  have "c \<in> set (challenges s)" "redeemable (hash_token E token) s c"
    using find_SomeD [OF f(1)] by simp_all
  then show ?thesis
    using f u w by (intro exI [of _ c] exI [of _ u1]) (auto simp: on_challenges_def cong: if_cong)
qed


lemma write_address_unique:
  assumes "write_address A i email u = (Inr (), v)" and "addresses_unique A u"
  shows "addresses_unique A v" and "challenges v = challenges u" and "w_now v = w_now u"
    and "a \<in> set (w_actors v) \<Longrightarrow> a_id a = i \<Longrightarrow> ar_email a = Some email"
proof -
  define f where "f = (\<lambda>a :: actor_row. if a_id a = i then a\<lparr>ar_email := Some email, ar_email_verified_at := Some (w_now u), a_updated_at := w_now u\<rparr> else a)"
  have v: "w_actors v = map f (w_actors u)" "challenges v = challenges u" "w_now v = w_now u"
    using assms(1) by (auto simp: f_def write_address_def stmt_def Let_def update_actor_row_def split: if_splits)
  have free: "\<not> (list_ex (\<lambda>a. a_id a = i \<and> a_is_local a) (w_actors u) \<and> address_taken A (sql_lower A email) i (ticked u))"
    using assms(1) by (auto simp: write_address_def stmt_def Let_def split: if_splits)
  have other: False if ab: "a \<in> set (w_actors u)" "b \<in> set (w_actors u)" "a_id a = i" "a_id b \<noteq> i" "a_is_local a"
    "address_of A b = Some (sql_lower A email)" for a b
    using free ab by (auto simp: address_taken_def list_ex_iff)
  have addr: "address_of A (f a) = (if a_id a = i \<and> a_is_local a then Some (sql_lower A email) else address_of A a)" if "a_id a = i \<longrightarrow> a_is_local a" for a
    using that by (simp add: f_def address_of_def)
  have none: "address_of A (f a) \<noteq> None \<longrightarrow> a_is_local a" for a
    by (simp add: f_def address_of_def)
  have fid: "a_id (f a) = a_id a" for a by (simp add: f_def)
  show "addresses_unique A v"
    unfolding addresses_unique_def v(1)
  proof (intro ballI impI)
    fix x y
    assume xy: "x \<in> set (map f (w_actors u))" "y \<in> set (map f (w_actors u))"
      and eq: "address_of A x \<noteq> None" "address_of A x = address_of A y"
    obtain a b where ab: "a \<in> set (w_actors u)" "x = f a" "b \<in> set (w_actors u)" "y = f b"
      using xy by auto
    have l: "a_is_local a" "a_is_local b"
      using eq none [of a] none [of b] unfolding ab(2,4) by auto
    have ax: "address_of A x = (if a_id a = i then Some (sql_lower A email) else address_of A a)" "a_id x = a_id a"
      using addr [of a] l(1) by (simp_all add: ab(2) fid)
    have ay: "address_of A y = (if a_id b = i then Some (sql_lower A email) else address_of A b)" "a_id y = a_id b"
      using addr [of b] l(2) by (simp_all add: ab(4) fid)
    have uniq: "address_of A a \<noteq> None \<longrightarrow> address_of A a = address_of A b \<longrightarrow> a_id a = a_id b"
      using assms(2) ab(1,3) unfolding addresses_unique_def by blast
    have apart: "a_id a = i \<longrightarrow> a_id b \<noteq> i \<longrightarrow> address_of A b \<noteq> Some (sql_lower A email)"
      "a_id b = i \<longrightarrow> a_id a \<noteq> i \<longrightarrow> address_of A a \<noteq> Some (sql_lower A email)"
      using other [OF ab(1,3)] other [OF ab(3,1)] l by blast+
    show "a_id x = a_id y"
      using eq uniq apart unfolding ax ay by (cases "a_id a = i"; cases "a_id b = i") simp_all
  qed
  show "challenges v = challenges u" "w_now v = w_now u" by (rule v)+
  show "ar_email a = Some email" if a: "a \<in> set (w_actors v)" "a_id a = i"
  proof -
    obtain b where b: "a = f b" using a(1) by (auto simp: v(1))
    then show ?thesis using a(2) by (simp add: fid) (simp add: f_def)
  qed
qed

text \<open>C12. A verification link proves one address, once. Redeeming it keeps the addresses of local
  accounts distinct under case folding, gives the account the address the link was sent to, and
  the same token is refused at any later time.\<close>

theorem verification_link_works_once:
  assumes "verify_email E A token s = (Inr i, t)" and "addresses_unique A s"
  shows "addresses_unique A t
    \<and> (\<exists>c\<in>set (challenges s). ec_token_hash c = hash_token E token \<and> ec_actor c = i \<and> w_now s < ec_expires_at c
         \<and> (\<forall>a\<in>set (w_actors t). a_id a = i \<longrightarrow> ar_email a = Some (ec_email c)))
    \<and> (distinct (map ec_token_hash (challenges s)) \<longrightarrow> isl (fst (verify_email E A token (t\<lparr>w_now := now\<rparr>))))"
proof -
  define f where "f = (\<lambda>c. if redeemable (hash_token E token) s c then c\<lparr>ec_consumed_at := Some (w_now s)\<rparr> else c)"
  obtain c u v where c: "c \<in> set (challenges s)" "redeemable (hash_token E token) s c" "ec_actor c = i"
      and u: "challenges u = map f (challenges s)" "w_actors u = w_actors s"
      and w: "write_address A i (ec_email c) u = (Inr (), v)" "t = ticked v"
    using verify_email_Inr [OF assms(1)] unfolding f_def by blast
  have "addresses_unique A u" using assms(2) by (simp add: addresses_unique_def u(2))
  note wr = write_address_unique [OF w(1) this]
  have spent: "\<not> redeemable (hash_token E token) (t\<lparr>w_now := now\<rparr>) d"
    if d: "d \<in> set (challenges t)" "distinct (map ec_token_hash (challenges s))" for d
  proof -
    obtain c' where c': "c' \<in> set (challenges s)" "d = f c'" using d by (auto simp: w(2) wr(2) u(1))
    have "c' = c" if "ec_token_hash c' = hash_token E token"
      using d(2) that c c'(1) inj_onD [of ec_token_hash "set (challenges s)" c' c]
      by (simp add: distinct_map redeemable_def)
    then show ?thesis using c(2) c'(2) by (auto simp: f_def redeemable_def)
  qed
  have "fst (verify_email E A token (t\<lparr>w_now := now\<rparr>)) \<noteq> Inr j"
    if "distinct (map ec_token_hash (challenges s))" for j
    using verify_email_Inr [of E A token "t\<lparr>w_now := now\<rparr>" j] spent that by (cases "verify_email E A token (t\<lparr>w_now := now\<rparr>)") auto
  then have "distinct (map ec_token_hash (challenges s)) \<longrightarrow> isl (fst (verify_email E A token (t\<lparr>w_now := now\<rparr>)))"
    using not_isl_fst [of "verify_email E A token (t\<lparr>w_now := now\<rparr>)"] by (metis fst_conv)
  then show ?thesis
    using wr(1,4) c w(2) by (auto simp: addresses_unique_def redeemable_def)
qed

definition sample_challenge :: challenge_row where
  "sample_challenge = \<lparr>ec_actor = 1, ec_email = ''alice@mail.example'', ec_token_hash = ''61'',
     ec_expires_at = 5000, ec_consumed_at = None, ec_created_at = 0\<rparr>"

theorem verification_link_works_once_witness:
  "\<exists>i t. addresses_unique sample_account_env t
    \<and> (\<exists>c\<in>{sample_challenge}. ec_token_hash c = hash_token sample_env ''a'' \<and> ec_actor c = i \<and> 1000 < ec_expires_at c
         \<and> (\<forall>a\<in>set (w_actors t). a_id a = i \<longrightarrow> ar_email a = Some (ec_email c)))
    \<and> isl (fst (verify_email sample_env sample_account_env ''a'' (t\<lparr>w_now := 2000\<rparr>)))"
proof -
  let ?s = "sample_world\<lparr>w_accounts := sample_accounts\<lparr>at_challenges := [sample_challenge]\<rparr>\<rparr>"
  have "\<not> isl (fst (verify_email sample_env sample_account_env ''a'' ?s))" by code_simp
  then obtain i t where t: "verify_email sample_env sample_account_env ''a'' ?s = (Inr i, t)"
    using not_isl_fst by blast
  have u: "addresses_unique sample_account_env ?s"
    by (simp add: addresses_unique_def sample_world_def address_of_def) (simp add: sample_rows)
  have s: "challenges ?s = [sample_challenge]" "w_now ?s = 1000" by (simp_all add: sample_world_def)
  show ?thesis
    using verification_link_works_once [OF t u, of 2000] unfolding s by auto
qed

end
