(* ===== verification/GrantClaims.thy ===== *)
theory GrantClaims
  imports AccountClaims
begin

text \<open>
  The properties of applications and of connections, with witnesses.
\<close>

section \<open>An employer's capability\<close>

definition sample_application :: application_row where
  "sample_application = \<lparr>ja_id = 3, ja_applicant = 1, ja_job = None, ja_posting_title = ''Engineer'',
     ja_posting_organization = ''Acme'', ja_applied_on = 0, ja_ap_id = ''https://home.example/applications/3'',
     ja_cover_letter_md = None, ja_cover_letter_html = None, ja_include_cv = True, ja_cv_snapshot = Some ''pdf'',
     ja_status = ''submitted'', ja_created_at = 0, ja_updated_at = 0\<rparr>"

text \<open>The hash stored is the one of the token \<open>a\<close>.\<close>

definition sample_grant :: grant_row where
  "sample_grant = \<lparr>gr_id = 4, gr_application = 3, gr_token_hash = ''61'', gr_audience_ap_id = ''https://far.example/users/acme'',
     gr_audience_origin = ''https://far.example'', gr_state = ''active'', gr_expires_at = 5000,
     gr_document_uses = 2, gr_cv_uses = 1, gr_revoked_at = None, gr_revoked_reason = None\<rparr>"

definition sample_applied :: world where
  "sample_applied = sample_world\<lparr>w_jobs := \<lparr>jt_jobs = [], jt_readers = [], jt_applications = [sample_application],
     jt_grants = [sample_grant], jt_accesses = []\<rparr>\<rparr>"

definition sample_viewer :: viewer where
  "sample_viewer = \<lparr>v_actor_id = 1, v_username = ''alice'', v_instance_role = RoleUser, v_actor_status = StatusActive\<rparr>"

text \<open>C13. A capability is spent.  However its holder's requests are mixed with applications,
  withdrawals, deletions, migrations and the passing of time, the document is served at most as
  often as the budget stored with the grant.\<close>

theorem grant_budget_bounds_reads:
  assumes "distinct (map gr_token_hash (jt_grants (w_jobs s)))"
    and "\<exists>g\<in>set (jt_grants (w_jobs s)). gr_token_hash g = hash_token E token \<and> uses_left d g \<le> int n"
  shows "reads E J domain token d ops s \<le> n"
proof -
  obtain g where g: "g \<in> set (grants s)" "gr_token_hash g = hash_token E token" "uses_left d g \<le> int n"
    using assms(2) by blast
  have only: "h = g" if "h \<in> set (grants s)" "gr_token_hash h = gr_token_hash g" for h
    using assms(1) that g(1) inj_onD [of gr_token_hash "set (grants s)" h g] by (simp add: distinct_map)
  have "\<forall>h\<in>set (grants s). gr_token_hash h = hash_token E token \<longrightarrow> uses_left d h \<le> int n"
    using only g(2,3) by metis
  moreover have "hash_token E token \<in> gr_token_hash ` set (grants s)"
    using g(1,2) by (metis image_eqI)
  ultimately have "within_budget (hash_token E token) d n s"
    using assms(1) unfolding within_budget_def by blast
  then show ?thesis by (rule reads_bounded)
qed

theorem grant_budget_bounds_reads_witness:
  "reads sample_env sample_jobs_env ''home.example'' ''a'' DocApplication
     (replicate 3 (Dereference ''https://far.example'' 3 ''a'' None)) sample_applied \<le> 2
   \<and> serves sample_env ''a'' DocApplication (Dereference ''https://far.example'' 3 ''a'' None) sample_applied"
proof
  have h: "hash_token sample_env ''a'' = ''61''" by code_simp
  show "reads sample_env sample_jobs_env ''home.example'' ''a'' DocApplication
     (replicate 3 (Dereference ''https://far.example'' 3 ''a'' None)) sample_applied \<le> 2"
    by (rule grant_budget_bounds_reads) (simp_all add: sample_applied_def h sample_grant_def uses_left_def)
  show "serves sample_env ''a'' DocApplication (Dereference ''https://far.example'' 3 ''a'' None) sample_applied"
    by code_simp
qed

text \<open>C14. Withdrawing takes the application back.  From then on, whatever happens, no token opens it:
  every request for it is refused.\<close>

theorem withdrawn_application_stays_closed:
  assumes "withdraw_application v i s = (Inr (), t)"
    and "list_all (\<lambda>a. ja_id a < w_next_id s) (jt_applications (w_jobs s))"
  shows "isl (fst (dereference E w i token requested (grant_run E J domain ops t)))"
proof (rule ccontr)
  let ?t = "grant_run E J domain ops t"
  assume "\<not> ?thesis"
  then obtain x u where "dereference E w i token requested ?t = (Inr x, u)"
    using not_isl_fst by blast
  then obtain d r v where r: "redeem E token w d ?t = (Inr r, v)" "rd_job_application_id r = i"
    using dereference_redeemed by blast
  have "closed_application i t"
    using withdraw_closes [OF assms(1)] assms(2) by (simp add: applications_fresh_def)
  then have "closed_application i ?t" by (rule closed.keeps_run)
  then show False using closed_not_redeemed r by blast
qed

theorem withdrawn_application_stays_closed_witness:
  "\<exists>t. withdraw_application (Some sample_viewer) 3 sample_applied = (Inr (), t)
    \<and> isl (fst (dereference sample_env ''https://far.example'' 3 ''a'' None
        (grant_run sample_env sample_jobs_env ''home.example'' [Clock 2000] t)))
    \<and> \<not> isl (fst (dereference sample_env ''https://far.example'' 3 ''a'' None sample_applied))"
proof -
  have "\<not> isl (fst (withdraw_application (Some sample_viewer) 3 sample_applied))" by code_simp
  then obtain t where t: "withdraw_application (Some sample_viewer) 3 sample_applied = (Inr (), t)"
    using not_isl_fst [of "withdraw_application (Some sample_viewer) 3 sample_applied"] by auto
  have "isl (fst (dereference sample_env ''https://far.example'' 3 ''a'' None
        (grant_run sample_env sample_jobs_env ''home.example'' [Clock 2000] t)))"
    by (rule withdrawn_application_stays_closed [OF t]) (simp add: sample_applied_def sample_application_def sample_world_def)
  moreover have "\<not> isl (fst (dereference sample_env ''https://far.example'' 3 ''a'' None sample_applied))" by code_simp
  ultimately show ?thesis using t by blast
qed

section \<open>Connections\<close>

text \<open>C15. The table of connections is an undirected graph.  Each statement that is answered does to
  it exactly what the abstract operation does to the graph, says so truthfully, and keeps at most
  one row for a pair; of an invitation this holds when its identifier is new.\<close>

theorem connections_implement_graph:
  assumes "conn_inv s" and "conn_step op s = (Inr r, t)" and "id_is_new op s"
  shows "conn_inv t \<and> links t = graph_op op (links s) \<and> (r \<longleftrightarrow> graph_ok op (links s))"
  by (rule step_refines [OF assms])

theorem connections_implement_graph_witness:
  "\<exists>r t. conn_step (CInvite 1 2 (Some ''https://home.example/users/alice#invite-1'')) sample_world = (Inr r, t)
    \<and> links t {1, 2} = InvitedBy 1 \<and> r"
proof -
  let ?op = "CInvite 1 2 (Some ''https://home.example/users/alice#invite-1'')"
  have "\<not> isl (fst (conn_step ?op sample_world))" by code_simp
  then obtain r t where t: "conn_step ?op sample_world = (Inr r, t)" using not_isl_fst by blast
  have i: "conn_inv sample_world" "id_is_new ?op sample_world" "links sample_world = (\<lambda>p. NoLink)"
    by (simp_all add: conn_inv_def links_def row_between_def sample_world_def fun_eq_iff)
  show ?thesis
    using connections_implement_graph [OF i(1) t i(2)] t by (auto simp: i(3))
qed

text \<open>C16. A connection takes two.  Between accounts that had none, whatever requests are made in
  whatever order, a connection stands only if one of the two invited and the other accepted after
  that, and an invitation stands only if one of the two made it.\<close>

theorem connection_takes_invitation_and_acceptance:
  assumes "conn_inv s" and "connection_state_of a b s = ConnNone"
  shows "(connection_state_of a b (conn_run ops s) = ConnAccepted \<longrightarrow> agreed ops a b \<or> agreed ops b a)
    \<and> (connection_state_of a b (conn_run ops s) = ConnPending \<longrightarrow>
         (\<exists>ap. CInvite a b ap \<in> set ops \<or> CInvite b a ap \<in> set ops))"
proof -
  have "links s {a, b} = NoLink"
    using assms(2) by (simp add: connection_state_links split: link.splits)
  then have b: "backed ops {a, b} (links (conn_run ops s) {a, b})"
    using run_backed [OF assms(1)] by blast
  show ?thesis
  proof (cases "links (conn_run ops s) {a, b}")
    case NoLink
    then show ?thesis by (simp add: connection_state_links)
  next
    case (InvitedBy x)
    then obtain y ap where "{a, b} = {x, y}" "CInvite x y ap \<in> set ops" using b by (auto simp: backed_def)
    then show ?thesis using InvitedBy by (auto simp: connection_state_links doubleton_eq_iff)
  next
    case Linked
    then obtain x y where "{a, b} = {x, y}" "agreed ops x y" using b by (auto simp: backed_def)
    then show ?thesis using Linked by (auto simp: connection_state_links doubleton_eq_iff)
  qed
qed

theorem connection_takes_invitation_and_acceptance_witness:
  "connection_state_of 1 2 (conn_run [CInvite 1 2 None, CAccept 2 1] sample_world) = ConnAccepted
    \<and> (agreed [CInvite 1 2 None, CAccept 2 1] 1 2 \<or> agreed [CInvite 1 2 None, CAccept 2 1] 2 1)"
proof -
  have s: "connection_state_of 1 2 (conn_run [CInvite 1 2 None, CAccept 2 1] sample_world) = ConnAccepted"
    "connection_state_of 1 2 sample_world = ConnNone"
    by code_simp+
  have "conn_inv sample_world" by (simp add: conn_inv_def sample_world_def)
  then show ?thesis
    using connection_takes_invitation_and_acceptance [OF _ s(2), of "[CInvite 1 2 None, CAccept 2 1]"] s(1) by simp
qed

end
