(* ===== verification/SmtpWire.thy ===== *)
theory SmtpWire
  imports Prelude
begin

text \<open>
  One end of an SMTP conversation (\<open>noombat-chatmail-admin/src/filtermail.rs\<close>): reading lines and
  replies with a limit, and reading and writing the payload of a message.  What a peer sends is
  the list of the results \<open>fill_buf\<close> gives; a write may fail after any number of its bytes.
\<close>

section \<open>Readers\<close>

datatype io_kind = BrokenPipe | ConnectionReset | ConnectionAborted | UnexpectedEof | InvalidData | AlreadyExists | OtherKind

type_synonym 'a io_result = "io_kind + 'a"

datatype read_event = Chunk string | Interrupted | ReadError io_kind

abbreviation LF :: char where "LF \<equiv> CHR 0x0A"
abbreviation CR :: char where "CR \<equiv> CHR 0x0D"

text \<open>The bytes and events a reader has left.\<close>

fun event_size :: "read_event \<Rightarrow> nat" where
  "event_size (Chunk a) = Suc (length a)"
| "event_size _ = 1"

definition input_size :: "read_event list \<Rightarrow> nat" where
  "input_size r = sum_list (map event_size r)"

lemma input_size_simps [simp]:
  "input_size [] = 0" "input_size (e # r) = event_size e + input_size r"
  by (simp_all add: input_size_def)

definition MAX_LINE_BYTES :: int where "MAX_LINE_BYTES = 65536"

definition MAX_MESSAGE_BYTES :: int where "MAX_MESSAGE_BYTES = 64 * 1024 * 1024"

definition ABORT_MESSAGE_BYTES :: int where "ABORT_MESSAGE_BYTES = 256 * 1024 * 1024"

text \<open>An empty buffer is the end of the stream, and stays it.\<close>

fun read_line_capped :: "int \<Rightarrow> string \<Rightarrow> read_event list \<Rightarrow> string io_result \<times> read_event list" where
  "read_line_capped cap out [] = (Inr out, [])"
| "read_line_capped cap out (Interrupted # r) = read_line_capped cap out r"
| "read_line_capped cap out (ReadError k # r) = (Inl k, r)"
| "read_line_capped cap out (Chunk a # r) =
    (if a = [] then (Inr out, Chunk a # r)
     else case find_byte LF a of
       Some i \<Rightarrow> (Inr (out @ take (Suc i) a), if drop (Suc i) a = [] then r else Chunk (drop (Suc i) a) # r)
     | None \<Rightarrow> if cap < int (length out + length a) then (Inl InvalidData, r) else read_line_capped cap (out @ a) r)"

lemma find_byte_lt: "find_byte c s = Some i \<Longrightarrow> i < length s"
  by (induction s arbitrary: i) (auto split: if_splits)

lemma find_byte_Some: "find_byte c s = Some i \<Longrightarrow> s = take i s @ c # drop (Suc i) s \<and> c \<notin> set (take i s)"
  by (induction s arbitrary: i) (auto split: if_splits)

lemma find_byte_None: "find_byte c s = None \<longleftrightarrow> c \<notin> set s"
  by (induction s) auto

lemma find_byte_append: "c \<notin> set a \<Longrightarrow> find_byte c (a @ c # b) = Some (length a)"
  by (induction a) auto

text \<open>A line that was read has been taken from the input.\<close>

lemma read_line_consumes:
  "read_line_capped cap out r = (Inr l, r') \<Longrightarrow> input_size r' + (length l - length out) \<le> input_size r \<and> length out \<le> length l"
proof (induction cap out r rule: read_line_capped.induct)
  case (4 cap out a r)
  then show ?case
    by (auto split: if_splits option.splits dest: find_byte_lt simp: min_def)
qed auto

lemma read_line_shrinks:
  assumes "read_line_capped cap [] r = (Inr l, r')" and "l \<noteq> []" shows "input_size r' < input_size r"
  using read_line_consumes [OF assms(1)] assms(2) by (cases l) auto

section \<open>Wires\<close>

text \<open>
  \<open>w_faults\<close> tells of each write to come whether it fails, and after how many bytes; when the list
  has ended writes succeed.
\<close>

record wire =
  w_in :: "read_event list"
  w_sent :: string
  w_faults :: "(nat \<times> io_kind) option list"

type_synonym 'a wire_op = "wire \<Rightarrow> 'a io_result \<times> wire"

definition write_all :: "string \<Rightarrow> unit wire_op" where
  "write_all bytes w = (case w_faults w of
     Some (n, k) # fs \<Rightarrow> (Inl k, w\<lparr>w_sent := w_sent w @ take n bytes, w_faults := fs\<rparr>)
   | fs \<Rightarrow> (Inr (), w\<lparr>w_sent := w_sent w @ bytes, w_faults := tl fs\<rparr>))"

definition wire_then :: "'a wire_op \<Rightarrow> ('a \<Rightarrow> 'b wire_op) \<Rightarrow> 'b wire_op" where
  "wire_then m k w = (case m w of (Inl e, w) \<Rightarrow> (Inl e, w) | (Inr x, w) \<Rightarrow> k x w)"

definition wire_ret :: "'a \<Rightarrow> 'a wire_op" where
  "wire_ret x w = (Inr x, w)"

primrec wire_each :: "('a \<Rightarrow> unit wire_op) \<Rightarrow> 'a list \<Rightarrow> unit wire_op" where
  "wire_each f [] = wire_ret ()"
| "wire_each f (x # xs) = wire_then (f x) (\<lambda>_. wire_each f xs)"

definition send_line :: "string \<Rightarrow> unit wire_op" where
  "send_line line = wire_then (write_all line) (\<lambda>_. write_all CRLF)"

definition send_raw :: "string \<Rightarrow> unit wire_op" where
  "send_raw bytes = write_all bytes"

fun trim_eol_rev :: "string \<Rightarrow> string" where
  "trim_eol_rev [] = []"
| "trim_eol_rev (c # s) = (if c = LF \<or> c = CR then trim_eol_rev s else c # s)"

definition trim_eol :: "string \<Rightarrow> string" where
  "trim_eol line = rev (trim_eol_rev (rev line))"

definition starts_with_dot :: "string \<Rightarrow> bool" where
  "starts_with_dot line = (case line of [] \<Rightarrow> False | c # _ \<Rightarrow> c = CHR ''.'')"

definition send_message :: "string \<Rightarrow> unit wire_op" where
  "send_message message = wire_then
     (wire_each (\<lambda>piece. let line = trim_eol piece in
        wire_then (if starts_with_dot line then write_all ''.'' else wire_ret ()) (\<lambda>_.
        wire_then (write_all line) (\<lambda>_. write_all CRLF))) (split_inclusive LF message))
     (\<lambda>_. write_all (''.'' @ CRLF))"

definition wire_line :: "string option wire_op" where
  "wire_line w = (case read_line_capped MAX_LINE_BYTES [] (w_in w) of
     (Inl k, r) \<Rightarrow> (Inl k, w\<lparr>w_in := r\<rparr>)
   | (Inr l, r) \<Rightarrow> (Inr (if l = [] then None else Some l), w\<lparr>w_in := r\<rparr>))"

section \<open>Replies\<close>

record reply =
  r_code :: nat
  r_raw :: string

function read_reply :: "string \<Rightarrow> read_event list \<Rightarrow> reply io_result \<times> read_event list" where
  "read_reply raw r = (case read_line_capped MAX_LINE_BYTES [] r of
     (Inl k, r) \<Rightarrow> (Inl k, r)
   | (Inr line, r) \<Rightarrow>
       if line = [] then (Inl UnexpectedEof, r)
       else let trimmed = trim_eol line in
         if 4 \<le> length trimmed \<and> trimmed ! 3 = CHR ''-'' then read_reply (raw @ line) r
         else (Inr \<lparr>r_code = (if length trimmed < 3 then 0 else case parse_uint 65535 (take 3 trimmed) of
               None \<Rightarrow> 0 | Some n \<Rightarrow> n), r_raw = raw @ line\<rparr>, r))"
  by auto
termination
  by (relation "measure (input_size \<circ> snd)") (use read_line_shrinks in \<open>auto dest!: sym [of _ "read_line_capped _ _ _"]\<close>)

declare read_reply.simps [simp del]

definition wire_reply :: "reply wire_op" where
  "wire_reply w = (case read_reply [] (w_in w) of (x, r) \<Rightarrow> (x, w\<lparr>w_in := r\<rparr>))"

definition capabilities :: "reply \<Rightarrow> string list" where
  "capabilities r = filter (\<lambda>l. l \<noteq> []) (List.map_filter (str_from 4) (tl (str_lines (from_utf8_lossy (r_raw r)))))"

section \<open>The payload of a message\<close>

datatype body = Message string | TooLarge | Eof

text \<open>Dot-stuffing is undone and line endings become CRLF.\<close>

definition payload_line :: "string \<Rightarrow> string" where
  "payload_line trimmed = (if starts_with_dot trimmed then tl trimmed else trimmed) @ CRLF"

function read_message :: "string \<Rightarrow> int \<Rightarrow> bool \<Rightarrow> read_event list \<Rightarrow> body io_result \<times> read_event list" where
  "read_message message seen oversize r = (case read_line_capped MAX_LINE_BYTES [] r of
     (Inl k, r) \<Rightarrow> (Inl k, r)
   | (Inr line, r) \<Rightarrow>
       if line = [] then (Inr Eof, r)
       else let trimmed = trim_eol line in
         if trimmed = ''.'' then (Inr (if oversize then TooLarge else Message message), r)
         else let seen = seen + int (length line) in
           if ABORT_MESSAGE_BYTES < seen then (Inl InvalidData, r)
           else if MAX_MESSAGE_BYTES < seen then read_message message seen True r
           else read_message (message @ payload_line trimmed) seen oversize r)"
  by auto
termination
  by (relation "measure (\<lambda>(m, n, b, r). input_size r)") (use read_line_shrinks in \<open>auto dest!: sym [of _ "read_line_capped _ _ _"]\<close>)

declare read_message.simps [simp del]

definition wire_message :: "body wire_op" where
  "wire_message w = (case read_message [] 0 False (w_in w) of (x, r) \<Rightarrow> (x, w\<lparr>w_in := r\<rparr>))"

section \<open>Input that is taken\<close>

lemma read_line_le: "read_line_capped cap out r = (x, r') \<Longrightarrow> input_size r' \<le> input_size r"
proof (induction cap out r rule: read_line_capped.induct)
  case (4 cap out a r)
  then show ?case
    by (auto split: if_splits option.splits dest: find_byte_lt simp: min_def)
qed auto

lemma read_reply_le: "read_reply raw r = (x, r') \<Longrightarrow> input_size r' \<le> input_size r"
proof (induction raw r rule: read_reply.induct)
  case (1 raw r)
  obtain y u where y: "read_line_capped MAX_LINE_BYTES [] r = (y, u)" by fastforce
  have u: "input_size u \<le> input_size r" using read_line_le [OF y] .
  show ?case
  proof (cases y)
    case (Inl k)
    then show ?thesis using 1(2) u y by (simp add: read_reply.simps [of raw r])
  next
    case (Inr l)
    show ?thesis
    proof (cases "l \<noteq> [] \<and> 4 \<le> length (trim_eol l) \<and> trim_eol l ! 3 = CHR ''-''")
      case True
      have "read_reply (raw @ l) u = (x, r')"
        using 1(2) True y Inr by (simp add: read_reply.simps [of raw r] Let_def)
      then have "input_size r' \<le> input_size u"
        using True y Inr by (intro 1(1) [OF _ refl _ refl]) auto
      then show ?thesis using u by simp
    next
      case False
      then show ?thesis using 1(2) u y Inr by (auto simp: read_reply.simps [of raw r] Let_def split: if_splits)
    qed
  qed
qed

lemma read_message_le: "read_message m n b r = (x, r') \<Longrightarrow> input_size r' \<le> input_size r"
proof (induction m n b r rule: read_message.induct)
  case (1 m n b r)
  obtain y u where y: "read_line_capped MAX_LINE_BYTES [] r = (y, u)" by fastforce
  have u: "input_size u \<le> input_size r" using read_line_le [OF y] .
  show ?case
  proof (cases y)
    case (Inl k)
    then show ?thesis using 1(3) u y by (simp add: read_message.simps [of m n b r])
  next
    case (Inr l)
    consider (stop) "l = [] \<or> trim_eol l = ''.'' \<or> ABORT_MESSAGE_BYTES < n + int (length l)"
      | (big) "l \<noteq> []" "trim_eol l \<noteq> ''.''" "\<not> ABORT_MESSAGE_BYTES < n + int (length l)" "MAX_MESSAGE_BYTES < n + int (length l)"
      | (more) "l \<noteq> []" "trim_eol l \<noteq> ''.''" "\<not> ABORT_MESSAGE_BYTES < n + int (length l)" "\<not> MAX_MESSAGE_BYTES < n + int (length l)"
      by blast
    then show ?thesis
    proof cases
      case stop
      then show ?thesis using 1(3) u y Inr by (auto simp: read_message.simps [of m n b r] Let_def split: if_splits)
    next
      case big
      then have "read_message m (n + int (length l)) True u = (x, r')"
        using 1(3) y Inr by (simp add: read_message.simps [of m n b r] Let_def)
      then show ?thesis using 1(1) y Inr big u by force
    next
      case more
      then have "read_message (m @ payload_line (trim_eol l)) (n + int (length l)) b u = (x, r')"
        using 1(3) y Inr by (simp add: read_message.simps [of m n b r] Let_def)
      then show ?thesis using 1(2) y Inr more u by force
    qed
  qed
qed

end
