(* ===== verification/FilterMail.thy ===== *)
theory FilterMail
  imports SmtpWire
begin

text \<open>
  The SMTP proxy that lets only encrypted mail into the queue of the Chatmail relay
  (\<open>noombat-chatmail-admin/src/filtermail.rs\<close>): the rate limiter, the checks on a message, the
  conversation and the listeners.  The MIME parser is a parameter.
\<close>

section \<open>Rate limiting\<close>

datatype filter_mode = Outgoing | Incoming

text \<open>Durations and instants are nanoseconds.\<close>

record rate_limiter =
  rl_interval :: nat
  rl_tolerance :: nat
  rl_state :: "(string \<times> nat) list"

definition DEFAULT_RATE_PER_MINUTE :: nat where "DEFAULT_RATE_PER_MINUTE = 60"

definition DEFAULT_RATE_BURST :: nat where "DEFAULT_RATE_BURST = 10"

definition RATE_KEYS_BEFORE_PRUNE :: nat where "RATE_KEYS_BEFORE_PRUNE = 10000"

definition new_limiter :: "nat \<Rightarrow> nat \<Rightarrow> rate_limiter" where
  "new_limiter per_minute burst = (let interval = 60 * 10 ^ 9 div max per_minute 1 in
     \<lparr>rl_interval = interval, rl_tolerance = interval * (max burst 1 - 1), rl_state = []\<rparr>)"

definition allow :: "string \<Rightarrow> nat \<Rightarrow> rate_limiter \<Rightarrow> bool \<times> rate_limiter" where
  "allow key now l =
    (let state = (if RATE_KEYS_BEFORE_PRUNE < length (rl_state l) then filter (\<lambda>(_, tat). now < tat) (rl_state l)
                  else rl_state l);
         tat = (case map_of state key of None \<Rightarrow> now | Some t \<Rightarrow> t) in
     if now + rl_tolerance l < tat then (False, l\<lparr>rl_state := state\<rparr>)
     else (True, l\<lparr>rl_state := AList.update key (max tat now + rl_interval l) state\<rparr>))"

definition env_number :: "(string \<Rightarrow> string option) \<Rightarrow> string \<Rightarrow> nat \<Rightarrow> nat" where
  "env_number env name fallback = (case Option.bind (env name) (parse_uint (2 ^ 32 - 1)) of
     None \<Rightarrow> fallback | Some n \<Rightarrow> n)"

section \<open>Parsed messages\<close>

text \<open>What \<open>mailparse\<close> gives: headers in order, the decoded body or a decoding error, the parts.\<close>

datatype parsed_mail = ParsedMail (pm_headers: "(string \<times> string) list") (pm_body: "string option")
  (pm_subparts: "parsed_mail list")

definition header_value :: "string \<Rightarrow> parsed_mail \<Rightarrow> string option" where
  "header_value name m = map_option snd (List.find (\<lambda>(k, _). eq_ignore_ascii_case k name) (pm_headers m))"

text \<open>The text between the first \<open><\<close> and the last \<open>>\<close>.\<close>

definition between_angles :: "string \<Rightarrow> string option" where
  "between_angles s = (case (find_byte (CHR ''<'') s, rfind_byte (CHR ''>'') s) of
     (Some l, Some r) \<Rightarrow> if l < r then Some (take (r - Suc l) (drop (Suc l) s)) else None
   | _ \<Rightarrow> None)"

definition header_address :: "parsed_mail \<Rightarrow> string \<Rightarrow> string option" where
  "header_address m name = Option.bind (header_value name m) (\<lambda>value.
     let address = (case between_angles value of Some a \<Rightarrow> a | None \<Rightarrow> trim value);
         address = to_ascii_lowercase (trim address) in
     if address = [] then None else Some address)"

definition domain_of :: "string \<Rightarrow> string option" where
  "domain_of address = Option.bind (rsplit_once (CHR ''@'') address) (\<lambda>(_, domain).
     let d = to_ascii_lowercase (trim domain) in if d = [] then None else Some d)"

fun find_map :: "('a \<Rightarrow> 'b option) \<Rightarrow> 'a list \<Rightarrow> 'b option" where
  "find_map f [] = None"
| "find_map f (x # xs) = (case f x of Some y \<Rightarrow> Some y | None \<Rightarrow> find_map f xs)"

definition dkim_domain :: "parsed_mail \<Rightarrow> string option" where
  "dkim_domain m = Option.bind (header_value ''dkim-signature'' m) (\<lambda>value.
     find_map (\<lambda>tag. case split_once (CHR ''='') tag of None \<Rightarrow> None
       | Some (key, val) \<Rightarrow> if trim key = ''d'' then Some (to_ascii_lowercase (trim val)) else None)
     (split_on (CHR '';'') value))"

definition address_of_command :: "string \<Rightarrow> string" where
  "address_of_command command = (case between_angles command of Some a \<Rightarrow> a
     | None \<Rightarrow> (case split_once (CHR '':'') command of None \<Rightarrow> [] | Some (_, rest) \<Rightarrow> trim rest))"

section \<open>The encryption decision\<close>

text \<open>Whether the needle occurs at the start of a line; \<open>start\<close> tells whether one begins here.\<close>

fun at_line_start :: "bool \<Rightarrow> string \<Rightarrow> string \<Rightarrow> bool" where
  "at_line_start start needle [] = (start \<and> needle = [])"
| "at_line_start start needle (c # s) = ((start \<and> prefix needle (c # s)) \<or> at_line_start (c = LF) needle s)"

definition has_pgp_armour :: "string \<Rightarrow> bool" where
  "has_pgp_armour body = (at_line_start True ''-----BEGIN PGP MESSAGE-----'' body
     \<and> at_line_start True ''-----END PGP MESSAGE-----'' body)"

fun is_encrypted_part :: "parsed_mail \<Rightarrow> bool" where
  "is_encrypted_part (ParsedMail headers body subparts) =
    (let m = ParsedMail headers body subparts;
         content_type = to_ascii_lowercase (case header_value ''content-type'' m of None \<Rightarrow> [] | Some v \<Rightarrow> v) in
     (contains_str ''multipart/encrypted'' content_type \<and> contains_str ''application/pgp-encrypted'' content_type)
     \<or> (case body of None \<Rightarrow> False | Some b \<Rightarrow> has_pgp_armour b)
     \<or> contains_str ''application/autocrypt-setup'' content_type
     \<or> list_ex is_encrypted_part subparts)"

datatype verdict = Accept bool | Refuse string

definition REJECT_REPLY :: string where
  "REJECT_REPLY = ''550 5.7.1 this relay carries only end-to-end encrypted mail, and this message is not encrypted''"

definition inspect :: "(string \<Rightarrow> parsed_mail option) \<Rightarrow> filter_mode \<Rightarrow> string \<Rightarrow> string \<Rightarrow> verdict" where
  "inspect parse_mail mode raw mail_from = (case parse_mail raw of None \<Rightarrow> Refuse REJECT_REPLY | Some parsed \<Rightarrow>
    if \<not> is_encrypted_part parsed then Refuse REJECT_REPLY
    else
      let from_addr = header_address parsed ''from'';
          envelope = to_ascii_lowercase mail_from;
          mismatch = (envelope \<noteq> [] \<and> (case from_addr of None \<Rightarrow> False | Some f \<Rightarrow> to_ascii_lowercase f \<noteq> envelope)) in
      case mode of
        Outgoing \<Rightarrow>
          if mismatch then Refuse ''550 5.7.1 the From header must match the envelope sender'' else Accept False
      | Incoming \<Rightarrow>
          (case (Option.bind from_addr domain_of, dkim_domain parsed) of
             (Some from_domain, Some signing_domain) \<Rightarrow>
               if from_domain \<noteq> signing_domain
               then Refuse ''550 5.7.1 the DKIM signature does not match the From domain''
               else Accept mismatch
           | _ \<Rightarrow> Accept mismatch))"

section \<open>The queue's side\<close>

record mail_envelope =
  me_xforward :: "string list"
  me_mail_from :: "string option"
  me_recipients :: "string list"

definition empty_envelope :: mail_envelope where
  "empty_envelope = \<lparr>me_xforward = [], me_mail_from = None, me_recipients = []\<rparr>"

definition sender_of :: "mail_envelope \<Rightarrow> string" where
  "sender_of e = (case me_mail_from e of None \<Rightarrow> [] | Some a \<Rightarrow> a)"

definition expect_code :: "nat \<Rightarrow> unit wire_op" where
  "expect_code code = wire_then wire_reply (\<lambda>r w. if r_code r \<noteq> code then (Inl OtherKind, w) else (Inr (), w))"

definition deliver :: "mail_envelope \<Rightarrow> string \<Rightarrow> reply wire_op" where
  "deliver envelope raw =
    wire_then (wire_each (\<lambda>command. wire_then (send_line command) (\<lambda>_. expect_code 250)) (me_xforward envelope)) (\<lambda>_.
    wire_then (send_line (''MAIL FROM:<'' @ sender_of envelope @ ''>'')) (\<lambda>_.
    wire_then (expect_code 250) (\<lambda>_.
    wire_then (wire_each (\<lambda>recipient. wire_then (send_line (''RCPT TO:<'' @ recipient @ ''>'')) (\<lambda>_. expect_code 250))
      (me_recipients envelope)) (\<lambda>_.
    wire_then (send_line ''DATA'') (\<lambda>_.
    wire_then (expect_code 354) (\<lambda>_.
    wire_then (send_message raw) (\<lambda>_.
    wire_reply)))))))"

definition is_disconnect :: "io_kind \<Rightarrow> bool" where
  "is_disconnect k = (k \<in> {BrokenPipe, ConnectionReset, ConnectionAborted, UnexpectedEof})"

definition relayable :: "string list" where
  "relayable = [''XFORWARD'', ''8BITMIME'', ''SIZE'', ''SMTPUTF8'', ''DSN'', ''ENHANCEDSTATUSCODES'']"

fun announce_lines :: "string list \<Rightarrow> string" where
  "announce_lines [] = []"
| "announce_lines (cap # caps) = ''250'' @ (if caps = [] then '' '' else ''-'') @ cap @ CRLF @ announce_lines caps"

definition announce :: "reply \<Rightarrow> string" where
  "announce downstream =
    (let kept = filter (\<lambda>cap. to_ascii_uppercase (first_word cap) \<in> set relayable) (capabilities downstream) in
     if kept = [] then ''250 noombat-filtermail'' @ CRLF
     else ''250-noombat-filtermail'' @ CRLF @ announce_lines kept)"

section \<open>Sessions\<close>

text \<open>
  \<open>ss_down\<close> is the connection to the queue; once it is closed it is kept in \<open>ss_closed\<close>, where what
  was sent on it can still be read.  \<open>ss_clock\<close> gives the readings of the clock to come.
\<close>

record session =
  ss_up :: wire
  ss_down :: "wire option"
  ss_closed :: "wire option"
  ss_limiter :: rate_limiter
  ss_clock :: "nat \<Rightarrow> nat"

type_synonym 'a session_op = "session \<Rightarrow> 'a io_result \<times> session"

definition then_do :: "'a session_op \<Rightarrow> ('a \<Rightarrow> 'b session_op) \<Rightarrow> 'b session_op" where
  "then_do m k s = (case m s of (Inl e, s) \<Rightarrow> (Inl e, s) | (Inr x, s) \<Rightarrow> k x s)"

definition give :: "'a \<Rightarrow> 'a session_op" where
  "give x s = (Inr x, s)"

definition on_up :: "'a wire_op \<Rightarrow> 'a session_op" where
  "on_up m s = (case m (ss_up s) of (x, w) \<Rightarrow> (x, s\<lparr>ss_up := w\<rparr>))"

text \<open>Used only where the connection has just been seen to be there.\<close>

definition on_down :: "'a wire_op \<Rightarrow> 'a session_op" where
  "on_down m s = (case ss_down s of None \<Rightarrow> (Inl OtherKind, s)
     | Some d \<Rightarrow> (case m d of (x, w) \<Rightarrow> (x, s\<lparr>ss_down := Some w\<rparr>)))"

definition close_downstream :: "unit session_op" where
  "close_downstream s = (case ss_down s of None \<Rightarrow> (Inr (), s)
     | Some d \<Rightarrow> (Inr (), s\<lparr>ss_down := None, ss_closed := Some (snd (send_line ''QUIT'' d))\<rparr>))"

definition may_send :: "string \<Rightarrow> bool session_op" where
  "may_send key s = (case allow key (ss_clock s 0) (ss_limiter s) of (b, l) \<Rightarrow>
     (Inr b, s\<lparr>ss_limiter := l, ss_clock := (\<lambda>n. ss_clock s (Suc n))\<rparr>))"

text \<open>How an iteration of the loop ends: with another one, or with the end of the session.\<close>

datatype flow = Again mail_envelope | Return

definition tell :: "string \<Rightarrow> flow \<Rightarrow> flow session_op" where
  "tell line next = then_do (on_up (send_line line)) (\<lambda>_. give next)"

definition with_down :: "flow session_op \<Rightarrow> flow session_op" where
  "with_down m s = (if ss_down s = None then tell ''421 4.3.2 the queue connection is gone'' Return s else m s)"

definition relay_command :: "string \<Rightarrow> (reply \<Rightarrow> string) \<Rightarrow> mail_envelope \<Rightarrow> flow session_op" where
  "relay_command text answer envelope = with_down (
    then_do (on_down (send_line text)) (\<lambda>_.
    then_do (on_down wire_reply) (\<lambda>reply.
    then_do (on_up (send_raw (answer reply))) (\<lambda>_. give (Again envelope)))))"

definition handle_mail :: "filter_mode \<Rightarrow> string \<Rightarrow> mail_envelope \<Rightarrow> flow session_op" where
  "handle_mail mode text envelope =
    (let sender = address_of_command text in
     then_do (if mode = Outgoing \<and> sender \<noteq> [] then may_send (to_ascii_lowercase sender) else give True) (\<lambda>allowed.
     if \<not> allowed then tell ''450 4.7.1 too many messages, please slow down'' (Again envelope)
     else tell ''250 2.1.0 Ok'' (Again (envelope\<lparr>me_mail_from := Some sender, me_recipients := []\<rparr>))))"

definition reinject :: "mail_envelope \<Rightarrow> string \<Rightarrow> flow session_op" where
  "reinject envelope raw = with_down (\<lambda>s.
     case on_down (deliver envelope raw) s of
       (Inr reply, s) \<Rightarrow> then_do (on_up (send_raw (r_raw reply))) (\<lambda>_. give (Again empty_envelope)) s
     | (Inl k, s) \<Rightarrow> if is_disconnect k then (Inl k, s)
         else tell ''451 4.3.0 the queue would not take the message'' (Again empty_envelope) s)"

definition handle_message ::
  "(string \<Rightarrow> parsed_mail option) \<Rightarrow> filter_mode \<Rightarrow> mail_envelope \<Rightarrow> string \<Rightarrow> flow session_op" where
  "handle_message parse_mail mode envelope raw = (case inspect parse_mail mode raw (sender_of envelope) of
     Refuse reply \<Rightarrow>
       then_do (on_up (send_line reply)) (\<lambda>_.
       then_do close_downstream (\<lambda>_. give (Again empty_envelope)))
   | Accept strip_sender \<Rightarrow>
       reinject (if strip_sender then envelope\<lparr>me_mail_from := Some []\<rparr> else envelope) raw)"

definition handle_data :: "(string \<Rightarrow> parsed_mail option) \<Rightarrow> filter_mode \<Rightarrow> mail_envelope \<Rightarrow> flow session_op" where
  "handle_data parse_mail mode envelope =
    (if me_mail_from envelope = None \<or> me_recipients envelope = []
     then tell ''503 5.5.1 need MAIL and RCPT before DATA'' (Again envelope)
     else
       then_do (on_up (send_line ''354 End data with <CR><LF>.<CR><LF>'')) (\<lambda>_.
       then_do (on_up wire_message) (\<lambda>body. case body of
         Eof \<Rightarrow> give Return
       | TooLarge \<Rightarrow> tell ''552 5.3.4 message exceeds the filter's size limit'' (Again empty_envelope)
       | Message raw \<Rightarrow> handle_message parse_mail mode envelope raw)))"

definition handle_verb ::
  "(string \<Rightarrow> parsed_mail option) \<Rightarrow> filter_mode \<Rightarrow> mail_envelope \<Rightarrow> string \<Rightarrow> string \<Rightarrow> flow session_op" where
  "handle_verb parse_mail mode envelope verb text =
    (if verb = ''EHLO'' \<or> verb = ''HELO'' then
       relay_command text (\<lambda>reply. if r_code reply \<noteq> 250 then r_raw reply else announce reply) envelope
     else if verb = ''XFORWARD'' then
       tell ''250 2.0.0 Ok'' (Again (envelope\<lparr>me_xforward := me_xforward envelope @ [text]\<rparr>))
     else if verb = ''MAIL'' then handle_mail mode text envelope
     else if verb = ''RCPT'' then
       (if me_mail_from envelope = None then tell ''503 5.5.1 need MAIL before RCPT'' (Again envelope)
        else tell ''250 2.1.5 Ok'' (Again (envelope\<lparr>me_recipients := me_recipients envelope @ [address_of_command text]\<rparr>)))
     else if verb = ''DATA'' then handle_data parse_mail mode envelope
     else if verb = ''RSET'' then tell ''250 2.0.0 Ok'' (Again empty_envelope)
     else if verb = ''QUIT'' then
       then_do close_downstream (\<lambda>_ s. (Inr Return, snd (on_up (send_line ''221 2.0.0 Bye'') s)))
     else relay_command text r_raw envelope)"

definition verb_of :: "string \<Rightarrow> string" where
  "verb_of text = to_ascii_uppercase (first_word text)"

definition handle_text ::
  "(string \<Rightarrow> parsed_mail option) \<Rightarrow> filter_mode \<Rightarrow> mail_envelope \<Rightarrow> string \<Rightarrow> flow session_op" where
  "handle_text parse_mail mode envelope text = handle_verb parse_mail mode envelope (verb_of text) text"

fun handle_line ::
  "(string \<Rightarrow> parsed_mail option) \<Rightarrow> filter_mode \<Rightarrow> mail_envelope \<Rightarrow> string option \<Rightarrow> flow session_op" where
  "handle_line parse_mail mode envelope None = give Return"
| "handle_line parse_mail mode envelope (Some line) =
    handle_text parse_mail mode envelope (from_utf8_lossy (trim_eol line))"

definition converse_step ::
  "(string \<Rightarrow> parsed_mail option) \<Rightarrow> filter_mode \<Rightarrow> mail_envelope \<Rightarrow> flow session_op" where
  "converse_step parse_mail mode envelope = then_do (on_up wire_line) (handle_line parse_mail mode envelope)"

text \<open>The loop may not end, as far as this definition tells.\<close>

partial_function (option) converse ::
  "(string \<Rightarrow> parsed_mail option) \<Rightarrow> filter_mode \<Rightarrow> mail_envelope \<Rightarrow> session \<Rightarrow> (unit io_result \<times> session) option" where
  "converse parse_mail mode envelope s = (case converse_step parse_mail mode envelope s of
     (Inl k, s) \<Rightarrow> Some (Inl k, s)
   | (Inr Return, s) \<Rightarrow> Some (Inr (), s)
   | (Inr (Again envelope), s) \<Rightarrow> converse parse_mail mode envelope s)"

text \<open>A session, given the client, the connection to the queue if there is one, and the limiter.\<close>

definition open_session :: "wire \<Rightarrow> wire \<Rightarrow> rate_limiter \<Rightarrow> (nat \<Rightarrow> nat) \<Rightarrow> session" where
  "open_session up down l clock = \<lparr>ss_up = up, ss_down = Some down, ss_closed = None, ss_limiter = l, ss_clock = clock\<rparr>"

definition serve ::
  "(string \<Rightarrow> parsed_mail option) \<Rightarrow> filter_mode \<Rightarrow> wire \<Rightarrow> wire option \<Rightarrow> rate_limiter \<Rightarrow> (nat \<Rightarrow> nat) \<Rightarrow> session option" where
  "serve parse_mail mode up connection l clock = (case connection of
     None \<Rightarrow> Some \<lparr>ss_up = snd (send_line ''421 4.3.2 the filter cannot reach the queue'' up), ss_down = None,
       ss_closed = None, ss_limiter = l, ss_clock = clock\<rparr>
   | Some down \<Rightarrow> (case on_down wire_reply (open_session up down l clock) of (greeting, s) \<Rightarrow>
       if \<not> (case greeting of Inl _ \<Rightarrow> False | Inr r \<Rightarrow> r_code r = 220)
       then Some (snd (on_up (send_line ''421 4.3.2 the queue did not answer'') s))
       else (case on_up (send_line ''220 noombat-filtermail ready'') s of
           (Inl _, s) \<Rightarrow> Some s
         | (Inr _, s) \<Rightarrow> (case converse parse_mail mode empty_envelope s of
               None \<Rightarrow> None
             | Some (_, s) \<Rightarrow> Some (if ss_down s = None then s else snd (on_down (send_line ''QUIT'') s))))))"

section \<open>The listeners\<close>

definition MAX_SESSIONS :: nat where "MAX_SESSIONS = 256"

text \<open>
  Two threads accept connections and share a counter.  A thread first reads the counter and, when
  it is below the limit, adds one and starts a session in a third step; a session that ends takes
  one away.  The two readings may both happen before either addition.
\<close>

datatype acceptor = Waiting | Admitting | Spawning

record listeners =
  ls_live :: nat
  ls_outgoing :: acceptor
  ls_incoming :: acceptor
  ls_sessions :: nat

definition set_acceptor :: "filter_mode \<Rightarrow> acceptor \<Rightarrow> listeners \<Rightarrow> listeners" where
  "set_acceptor m a l = (case m of Outgoing \<Rightarrow> l\<lparr>ls_outgoing := a\<rparr> | Incoming \<Rightarrow> l\<lparr>ls_incoming := a\<rparr>)"

definition acceptor_of :: "filter_mode \<Rightarrow> listeners \<Rightarrow> acceptor" where
  "acceptor_of m l = (case m of Outgoing \<Rightarrow> ls_outgoing l | Incoming \<Rightarrow> ls_incoming l)"

inductive accept_step :: "listeners \<Rightarrow> listeners \<Rightarrow> bool" where
  refused: "acceptor_of m l = Waiting \<Longrightarrow> MAX_SESSIONS \<le> ls_live l \<Longrightarrow> accept_step l l"
| admitted: "acceptor_of m l = Waiting \<Longrightarrow> ls_live l < MAX_SESSIONS \<Longrightarrow> accept_step l (set_acceptor m Admitting l)"
| counted: "acceptor_of m l = Admitting \<Longrightarrow>
    accept_step l (set_acceptor m Spawning (l\<lparr>ls_live := Suc (ls_live l)\<rparr>))"
| spawned: "acceptor_of m l = Spawning \<Longrightarrow>
    accept_step l (set_acceptor m Waiting (l\<lparr>ls_sessions := Suc (ls_sessions l)\<rparr>))"
| not_spawned: "acceptor_of m l = Spawning \<Longrightarrow>
    accept_step l (set_acceptor m Waiting (l\<lparr>ls_live := ls_live l - 1\<rparr>))"
| ended: "0 < ls_sessions l \<Longrightarrow> accept_step l (l\<lparr>ls_sessions := ls_sessions l - 1, ls_live := ls_live l - 1\<rparr>)"

definition idle :: listeners where
  "idle = \<lparr>ls_live = 0, ls_outgoing = Waiting, ls_incoming = Waiting, ls_sessions = 0\<rparr>"

end
