(* ===== verification/FilterSafety.thy ===== *)
theory FilterSafety
  imports FilterMail
begin

text \<open>
  What holds of the mail filter: what a session can write to the queue, that it ends, that what is
  delivered is what was inspected, and how many messages and sessions are let in.
\<close>

section \<open>What a write leaves\<close>

text \<open>An operation writes the bytes, or when it fails some of the first of them.\<close>

definition emits :: "'a wire_op \<Rightarrow> string \<Rightarrow> bool" where
  "emits m b \<longleftrightarrow> (\<forall>w. \<exists>p. prefix p b \<and> w_sent (snd (m w)) = w_sent w @ p \<and> (\<not> isl (fst (m w)) \<longrightarrow> p = b))"

named_theorems emits_intros

lemma emits_write [emits_intros]: "emits (write_all b) b"
  by (auto simp: emits_def write_all_def take_is_prefix split: list.splits option.splits prod.splits)

lemma emits_ret [emits_intros]: "emits (wire_ret x) []"
  by (auto simp: emits_def wire_ret_def)

lemma emits_then:
  assumes "emits m b" and "\<And>x. emits (k x) c" shows "emits (wire_then m k) (b @ c)"
  unfolding emits_def
proof
  fix w
  obtain p where p: "prefix p b" "w_sent (snd (m w)) = w_sent w @ p" "\<not> isl (fst (m w)) \<longrightarrow> p = b"
    using assms(1) unfolding emits_def by blast
  obtain r u where u: "m w = (r, u)" by fastforce
  show "\<exists>p. prefix p (b @ c) \<and> w_sent (snd (wire_then m k w)) = w_sent w @ p
      \<and> (\<not> isl (fst (wire_then m k w)) \<longrightarrow> p = b @ c)"
  proof (cases r)
    case (Inl e)
    then show ?thesis using p u by (auto simp: wire_then_def intro!: exI [of _ p] prefix_prefix)
  next
    case (Inr x)
    obtain q where q: "prefix q c" "w_sent (snd (k x u)) = w_sent u @ q" "\<not> isl (fst (k x u)) \<longrightarrow> q = c"
      using assms(2) unfolding emits_def by blast
    then show ?thesis
      using p u Inr by (auto simp: wire_then_def intro!: exI [of _ "b @ q"])
  qed
qed

lemma emits_each: "(\<And>x. emits (f x) (g x)) \<Longrightarrow> emits (wire_each f xs) (concat (map g xs))"
proof (induction xs)
  case Nil
  then show ?case by (simp add: emits_ret)
next
  case (Cons x xs)
  then show ?case by (simp add: emits_then)
qed

lemma emits_line [emits_intros]: "emits (send_line l) (l @ CRLF)"
  unfolding send_line_def by (intro emits_then emits_intros)

lemma emits_reply [emits_intros]: "emits wire_reply []"
  by (auto simp: emits_def wire_reply_def split: prod.splits)

lemma emits_expect [emits_intros]: "emits (expect_code c) []"
proof -
  have "emits (\<lambda>w. if r_code r \<noteq> c then (Inl OtherKind, w) else (Inr (), w)) []" for r
    by (auto simp: emits_def)
  then show ?thesis unfolding expect_code_def using emits_then [OF emits_reply] by fastforce
qed

definition stuffed_line :: "string \<Rightarrow> string" where
  "stuffed_line line = (if starts_with_dot line then ''.'' else []) @ line @ CRLF"

definition stuffed :: "string \<Rightarrow> string" where
  "stuffed message = concat (map (\<lambda>p. stuffed_line (trim_eol p)) (split_inclusive LF message)) @ ''.'' @ CRLF"

lemma emits_message [emits_intros]: "emits (send_message m) (stuffed m)"
proof -
  have "emits (if starts_with_dot l then write_all ''.'' else wire_ret ()) (if starts_with_dot l then ''.'' else [])" for l
    by (simp add: emits_intros)
  then have "emits (let line = trim_eol p in wire_then (if starts_with_dot line then write_all ''.'' else wire_ret ()) (\<lambda>_.
      wire_then (write_all line) (\<lambda>_. write_all CRLF))) (stuffed_line (trim_eol p))" for p
    unfolding stuffed_line_def Let_def by (intro emits_then emits_write)
  then show ?thesis
    unfolding send_message_def stuffed_def by (intro emits_then emits_write emits_each)
qed

text \<open>The bytes of a delivery that goes through.\<close>

definition delivery_bytes :: "mail_envelope \<Rightarrow> string \<Rightarrow> string" where
  "delivery_bytes e raw =
     concat (map (\<lambda>c. c @ CRLF) (me_xforward e)) @ (''MAIL FROM:<'' @ sender_of e @ ''>'') @ CRLF
     @ concat (map (\<lambda>r. (''RCPT TO:<'' @ r @ ''>'') @ CRLF) (me_recipients e)) @ ''DATA'' @ CRLF @ stuffed raw"

lemma emits_deliver: "emits (deliver e raw) (delivery_bytes e raw)"
proof -
  have pair: "emits (wire_then (send_line l) (\<lambda>_. expect_code n)) (l @ CRLF)" for l n
    using emits_then [OF emits_line emits_expect] by simp
  have "emits (deliver e raw) (concat (map (\<lambda>c. c @ CRLF) (me_xforward e)) @ ((''MAIL FROM:<'' @ sender_of e @ ''>'') @ CRLF)
      @ [] @ concat (map (\<lambda>r. (''RCPT TO:<'' @ r @ ''>'') @ CRLF) (me_recipients e)) @ (''DATA'' @ CRLF) @ [] @ stuffed raw @ [])"
    unfolding deliver_def by (intro pair emits_each emits_line emits_expect emits_message emits_reply emits_then)
  then show ?thesis by (simp add: delivery_bytes_def)
qed

text \<open>Without faults all of it is written and nothing else changes.\<close>

definition writes :: "unit wire_op \<Rightarrow> string \<Rightarrow> bool" where
  "writes m b \<longleftrightarrow> (\<forall>w. w_faults w = [] \<longrightarrow> m w = (Inr (), w\<lparr>w_sent := w_sent w @ b\<rparr>))"

lemma writes_all: "writes (write_all b) b"
  by (simp add: writes_def write_all_def)

lemma writes_ret: "writes (wire_ret ()) []"
  by (simp add: writes_def wire_ret_def)

lemma writes_then: "writes m b \<Longrightarrow> writes k c \<Longrightarrow> writes (wire_then m (\<lambda>_. k)) (b @ c)"
  by (simp add: writes_def wire_then_def)

lemma writes_each: "(\<And>x. writes (f x) (g x)) \<Longrightarrow> writes (wire_each f xs) (concat (map g xs))"
  by (induction xs) (simp_all add: writes_ret writes_then)

lemma faultless_message: "w_faults w = [] \<Longrightarrow> send_message m w = (Inr (), w\<lparr>w_sent := w_sent w @ stuffed m\<rparr>)"
proof -
  have "writes (if starts_with_dot l then write_all ''.'' else wire_ret ()) (if starts_with_dot l then ''.'' else [])" for l
    by (simp add: writes_all writes_ret)
  then have "writes (let line = trim_eol p in wire_then (if starts_with_dot line then write_all ''.'' else wire_ret ()) (\<lambda>_.
      wire_then (write_all line) (\<lambda>_. write_all CRLF))) (stuffed_line (trim_eol p))" for p
    unfolding stuffed_line_def Let_def by (intro writes_then writes_all)
  then have "writes (send_message m) (stuffed m)"
    unfolding send_message_def stuffed_def by (intro writes_then writes_all writes_each)
  then show "w_faults w = [] \<Longrightarrow> ?thesis" by (simp add: writes_def)
qed

section \<open>What may reach the queue\<close>

definition envelope_ok :: "mail_envelope \<Rightarrow> bool" where
  "envelope_ok e \<longleftrightarrow> (\<forall>c\<in>set (me_xforward e). LF \<notin> set c) \<and> LF \<notin> set (sender_of e) \<and> (\<forall>r\<in>set (me_recipients e). LF \<notin> set r)"

text \<open>The verbs that are answered here and never passed on as they are.\<close>

definition held_verbs :: "string list" where
  "held_verbs = [''XFORWARD'', ''MAIL'', ''RCPT'', ''DATA'', ''RSET'', ''QUIT'']"

inductive queue_traffic :: "(string \<Rightarrow> parsed_mail option) \<Rightarrow> string \<Rightarrow> bool" for parse_mail where
  nothing: "queue_traffic parse_mail []"
| command: "queue_traffic parse_mail t \<Longrightarrow> LF \<notin> set text \<Longrightarrow> verb_of text \<notin> set held_verbs \<Longrightarrow> prefix p (text @ CRLF) \<Longrightarrow>
    queue_traffic parse_mail (t @ p)"
| delivery: "queue_traffic parse_mail t \<Longrightarrow> parse_mail raw = Some m \<Longrightarrow> is_encrypted_part m \<Longrightarrow> envelope_ok e \<Longrightarrow>
    prefix p (delivery_bytes e raw) \<Longrightarrow> queue_traffic parse_mail (t @ p)"
| farewell: "queue_traffic parse_mail t \<Longrightarrow> prefix p (''QUIT'' @ CRLF) \<Longrightarrow> queue_traffic parse_mail (t @ p)"

section \<open>The contract of the operations of a session\<close>

text \<open>From a state where \<open>I\<close> holds, it holds afterwards, and a result satisfies \<open>Q\<close>.\<close>

definition session_spec :: "(session \<Rightarrow> bool) \<Rightarrow> 'a session_op \<Rightarrow> ('a \<Rightarrow> bool) \<Rightarrow> bool" where
  "session_spec I m Q \<longleftrightarrow> (\<forall>s. I s \<longrightarrow> I (snd (m s)) \<and> (case fst (m s) of Inl _ \<Rightarrow> True | Inr x \<Rightarrow> Q x))"

lemma spec_give: "Q x \<Longrightarrow> session_spec I (give x) Q"
  by (simp add: session_spec_def give_def)

lemma spec_then:
  assumes "session_spec I m P" and "\<And>x. P x \<Longrightarrow> session_spec I (k x) Q" shows "session_spec I (then_do m k) Q"
  using assms by (fastforce simp: session_spec_def then_do_def split: sum.splits prod.splits)

lemma spec_weaken: "session_spec I m P \<Longrightarrow> (\<And>x. P x \<Longrightarrow> Q x) \<Longrightarrow> session_spec I m Q"
  by (auto simp: session_spec_def split: sum.splits)

fun flow_ok :: "flow \<Rightarrow> bool" where
  "flow_ok Return = True"
| "flow_ok (Again e) = envelope_ok e"

lemma empty_envelope_ok [simp]: "envelope_ok empty_envelope"
  by (simp add: envelope_ok_def empty_envelope_def sender_of_def)

lemma between_angles_subset: "between_angles s = Some a \<Longrightarrow> set a \<subseteq> set s"
  by (auto simp: between_angles_def split: option.splits if_splits dest!: in_set_takeD in_set_dropD)

lemma set_trim_start: "set (trim_start s) \<subseteq> set s"
proof (induction s rule: trim_start.induct)
  case (1 s)
  then show ?case by (subst trim_start.simps) (auto dest: in_set_dropD)
qed

lemma set_trim_end: "set (trim_end s) \<subseteq> set s"
proof (induction s rule: trim_end.induct)
  case (1 s)
  then show ?case by (subst trim_end.simps) (auto dest: in_set_takeD)
qed

lemma set_trim: "set (trim s) \<subseteq> set s"
  using set_trim_start [of s] set_trim_end [of "trim_start s"] by (auto simp: trim_def)

lemma address_of_command_subset: "set (address_of_command c) \<subseteq> set c"
proof (cases "between_angles c")
  case None
  show ?thesis
  proof (cases "split_once (CHR '':'') c")
    case Some: (Some p)
    obtain a b where p: "p = (a, b)" by fastforce
    with Some have "set b \<subseteq> set c" by (auto simp: split_once_Some_iff)
    then show ?thesis using None Some p set_trim [of b] by (auto simp: address_of_command_def)
  qed (simp add: None address_of_command_def)
qed (use between_angles_subset in \<open>simp add: address_of_command_def\<close>)

lemma set_lossy: "set (from_utf8_lossy s) \<subseteq> set s \<union> set replacement_char"
proof (induction s rule: from_utf8_lossy.induct)
  case (1 s)
  then show ?case by (subst from_utf8_lossy.simps) (auto dest: in_set_takeD in_set_dropD)
qed

locale session_invariant =
  fixes I :: "session \<Rightarrow> bool" and parse_mail :: "string \<Rightarrow> parsed_mail option"
  assumes answering: "session_spec I (on_up (write_all b)) (\<lambda>_. True)"
    and reading: "session_spec I (on_up wire_message) (\<lambda>_. True)"
    and metering: "session_spec I (may_send key) (\<lambda>_. True)"
    and hearing: "session_spec I (on_down wire_reply) (\<lambda>_. True)"
    and passing: "LF \<notin> set text \<Longrightarrow> verb_of text \<notin> set held_verbs \<Longrightarrow> session_spec I (on_down (send_line text)) (\<lambda>_. True)"
    and delivering: "parse_mail raw = Some m \<Longrightarrow> is_encrypted_part m \<Longrightarrow> envelope_ok e \<Longrightarrow>
      session_spec I (on_down (deliver e raw)) (\<lambda>_. True)"
    and closing: "session_spec I close_downstream (\<lambda>_. True)"
begin

lemma saying: "session_spec I (on_up (send_line l)) (\<lambda>_. True)"
proof -
  have "on_up (send_line l) = then_do (on_up (write_all l)) (\<lambda>_. on_up (write_all CRLF))"
    by (rule ext) (auto simp: on_up_def then_do_def send_line_def wire_then_def split: prod.split sum.split)
  then show ?thesis by (simp add: spec_then [OF answering answering])
qed

lemma telling: "flow_ok f \<Longrightarrow> session_spec I (tell l f) flow_ok"
  unfolding tell_def by (rule spec_then [OF saying]) (rule spec_give)

lemma guarding: "session_spec I m flow_ok \<Longrightarrow> session_spec I (with_down m) flow_ok"
  using telling [of Return] by (auto simp: session_spec_def with_down_def)

lemma relaying:
  assumes "LF \<notin> set text" "verb_of text \<notin> set held_verbs" "envelope_ok e"
  shows "session_spec I (relay_command text f e) flow_ok"
  unfolding relay_command_def send_raw_def
  by (intro guarding spec_then [OF passing [OF assms(1,2)]] spec_then [OF hearing] spec_then [OF answering] spec_give)
    (simp add: assms(3))

lemma mailing:
  assumes "LF \<notin> set text" "envelope_ok e" shows "session_spec I (handle_mail mode text e) flow_ok"
proof -
  have "envelope_ok (e\<lparr>me_mail_from := Some (address_of_command text), me_recipients := []\<rparr>)"
    using assms address_of_command_subset [of "text"]
    by (auto simp: envelope_ok_def sender_of_def)
  then show ?thesis
    unfolding handle_mail_def Let_def using assms(2)
    by (intro spec_then [where P = "\<lambda>_. True"]) (auto intro: metering spec_give telling)
qed

lemma reinjecting:
  assumes "parse_mail raw = Some m" "is_encrypted_part m" "envelope_ok e" shows "session_spec I (reinject e raw) flow_ok"
proof -
  have d: "I s \<Longrightarrow> I (snd (on_down (deliver e raw) s))" for s
    using delivering [OF assms] by (simp add: session_spec_def)
  have ok: "session_spec I (then_do (on_up (send_raw b)) (\<lambda>_. give (Again empty_envelope))) flow_ok" for b
    unfolding send_raw_def by (rule spec_then [OF answering]) (simp add: spec_give)
  have no: "session_spec I (tell l (Again empty_envelope)) flow_ok" for l by (rule telling) simp
  show ?thesis
    unfolding reinject_def
  proof (rule guarding)
    show "session_spec I (\<lambda>s. case on_down (deliver e raw) s of
       (Inr reply, s) \<Rightarrow> then_do (on_up (send_raw (r_raw reply))) (\<lambda>_. give (Again empty_envelope)) s
     | (Inl k, s) \<Rightarrow> if is_disconnect k then (Inl k, s)
         else tell ''451 4.3.0 the queue would not take the message'' (Again empty_envelope) s) flow_ok"
      unfolding session_spec_def
    proof (intro allI impI)
      fix s assume "I s"
      then have "I (snd (on_down (deliver e raw) s))" by (rule d)
      then show "I (snd (case on_down (deliver e raw) s of
         (Inr reply, s) \<Rightarrow> then_do (on_up (send_raw (r_raw reply))) (\<lambda>_. give (Again empty_envelope)) s
       | (Inl k, s) \<Rightarrow> if is_disconnect k then (Inl k, s)
           else tell ''451 4.3.0 the queue would not take the message'' (Again empty_envelope) s)) \<and>
        (case fst (case on_down (deliver e raw) s of
         (Inr reply, s) \<Rightarrow> then_do (on_up (send_raw (r_raw reply))) (\<lambda>_. give (Again empty_envelope)) s
       | (Inl k, s) \<Rightarrow> if is_disconnect k then (Inl k, s)
           else tell ''451 4.3.0 the queue would not take the message'' (Again empty_envelope) s) of Inl _ \<Rightarrow> True | Inr x \<Rightarrow> flow_ok x)"
        using ok no unfolding session_spec_def by (cases "on_down (deliver e raw) s"; cases "fst (on_down (deliver e raw) s)") auto
    qed
  qed
qed

lemma inspecting:
  assumes "envelope_ok e" shows "session_spec I (handle_message parse_mail mode e raw) flow_ok"
proof (cases "inspect parse_mail mode raw (sender_of e)")
  case (Refuse r)
  then show ?thesis
    unfolding handle_message_def verdict.case
    by (auto intro!: spec_then [OF saying] spec_then [OF closing] spec_give)
next
  case (Accept b)
  then obtain m where "parse_mail raw = Some m" "is_encrypted_part m"
    by (auto simp: inspect_def split: option.splits if_splits)
  moreover have "envelope_ok (if b then e\<lparr>me_mail_from := Some []\<rparr> else e)"
    using assms by (simp add: envelope_ok_def sender_of_def)
  ultimately show ?thesis
    using Accept unfolding handle_message_def by (simp add: reinjecting)
qed

lemma receiving:
  assumes "envelope_ok e" shows "session_spec I (handle_data parse_mail mode e) flow_ok"
proof (cases "me_mail_from e = None \<or> me_recipients e = []")
  case True
  then show ?thesis unfolding handle_data_def using telling [of "Again e"] assms by simp
next
  case False
  have "session_spec I (case b of Eof \<Rightarrow> give Return
       | TooLarge \<Rightarrow> tell ''552 5.3.4 message exceeds the filter's size limit'' (Again empty_envelope)
       | Message raw \<Rightarrow> handle_message parse_mail mode e raw) flow_ok" for b
    by (cases b) (simp_all add: spec_give telling inspecting [OF assms])
  then show ?thesis
    unfolding handle_data_def if_not_P [OF False] by (intro spec_then [OF saying] spec_then [OF reading])
qed

lemma leaving: "session_spec I (then_do close_downstream (\<lambda>_ s. (Inr Return, snd (on_up (send_line l) s)))) flow_ok"
proof (rule spec_then [OF closing])
  show "session_spec I (\<lambda>s. (Inr Return, snd (on_up (send_line l) s))) flow_ok"
    using saying [of l] by (simp add: session_spec_def)
qed

lemma handling:
  assumes "LF \<notin> set text" "envelope_ok e"
  shows "session_spec I (handle_verb parse_mail mode e (verb_of text) text) flow_ok"
proof -
  let ?v = "verb_of text"
  have e: "envelope_ok (e\<lparr>me_xforward := me_xforward e @ [text]\<rparr>)"
    "envelope_ok (e\<lparr>me_recipients := me_recipients e @ [address_of_command text]\<rparr>)"
    using assms address_of_command_subset [of "text"] by (auto simp: envelope_ok_def sender_of_def)
  consider (held) "?v \<in> set held_verbs" | (passed) "?v \<notin> set held_verbs" by blast
  then show ?thesis
  proof cases
    case held
    then show ?thesis
      using telling [of "Again e"] telling [OF flow_ok.simps(2) [THEN iffD2, OF e(1)]]
        telling [OF flow_ok.simps(2) [THEN iffD2, OF e(2)]] telling [of "Again empty_envelope"]
        mailing [OF assms] receiving [OF assms(2)] leaving assms(2)
      by (auto simp: handle_verb_def held_verbs_def)
  next
    case passed
    then show ?thesis
      using relaying [OF assms(1) passed assms(2)] unfolding handle_verb_def held_verbs_def by simp
  qed
qed

end

section \<open>The queue sees only encrypted mail\<close>

definition queue_bytes :: "session \<Rightarrow> string" where
  "queue_bytes s = (case ss_down s of Some d \<Rightarrow> w_sent d
     | None \<Rightarrow> (case ss_closed s of Some d \<Rightarrow> w_sent d | None \<Rightarrow> []))"

definition clean_queue :: "(string \<Rightarrow> parsed_mail option) \<Rightarrow> session \<Rightarrow> bool" where
  "clean_queue parse_mail s = queue_traffic parse_mail (queue_bytes s)"

lemma queue_bytes_up [simp]: "queue_bytes (s\<lparr>ss_up := w\<rparr>) = queue_bytes s"
  "queue_bytes (s\<lparr>ss_limiter := l, ss_clock := c\<rparr>) = queue_bytes s"
  by (simp_all add: queue_bytes_def split: option.split)

lemma on_up_bytes: "queue_bytes (snd (on_up m s)) = queue_bytes s"
  by (simp add: on_up_def split: prod.split)

lemma on_down_bytes:
  assumes "emits m b" shows "\<exists>p. prefix p b \<and> queue_bytes (snd (on_down m s)) = queue_bytes s @ p"
proof (cases "ss_down s")
  case None
  then show ?thesis by (intro exI [of _ "[]"]) (simp add: on_down_def)
next
  case (Some d)
  obtain p where "prefix p b" "w_sent (snd (m d)) = w_sent d @ p" using assms unfolding emits_def by blast
  then show ?thesis
    using Some by (intro exI [of _ p]) (auto simp: on_down_def queue_bytes_def split: prod.split)
qed

lemma spec_down:
  assumes "emits m b" and "\<And>s p. queue_traffic pm s \<Longrightarrow> prefix p b \<Longrightarrow> queue_traffic pm (s @ p)"
  shows "session_spec (clean_queue pm) (on_down m) (\<lambda>_. True)"
proof -
  have "clean_queue pm (snd (on_down m s))" if "clean_queue pm s" for s
    using on_down_bytes [OF assms(1), of s] assms(2) that by (auto simp: clean_queue_def)
  then show ?thesis by (simp add: session_spec_def split: sum.split)
qed

interpretation clean: session_invariant "clean_queue pm" pm for pm
proof
  show "session_spec (clean_queue pm) (on_up (write_all b)) (\<lambda>_. True)" for b
    by (simp add: session_spec_def clean_queue_def on_up_bytes split: sum.split)
  show "session_spec (clean_queue pm) (on_up wire_message) (\<lambda>_. True)"
    by (simp add: session_spec_def clean_queue_def on_up_bytes split: sum.split)
  show "session_spec (clean_queue pm) (may_send key) (\<lambda>_. True)" for key
    by (simp add: session_spec_def clean_queue_def may_send_def split: sum.split prod.split)
  show "session_spec (clean_queue pm) (on_down wire_reply) (\<lambda>_. True)"
    by (rule spec_down [OF emits_reply]) simp
  show "session_spec (clean_queue pm) (on_down (send_line text)) (\<lambda>_. True)"
    if "LF \<notin> set text" "verb_of text \<notin> set held_verbs" for "text"
    using that by (intro spec_down [OF emits_line] queue_traffic.command)
  show "session_spec (clean_queue pm) (on_down (deliver e raw)) (\<lambda>_. True)"
    if "pm raw = Some m" "is_encrypted_part m" "envelope_ok e" for raw m e
    using that by (intro spec_down [OF emits_deliver] queue_traffic.delivery)
  show "session_spec (clean_queue pm) close_downstream (\<lambda>_. True)"
    unfolding session_spec_def
  proof (intro allI impI conjI)
    fix s assume s: "clean_queue pm s"
    show "clean_queue pm (snd (close_downstream s))"
    proof (cases "ss_down s")
      case None
      then show ?thesis using s by (simp add: close_downstream_def)
    next
      case (Some d)
      obtain p where p: "prefix p (''QUIT'' @ CRLF)" "w_sent (snd (send_line ''QUIT'' d)) = w_sent d @ p"
        using emits_line [of "''QUIT''"] unfolding emits_def by blast
      have "queue_traffic pm (w_sent d)" using s Some by (simp add: clean_queue_def queue_bytes_def)
      then show ?thesis
        using Some p queue_traffic.farewell [OF _ p(1)] by (simp add: close_downstream_def clean_queue_def queue_bytes_def)
    qed
  qed (simp split: sum.split)
qed

text \<open>The bound on what is left to read.\<close>

definition input_below :: "nat \<Rightarrow> session \<Rightarrow> bool" where
  "input_below n s \<longleftrightarrow> input_size (w_in (ss_up s)) < n"

lemma spec_below:
  assumes "\<And>s. input_size (w_in (ss_up (snd (m s)))) \<le> input_size (w_in (ss_up s))"
  shows "session_spec (input_below n) m (\<lambda>_. True)"
  using assms by (fastforce simp: session_spec_def input_below_def intro: le_less_trans split: sum.split)

lemma write_all_in: "w_in (snd (write_all b w)) = w_in w"
  by (simp add: write_all_def split: list.splits option.splits prod.splits)

lemma on_down_up: "ss_up (snd (on_down m s)) = ss_up s"
  by (simp add: on_down_def split: option.split prod.split)

interpretation bounded: session_invariant "input_below n" pm for n pm
proof
  show "session_spec (input_below n) (on_up (write_all b)) (\<lambda>_. True)" for b
    by (rule spec_below) (use write_all_in in \<open>simp add: on_up_def split: prod.split\<close>, metis order_refl snd_conv)
  show "session_spec (input_below n) (on_up wire_message) (\<lambda>_. True)"
    by (rule spec_below) (auto simp: on_up_def wire_message_def split: prod.split dest: read_message_le)
  show "session_spec (input_below n) (may_send key) (\<lambda>_. True)" for key
    by (rule spec_below) (simp add: may_send_def split: prod.split)
  show "session_spec (input_below n) close_downstream (\<lambda>_. True)"
    by (rule spec_below) (simp add: close_downstream_def split: option.split)
qed (rule spec_below, simp add: on_down_up)+

section \<open>One round of the loop\<close>

lemma read_line_capped_LF:
  "read_line_capped cap out r = (Inr l, r') \<Longrightarrow> LF \<notin> set out \<Longrightarrow> \<exists>a. LF \<notin> set a \<and> (l = a \<or> l = a @ [LF])"
proof (induction cap out r rule: read_line_capped.induct)
  case (4 cap out a r)
  show ?case
  proof (cases "a = []")
    case True
    then show ?thesis using 4(2,3) by auto
  next
    case False
    show ?thesis
    proof (cases "find_byte LF a")
      case None
      moreover from this have "LF \<notin> set a" by (simp add: find_byte_None)
      ultimately show ?thesis using 4 False by (auto split: if_splits)
    next
      case (Some i)
      have "l = out @ take (Suc i) a" using 4(2) False Some by simp
      moreover have "take (Suc i) a = take i a @ [LF]" "LF \<notin> set (take i a)"
        using find_byte_Some [OF Some] find_byte_lt [OF Some]
        by (metis append_Cons append_Nil length_take less_imp_le_nat min.absorb2 take_Suc_conv_app_nth nth_append_length, simp)
      ultimately show ?thesis using 4(3) by (intro exI [of _ "out @ take i a"]) simp
    qed
  qed
qed auto

lemma trim_eol_rev_set: "set (trim_eol_rev s) \<subseteq> set s"
  by (induction s) auto

lemma trim_eol_snoc_LF: "trim_eol (a @ [LF]) = trim_eol a"
  by (simp add: trim_eol_def)

lemma trim_eol_line: "LF \<notin> set a \<Longrightarrow> l = a \<or> l = a @ [LF] \<Longrightarrow> LF \<notin> set (trim_eol l)"
  using trim_eol_rev_set [of "rev a"] by (auto simp: trim_eol_snoc_LF) (auto simp: trim_eol_def)

lemma command_text:
  assumes "wire_line w = (Inr (Some l), w')"
  shows "LF \<notin> set (from_utf8_lossy (trim_eol l))" and "input_size (w_in w') < input_size (w_in w)"
proof -
  obtain r where r: "read_line_capped MAX_LINE_BYTES [] (w_in w) = (Inr l, r)" "l \<noteq> []" "w_in w' = r"
    using assms by (auto simp: wire_line_def split: prod.splits sum.splits if_splits)
  obtain a where "LF \<notin> set a" "l = a \<or> l = a @ [LF]" using read_line_capped_LF [OF r(1)] by auto
  then have "LF \<notin> set (trim_eol l)" by (rule trim_eol_line)
  then show "LF \<notin> set (from_utf8_lossy (trim_eol l))"
    using set_lossy [of "trim_eol l"] by (auto simp: replacement_char_def)
  show "input_size (w_in w') < input_size (w_in w)" using read_line_shrinks [OF r(1,2)] r(3) by simp
qed

text \<open>A round either ends the session without a command or handles one, with less left to read.\<close>

lemma converse_step_cases:
  obtains (ended) "fst (converse_step pm mode e s) = Inr Return" "ss_down (snd (converse_step pm mode e s)) = ss_down s"
      "queue_bytes (snd (converse_step pm mode e s)) = queue_bytes s"
  | (failed) k where "fst (converse_step pm mode e s) = Inl k" "queue_bytes (snd (converse_step pm mode e s)) = queue_bytes s"
  | (handled) t u where "converse_step pm mode e s = handle_verb pm mode e (verb_of t) t u" "LF \<notin> set t"
      "input_size (w_in (ss_up u)) < input_size (w_in (ss_up s))" "queue_bytes u = queue_bytes s"
proof -
  obtain x w where w: "wire_line (ss_up s) = (x, w)" by fastforce
  consider k where "x = Inl k" | "x = Inr None" | l where "x = Inr (Some l)" by (cases x; cases "projr x") auto
  then show thesis
  proof cases
    case 1
    then show ?thesis using w by (intro failed) (simp_all add: converse_step_def then_do_def on_up_def)
  next
    case 2
    then show ?thesis using w by (intro ended) (simp_all add: converse_step_def then_do_def on_up_def give_def)
  next
    case (3 l)
    note l = command_text [OF w [unfolded 3]]
    have "converse_step pm mode e s
        = handle_verb pm mode e (verb_of (from_utf8_lossy (trim_eol l))) (from_utf8_lossy (trim_eol l)) (s\<lparr>ss_up := w\<rparr>)"
      using w 3 by (simp add: converse_step_def then_do_def on_up_def handle_text_def)
    then show ?thesis by (rule handled) (use l in simp_all)
  qed
qed

lemma converse_step_spec:
  assumes "envelope_ok e"
  shows "clean_queue pm s \<Longrightarrow> clean_queue pm (snd (converse_step pm mode e s))"
    and "fst (converse_step pm mode e s) = Inr f \<Longrightarrow> flow_ok f"
    and "fst (converse_step pm mode e s) = Inr (Again e') \<Longrightarrow>
      input_size (w_in (ss_up (snd (converse_step pm mode e s)))) < input_size (w_in (ss_up s))"
proof (atomize (full), cases rule: converse_step_cases [of pm mode e s])
  case (handled t u)
  then show "(clean_queue pm s \<longrightarrow> clean_queue pm (snd (converse_step pm mode e s)))
    \<and> (fst (converse_step pm mode e s) = Inr f \<longrightarrow> flow_ok f)
    \<and> (fst (converse_step pm mode e s) = Inr (Again e') \<longrightarrow>
      input_size (w_in (ss_up (snd (converse_step pm mode e s)))) < input_size (w_in (ss_up s)))"
    using clean.handling [OF handled(2) assms, of pm mode, unfolded session_spec_def, rule_format, of u]
      bounded.handling [OF handled(2) assms, of "input_size (w_in (ss_up s))" pm mode, unfolded session_spec_def,
        rule_format, of u]
    by (auto simp: clean_queue_def input_below_def)
qed (auto simp: clean_queue_def)

lemma converse_result:
  "envelope_ok e \<Longrightarrow> \<exists>x t. converse pm mode e s = Some (x, t) \<and> (clean_queue pm s \<longrightarrow> clean_queue pm t)"
proof (induction "input_size (w_in (ss_up s))" arbitrary: s e rule: less_induct)
  case less
  obtain f t where f: "converse_step pm mode e s = (f, t)" by fastforce
  note spec = converse_step_spec [OF less(2), where pm = pm and mode = mode and s = s, unfolded f fst_conv snd_conv]
  show ?case
  proof (cases f)
    case (Inl k)
    then show ?thesis using f spec(1) by (subst converse.simps) simp
  next
    case (Inr x)
    show ?thesis
    proof (cases x)
      case Return
      then show ?thesis using f spec(1) Inr by (subst converse.simps) simp
    next
      case (Again e')
      have "\<exists>x u. converse pm mode e' t = Some (x, u) \<and> (clean_queue pm t \<longrightarrow> clean_queue pm u)"
        using spec(2) [of x] spec(3) [of e'] Inr Again by (intro less(1)) simp_all
      then show ?thesis using f spec(1) Inr Again by (subst converse.simps) auto
    qed
  qed
qed

text \<open>A whole session.\<close>

lemma serve_result:
  "\<exists>t. serve pm mode up connection l clock = Some t \<and>
    ((\<forall>d. connection = Some d \<longrightarrow> w_sent d = []) \<longrightarrow> clean_queue pm t)"
proof (cases connection)
  case None
  then show ?thesis by (simp add: serve_def clean_queue_def queue_bytes_def queue_traffic.nothing)
next
  case (Some d)
  obtain g s where g: "on_down wire_reply (open_session up d l clock) = (g, s)" by fastforce
  have "w_sent d = [] \<Longrightarrow> clean_queue pm (open_session up d l clock)"
    by (simp add: clean_queue_def queue_bytes_def open_session_def queue_traffic.nothing)
  then have s: "w_sent d = [] \<Longrightarrow> clean_queue pm s"
    using clean.hearing [of pm] g by (simp add: session_spec_def) (metis snd_conv)
  obtain y u where u: "on_up (send_line ''220 noombat-filtermail ready'') s = (y, u)" by fastforce
  have said: "w_sent d = [] \<Longrightarrow> clean_queue pm (snd (on_up (send_line b) s))" for b
    using s by (simp add: clean_queue_def on_up_bytes)
  have cu: "w_sent d = [] \<Longrightarrow> clean_queue pm u" using said u by (metis snd_conv)
  obtain x t where t: "converse pm mode empty_envelope u = Some (x, t)" "clean_queue pm u \<longrightarrow> clean_queue pm t"
    using converse_result [OF empty_envelope_ok] by blast
  have "clean_queue pm t \<Longrightarrow> clean_queue pm (snd (on_down (send_line ''QUIT'') t))"
    using spec_down [OF emits_line [of "''QUIT''"], of pm] queue_traffic.farewell [of pm] by (simp add: session_spec_def)
  then show ?thesis
    using said [of "''421 4.3.2 the queue did not answer''"] cu t u g Some
    by (auto simp: serve_def Let_def split: sum.split)
qed

section \<open>What is delivered is what was inspected\<close>

text \<open>Messages made of lines that end in CRLF, with no other line end in them.\<close>

definition of_lines :: "string list \<Rightarrow> string" where
  "of_lines ls = concat (map (\<lambda>l. l @ CRLF) ls)"

definition plain_line :: "string \<Rightarrow> bool" where
  "plain_line l \<longleftrightarrow> LF \<notin> set l \<and> trim_eol l = l"

lemma CRLF_ne: "CRLF \<noteq> []"
  by (simp add: CRLF_def)

lemma trim_eol_ends: "trim_eol (l @ CRLF) = trim_eol l"
  by (simp add: trim_eol_def CRLF_def)

lemma trim_eol_idem: "trim_eol (trim_eol l) = trim_eol l"
proof -
  have "trim_eol_rev (trim_eol_rev s) = trim_eol_rev s" for s by (induction s) auto
  then show ?thesis by (simp add: trim_eol_def)
qed

lemma trim_eol_snoc: "trim_eol (k @ [d]) = (if d = LF \<or> d = CR then trim_eol k else k @ [d])"
  by (simp add: trim_eol_def)

lemma trim_eol_length: "length (trim_eol l) \<le> length l"
proof -
  have "length (trim_eol_rev s) \<le> length s" for s by (induction s) auto
  then show ?thesis by (metis trim_eol_def length_rev)
qed

lemma trim_eol_id: "trim_eol l = l \<longleftrightarrow> l = [] \<or> last l \<noteq> LF \<and> last l \<noteq> CR"
proof (cases l rule: rev_cases)
  case Nil
  then show ?thesis by (simp add: trim_eol_def)
next
  case (snoc k d)
  then show ?thesis using trim_eol_length [of k] by (auto simp: trim_eol_snoc)
qed

lemma plain_tl: "plain_line l \<Longrightarrow> plain_line (tl l)"
  by (cases l) (auto simp: plain_line_def trim_eol_id split: if_splits)

lemma plain_trim: "LF \<notin> set (trim_eol l) \<Longrightarrow> plain_line (trim_eol l)"
  by (simp add: plain_line_def trim_eol_idem)

text \<open>What \<open>read_message\<close> gives has that form.\<close>

lemma read_message_lines:
  "read_message (of_lines ls) n b r = (Inr (Message m), r') \<Longrightarrow> list_all plain_line ls \<Longrightarrow>
    \<exists>ks. m = of_lines ks \<and> list_all plain_line ks"
proof (induction "of_lines ls" n b r arbitrary: ls rule: read_message.induct)
  case (1 n b r)
  obtain y u where y: "read_line_capped MAX_LINE_BYTES [] r = (y, u)" by fastforce
  obtain l where l: "y = Inr l" "l \<noteq> []"
    using 1(3) y by (cases y) (auto simp: read_message.simps [of _ n b r] split: if_splits)
  obtain a where a: "LF \<notin> set a" "l = a \<or> l = a @ [LF]" using read_line_capped_LF [of MAX_LINE_BYTES "[]" r l u] y l by auto
  have plain: "plain_line (trim_eol l)" by (rule plain_trim) (rule trim_eol_line [OF a])
  show ?case
  proof (cases "trim_eol l = ''.''")
    case True
    then show ?thesis
      using 1(3,4) y l by (auto simp: read_message.simps [of _ n b r] split: if_splits)
  next
    case False
    have more: "\<not> ABORT_MESSAGE_BYTES < n + int (length l)"
      using 1(3) y l False by (auto simp: read_message.simps [of _ n b r] Let_def)
    show ?thesis
    proof (cases "MAX_MESSAGE_BYTES < n + int (length l)")
      case True
      then have "read_message (of_lines ls) (n + int (length l)) True u = (Inr (Message m), r')"
        using 1(3) y l False more by (simp add: read_message.simps [of _ n b r] Let_def)
      then show ?thesis using 1(1) y l False more True 1(4) by force
    next
      case small: False
      define p where "p = (if starts_with_dot (trim_eol l) then tl (trim_eol l) else trim_eol l)"
      have p: "plain_line p" using plain plain_tl by (simp add: p_def)
      have ls: "of_lines ls @ payload_line (trim_eol l) = of_lines (ls @ [p])"
        by (simp add: of_lines_def payload_line_def p_def)
      have "read_message (of_lines (ls @ [p])) (n + int (length l)) b u = (Inr (Message m), r')"
        using 1(3) y l False more small by (simp add: read_message.simps [of _ n b r] Let_def ls)
      moreover have "list_all plain_line (ls @ [p])" using 1(4) p by simp
      ultimately show ?thesis using 1(2) y l False more small ls by force
    qed
  qed
qed

text \<open>Sending such a message, and reading it back.\<close>

lemma split_inclusive_line: "LF \<notin> set a \<Longrightarrow> split_inclusive LF (a @ LF # s) = (a @ [LF]) # split_inclusive LF s"
  by (induction a) auto

lemma stuffed_of_lines:
  assumes "list_all plain_line ls" shows "stuffed (of_lines ls) = concat (map stuffed_line ls) @ ''.'' @ CRLF"
proof -
  have "concat (map (\<lambda>p. stuffed_line (trim_eol p)) (split_inclusive LF (of_lines ls))) = concat (map stuffed_line ls)"
    using assms
  proof (induction ls)
    case Nil
    then show ?case by (simp add: of_lines_def)
  next
    case (Cons l ls)
    have "LF \<notin> set (l @ [CR])" using Cons(2) by (simp add: plain_line_def)
    from split_inclusive_line [OF this, of "of_lines ls"]
    have s: "split_inclusive LF (of_lines (l # ls)) = (l @ CRLF) # split_inclusive LF (of_lines ls)"
      by (simp add: of_lines_def CRLF_def)
    show ?case using Cons by (simp add: s trim_eol_ends plain_line_def)
  qed
  then show ?thesis by (simp add: stuffed_def)
qed

lemma read_crlf_line:
  assumes "LF \<notin> set l"
  shows "read_line_capped cap [] (Chunk (l @ CRLF @ s) # r) = (Inr (l @ CRLF), if s = [] then r else Chunk s # r)"
proof -
  have "find_byte LF ((l @ [CR]) @ LF # s) = Some (length (l @ [CR]))" by (rule find_byte_append) (use assms in simp)
  then have "find_byte LF (l @ CRLF @ s) = Some (Suc (length l))" by (simp add: CRLF_def)
  then show ?thesis by (simp add: CRLF_def)
qed

lemma read_stuffed:
  assumes "list_all plain_line ls" and "n + int (length (concat (map stuffed_line ls))) \<le> MAX_MESSAGE_BYTES"
  shows "read_message m n False (Chunk (concat (map stuffed_line ls) @ ''.'' @ CRLF) # r) = (Inr (Message (m @ of_lines ls)), r)"
  using assms
proof (induction ls arbitrary: m n)
  case Nil
  have "LF \<notin> set ''.''" by simp
  note d = read_crlf_line [OF this, of MAX_LINE_BYTES "[]" r, simplified]
  have "trim_eol (''.'' @ CRLF) = ''.''" by code_simp
  then show ?case
    by (simp add: read_message.simps [of m n] d [simplified] of_lines_def)
next
  case (Cons l ls)
  let ?d = "(if starts_with_dot l then ''.'' else []) @ l"
  let ?rest = "concat (map stuffed_line ls) @ ''.'' @ CRLF"
  have l: "plain_line l" "list_all plain_line ls" using Cons(2) by simp_all
  have dl: "LF \<notin> set ?d" using l(1) by (simp add: plain_line_def)
  have t: "trim_eol (?d @ CRLF) = ?d" unfolding trim_eol_ends trim_eol_id
    using l(1) by (auto simp: plain_line_def trim_eol_id starts_with_dot_def split: list.splits)
  have nd: "?d \<noteq> ''.''" "payload_line ?d = l @ CRLF"
    by (auto simp: starts_with_dot_def payload_line_def split: list.splits)
  have ne: "?rest \<noteq> []" by simp
  have whole: "concat (map stuffed_line (l # ls)) @ ''.'' @ CRLF = ?d @ CRLF @ ?rest"
    by (simp add: stuffed_line_def)
  have len: "n + int (length (?d @ CRLF)) + int (length (concat (map stuffed_line ls))) \<le> MAX_MESSAGE_BYTES"
    using Cons(3) by (simp add: stuffed_line_def [of l] del: length_concat split: if_splits)
  have bounds: "\<not> ABORT_MESSAGE_BYTES < n + int (length (?d @ CRLF))" "\<not> MAX_MESSAGE_BYTES < n + int (length (?d @ CRLF))"
    using len by (simp_all add: ABORT_MESSAGE_BYTES_def MAX_MESSAGE_BYTES_def)
  have step: "read_message m n False (Chunk (?d @ CRLF @ ?rest) # r)
      = read_message (m @ payload_line ?d) (n + int (length (?d @ CRLF))) False (Chunk ?rest # r)"
    unfolding read_message.simps [of m n] read_crlf_line [OF dl]
    using ne nd(1) t bounds by (simp add: Let_def CRLF_ne)
  have "read_message (m @ l @ CRLF) (n + int (length (?d @ CRLF))) False (Chunk ?rest # r)
      = (Inr (Message ((m @ l @ CRLF) @ of_lines ls)), r)"
    using Cons(1) [OF l(2) len] by simp
  then show ?case
    unfolding whole step nd(2) by (simp add: of_lines_def)
qed

section \<open>The rate limiter\<close>

text \<open>The calls of the limiter, in the order the lock admits them.\<close>

fun answers :: "(string \<times> nat) list \<Rightarrow> rate_limiter \<Rightarrow> bool list" where
  "answers [] l = []"
| "answers ((k, now) # calls) l = (case allow k now l of (b, l') \<Rightarrow> b # answers calls l')"

text \<open>What a key still owes at an instant: nothing when it is unknown.\<close>

definition owed :: "string \<Rightarrow> nat \<Rightarrow> rate_limiter \<Rightarrow> nat" where
  "owed k now l = (case map_of (rl_state l) k of None \<Rightarrow> now | Some t \<Rightarrow> max t now)"

lemma map_of_filter_later:
  "map_of (filter (\<lambda>(_, tat). (now :: nat) < tat) st) k = (case map_of st k of None \<Rightarrow> None | Some t \<Rightarrow> if now < t then Some t else None)"
  if "distinct (map fst st)"
  using that
proof (induction st)
  case (Cons p st)
  obtain j t where p: "p = (j, t)" by fastforce
  have "map_of st j = None" using Cons(2) by (auto simp: p map_of_eq_None_iff)
  with Cons show ?case by (auto simp: p split: option.splits)
qed simp

text \<open>Pruning changes no answer.\<close>

lemma allow_owed:
  assumes "distinct (map fst (rl_state l))"
  shows "fst (allow k now l) \<longleftrightarrow> owed k now l \<le> now + rl_tolerance l"
    and "owed j (max now t) (snd (allow k now l)) =
      (if fst (allow k now l) \<and> j = k then max (owed k now l + rl_interval l) t else owed j (max now t) l)"
    and "distinct (map fst (rl_state (snd (allow k now l))))"
    and "rl_interval (snd (allow k now l)) = rl_interval l" "rl_tolerance (snd (allow k now l)) = rl_tolerance l"
proof -
  define st where "st = (if RATE_KEYS_BEFORE_PRUNE < length (rl_state l)
     then filter (\<lambda>(_, tat). now < tat) (rl_state l) else rl_state l)"
  have d: "distinct (map fst st)" using assms by (auto simp: st_def distinct_map_filter)
  have look: "(case map_of st j of None \<Rightarrow> max now t | Some x \<Rightarrow> max x (max now t)) = owed j (max now t) l" for j t
    by (auto simp: st_def owed_def map_of_filter_later [OF assms] max_def split: option.splits)
  have tat: "max (case map_of st k of None \<Rightarrow> now | Some t \<Rightarrow> t) now = owed k now l"
    using look [where j = k and t = now] by (auto split: option.splits)
  have le: "now + rl_tolerance l < (case map_of st k of None \<Rightarrow> now | Some t \<Rightarrow> t) \<longleftrightarrow> now + rl_tolerance l < owed k now l"
    unfolding tat [symmetric] by auto
  have a: "allow k now l = (if now + rl_tolerance l < owed k now l then (False, l\<lparr>rl_state := st\<rparr>)
     else (True, l\<lparr>rl_state := AList.update k (owed k now l + rl_interval l) st\<rparr>))"
    unfolding allow_def Let_def st_def [symmetric] le tat by simp
  show "fst (allow k now l) \<longleftrightarrow> owed k now l \<le> now + rl_tolerance l" by (auto simp: a)
  have "now \<le> owed k now l" by (auto simp: owed_def split: option.splits)
  then show "owed j (max now t) (snd (allow k now l)) =
      (if fst (allow k now l) \<and> j = k then max (owed k now l + rl_interval l) t else owed j (max now t) l)"
    using look [where j = j and t = t] by (auto simp: a owed_def [of _ _ "l\<lparr>rl_state := _\<rparr>"])
  show "distinct (map fst (rl_state (snd (allow k now l))))" using d by (simp add: a distinct_update)
  show "rl_interval (snd (allow k now l)) = rl_interval l" "rl_tolerance (snd (allow k now l)) = rl_tolerance l"
    by (simp_all add: a)
qed

text \<open>The messages of one sender that are let through.\<close>

definition let_through :: "string \<Rightarrow> (string \<times> nat) list \<Rightarrow> rate_limiter \<Rightarrow> nat" where
  "let_through k calls l = length (filter (\<lambda>(c, b). fst c = k \<and> b) (zip calls (answers calls l)))"

lemma let_through_Cons:
  "let_through k ((j, now) # calls) l = (if j = k \<and> fst (allow j now l) then 1 else 0) + let_through k calls (snd (allow j now l))"
  by (simp add: let_through_def split: prod.split)

lemma let_through_bound:
  assumes "distinct (map fst (rl_state l))" and "sorted (map snd calls)"
    and "\<forall>c\<in>set calls. start \<le> snd c \<and> snd c \<le> stop" and "0 < let_through k calls l"
  shows "owed k start l + (let_through k calls l - 1) * rl_interval l \<le> stop + rl_tolerance l"
  using assms
proof (induction calls arbitrary: l start)
  case Nil
  then show ?case by (simp add: let_through_def)
next
  case (Cons c calls)
  obtain j now where c: "c = (j, now)" by fastforce
  let ?l = "snd (allow j now l)"
  note al = allow_owed [OF Cons(2), where k = j and now = now]
  have start: "start \<le> now" "now \<le> stop" using Cons(4) c by auto
  have mono: "owed k start l \<le> owed k now l" using start by (auto simp: owed_def split: option.splits)
  have later: "sorted (map snd calls)" "\<forall>c\<in>set calls. now \<le> snd c \<and> snd c \<le> stop"
    using Cons(3,4) c by auto
  have o: "owed k now ?l = (if fst (allow j now l) \<and> k = j then owed j now l + rl_interval l else owed k now l)"
    using al(2) [of k now] by (auto simp: owed_def split: option.splits)
  show ?case
  proof (cases "0 < let_through k calls ?l")
    case True
    have "owed k now ?l + (let_through k calls ?l - 1) * rl_interval l \<le> stop + rl_tolerance l"
      using Cons(1) [OF al(3) later True] al(4,5) by simp
    then show ?thesis
      using mono True by (auto simp: c let_through_Cons o algebra_simps split: if_splits)
  next
    case False
    then have "j = k" "fst (allow j now l)" using Cons(5) by (auto simp: c let_through_Cons split: if_splits)
    then show ?thesis using al(1) mono start False by (simp add: c let_through_Cons)
  qed
qed

section \<open>The session counter\<close>

definition pending :: "acceptor \<Rightarrow> nat" where
  "pending a = (if a = Spawning then 1 else 0)"

definition admitting :: "acceptor \<Rightarrow> nat" where
  "admitting a = (if a = Admitting then 1 else 0)"

text \<open>The counter counts the running sessions and the ones about to start.\<close>

definition counter_inv :: "listeners \<Rightarrow> bool" where
  "counter_inv l \<longleftrightarrow> ls_live l = ls_sessions l + pending (ls_outgoing l) + pending (ls_incoming l)
     \<and> ls_live l + admitting (ls_outgoing l) + admitting (ls_incoming l) \<le> Suc MAX_SESSIONS
     \<and> (ls_outgoing l = Admitting \<or> ls_incoming l = Admitting \<longrightarrow> ls_live l \<le> MAX_SESSIONS)"

lemma counter_step: "accept_step l l' \<Longrightarrow> counter_inv l \<Longrightarrow> counter_inv l'"
proof (induction rule: accept_step.induct)
  case (admitted m l)
  then show ?case
    by (cases m; cases "ls_outgoing l"; cases "ls_incoming l")
      (simp_all add: counter_inv_def set_acceptor_def acceptor_of_def pending_def admitting_def)
next
  case (counted m l)
  then show ?case
    by (cases m; cases "ls_outgoing l"; cases "ls_incoming l")
      (simp_all add: counter_inv_def set_acceptor_def acceptor_of_def pending_def admitting_def)
next
  case (spawned m l)
  then show ?case
    by (cases m; cases "ls_outgoing l"; cases "ls_incoming l")
      (simp_all add: counter_inv_def set_acceptor_def acceptor_of_def pending_def admitting_def)
next
  case (not_spawned m l)
  then show ?case
    by (cases m; cases "ls_outgoing l"; cases "ls_incoming l")
      (simp_all add: counter_inv_def set_acceptor_def acceptor_of_def pending_def admitting_def)
next
  case (ended l)
  then show ?case by (auto simp: counter_inv_def pending_def admitting_def split: if_splits)
qed

lemma counter_reachable: "accept_step\<^sup>*\<^sup>* l l' \<Longrightarrow> counter_inv l \<Longrightarrow> counter_inv l'"
  by (induction rule: rtranclp_induct) (auto intro: counter_step)

end
