(* ===== verification/MailClaims.thy ===== *)
theory MailClaims
  imports FilterSafety
begin

text \<open>
  The properties of the mail filter, with witnesses.
\<close>

section \<open>A session\<close>

text \<open>A parser that tells encrypted mail by its first letter.\<close>

definition sample_parse :: "string \<Rightarrow> parsed_mail option" where
  "sample_parse raw = Some (ParsedMail (if prefix ''x'' raw then [(''Content-Type'', ''application/autocrypt-setup'')] else [])
     (Some raw) [])"

definition sample_client :: "string \<Rightarrow> wire" where
  "sample_client payload = \<lparr>w_in = map (\<lambda>l. Chunk (l @ CRLF)) [''MAIL <a>'', ''RCPT <b>'', ''DATA'', payload, ''.''],
     w_sent = [], w_faults = []\<rparr>"

definition sample_queue :: wire where
  "sample_queue = \<lparr>w_in = map (\<lambda>l. Chunk (l @ CRLF)) [''220'', ''250'', ''250'', ''354'', ''250''], w_sent = [], w_faults = []\<rparr>"

definition sample_session :: "string \<Rightarrow> session option" where
  "sample_session payload = serve sample_parse Outgoing (sample_client payload) (Some sample_queue) \<lparr>rl_interval = 3, rl_tolerance = 6, rl_state = []\<rparr> (\<lambda>n. n)"

text \<open>C23. Whatever the client and the queue send, however their bytes are cut and whichever reads and
  writes fail, a session comes to an end once the client's input does.\<close>

theorem mail_session_ends: "\<exists>t. serve parse_mail mode up connection l clock = Some t"
  using serve_result by blast



text \<open>C24. What is delivered is what was inspected.  A message the filter has read is sent to the queue so
  that a reader of the payload gets it back byte for byte, dots and line ends included, as long as
  what is sent is within the size limit.\<close>

theorem delivered_message_reads_back:
  assumes "read_message [] 0 False r = (Inr (Message m), r')" and "w_faults w = []"
    and "int (length (stuffed m)) \<le> MAX_MESSAGE_BYTES"
  shows "\<exists>b. send_message m w = (Inr (), w\<lparr>w_sent := w_sent w @ b\<rparr>)
    \<and> read_message [] 0 False (Chunk b # rest) = (Inr (Message m), rest)"
proof -
  have no: "of_lines [] = []" by (simp add: of_lines_def)
  obtain ks where ks: "m = of_lines ks" "list_all plain_line ks"
    using read_message_lines [of "[]" "0" False r m r'] assms(1) no by auto
  have st: "stuffed m = concat (map stuffed_line ks) @ ''.'' @ CRLF" using stuffed_of_lines [OF ks(2)] ks(1) by simp
  have len: "0 + int (length (concat (map stuffed_line ks))) \<le> MAX_MESSAGE_BYTES" using assms(3) unfolding st by simp
  have reads: "read_message [] 0 False (Chunk (stuffed m) # rest) = (Inr (Message m), rest)"
    using read_stuffed [OF ks(2) len, of "[]" rest] unfolding st by (simp add: ks(1))
  have "send_message m w = (Inr (), w\<lparr>w_sent := w_sent w @ stuffed m\<rparr>)"
    using faultless_message assms(2) by blast
  then show ?thesis using reads by blast
qed

theorem delivered_message_reads_back_witness:
  "\<exists>b. send_message (''.x'' @ CRLF) sample_queue = (Inr (), sample_queue\<lparr>w_sent := w_sent sample_queue @ b\<rparr>)
    \<and> read_message [] 0 False [Chunk b] = (Inr (Message (''.x'' @ CRLF)), [])"
proof -
  have "read_message [] 0 False [Chunk (''..x'' @ CRLF @ ''.'' @ CRLF)] = (Inr (Message (''.x'' @ CRLF)), [])" by code_simp
  moreover have "int (length (stuffed (''.x'' @ CRLF))) \<le> MAX_MESSAGE_BYTES" by code_simp
  ultimately show ?thesis
    using delivered_message_reads_back [of _ "''.x'' @ CRLF" "[]" sample_queue "[]"] by (simp add: sample_queue_def)
qed

section \<open>The encryption decision\<close>

fun all_parts :: "parsed_mail \<Rightarrow> parsed_mail list" where
  "all_parts (ParsedMail headers body subparts) = ParsedMail headers body subparts # concat (map all_parts subparts)"

definition content_type_of :: "parsed_mail \<Rightarrow> string" where
  "content_type_of m = to_ascii_lowercase (case header_value ''content-type'' m of None \<Rightarrow> [] | Some v \<Rightarrow> v)"

definition line_of :: "string \<Rightarrow> string \<Rightarrow> bool" where
  "line_of needle s \<longleftrightarrow> (\<exists>a b. s = a @ needle @ b \<and> (a = [] \<or> last a = LF))"

lemma at_line_start_iff:
  "at_line_start start needle s \<longleftrightarrow> (\<exists>a b. s = a @ needle @ b \<and> (if a = [] then start else last a = LF))"
proof (induction s arbitrary: start)
  case Nil
  then show ?case by auto
next
  case (Cons c s)
  define Q where "Q = (\<lambda>a. if a = [] then start else last a = LF)"
  have split: "(\<exists>a b. c # s = a @ needle @ b \<and> Q a) \<longleftrightarrow> (\<exists>b. c # s = needle @ b \<and> Q []) \<or> (\<exists>a b. s = a @ needle @ b \<and> Q (c # a))"
  proof
    assume "\<exists>a b. c # s = a @ needle @ b \<and> Q a"
    then obtain a b where "c # s = a @ needle @ b" "Q a" by blast
    then show "(\<exists>b. c # s = needle @ b \<and> Q []) \<or> (\<exists>a b. s = a @ needle @ b \<and> Q (c # a))" by (cases a) auto
  next
    assume "(\<exists>b. c # s = needle @ b \<and> Q []) \<or> (\<exists>a b. s = a @ needle @ b \<and> Q (c # a))"
    then show "\<exists>a b. c # s = a @ needle @ b \<and> Q a"
    proof (elim disjE exE conjE)
      fix b assume "c # s = needle @ b" "Q []"
      then show ?thesis by (intro exI [of _ "[]"] exI [of _ b]) simp
    next
      fix a b assume "s = a @ needle @ b" "Q (c # a)"
      then show ?thesis by (intro exI [of _ "c # a"] exI [of _ b]) simp
    qed
  qed
  have "at_line_start start needle (c # s) \<longleftrightarrow> (\<exists>b. c # s = needle @ b \<and> Q []) \<or> (\<exists>a b. s = a @ needle @ b \<and> Q (c # a))"
    unfolding at_line_start.simps Cons prefix_def Q_def by auto
  then show ?case unfolding split [symmetric] by (simp add: Q_def)
qed

lemma has_pgp_armour_iff:
  "has_pgp_armour b \<longleftrightarrow> line_of ''-----BEGIN PGP MESSAGE-----'' b \<and> line_of ''-----END PGP MESSAGE-----'' b"
proof -
  have "at_line_start True n b \<longleftrightarrow> line_of n b" for n by (auto simp: at_line_start_iff line_of_def)
  then show ?thesis by (simp add: has_pgp_armour_def)
qed

text \<open>C28. A message counts as encrypted exactly when some part of it, at whatever depth, declares PGP/MIME
  or an Autocrypt setup message in its content type, or has both armour markers at the start of
  a line of its body.  The other parts may be plain.\<close>

theorem encrypted_iff_some_part_says_so:
  "is_encrypted_part m \<longleftrightarrow> (\<exists>p\<in>set (all_parts m).
     contains_str ''multipart/encrypted'' (content_type_of p) \<and> contains_str ''application/pgp-encrypted'' (content_type_of p)
     \<or> contains_str ''application/autocrypt-setup'' (content_type_of p)
     \<or> (\<exists>b. pm_body p = Some b \<and> line_of ''-----BEGIN PGP MESSAGE-----'' b \<and> line_of ''-----END PGP MESSAGE-----'' b))"
proof (induction m rule: is_encrypted_part.induct)
  case (1 headers body subparts)
  then show ?case
    by (simp add: Let_def list_ex_set content_type_of_def has_pgp_armour_iff split: option.split) blast
qed

section \<open>Limits\<close>

text \<open>C27. A sender gets at most a burst, and one message more for each interval, through the limiter,
  whatever the other senders do and whenever the table is pruned.\<close>

theorem sender_is_rate_limited:
  assumes "per_minute \<le> 60 * 10 ^ 9" and "distinct (map fst state)" and "sorted (map snd calls)"
    and "\<forall>c\<in>set calls. start \<le> snd c \<and> snd c \<le> start + window"
  shows "let_through k calls (new_limiter per_minute burst\<lparr>rl_state := state\<rparr>)
    \<le> max burst 1 + window div rl_interval (new_limiter per_minute burst)"
proof (cases "let_through k calls (new_limiter per_minute burst\<lparr>rl_state := state\<rparr>)")
  case (Suc n)
  let ?l = "new_limiter per_minute burst\<lparr>rl_state := state\<rparr>"
  define I where "I = rl_interval (new_limiter per_minute burst)"
  have "max per_minute 1 \<le> 60 * 10 ^ 9" using assms(1) by simp
  then have I: "0 < I" by (simp add: I_def new_limiter_def Let_def div_greater_zero_iff)
  have l: "rl_interval ?l = I" "rl_tolerance ?l = I * (max burst 1 - 1)" "distinct (map fst (rl_state ?l))"
    using assms(2) by (simp_all add: I_def new_limiter_def Let_def)
  have "start \<le> owed k start ?l" by (simp add: owed_def split: option.split)
  moreover have "owed k start ?l + n * I \<le> start + window + I * (max burst 1 - 1)"
    using let_through_bound [OF l(3) assms(3,4), of k] Suc l(1,2) by simp
  ultimately have "n * I \<le> window + (max burst 1 - 1) * I" by (simp add: mult.commute)
  then have "n \<le> (window + (max burst 1 - 1) * I) div I" using I by (simp only: less_eq_div_iff_mult_less_eq)
  moreover have "(window + b * I) div I = window div I + b" for b using I by simp
  ultimately have "n \<le> window div I + (max burst 1 - 1)" by metis
  then show ?thesis using Suc by (simp add: I_def)
qed simp

theorem sender_is_rate_limited_witness:
  "let_through ''a'' [(''a'', 0), (''b'', 0), (''a'', 1), (''a'', 2)] (new_limiter 60 2\<lparr>rl_state := []\<rparr>)
     \<le> max 2 1 + 2 div rl_interval (new_limiter 60 2)"
  by (rule sender_is_rate_limited [where start = 0]) simp_all

definition busy :: "nat \<Rightarrow> listeners" where
  "busy n = \<lparr>ls_live = n, ls_outgoing = Waiting, ls_incoming = Waiting, ls_sessions = n\<rparr>"

lemmas listener_simps = busy_def set_acceptor_def acceptor_of_def

lemma one_more_session: "n < MAX_SESSIONS \<Longrightarrow> accept_step\<^sup>*\<^sup>* (busy n) (busy (Suc n))"
proof -
  assume n: "n < MAX_SESSIONS"
  let ?a = "(busy n)\<lparr>ls_outgoing := Admitting\<rparr>" and ?b = "(busy n)\<lparr>ls_outgoing := Spawning, ls_live := Suc n\<rparr>"
  have "accept_step (busy n) ?a" using accept_step.admitted [of Outgoing "busy n"] n by (simp add: listener_simps)
  moreover have "accept_step ?a ?b" using accept_step.counted [of Outgoing ?a] by (simp add: listener_simps)
  moreover have "accept_step ?b (busy (Suc n))" using accept_step.spawned [of Outgoing ?b] by (simp add: listener_simps)
  ultimately show ?thesis by (meson r_into_rtranclp rtranclp_trans)
qed

lemma busy_reachable: "n \<le> MAX_SESSIONS \<Longrightarrow> accept_step\<^sup>*\<^sup>* idle (busy n)"
proof (induction n)
  case 0
  then show ?case by (simp add: idle_def busy_def)
next
  case (Suc n)
  then show ?case using one_more_session [of n] by (meson Suc_le_lessD less_imp_le rtranclp_trans)
qed

lemma one_too_many: "\<exists>l. accept_step\<^sup>*\<^sup>* (busy n) l \<and> ls_sessions l = Suc (Suc n)" if n: "n < MAX_SESSIONS"
proof -
  let ?s = "\<lambda>live out inc k. \<lparr>ls_live = live, ls_outgoing = out, ls_incoming = inc, ls_sessions = k\<rparr>"
  have "accept_step (busy n) (?s n Admitting Waiting n)"
    using accept_step.admitted [of Outgoing "busy n"] n by (simp add: listener_simps)
  moreover have "accept_step (?s n Admitting Waiting n) (?s n Admitting Admitting n)"
    using accept_step.admitted [of Incoming "?s n Admitting Waiting n"] n by (simp add: listener_simps)
  moreover have "accept_step (?s n Admitting Admitting n) (?s (Suc n) Spawning Admitting n)"
    using accept_step.counted [of Outgoing "?s n Admitting Admitting n"] by (simp add: listener_simps)
  moreover have "accept_step (?s (Suc n) Spawning Admitting n) (?s (Suc (Suc n)) Spawning Spawning n)"
    using accept_step.counted [of Incoming "?s (Suc n) Spawning Admitting n"] by (simp add: listener_simps)
  moreover have "accept_step (?s (Suc (Suc n)) Spawning Spawning n) (?s (Suc (Suc n)) Waiting Spawning (Suc n))"
    using accept_step.spawned [of Outgoing "?s (Suc (Suc n)) Spawning Spawning n"] by (simp add: listener_simps)
  moreover have "accept_step (?s (Suc (Suc n)) Waiting Spawning (Suc n)) (busy (Suc (Suc n)))"
    using accept_step.spawned [of Incoming "?s (Suc (Suc n)) Waiting Spawning (Suc n)"] by (simp add: listener_simps)
  ultimately have "accept_step\<^sup>*\<^sup>* (busy n) (busy (Suc (Suc n)))" by (meson r_into_rtranclp rtranclp_trans)
  then show ?thesis by (intro exI [of _ "busy (Suc (Suc n))"]) (simp add: busy_def)
qed

text \<open>The listeners may run one session more than their limit, and no more: both can read the
  counter before either adds to it.\<close>

theorem sessions_exceed_limit_by_one_at_most:
  "(\<forall>l. accept_step\<^sup>*\<^sup>* idle l \<longrightarrow> ls_sessions l \<le> Suc MAX_SESSIONS)
    \<and> (\<exists>l. accept_step\<^sup>*\<^sup>* idle l \<and> ls_sessions l = Suc MAX_SESSIONS)"
proof (intro conjI allI impI)
  fix l assume "accept_step\<^sup>*\<^sup>* idle l"
  moreover have "counter_inv idle" by (simp add: counter_inv_def idle_def pending_def admitting_def)
  ultimately have "counter_inv l" by (rule counter_reachable)
  then show "ls_sessions l \<le> Suc MAX_SESSIONS" by (simp add: counter_inv_def)
next
  obtain l where "accept_step\<^sup>*\<^sup>* (busy (MAX_SESSIONS - 1)) l" "ls_sessions l = Suc (Suc (MAX_SESSIONS - 1))"
    using one_too_many [of "MAX_SESSIONS - 1"] by (auto simp: MAX_SESSIONS_def)
  moreover have "Suc (MAX_SESSIONS - 1) = MAX_SESSIONS" by (simp add: MAX_SESSIONS_def)
  moreover have "accept_step\<^sup>*\<^sup>* idle (busy (MAX_SESSIONS - 1))" by (rule busy_reachable) simp
  ultimately show "\<exists>l. accept_step\<^sup>*\<^sup>* idle l \<and> ls_sessions l = Suc MAX_SESSIONS" by (metis rtranclp_trans)
qed

theorem sessions_exceed_limit_by_one_at_most_witness: "\<exists>l. accept_step\<^sup>*\<^sup>* idle l \<and> ls_sessions l = Suc MAX_SESSIONS"
  using sessions_exceed_limit_by_one_at_most by blast

end
