(* ===== verification/ChatAdmin.thy ===== *)
theory ChatAdmin
  imports Json SmtpWire "HOL-Library.List_Lexorder" "HOL-Library.Char_ord"
begin

text \<open>
  The administration daemon of the Chatmail relay (\<open>noombat-chatmail-admin\<close>): \<open>config.rs\<close>,
  \<open>access_maps.rs\<close>, \<open>allowlist.rs\<close>, \<open>password.rs\<close>, \<open>router.rs\<close> and the debounced reload of
  \<open>main.rs\<close>.  The file system is a map from paths to nodes; every operation on it may fail, and
  then has no effect.
\<close>

section \<open>Configuration\<close>

record config =
  cf_listen_host :: string
  cf_listen_port :: nat
  cf_admin_secret :: string
  cf_vmail_home :: string
  cf_access_maps_path :: string
  cf_recipient_access_path :: string
  cf_sender_access_path :: string
  cf_reload_debounce_secs :: nat
  cf_allowlist_url :: string
  cf_allowlist_poll_interval_secs :: nat
  cf_transport_maps_path :: string
  cf_sender_domains_path :: string
  cf_tls_cert_path :: string
  cf_tls_key_path :: string
  cf_mail_domain :: string
  cf_vmail_owner :: "nat \<times> nat"

definition is_absolute :: "string \<Rightarrow> bool" where
  "is_absolute path = prefix ''/'' path"

definition NUL :: char where "NUL = CHR 0x00"

definition MIN_ADMIN_SECRET_LEN :: nat where "MIN_ADMIN_SECRET_LEN = 32"

definition admin_secret_allowed :: "string \<Rightarrow> string \<Rightarrow> bool" where
  "admin_secret_allowed secret mail_domain = (MIN_ADMIN_SECRET_LEN \<le> length secret \<or> mail_domain = ''localhost''
     \<or> list_ex (\<lambda>s. suffix s mail_domain) [''.localhost'', ''.local'', ''.test'', ''.example'', ''.invalid''])"

text \<open>Whether \<open>validate\<close> returns instead of panicking.\<close>

definition config_valid :: "config \<Rightarrow> bool" where
  "config_valid c = (list_all (\<lambda>path. is_absolute path \<and> \<not> contains_str ''..'' path \<and> NUL \<notin> set path)
       [cf_vmail_home c, cf_access_maps_path c, cf_recipient_access_path c, cf_sender_access_path c,
        cf_transport_maps_path c, cf_sender_domains_path c, cf_tls_cert_path c, cf_tls_key_path c]
     \<and> admin_secret_allowed (cf_admin_secret c) (cf_mail_domain c))"

text \<open>Reading the environment; \<open>None\<close> is a panic.\<close>

definition env_or :: "(string \<Rightarrow> string option) \<Rightarrow> string \<Rightarrow> string \<Rightarrow> string" where
  "env_or env name fallback = (case env name of None \<Rightarrow> fallback | Some v \<Rightarrow> v)"

definition env_uint :: "(string \<Rightarrow> string option) \<Rightarrow> nat \<Rightarrow> string \<Rightarrow> nat \<Rightarrow> nat" where
  "env_uint env bits name fallback = (case Option.bind (env name) (parse_uint (2 ^ bits - 1)) of None \<Rightarrow> fallback | Some n \<Rightarrow> n)"

definition config_from_env :: "(string \<Rightarrow> string option) \<Rightarrow> config option" where
  "config_from_env env = Option.bind (env ''CHATMAIL_ADMIN_SECRET'') (\<lambda>secret.
     let c = \<lparr>cf_listen_host = env_or env ''CHATMAIL_ADMIN_HOST'' ''0.0.0.0'',
       cf_listen_port = env_uint env 16 ''CHATMAIL_ADMIN_PORT'' 9100,
       cf_admin_secret = secret,
       cf_vmail_home = env_or env ''VMAIL_HOME'' ''/home/vmail'',
       cf_access_maps_path = env_or env ''CHATMAIL_ACCESS_MAPS_PATH'' ''/home/vmail/.noombat-admin/access-maps.json'',
       cf_recipient_access_path = env_or env ''CHATMAIL_RECIPIENT_ACCESS_PATH'' ''/etc/postfix/noombat_recipient_access'',
       cf_sender_access_path = env_or env ''CHATMAIL_SENDER_ACCESS_PATH'' ''/etc/postfix/noombat_sender_access'',
       cf_reload_debounce_secs = env_uint env 64 ''CHATMAIL_RELOAD_DEBOUNCE_SECS'' 2,
       cf_allowlist_url = env_or env ''CHATMAIL_ALLOWLIST_URL'' [],
       cf_allowlist_poll_interval_secs = env_uint env 64 ''CHATMAIL_ALLOWLIST_POLL_INTERVAL_SECS'' 21600,
       cf_transport_maps_path = env_or env ''CHATMAIL_TRANSPORT_MAPS_PATH'' ''/etc/postfix/noombat_transport_maps'',
       cf_sender_domains_path = env_or env ''CHATMAIL_SENDER_DOMAINS_PATH'' ''/etc/postfix/noombat_sender_domains'',
       cf_tls_cert_path = env_or env ''CHATMAIL_ADMIN_TLS_CERT'' ''/etc/ssl/certs/chatmail.pem'',
       cf_tls_key_path = env_or env ''CHATMAIL_ADMIN_TLS_KEY'' ''/etc/ssl/private/chatmail.key'',
       cf_mail_domain = env_or env ''MAIL_DOMAIN'' [],
       cf_vmail_owner = (env_uint env 32 ''CHATMAIL_VMAIL_UID'' 5000, env_uint env 32 ''CHATMAIL_VMAIL_GID'' 5000)\<rparr> in
     if config_valid c then Some c else None)"

section \<open>Ordered sets and maps\<close>

text \<open>\<open>BTreeSet<String>\<close> and \<open>BTreeMap<String, BTreeSet<String>>\<close>, in the order they are walked.\<close>

fun set_insert :: "string \<Rightarrow> string list \<Rightarrow> string list" where
  "set_insert x [] = [x]"
| "set_insert x (y # ys) = (if x = y then y # ys else if x < y then x # y # ys else y # set_insert x ys)"

definition set_remove :: "string \<Rightarrow> string list \<Rightarrow> string list" where
  "set_remove x xs = filter (\<lambda>y. y \<noteq> x) xs"

fun map_entry :: "string \<Rightarrow> (string list \<Rightarrow> string list) \<Rightarrow> (string \<times> string list) list \<Rightarrow> (string \<times> string list) list" where
  "map_entry k f [] = [(k, f [])]"
| "map_entry k f ((j, v) # m) = (if k = j then (j, f v) # m else if k < j then (k, f []) # (j, v) # m
     else (j, v) # map_entry k f m)"

record access_maps =
  blocked_recipients :: "string list"
  sender_blocks :: "(string \<times> string list) list"

definition no_maps :: access_maps where
  "no_maps = \<lparr>blocked_recipients = [], sender_blocks = []\<rparr>"

section \<open>The daemon's world\<close>

text \<open>Nodes carry their owner.\<close>

datatype fs_node = Dir "nat \<times> nat" | File "nat \<times> nat" string

record admin_world =
  aw_nodes :: "(string \<times> fs_node) list"
  aw_maps :: access_maps
  aw_now :: nat
  aw_last_reload :: nat
  aw_commands :: "string list list"
  aw_entropy :: "nat \<Rightarrow> string"
  aw_tick :: nat
  aw_fault :: "nat \<Rightarrow> io_kind option"
  aw_exit :: "nat \<Rightarrow> int option"

text \<open>
  Parameters: how the system resolves links (\<open>None\<close> when it cannot), lower case, the digest of a
  secret, base64, and the JSON codec.
\<close>

record admin_env =
  ae_canonicalize :: "string \<Rightarrow> string option"
  ae_lowercase :: "string \<Rightarrow> string"
  ae_digest :: "string \<Rightarrow> string"
  ae_url_safe_b64 :: "string \<Rightarrow> string"
  ae_read_maps :: "string \<Rightarrow> access_maps option"
  ae_show_maps :: "access_maps \<Rightarrow> string"
  ae_parse_json :: "string \<Rightarrow> json option"

type_synonym 'a admin_op = "admin_world \<Rightarrow> 'a \<times> admin_world"
type_synonym 'a fs_op = "'a io_result admin_op"

definition and_then :: "'a admin_op \<Rightarrow> ('a \<Rightarrow> 'b admin_op) \<Rightarrow> 'b admin_op" where
  "and_then m k s = (case m s of (x, s) \<Rightarrow> k x s)"

definition done_with :: "'a \<Rightarrow> 'a admin_op" where
  "done_with x s = (x, s)"

text \<open>Continue with the result, or handle the error.\<close>

definition or_else :: "'a fs_op \<Rightarrow> (io_kind \<Rightarrow> 'b admin_op) \<Rightarrow> ('a \<Rightarrow> 'b admin_op) \<Rightarrow> 'b admin_op" where
  "or_else m h k = and_then m (\<lambda>r. case r of Inl e \<Rightarrow> h e | Inr x \<Rightarrow> k x)"

definition fs_op :: "(admin_world \<Rightarrow> 'a io_result \<times> admin_world) \<Rightarrow> 'a fs_op" where
  "fs_op f s = (let t = s\<lparr>aw_tick := Suc (aw_tick s)\<rparr> in
     case aw_fault s (aw_tick s) of Some k \<Rightarrow> (Inl k, t) | None \<Rightarrow> f t)"

definition node_at :: "string \<Rightarrow> admin_world \<Rightarrow> fs_node option" where
  "node_at p s = map_of (aw_nodes s) p"

definition path_exists :: "string \<Rightarrow> admin_world \<Rightarrow> bool" where
  "path_exists p s = (p = ''/'' \<or> node_at p s \<noteq> None)"

definition dir_exists :: "string \<Rightarrow> admin_world \<Rightarrow> bool" where
  "dir_exists p s = (p = ''/'' \<or> (case node_at p s of Some (Dir _) \<Rightarrow> True | _ \<Rightarrow> False))"

definition path_join :: "string \<Rightarrow> string \<Rightarrow> string" where
  "path_join base name = (if suffix ''/'' base then base @ name else base @ ''/'' @ name)"

definition parent_of :: "string \<Rightarrow> string option" where
  "parent_of p = (case rsplit_once (CHR ''/'') p of None \<Rightarrow> None
     | Some (d, _) \<Rightarrow> if p = ''/'' then None else Some (if d = [] then ''/'' else d))"

text \<open>Whether a path is another or below it.\<close>

definition path_under :: "string \<Rightarrow> string \<Rightarrow> bool" where
  "path_under base p = (p = base \<or> prefix (base @ ''/'') p)"

definition set_node :: "string \<Rightarrow> fs_node \<Rightarrow> admin_world \<Rightarrow> admin_world" where
  "set_node p n s = s\<lparr>aw_nodes := AList.update p n (aw_nodes s)\<rparr>"

definition parent_ready :: "string \<Rightarrow> admin_world \<Rightarrow> bool" where
  "parent_ready p s = (case parent_of p of None \<Rightarrow> False | Some d \<Rightarrow> dir_exists d s)"

definition fs_write :: "string \<Rightarrow> string \<Rightarrow> unit fs_op" where
  "fs_write p content = fs_op (\<lambda>s. case node_at p s of
     Some (Dir _) \<Rightarrow> (Inl OtherKind, s)
   | Some (File own _) \<Rightarrow> (Inr (), set_node p (File own content) s)
   | None \<Rightarrow> if parent_ready p s then (Inr (), set_node p (File (0, 0) content) s) else (Inl OtherKind, s))"

definition fs_create_new :: "string \<Rightarrow> unit fs_op" where
  "fs_create_new p = fs_op (\<lambda>s. if node_at p s \<noteq> None then (Inl AlreadyExists, s)
     else if parent_ready p s then (Inr (), set_node p (File (0, 0) []) s) else (Inl OtherKind, s))"

text \<open>The directories on the way to a path, outermost first.\<close>

fun dirs_from :: "string \<Rightarrow> string \<Rightarrow> string list" where
  "dirs_from seen [] = [seen]"
| "dirs_from seen (c # s) = (if c = CHR ''/'' \<and> seen \<noteq> [] then seen # dirs_from (seen @ [c]) s else dirs_from (seen @ [c]) s)"

definition fs_create_dir_all :: "string \<Rightarrow> unit fs_op" where
  "fs_create_dir_all p = fs_op (\<lambda>s.
     if list_ex (\<lambda>d. case node_at d s of Some (File _ _) \<Rightarrow> True | _ \<Rightarrow> False) (dirs_from [] p) then (Inl OtherKind, s)
     else (Inr (), fold (\<lambda>d s. if node_at d s = None then set_node d (Dir (0, 0)) s else s) (dirs_from [] p) s))"

definition fs_remove_dir_all :: "string \<Rightarrow> unit fs_op" where
  "fs_remove_dir_all p = fs_op (\<lambda>s. if \<not> dir_exists p s then (Inl OtherKind, s)
     else (Inr (), s\<lparr>aw_nodes := filter (\<lambda>(q, _). \<not> path_under p q) (aw_nodes s)\<rparr>))"

definition fs_chown :: "nat \<times> nat \<Rightarrow> string \<Rightarrow> unit fs_op" where
  "fs_chown own p = fs_op (\<lambda>s. case node_at p s of None \<Rightarrow> (Inl OtherKind, s)
     | Some (Dir _) \<Rightarrow> (Inr (), set_node p (Dir own) s)
     | Some (File _ c) \<Rightarrow> (Inr (), set_node p (File own c) s))"

definition fs_read :: "string \<Rightarrow> string fs_op" where
  "fs_read p = fs_op (\<lambda>s. case node_at p s of Some (File _ c) \<Rightarrow> if valid_utf8 c then (Inr c, s) else (Inl InvalidData, s)
     | _ \<Rightarrow> (Inl OtherKind, s))"

primrec each_fs :: "('a \<Rightarrow> unit fs_op) \<Rightarrow> 'a list \<Rightarrow> unit fs_op" where
  "each_fs f [] = done_with (Inr ())"
| "each_fs f (x # xs) = or_else (f x) (\<lambda>k. done_with (Inl k)) (\<lambda>_. each_fs f xs)"

text \<open>A command: \<open>None\<close> when it cannot be started, otherwise its exit status.\<close>

definition run_command :: "string list \<Rightarrow> int option admin_op" where
  "run_command argv s = (aw_exit s (aw_tick s), s\<lparr>aw_tick := Suc (aw_tick s), aw_commands := aw_commands s @ [argv]\<rparr>)"

definition generate_password :: "admin_env \<Rightarrow> string admin_op" where
  "generate_password E s = (ae_url_safe_b64 E (aw_entropy s 0), s\<lparr>aw_entropy := (\<lambda>n. aw_entropy s (Suc n))\<rparr>)"

text \<open>A reload that comes too early is dropped.\<close>

definition trigger_postfix_reload_debounced :: "config \<Rightarrow> unit admin_op" where
  "trigger_postfix_reload_debounced c s =
    (if aw_now s - aw_last_reload s < cf_reload_debounce_secs c then ((), s)
     else case run_command [''postfix'', ''reload''] s of
       (status, s) \<Rightarrow> ((), if status = Some 0 then s\<lparr>aw_last_reload := aw_now s\<rparr> else s))"

section \<open>Access maps\<close>

definition validated_path :: "admin_env \<Rightarrow> string \<Rightarrow> admin_world \<Rightarrow> string option" where
  "validated_path E path s =
    (if NUL \<in> set path \<or> \<not> is_absolute path \<or> contains_str ''..'' path then None
     else if path_exists path s then
       Option.bind (ae_canonicalize E path) (\<lambda>p. if contains_str ''..'' p then None else Some p)
     else case parent_of path of None \<Rightarrow> None
       | Some parent \<Rightarrow>
           if path_exists parent s then
             Option.bind (ae_canonicalize E parent) (\<lambda>d.
             Option.bind (map_option snd (rsplit_once (CHR ''/'') path)) (\<lambda>name.
             let p = path_join d name in if contains_str ''..'' p then None else Some p))
           else Some path)"

definition load_or_init :: "admin_env \<Rightarrow> string \<Rightarrow> access_maps admin_op" where
  "load_or_init E path s = (case validated_path E path s of None \<Rightarrow> (no_maps, s)
     | Some p \<Rightarrow> if \<not> path_exists p s then (no_maps, s)
         else (case fs_read p s of (Inl _, s) \<Rightarrow> (no_maps, s)
           | (Inr content, s) \<Rightarrow> ((case ae_read_maps E content of None \<Rightarrow> no_maps | Some m \<Rightarrow> m), s)))"

definition save_maps :: "admin_env \<Rightarrow> string \<Rightarrow> unit fs_op" where
  "save_maps E path s = (case validated_path E path s of None \<Rightarrow> (Inl OtherKind, s)
     | Some p \<Rightarrow>
         or_else (case parent_of p of None \<Rightarrow> done_with (Inr ()) | Some d \<Rightarrow> fs_create_dir_all d) (\<lambda>k. done_with (Inl k))
           (\<lambda>_. fs_write p (ae_show_maps E (aw_maps s))) s)"

definition map_header :: string where
  "map_header = ''# Generated by noombat-chatmail-admin. Do not edit.''"

definition map_text :: "string list \<Rightarrow> string" where
  "map_text ls = concat (map (\<lambda>l. l @ [LF]) ls)"

definition recipient_lines :: "access_maps \<Rightarrow> string list" where
  "recipient_lines m = map_header # map (\<lambda>a. a @ '' REJECT account suspended or deleted'') (blocked_recipients m)"

definition sender_lines :: "access_maps \<Rightarrow> string list" where
  "sender_lines m = map_header # map (\<lambda>(sender, _). sender @ '' REJECT blocked by moderation'')
     (filter (\<lambda>(_, recipients). recipients \<noteq> []) (sender_blocks m))"

text \<open>The file is emptied when it is opened, then written.\<close>

definition write_map_file :: "string \<Rightarrow> string list \<Rightarrow> unit fs_op" where
  "write_map_file path ls = or_else (fs_write path []) (\<lambda>k. done_with (Inl k)) (\<lambda>_. fs_write path (map_text ls))"

definition write_and_hash :: "string \<Rightarrow> string list \<Rightarrow> unit admin_op" where
  "write_and_hash path ls = or_else (write_map_file path ls) (\<lambda>_. done_with ())
     (\<lambda>_. and_then (run_command [''postmap'', path]) (\<lambda>_. done_with ()))"

definition write_postfix_maps :: "config \<Rightarrow> unit admin_op" where
  "write_postfix_maps c s = and_then (write_and_hash (cf_recipient_access_path c) (recipient_lines (aw_maps s)))
     (\<lambda>_ s. write_and_hash (cf_sender_access_path c) (sender_lines (aw_maps s)) s) s"

text \<open>What every handler that changes the maps does, under the lock and after it.\<close>

definition change_maps :: "admin_env \<Rightarrow> config \<Rightarrow> (access_maps \<Rightarrow> access_maps) \<Rightarrow> unit admin_op" where
  "change_maps E c f =
    and_then (\<lambda>s. ((), s\<lparr>aw_maps := f (aw_maps s)\<rparr>)) (\<lambda>_.
    and_then (save_maps E (cf_access_maps_path c)) (\<lambda>_.
    and_then (write_postfix_maps c) (\<lambda>_.
    trigger_postfix_reload_debounced c)))"

section \<open>Addresses\<close>

definition is_ascii_whitespace :: "char \<Rightarrow> bool" where
  "is_ascii_whitespace c = (byte c \<in> {9, 10, 12, 13, 32})"

definition is_ascii_control :: "char \<Rightarrow> bool" where
  "is_ascii_control c = (byte c < 32 \<or> byte c = 127)"

definition validate_address :: "string \<Rightarrow> bool" where
  "validate_address address = (address \<noteq> [] \<and> CHR ''/'' \<notin> set address \<and> CHR 0x5C \<notin> set address
     \<and> \<not> contains_str ''..'' address \<and> NUL \<notin> set address
     \<and> \<not> list_ex (\<lambda>b. is_ascii_whitespace b \<or> is_ascii_control b) address
     \<and> hd address \<noteq> CHR ''.'' \<and> hd address \<noteq> CHR ''-'' \<and> count_list address (CHR ''@'') = 1)"

definition validate_local_address :: "string \<Rightarrow> string \<Rightarrow> bool" where
  "validate_local_address address mail_domain = (validate_address address \<and> mail_domain \<noteq> []
     \<and> (case rsplit_once (CHR ''@'') address of None \<Rightarrow> False | Some (_, domain) \<Rightarrow> eq_ignore_ascii_case domain mail_domain))"

definition safe_child_path :: "admin_env \<Rightarrow> string \<Rightarrow> string \<Rightarrow> admin_world \<Rightarrow> string option" where
  "safe_child_path E base address s =
    (if \<not> validate_address address then None
     else let candidate = path_join base address in
       case ae_canonicalize E base of None \<Rightarrow> Some candidate
       | Some canonical_base \<Rightarrow>
           if \<not> path_exists candidate s then Some candidate
           else case ae_canonicalize E candidate of None \<Rightarrow> Some candidate
             | Some c \<Rightarrow> if path_under canonical_base c then Some candidate else None)"

definition maildir_path :: "admin_env \<Rightarrow> config \<Rightarrow> string \<Rightarrow> admin_world \<Rightarrow> string option" where
  "maildir_path E c address s = safe_child_path E (cf_vmail_home c) address s"

definition password_file_path :: "admin_env \<Rightarrow> config \<Rightarrow> string \<Rightarrow> admin_world \<Rightarrow> string option" where
  "password_file_path E c address s = map_option (\<lambda>p. path_join p ''password'') (safe_child_path E (cf_vmail_home c) address s)"

section \<open>Handlers\<close>

type_synonym admin_reply = "nat \<times> json"

definition invalid_address :: admin_reply where
  "invalid_address = (400, JObj [(''error'', JStr ''invalid address'')])"

definition failed :: "string \<Rightarrow> admin_reply" where
  "failed what = (500, JObj [(''error'', JStr what)])"

definition require_admin_secret :: "admin_env \<Rightarrow> config \<Rightarrow> string option \<Rightarrow> admin_reply admin_op \<Rightarrow> admin_reply admin_op" where
  "require_admin_secret E c authorization next =
    (case Option.bind authorization (strip_prefix ''Bearer '') of
       Some token \<Rightarrow> if ae_digest E token = ae_digest E (cf_admin_secret c) then next
         else done_with (401, JObj [(''error'', JStr ''unauthorised'')])
     | None \<Rightarrow> done_with (401, JObj [(''error'', JStr ''unauthorised'')]))"

definition rotate_password :: "admin_env \<Rightarrow> config \<Rightarrow> string \<Rightarrow> admin_reply admin_op" where
  "rotate_password E c address s = (case password_file_path E c address s of None \<Rightarrow> (invalid_address, s)
     | Some password_file \<Rightarrow>
         if \<not> path_exists password_file s then ((404, JObj [(''error'', JStr ''account not found'')]), s)
         else and_then (generate_password E) (\<lambda>password.
           or_else (fs_write password_file password) (\<lambda>_. done_with (failed ''password rotation failed'')) (\<lambda>_.
           done_with (200, JObj [(''address'', JStr address), (''password'', JStr password)]))) s)"

definition owned_paths :: "string \<Rightarrow> string \<Rightarrow> string list" where
  "owned_paths account_dir password_file = (let maildir = path_join account_dir ''Maildir'' in
     [account_dir, maildir, password_file] @ map (path_join maildir) [''cur'', ''new'', ''tmp''])"

definition abandon :: "string \<Rightarrow> admin_reply admin_op" where
  "abandon account_dir = and_then (fs_remove_dir_all account_dir) (\<lambda>_. done_with (failed ''account creation failed''))"

definition create_account :: "admin_env \<Rightarrow> config \<Rightarrow> string \<Rightarrow> admin_reply admin_op" where
  "create_account E c raw s =
    (if \<not> validate_local_address raw (cf_mail_domain c) then (invalid_address, s)
     else let address = ae_lowercase E raw in
       case (maildir_path E c address s, password_file_path E c address s) of
         (Some account_dir, Some password_file) \<Rightarrow>
           or_else (each_fs (\<lambda>sub. fs_create_dir_all (path_join (path_join account_dir ''Maildir'') sub)) [''cur'', ''new'', ''tmp''])
             (\<lambda>_. abandon account_dir) (\<lambda>_.
           and_then (generate_password E) (\<lambda>password.
           or_else (or_else (fs_create_new password_file) (\<lambda>k. done_with (Inl k)) (\<lambda>_. fs_write password_file password))
             (\<lambda>k. if k = AlreadyExists then done_with (409, JObj [(''error'', JStr ''account exists'')]) else abandon account_dir) (\<lambda>_.
           or_else (each_fs (fs_chown (cf_vmail_owner c)) (owned_paths account_dir password_file)) (\<lambda>_. abandon account_dir) (\<lambda>_.
           done_with (201, JObj [(''address'', JStr address), (''password'', JStr password)]))))) s
       | _ \<Rightarrow> (invalid_address, s))"

definition kick :: "string \<Rightarrow> admin_reply admin_op" where
  "kick address =
    (if \<not> validate_address address \<or> CHR ''*'' \<in> set address \<or> CHR ''?'' \<in> set address then done_with invalid_address
     else and_then (run_command [''doveadm'', ''kick'', address]) (\<lambda>status. done_with (case status of
         Some n \<Rightarrow> if n = 0 then (200, JObj [(''address'', JStr address), (''kicked'', JBool True)])
           else (200, JObj [(''address'', JStr address), (''kicked'', JBool True),
             (''note'', JStr ''doveadm exited non-zero (may indicate no active sessions)'')])
       | None \<Rightarrow> failed ''doveadm kick failed'')))"

definition delete_account :: "admin_env \<Rightarrow> config \<Rightarrow> string \<Rightarrow> admin_reply admin_op" where
  "delete_account E c address s = (case maildir_path E c address s of None \<Rightarrow> (invalid_address, s)
     | Some account_dir \<Rightarrow>
         or_else (if path_exists account_dir s then fs_remove_dir_all account_dir else done_with (Inr ()))
           (\<lambda>_. done_with (failed ''account deletion failed'')) (\<lambda>_.
         and_then (change_maps E c (\<lambda>m. m\<lparr>blocked_recipients := set_insert address (blocked_recipients m)\<rparr>)) (\<lambda>_.
         done_with (200, JObj [(''address'', JStr address), (''deleted'', JBool True)]))) s)"

definition block_recipient :: "admin_env \<Rightarrow> config \<Rightarrow> string \<Rightarrow> admin_reply admin_op" where
  "block_recipient E c address = (if \<not> validate_address address then done_with invalid_address
     else and_then (change_maps E c (\<lambda>m. m\<lparr>blocked_recipients := set_insert address (blocked_recipients m)\<rparr>)) (\<lambda>_.
       done_with (200, JObj [(''address'', JStr address), (''blocked'', JBool True)])))"

definition unblock_recipient :: "admin_env \<Rightarrow> config \<Rightarrow> string \<Rightarrow> admin_reply admin_op" where
  "unblock_recipient E c address = (if \<not> validate_address address then done_with invalid_address
     else and_then (change_maps E c (\<lambda>m. m\<lparr>blocked_recipients := set_remove address (blocked_recipients m)\<rparr>)) (\<lambda>_.
       done_with (200, JObj [(''address'', JStr address), (''unblocked'', JBool True)])))"

definition with_pair_block :: "string \<Rightarrow> string \<Rightarrow> access_maps \<Rightarrow> access_maps" where
  "with_pair_block sender recipient m = m\<lparr>sender_blocks := map_entry sender (set_insert recipient) (sender_blocks m)\<rparr>"

definition without_pair_block :: "string \<Rightarrow> string \<Rightarrow> access_maps \<Rightarrow> access_maps" where
  "without_pair_block sender recipient m = m\<lparr>sender_blocks := filter (\<lambda>(s, rs). s \<noteq> sender \<or> rs \<noteq> [])
     (map (\<lambda>(s, rs). (s, if s = sender then set_remove recipient rs else rs)) (sender_blocks m))\<rparr>"

definition block_sender_pair :: "admin_env \<Rightarrow> config \<Rightarrow> string \<Rightarrow> string \<Rightarrow> admin_reply admin_op" where
  "block_sender_pair E c sender recipient =
    (if \<not> validate_address sender \<or> \<not> validate_address recipient then done_with invalid_address
     else and_then (change_maps E c (with_pair_block sender recipient)) (\<lambda>_.
       done_with (200, JObj [(''sender'', JStr sender), (''recipient'', JStr recipient), (''blocked'', JBool True)])))"

definition unblock_sender_pair :: "admin_env \<Rightarrow> config \<Rightarrow> string \<Rightarrow> string \<Rightarrow> admin_reply admin_op" where
  "unblock_sender_pair E c sender recipient =
    (if \<not> validate_address sender \<or> \<not> validate_address recipient then done_with invalid_address
     else and_then (change_maps E c (without_pair_block sender recipient)) (\<lambda>_.
       done_with (200, JObj [(''sender'', JStr sender), (''recipient'', JStr recipient), (''unblocked'', JBool True)])))"

definition account_exists :: "admin_env \<Rightarrow> config \<Rightarrow> string \<Rightarrow> admin_reply admin_op" where
  "account_exists E c address s = (case password_file_path E c address s of None \<Rightarrow> (invalid_address, s)
     | Some p \<Rightarrow> ((200, JObj [(''address'', JStr address), (''exists'', JBool (path_exists p s))]), s))"

section \<open>The router\<close>

text \<open>A request as it reaches a handler: the route that matches it, with its decoded segments.\<close>

datatype admin_call =
    RotatePassword string
  | Kick string
  | DeleteAccount string
  | CreateAccount string
  | AccountExists string
  | BlockRecipient string
  | UnblockRecipient string
  | BlockSenderPair string string
  | UnblockSenderPair string string
  | NoRoute

definition not_found :: admin_reply where
  "not_found = (404, JObj [(''error'', JStr ''not found'')])"

fun handler :: "admin_env \<Rightarrow> config \<Rightarrow> admin_call \<Rightarrow> admin_reply admin_op" where
  "handler E c (RotatePassword a) = rotate_password E c a"
| "handler E c (Kick a) = kick a"
| "handler E c (DeleteAccount a) = delete_account E c a"
| "handler E c (CreateAccount a) = create_account E c a"
| "handler E c (AccountExists a) = account_exists E c a"
| "handler E c (BlockRecipient a) = block_recipient E c a"
| "handler E c (UnblockRecipient a) = unblock_recipient E c a"
| "handler E c (BlockSenderPair a b) = block_sender_pair E c a b"
| "handler E c (UnblockSenderPair a b) = unblock_sender_pair E c a b"
| "handler E c NoRoute = done_with not_found"

text \<open>The secret is checked before any route, the fallback included.\<close>

definition admin_request :: "admin_env \<Rightarrow> config \<Rightarrow> string option \<times> admin_call \<Rightarrow> admin_reply admin_op" where
  "admin_request E c r = require_admin_secret E c (fst r) (handler E c (snd r))"

section \<open>The allowlist\<close>

datatype fetch_outcome = Unchanged | Fetched "string list" "string option"

text \<open>A response: status, entity tag and text; an error of the client has none.\<close>

definition read_allowlist :: "admin_env \<Rightarrow> (nat \<times> string option \<times> string) option \<Rightarrow> fetch_outcome option" where
  "read_allowlist E response = Option.bind response (\<lambda>(status, etag, text).
     if status = 304 then Some Unchanged
     else Option.bind (ae_parse_json E text) (\<lambda>doc. case doc of
         JObj members \<Rightarrow> (case map_of members ''domains'' of
             Some (JArr ds) \<Rightarrow>
               if list_all (\<lambda>d. case d of JStr _ \<Rightarrow> True | _ \<Rightarrow> False) ds
               then Some (Fetched (fold (\<lambda>d. case d of JStr t \<Rightarrow> set_insert t | _ \<Rightarrow> id) ds []) etag) else None
           | _ \<Rightarrow> None)
       | _ \<Rightarrow> None))"

record poll_state =
  po_last :: "string list"
  po_etag :: "string option"

definition allowlist_header :: string where
  "allowlist_header = ''# Generated by noombat-chatmail-admin allowlist sync. Do not edit.''"

definition transport_lines :: "string list \<Rightarrow> string list" where
  "transport_lines domains = allowlist_header # map (\<lambda>d. d @ '' smtp:['' @ d @ '']'') domains"

definition sender_domain_lines :: "string list \<Rightarrow> string list" where
  "sender_domain_lines domains = allowlist_header # ''<> OK'' # map (\<lambda>d. d @ '' OK'') domains"

definition apply_allowlist :: "config \<Rightarrow> string list \<Rightarrow> unit admin_op" where
  "apply_allowlist c domains =
    and_then (write_map_file (cf_transport_maps_path c) (transport_lines domains)) (\<lambda>outbound.
    and_then (write_map_file (cf_sender_domains_path c) (sender_domain_lines domains)) (\<lambda>inbound.
    case (outbound, inbound) of
      (Inr _, Inr _) \<Rightarrow>
        and_then (run_command [''postmap'', cf_transport_maps_path c]) (\<lambda>_.
        and_then (run_command [''postmap'', cf_sender_domains_path c]) (\<lambda>_.
        and_then (run_command [''postfix'', ''reload'']) (\<lambda>_. done_with ())))
    | _ \<Rightarrow> done_with ()))"

definition poll_once :: "admin_env \<Rightarrow> config \<Rightarrow> (nat \<times> string option \<times> string) option \<Rightarrow> poll_state \<Rightarrow> poll_state admin_op" where
  "poll_once E c response p = (case read_allowlist E response of
     Some (Fetched domains etag) \<Rightarrow>
       if domains \<noteq> po_last p
       then and_then (apply_allowlist c domains) (\<lambda>_. done_with \<lparr>po_last = domains, po_etag = etag\<rparr>)
       else done_with (p\<lparr>po_etag := etag\<rparr>)
   | _ \<Rightarrow> done_with p)"

section \<open>Start-up\<close>

text \<open>What \<open>main\<close> does before it serves: the last reload counts as having just happened.\<close>

definition start_daemon :: "admin_env \<Rightarrow> config \<Rightarrow> unit admin_op" where
  "start_daemon E c =
    and_then (load_or_init E (cf_access_maps_path c)) (\<lambda>maps.
    and_then (\<lambda>s. ((), s\<lparr>aw_maps := maps, aw_last_reload := aw_now s\<rparr>)) (\<lambda>_.
    and_then (write_postfix_maps c) (\<lambda>_.
    trigger_postfix_reload_debounced c)))"

end
