(* ===== verification/AdminSafety.thy ===== *)
theory AdminSafety
  imports ChatAdmin
begin

text \<open>
  Lemmas on the administration daemon: which nodes of the file system an operation may change,
  stated as a locale over the directories that must stay and the region an account may touch; the
  access maps as sets; the tables written for Postfix and what they say when read.
\<close>

section \<open>Operations and what they change\<close>

definition relates :: "(admin_world \<Rightarrow> admin_world \<Rightarrow> bool) \<Rightarrow> 'a admin_op \<Rightarrow> bool" where
  "relates R m \<longleftrightarrow> (\<forall>s. R s (snd (m s)))"

lemma relatesI: "(\<And>s. R s (snd (m s))) \<Longrightarrow> relates R m"
  by (simp add: relates_def)

lemma relatesD: "relates R m \<Longrightarrow> R s (snd (m s))"
  by (simp add: relates_def)

lemma and_then_apply: "and_then m k s = k (fst (m s)) (snd (m s))"
  by (simp add: and_then_def case_prod_beta)

text \<open>A relation between the world before and after that holds of every step holds of the handlers.\<close>

locale effect =
  fixes R :: "admin_world \<Rightarrow> admin_world \<Rightarrow> bool"
  assumes still: "R s s" and steps: "R s t \<Longrightarrow> R t u \<Longrightarrow> R s u"
begin

lemma done_with: "relates R (done_with x)"
  by (simp add: relates_def done_with_def still)

lemma and_then: "relates R m \<Longrightarrow> (\<And>x. relates R (k x)) \<Longrightarrow> relates R (and_then m k)"
  by (rule relatesI) (simp add: and_then_apply, blast intro: steps relatesD)

lemma or_else: "relates R m \<Longrightarrow> (\<And>e. relates R (h e)) \<Longrightarrow> (\<And>x. relates R (k x)) \<Longrightarrow> relates R (or_else m h k)"
  unfolding or_else_def by (rule and_then) (simp_all split: sum.splits)

lemma each_fs: "(\<And>x. x \<in> set xs \<Longrightarrow> relates R (f x)) \<Longrightarrow> relates R (each_fs f xs)"
  by (induction xs) (auto intro!: or_else done_with)

lemma and_then_at: "relates R m \<Longrightarrow> (\<And>x. relates R (k x)) \<Longrightarrow> R s (snd (and_then m k s))"
  by (rule relatesD [OF and_then])

lemma or_else_at: "relates R m \<Longrightarrow> (\<And>e. relates R (h e)) \<Longrightarrow> (\<And>x. relates R (k x)) \<Longrightarrow> R s (snd (or_else m h k s))"
  by (rule relatesD [OF or_else])

lemmas calculus = done_with and_then or_else each_fs

end

lemma relates_if: "relates R a \<Longrightarrow> relates R b \<Longrightarrow> relates R (if c then a else b)"
  by simp

lemma fs_op_cases: "snd (fs_op f s) = s\<lparr>aw_tick := Suc (aw_tick s)\<rparr> \<or> snd (fs_op f s) = snd (f (s\<lparr>aw_tick := Suc (aw_tick s)\<rparr>))"
  by (simp add: fs_op_def Let_def split: option.splits)

section \<open>The nodes an operation changes\<close>

lemma node_at_set_node: "node_at q (set_node p n s) = (if q = p then Some n else node_at q s)"
  by (simp add: node_at_def set_node_def)

lemma node_at_tick [simp]: "node_at q (s\<lparr>aw_tick := t\<rparr>) = node_at q s"
  by (simp add: node_at_def)

lemma node_at_maps [simp]: "node_at q (s\<lparr>aw_maps := m\<rparr>) = node_at q s"
  by (simp add: node_at_def)

lemma node_at_remove: "node_at q (s\<lparr>aw_nodes := filter (\<lambda>(q, _). \<not> path_under p q) (aw_nodes s)\<rparr>) = (if path_under p q then None else node_at q s)"
proof -
  have "map_of (filter (\<lambda>(q, _). \<not> path_under p q) xs) q = (if path_under p q then None else map_of xs q)" for xs :: "(string \<times> fs_node) list"
    by (induction xs) auto
  then show ?thesis by (simp add: node_at_def)
qed

text \<open>Only nodes in a region change, provided some directories stand, and these still stand.\<close>

definition inside :: "string list \<Rightarrow> (string \<Rightarrow> bool) \<Rightarrow> admin_world \<Rightarrow> admin_world \<Rightarrow> bool" where
  "inside ds Q s t \<longleftrightarrow> ((\<forall>d\<in>set ds. node_at d s \<noteq> None)
     \<longrightarrow> (\<forall>d\<in>set ds. node_at d t \<noteq> None) \<and> (\<forall>q. \<not> Q q \<longrightarrow> node_at q t = node_at q s))"

interpretation place: effect "inside ds Q" for ds Q
  by unfold_locales (auto simp: inside_def)

lemma inside_same_nodes: "(\<And>q. node_at q t = node_at q s) \<Longrightarrow> inside ds Q s t"
  by (simp add: inside_def)

lemma inside_command [simp]: "relates (inside ds Q) (run_command argv)"
  by (rule relatesI) (simp add: run_command_def node_at_def inside_same_nodes)

lemma inside_password [simp]: "relates (inside ds Q) (generate_password E)"
  by (rule relatesI) (simp add: generate_password_def node_at_def inside_same_nodes)

lemma inside_reload [simp]: "relates (inside ds Q) (trigger_postfix_reload_debounced c)"
  by (rule relatesI) (simp add: trigger_postfix_reload_debounced_def run_command_def node_at_def inside_same_nodes)

lemma dirs_from_iff: "d \<in> set (dirs_from seen p) \<longleftrightarrow> (\<exists>u v. p = u @ v \<and> d = seen @ u \<and> (v = [] \<or> hd v = CHR ''/'' \<and> d \<noteq> []))"
proof (induction p arbitrary: seen)
  case Nil
  then show ?case by auto
next
  case (Cons c p)
  have "(\<exists>u v. c # p = u @ v \<and> d = seen @ u \<and> (v = [] \<or> hd v = CHR ''/'' \<and> d \<noteq> []))
    \<longleftrightarrow> (d = seen \<and> c = CHR ''/'' \<and> seen \<noteq> []) \<or> (\<exists>u v. p = u @ v \<and> d = (seen @ [c]) @ u \<and> (v = [] \<or> hd v = CHR ''/'' \<and> d \<noteq> []))"
    (is "?l \<longleftrightarrow> ?a \<or> ?b")
  proof
    assume ?l
    then obtain u v where "c # p = u @ v" "d = seen @ u" "v = [] \<or> hd v = CHR ''/'' \<and> d \<noteq> []" by blast
    then show "?a \<or> ?b" by (cases u) auto
  next
    assume "?a \<or> ?b"
    then show ?l
    proof
      assume ?a
      then show ?l by (intro exI [of _ "[]"] exI [of _ "c # p"]) simp
    next
      assume ?b
      then obtain u v where "p = u @ v" "d = (seen @ [c]) @ u" "v = [] \<or> hd v = CHR ''/'' \<and> d \<noteq> []" by blast
      then show ?l by (intro exI [of _ "c # u"] exI [of _ v]) simp
    qed
  qed
  moreover have "d \<in> set (dirs_from seen (c # p)) \<longleftrightarrow> (d = seen \<and> c = CHR ''/'' \<and> seen \<noteq> []) \<or> d \<in> set (dirs_from (seen @ [c]) p)"
    by auto
  ultimately show ?case by (simp only: Cons)
qed

section \<open>The region of an account\<close>

text \<open>What an account needs of its surroundings: the directories above it, none of them its own.\<close>

locale region =
  fixes ds :: "string list" and Q :: "string \<Rightarrow> bool"
  assumes outside: "d \<in> set ds \<Longrightarrow> \<not> Q d"
begin

lemma changes_region:
  assumes "\<And>t q. \<not> Q q \<Longrightarrow> (\<And>d. d \<in> set ds \<Longrightarrow> node_at d t \<noteq> None) \<Longrightarrow> node_at q (snd (f t)) = node_at q t"
  shows "relates (inside ds Q) (fs_op f)"
proof (rule relatesI)
  fix s :: admin_world
  define t where "t = s\<lparr>aw_tick := Suc (aw_tick s)\<rparr>"
  have t: "node_at q t = node_at q s" for q by (simp add: t_def)
  have "inside ds Q s (snd (f t))"
    using assms [of _ t] outside by (simp add: inside_def t)
  then show "inside ds Q s (snd (fs_op f s))"
    using fs_op_cases [of f s] inside_same_nodes [of t s] t by (auto simp: t_def)
qed

lemma fs_write: "Q p \<Longrightarrow> relates (inside ds Q) (fs_write p content)"
  unfolding fs_write_def
  by (rule changes_region) (auto simp: node_at_set_node split: option.splits fs_node.splits)

lemma fs_create_new: "Q p \<Longrightarrow> relates (inside ds Q) (fs_create_new p)"
  unfolding fs_create_new_def by (rule changes_region) (auto simp: node_at_set_node split: option.splits)

lemma fs_chown: "Q p \<Longrightarrow> relates (inside ds Q) (fs_chown own p)"
  unfolding fs_chown_def
  by (rule changes_region) (auto simp: node_at_set_node split: option.splits fs_node.splits)

lemma fs_remove_dir_all: "(\<And>q. path_under p q \<Longrightarrow> Q q) \<Longrightarrow> relates (inside ds Q) (fs_remove_dir_all p)"
  unfolding fs_remove_dir_all_def by (rule changes_region) (auto simp: node_at_remove)

lemma make_dirs:
  assumes "\<forall>d\<in>set ps. Q d \<or> d \<in> set ds" "\<forall>d\<in>set ds. node_at d s \<noteq> None" "\<not> Q q"
  shows "node_at q (fold (\<lambda>d s. if node_at d s = None then set_node d (Dir (0, 0)) s else s) ps s) = node_at q s"
  using assms
proof (induction ps arbitrary: s)
  case (Cons p ps)
  define t where "t = (if node_at p s = None then set_node p (Dir (0, 0)) s else s)"
  have same: "\<not> Q r \<Longrightarrow> node_at r t = node_at r s" for r
    using Cons.prems(1,2) by (auto simp: t_def node_at_set_node)
  have "\<forall>d\<in>set ds. node_at d t \<noteq> None" using Cons.prems(2) by (auto simp: t_def node_at_set_node)
  then show ?case using Cons.IH [of t] Cons.prems(1,3) same by (simp add: t_def)
qed simp

lemma fs_create_dir_all:
  assumes "\<And>d. d \<in> set (dirs_from [] p) \<Longrightarrow> Q d \<or> d \<in> set ds"
  shows "relates (inside ds Q) (fs_create_dir_all p)"
  unfolding fs_create_dir_all_def by (rule changes_region) (use assms make_dirs in auto)

lemmas operations = fs_write fs_create_new fs_chown fs_remove_dir_all fs_create_dir_all

end

definition account_area :: "string \<Rightarrow> string \<Rightarrow> string \<Rightarrow> bool" where
  "account_area home address q \<longleftrightarrow> address \<noteq> [] \<and> path_under (path_join home address) q"

lemma path_join_split: "\<exists>sep. path_join home a = home @ sep @ a \<and> (sep = [] \<and> suffix ''/'' home \<or> sep = ''/'')"
  by (simp add: path_join_def)

lemma dirs_shorter: "d \<in> set (dirs_from [] p) \<Longrightarrow> prefix d p"
  by (auto simp: dirs_from_iff)

interpretation account: region "dirs_from [] home" "account_area home address" for home address
proof
  fix d
  assume "d \<in> set (dirs_from [] home)"
  then have "length d \<le> length home" using dirs_shorter prefix_length_le by blast
  moreover obtain sep where "path_join home address = home @ sep @ address" using path_join_split by blast
  ultimately show "\<not> account_area home address d"
    by (auto simp: account_area_def path_under_def dest!: prefix_length_le)
qed

lemma validate_address_shape:
  "validate_address a \<Longrightarrow> a \<noteq> [] \<and> CHR ''/'' \<notin> set a"
  by (simp add: validate_address_def)

lemma safe_child_path_is: "safe_child_path E base a s = Some p \<Longrightarrow> validate_address a \<and> p = path_join base a"
  by (auto simp: safe_child_path_def Let_def split: if_splits option.splits)

lemma area_join:
  assumes "a \<noteq> []" "last a \<noteq> CHR ''/''" "account_area home a p"
  shows "account_area home a (path_join p x)"
proof -
  have "last (path_join home a) \<noteq> CHR ''/''" using assms(1,2) path_join_split [of home a] by auto
  moreover have "path_join home a \<noteq> []" using assms(1) path_join_split [of home a] by auto
  ultimately have ns: "\<not> suffix ''/'' (path_join home a)" by (metis last_snoc suffixE)
  show ?thesis
  proof (cases "p = path_join home a")
    case True
    then show ?thesis using ns assms(1) by (auto simp: account_area_def path_under_def path_join_def)
  next
    case False
    then have "prefix (path_join home a @ ''/'') p" using assms(3) by (simp add: account_area_def path_under_def)
    then have "prefix (path_join home a @ ''/'') (path_join p x)"
      by (auto simp: path_join_def prefix_def)
    then show ?thesis using assms(1) by (simp add: account_area_def path_under_def)
  qed
qed

lemma dirs_of_area:
  assumes a: "a \<noteq> []" "CHR ''/'' \<notin> set a" and p: "prefix (path_join home a @ ''/'') p" and d: "d \<in> set (dirs_from [] p)"
  shows "account_area home a d \<or> d \<in> set (dirs_from [] home)"
proof -
  obtain sep where j: "path_join home a = home @ sep @ a" "sep = [] \<and> suffix ''/'' home \<or> sep = ''/''"
    using path_join_split by blast
  obtain v where pv: "p = d @ v" and vd: "v = [] \<or> hd v = CHR ''/'' \<and> d \<noteq> []" using d by (auto simp: dirs_from_iff)
  obtain r where r: "p = home @ sep @ a @ ''/'' @ r" using p j by (auto simp: prefix_def)
  consider "length d \<le> length home" | "length home < length d" "length d < length (home @ sep @ a)" | "length (home @ sep @ a) \<le> length d" by linarith
  then show ?thesis
  proof cases
    case 1
    then obtain w where w: "home = d @ w" using pv r by (auto simp: append_eq_append_conv2)
    then have "v = w @ sep @ a @ ''/'' @ r" using pv r by simp
    then have "w = [] \<or> hd w = CHR ''/'' \<and> d \<noteq> []" using vd by (cases w) auto
    then show ?thesis using w by (auto simp: dirs_from_iff)
  next
    case 2
    obtain w where w: "d = home @ w" "sep @ a @ ''/'' @ r = w @ v" using pv r 2(1)
      by (auto simp: append_eq_append_conv2)
    then have "w \<noteq> []" "length w < length (sep @ a)" using 2 by auto
    define u where "u = drop (length w) (sep @ a)"
    have "(sep @ a) @ ''/'' @ r = w @ v" using w(2) by simp
    then have "take (length w) ((sep @ a) @ ''/'' @ r) = w" "drop (length w) ((sep @ a) @ ''/'' @ r) = v" by simp_all
    then have tw: "take (length w) (sep @ a) = w" and v: "v = u @ ''/'' @ r"
      using \<open>length w < length (sep @ a)\<close> by (auto simp: u_def)
    have u: "sep @ a = w @ u" "u \<noteq> []" "v = u @ ''/'' @ r"
      using tw v \<open>length w < length (sep @ a)\<close> append_take_drop_id [of "length w" "sep @ a"] by (auto simp: u_def)
    have "hd u \<in> set a"
    proof -
      have "\<exists>w'. a = w' @ u" using u(1) j(2) \<open>w \<noteq> []\<close> by (cases w) auto
      then show ?thesis using u(2) by auto
    qed
    moreover have "hd u = CHR ''/''" using vd u(2,3) by auto
    ultimately show ?thesis using a(2) by simp
  next
    case 3
    then obtain w where w: "d = home @ sep @ a @ w" "''/'' @ r = w @ v"
      using pv r by (auto simp: append_eq_append_conv2)
    then have "w = [] \<or> prefix ''/'' w" by (cases w) auto
    then show ?thesis using w(1) a(1) j(1) by (auto simp: account_area_def path_under_def)
  qed
qed

section \<open>Where the handlers write\<close>

text \<open>The files the maps may be saved in, and every node made for them.\<close>

definition saved_paths :: "admin_env \<Rightarrow> string \<Rightarrow> string list" where
  "saved_paths E path = path # List.map_filter id
     [ae_canonicalize E path,
      Option.bind (parent_of path) (\<lambda>parent. Option.bind (ae_canonicalize E parent) (\<lambda>d.
        map_option (\<lambda>x. path_join d (snd x)) (rsplit_once (CHR ''/'') path)))]"

definition map_places :: "admin_env \<Rightarrow> config \<Rightarrow> string list" where
  "map_places E c = [cf_recipient_access_path c, cf_sender_access_path c]
     @ concat (map (\<lambda>p. p # (case parent_of p of None \<Rightarrow> [] | Some d \<Rightarrow> dirs_from [] d)) (saved_paths E (cf_access_maps_path c)))"

fun call_area :: "admin_env \<Rightarrow> config \<Rightarrow> admin_call \<Rightarrow> string \<Rightarrow> bool" where
  "call_area E c (RotatePassword a) q = account_area (cf_vmail_home c) a q"
| "call_area E c (CreateAccount a) q = account_area (cf_vmail_home c) (ae_lowercase E a) q"
| "call_area E c (DeleteAccount a) q = (account_area (cf_vmail_home c) a q \<or> q \<in> set (map_places E c))"
| "call_area E c (BlockRecipient a) q = (q \<in> set (map_places E c))"
| "call_area E c (UnblockRecipient a) q = (q \<in> set (map_places E c))"
| "call_area E c (BlockSenderPair a b) q = (q \<in> set (map_places E c))"
| "call_area E c (UnblockSenderPair a b) q = (q \<in> set (map_places E c))"
| "call_area E c _ q = False"

lemma validated_path_saved: "validated_path E path s = Some p \<Longrightarrow> p \<in> set (saved_paths E path)"
  by (auto simp: validated_path_def saved_paths_def map_filter_simps Let_def
      split: if_splits option.splits bind_splits)

interpretation anywhere: region "[]" Q for Q
  by unfold_locales simp

lemma inside_maps: "relates (inside ds Q) (\<lambda>s. ((), s\<lparr>aw_maps := f (aw_maps s)\<rparr>))"
  by (rule relatesI) (simp add: inside_same_nodes)

lemma inside_write_and_hash: "Q path \<Longrightarrow> relates (inside [] Q) (write_and_hash path ls)"
  unfolding write_and_hash_def write_map_file_def
  by (intro place.calculus inside_command anywhere.fs_write)

lemma inside_save_maps:
  assumes "\<And>q. q \<in> set (map_places E c) \<Longrightarrow> Q q"
  shows "relates (inside [] Q) (save_maps E (cf_access_maps_path c))"
proof (rule relatesI)
  fix s
  show "inside [] Q s (snd (save_maps E (cf_access_maps_path c) s))"
  proof (cases "validated_path E (cf_access_maps_path c) s")
    case None
    then show ?thesis by (simp add: save_maps_def place.still)
  next
    case (Some p)
    then have p: "p \<in> set (saved_paths E (cf_access_maps_path c))" by (rule validated_path_saved)
    have "Q p" using p by (intro assms) (auto simp: map_places_def)
    moreover have "Q d" if "parent_of p = Some b" "d \<in> set (dirs_from [] b)" for b d
      using p that by (intro assms) (force simp: map_places_def)
    ultimately have "relates (inside [] Q) (or_else (case parent_of p of None \<Rightarrow> done_with (Inr ()) | Some d \<Rightarrow> fs_create_dir_all d)
        (\<lambda>k. done_with (Inl k)) (\<lambda>_. fs_write p (ae_show_maps E (aw_maps s))))"
      by (intro place.calculus) (auto split: option.splits intro!: anywhere.operations place.calculus)
    then show ?thesis using Some by (simp add: save_maps_def relatesD)
  qed
qed

lemma inside_change_maps:
  assumes Q: "\<And>q. q \<in> set (map_places E c) \<Longrightarrow> Q q"
  shows "relates (inside [] Q) (change_maps E c f)"
proof -
  have p: "Q (cf_recipient_access_path c)" "Q (cf_sender_access_path c)" by (auto intro!: Q simp: map_places_def)
  have "relates (inside [] Q) (\<lambda>s. write_and_hash (cf_sender_access_path c) (sender_lines (aw_maps s)) s)"
    using inside_write_and_hash [of Q, OF p(2)] by (auto simp: relates_def)
  then have "relates (inside [] Q) (and_then (write_and_hash (cf_recipient_access_path c) ls)
      (\<lambda>_ s. write_and_hash (cf_sender_access_path c) (sender_lines (aw_maps s)) s))" for ls
    by (intro place.and_then inside_write_and_hash p)
  then have "relates (inside [] Q) (write_postfix_maps c)" by (simp add: write_postfix_maps_def relates_def)
  then show ?thesis
    unfolding change_maps_def
    by (intro place.and_then inside_maps inside_save_maps inside_reload Q)
qed

lemma account_own: "a \<noteq> [] \<Longrightarrow> account_area home a (path_join home a)"
  by (simp add: account_area_def path_under_def)

lemma account_last: "validate_address a \<Longrightarrow> a \<noteq> [] \<and> CHR ''/'' \<notin> set a \<and> last a \<noteq> CHR ''/''"
  by (metis last_in_set validate_address_shape)

lemma password_file_path_is:
  "password_file_path E c a s = Some p \<Longrightarrow> validate_address a \<and> p = path_join (path_join (cf_vmail_home c) a) ''password''"
  by (auto simp: password_file_path_def dest: safe_child_path_is)

lemma maildir_path_is: "maildir_path E c a s = Some p \<Longrightarrow> validate_address a \<and> p = path_join (cf_vmail_home c) a"
  unfolding maildir_path_def by (rule safe_child_path_is)

lemma area_below:
  assumes "validate_address a"
  shows "account_area home a (path_join home a)" "account_area home a (path_join (path_join home a) x)"
    "account_area home a (path_join (path_join (path_join home a) x) y)"
  using assms by (auto intro!: account_own area_join dest: account_last)

lemma maildir_prefix:
  assumes "validate_address a"
  shows "prefix (path_join home a @ ''/'') (path_join (path_join (path_join home a) ''Maildir'') x)"
proof -
  have "last (path_join home a) \<noteq> CHR ''/''" "path_join home a \<noteq> []"
    using account_last [OF assms] path_join_split [of home a] by auto
  then have "\<not> suffix ''/'' (path_join home a)" by (metis last_snoc suffixE)
  then show ?thesis by (auto simp: path_join_def [of "path_join home a"] path_join_def [of _ x])
qed

lemma abandon_inside:
  "validate_address a \<Longrightarrow> relates (inside ds (account_area home a)) (fs_remove_dir_all (path_join home a))
    \<Longrightarrow> relates (inside ds (account_area home a)) (abandon (path_join home a))"
  unfolding abandon_def by (intro place.calculus)

lemma create_account_inside:
  assumes a: "a = ae_lowercase E raw"
  shows "relates (inside (dirs_from [] (cf_vmail_home c)) (account_area (cf_vmail_home c) a)) (create_account E c raw)"
    (is "relates ?R _")
proof (rule relatesI)
  fix s
  define dir where "dir = path_join (cf_vmail_home c) a"
  show "?R s (snd (create_account E c raw s))"
  proof (cases "validate_local_address raw (cf_mail_domain c) \<and> maildir_path E c a s \<noteq> None \<and> password_file_path E c a s \<noteq> None")
    case False
    then show ?thesis by (auto simp: create_account_def Let_def place.still simp flip: a split: option.splits)
  next
    case True
    then have v: "validate_address a" and m: "maildir_path E c a s = Some dir"
      and p: "password_file_path E c a s = Some (path_join dir ''password'')"
      by (auto simp: dir_def dest: maildir_path_is password_file_path_is)
    have "relates ?R (fs_remove_dir_all dir)"
      unfolding dir_def by (rule account.fs_remove_dir_all) (use v in \<open>auto simp: account_area_def dest: account_last\<close>)
    then have ab: "relates ?R (abandon dir)" unfolding abandon_def by (intro place.calculus)
    have mk: "relates ?R (fs_create_dir_all (path_join (path_join dir ''Maildir'') sub))" for sub
      unfolding dir_def by (rule account.fs_create_dir_all)
        (use dirs_of_area maildir_prefix [OF v] account_last [OF v] in blast)
    have pw: "account_area (cf_vmail_home c) a (path_join dir ''password'')" unfolding dir_def by (rule area_below [OF v])
    have own: "relates ?R (fs_chown (cf_vmail_owner c) x)" if "x \<in> set (owned_paths dir (path_join dir ''password''))" for x
      by (rule account.fs_chown) (use that area_below [OF v] in \<open>auto simp: owned_paths_def Let_def dir_def\<close>)
    show ?thesis using True unfolding create_account_def
      by (simp add: m p Let_def flip: a, intro place.or_else_at place.calculus ab mk own inside_password
        account.fs_create_new account.fs_write pw relates_if)
  qed
qed

lemma rotate_password_inside: "relates (inside [] (account_area (cf_vmail_home c) a)) (rotate_password E c a)"
proof (rule relatesI)
  fix s
  show "inside [] (account_area (cf_vmail_home c) a) s (snd (rotate_password E c a s))"
  proof (cases "password_file_path E c a s")
    case None
    then show ?thesis by (simp add: rotate_password_def place.still)
  next
    case (Some p)
    then have "account_area (cf_vmail_home c) a p" using password_file_path_is [OF Some] area_below by blast
    then show ?thesis
      by (auto simp: rotate_password_def Some place.still
          intro!: place.and_then_at place.calculus inside_password anywhere.fs_write)
  qed
qed

lemma delete_account_inside:
  "relates (inside [] (\<lambda>q. account_area (cf_vmail_home c) a q \<or> q \<in> set (map_places E c))) (delete_account E c a)"
proof (rule relatesI)
  fix s
  show "inside [] (\<lambda>q. account_area (cf_vmail_home c) a q \<or> q \<in> set (map_places E c)) s (snd (delete_account E c a s))"
  proof (cases "maildir_path E c a s")
    case None
    then show ?thesis by (simp add: delete_account_def place.still)
  next
    case (Some p)
    then have "path_under p q \<Longrightarrow> account_area (cf_vmail_home c) a q" for q
      using maildir_path_is [OF Some] by (auto simp: account_area_def dest: account_last)
    then show ?thesis
      by (auto simp: delete_account_def Some intro!: place.or_else_at place.calculus anywhere.fs_remove_dir_all inside_change_maps)
  qed
qed

lemma handler_inside:
  assumes "\<forall>d\<in>set (dirs_from [] (cf_vmail_home c)). node_at d s \<noteq> None" and "\<not> call_area E c call q"
  shows "node_at q (snd (handler E c call s)) = node_at q s"
proof (cases call)
  case (RotatePassword a)
  then show ?thesis
    using relatesD [OF rotate_password_inside [of c a E], of s] assms(2) by (simp add: inside_def)
next
  case (Kick a)
  then show ?thesis by (simp add: kick_def done_with_def and_then_apply run_command_def node_at_def)
next
  case (DeleteAccount a)
  then show ?thesis
    using relatesD [OF delete_account_inside [of c a E], of s] assms(2) by (simp add: inside_def)
next
  case (CreateAccount a)
  then show ?thesis
    using relatesD [OF create_account_inside [OF refl, of c E a], of s] assms by (simp add: inside_def)
next
  case (AccountExists a)
  then show ?thesis by (simp add: account_exists_def split: option.splits)
next
  case NoRoute
  then show ?thesis by (simp add: done_with_def)
qed (use assms(2) relatesD [OF inside_change_maps [where Q = "\<lambda>q. q \<in> set (map_places E c)" and E = E and c = c], where s = s]
  in \<open>auto simp: block_recipient_def unblock_recipient_def block_sender_pair_def unblock_sender_pair_def
    done_with_def and_then_apply inside_def\<close>)

section \<open>The maps as sets\<close>

definition held :: "admin_world \<Rightarrow> admin_world \<Rightarrow> bool" where
  "held s t \<longleftrightarrow> aw_maps t = aw_maps s"

interpretation held: effect held
  by unfold_locales (simp_all add: held_def)

lemma ext_maps [simp]: "aw_maps (s\<lparr>aw_tick := n\<rparr>) = aw_maps (s :: admin_world)"
  by simp

lemma held_fs_op: "(\<And>s. aw_maps (snd (f s)) = aw_maps s) \<Longrightarrow> relates held (fs_op f)"
  unfolding relates_def held_def by (metis fs_op_cases ext_maps)

lemma set_node_maps [simp]: "aw_maps (set_node p n s) = aw_maps s"
  by (simp add: set_node_def)

lemma make_dirs_maps: "aw_maps (fold (\<lambda>d s. if node_at d s = None then set_node d (Dir (0, 0)) s else s) ps s) = aw_maps s"
  by (induction ps arbitrary: s) simp_all

lemma held_operations:
  "relates held (fs_write p content)" "relates held (fs_create_new p)" "relates held (fs_chown own p)"
  "relates held (fs_remove_dir_all p)" "relates held (fs_create_dir_all p)"
  "relates held (run_command argv)" "relates held (generate_password E)" "relates held (trigger_postfix_reload_debounced c)"
  subgoal by (auto simp: fs_write_def intro!: held_fs_op split: option.splits fs_node.splits)
  subgoal by (auto simp: fs_create_new_def intro!: held_fs_op split: option.splits)
  subgoal by (auto simp: fs_chown_def intro!: held_fs_op split: option.splits fs_node.splits)
  subgoal by (auto simp: fs_remove_dir_all_def intro!: held_fs_op)
  subgoal by (auto simp: fs_create_dir_all_def make_dirs_maps intro!: held_fs_op)
  by (simp_all add: run_command_def generate_password_def trigger_postfix_reload_debounced_def held_def relates_def)

lemma held_save_maps: "aw_maps (snd (save_maps E path s)) = aw_maps s"
proof (cases "validated_path E path s")
  case (Some p)
  have "held s (snd (save_maps E path s))" unfolding save_maps_def Some option.case
    by (intro held.or_else_at) (auto split: option.splits intro!: held.calculus held_operations)
  then show ?thesis by (simp add: held_def)
qed (simp add: save_maps_def)

lemma held_write_and_hash: "aw_maps (snd (write_and_hash path ls s)) = aw_maps s"
proof -
  have "relates held (write_and_hash path ls)"
    unfolding write_and_hash_def write_map_file_def by (intro held.calculus held_operations)
  then show ?thesis by (simp add: relates_def held_def)
qed

lemma change_maps_maps: "aw_maps (snd (change_maps E c f s)) = f (aw_maps s)"
  using held_operations(8) [of c]
  by (simp add: change_maps_def and_then_apply write_postfix_maps_def held_save_maps held_write_and_hash relates_def held_def)

definition maps_ok :: "access_maps \<Rightarrow> bool" where
  "maps_ok m \<longleftrightarrow> sorted_wrt (<) (blocked_recipients m) \<and> list_all validate_address (blocked_recipients m)
     \<and> sorted_wrt (<) (map fst (sender_blocks m))
     \<and> (\<forall>(s, rs)\<in>set (sender_blocks m). validate_address s \<and> rs \<noteq> [] \<and> sorted_wrt (<) rs \<and> list_all validate_address rs)"

type_synonym block_sets = "string set \<times> (string \<times> string) set"

definition sets_of :: "access_maps \<Rightarrow> block_sets" where
  "sets_of m = (set (blocked_recipients m), {(s, r). \<exists>rs. (s, rs) \<in> set (sender_blocks m) \<and> r \<in> set rs})"

text \<open>What an answered call means for the two sets.\<close>

fun set_step :: "admin_call \<Rightarrow> block_sets \<Rightarrow> block_sets" where
  "set_step (DeleteAccount a) (B, P) = (insert a B, P)"
| "set_step (BlockRecipient a) (B, P) = (insert a B, P)"
| "set_step (UnblockRecipient a) (B, P) = (B - {a}, P)"
| "set_step (BlockSenderPair a b) (B, P) = (B, insert (a, b) P)"
| "set_step (UnblockSenderPair a b) (B, P) = (B, P - {(a, b)})"
| "set_step _ (B, P) = (B, P)"

lemma set_set_insert [simp]: "set (set_insert x xs) = insert x (set xs)"
  by (induction xs) auto

lemma set_insert_ne [simp]: "set_insert x xs \<noteq> []"
  by (cases xs) simp_all

lemma sorted_set_insert: "sorted_wrt (<) xs \<Longrightarrow> sorted_wrt (<) (set_insert x xs)"
  by (induction xs) (auto simp: not_less_iff_gr_or_eq)

lemma set_set_remove [simp]: "set (set_remove x xs) = set xs - {x}"
  by (auto simp: set_remove_def)

lemma sorted_set_remove: "sorted_wrt (<) xs \<Longrightarrow> sorted_wrt (<) (set_remove x xs)"
  by (simp add: set_remove_def sorted_wrt_filter)

lemma keys_map_entry [simp]: "fst ` set (map_entry k f m) = insert k (fst ` set m)"
  by (induction k f m rule: map_entry.induct) auto

lemma sorted_map_entry: "sorted_wrt (<) (map fst m) \<Longrightarrow> sorted_wrt (<) (map fst (map_entry k f m))"
proof (induction m)
  case (Cons p m)
  obtain i u where p: "p = (i, u)" by (cases p)
  have keys: "set (map fst (map_entry k f m)) = insert k (set (map fst m))" by simp
  show ?case using Cons keys by (auto simp: p not_less_iff_gr_or_eq simp del: set_map)
qed simp

text \<open>An entry is what it was, or the one for the key, changed.\<close>

lemma map_entry_member:
  "sorted_wrt (<) (map fst m) \<Longrightarrow> (j, v) \<in> set (map_entry k f m)
    \<longleftrightarrow> (if j = k then v = f (case map_of m k of None \<Rightarrow> [] | Some u \<Rightarrow> u) else (j, v) \<in> set m)"
proof (induction m)
  case (Cons p m)
  obtain i u where p: "p = (i, u)" by (cases p)
  have later: "\<forall>j\<in>fst ` set m. i < j" and m: "sorted_wrt (<) (map fst m)" using Cons.prems by (auto simp: p)
  have no: "(i, w) \<notin> set m" for w using later by force
  have none: "k \<le> i \<Longrightarrow> map_of m k = None" using later by (force simp: map_of_eq_None_iff)
  have out: "k \<le> i \<Longrightarrow> (k, w) \<notin> set m" for w using later by force
  show ?case using Cons.IH [OF m] no none out by (auto simp: p)
qed auto

lemma held_recipients:
  fixes m :: "(string \<times> string list) list"
  assumes "sorted_wrt (<) (map fst m)"
  shows "r \<in> set (case map_of m k of None \<Rightarrow> [] | Some u \<Rightarrow> u) \<longleftrightarrow> (\<exists>u. (k, u) \<in> set m \<and> r \<in> set u)"
proof -
  have "distinct xs" if "sorted_wrt (<) xs" for xs :: "string list" using that by (induction xs) auto
  then have "distinct (map fst m)" using assms by blast
  then show ?thesis by (auto split: option.splits dest: map_of_SomeD simp: map_of_eq_None_iff)
qed

lemma with_pair_block_sets:
  assumes "maps_ok m" "validate_address a" "validate_address b"
  shows "maps_ok (with_pair_block a b m) \<and> sets_of (with_pair_block a b m) = set_step (BlockSenderPair a b) (sets_of m)"
proof -
  have srt: "sorted_wrt (<) (map fst (sender_blocks m))" using assms(1) by (simp add: maps_ok_def)
  define old where "old = (case map_of (sender_blocks m) a of None \<Rightarrow> [] | Some u \<Rightarrow> u)"
  have old: "sorted_wrt (<) old \<and> list_all validate_address old"
    using assms(1) by (auto simp: old_def maps_ok_def split: option.splits dest!: map_of_SomeD)
  have mem: "(j, v) \<in> set (sender_blocks (with_pair_block a b m)) \<longleftrightarrow> (if j = a then v = set_insert b old else (j, v) \<in> set (sender_blocks m))" for j v
    using map_entry_member [OF srt] by (simp add: with_pair_block_def old_def)
  have rest: "blocked_recipients (with_pair_block a b m) = blocked_recipients m"
    "sorted_wrt (<) (map fst (sender_blocks (with_pair_block a b m)))"
    using sorted_map_entry [OF srt] by (simp_all add: with_pair_block_def)
  have "validate_address j \<and> v \<noteq> [] \<and> sorted_wrt (<) v \<and> list_all validate_address v"
    if "(j, v) \<in> set (sender_blocks (with_pair_block a b m))" for j v
    using that assms old sorted_set_insert [of old b] unfolding mem
    by (auto simp: maps_ok_def list_all_iff split: if_splits)
  then have "maps_ok (with_pair_block a b m)" using assms(1) rest by (auto simp: maps_ok_def)
  moreover have "sets_of (with_pair_block a b m) = set_step (BlockSenderPair a b) (sets_of m)"
  proof -
    have "(\<exists>v. (j, v) \<in> set (sender_blocks (with_pair_block a b m)) \<and> r \<in> set v)
      \<longleftrightarrow> (j, r) = (a, b) \<or> (\<exists>v. (j, v) \<in> set (sender_blocks m) \<and> r \<in> set v)" for j r
      using held_recipients [OF srt, of r a] by (cases "j = a") (auto simp: mem old_def)
    then show ?thesis by (auto simp: sets_of_def rest)
  qed
  ultimately show ?thesis ..
qed

lemma without_pair_block_sets:
  assumes "maps_ok m"
  shows "maps_ok (without_pair_block a b m) \<and> sets_of (without_pair_block a b m) = set_step (UnblockSenderPair a b) (sets_of m)"
proof -
  have srt: "sorted_wrt (<) (map fst (sender_blocks m))" using assms(1) by (simp add: maps_ok_def)
  have mem: "(j, v) \<in> set (sender_blocks (without_pair_block a b m))
      \<longleftrightarrow> (\<exists>u. (j, u) \<in> set (sender_blocks m) \<and> v = (if j = a then set_remove b u else u) \<and> (j = a \<longrightarrow> v \<noteq> []))" for j v
    by (simp add: without_pair_block_def image_iff Bex_def split_paired_Ex) blast
  have "sorted_wrt (<) (map fst (filter P (map (\<lambda>(s, rs). (s, g s rs)) xs)))"
    if "sorted_wrt (<) (map fst xs)" for P g and xs :: "(string \<times> string list) list"
    using that by (induction xs) auto
  from this [OF srt] have "sorted_wrt (<) (map fst (sender_blocks (without_pair_block a b m)))"
    by (simp add: without_pair_block_def)
  then have rest: "blocked_recipients (without_pair_block a b m) = blocked_recipients m"
    "sorted_wrt (<) (map fst (sender_blocks (without_pair_block a b m)))"
    by (simp_all add: without_pair_block_def)
  have "validate_address j \<and> v \<noteq> [] \<and> sorted_wrt (<) v \<and> list_all validate_address v"
    if member: "(j, v) \<in> set (sender_blocks (without_pair_block a b m))" for j v
  proof -
    obtain u where u: "(j, u) \<in> set (sender_blocks m)" "v = (if j = a then set_remove b u else u)" "j = a \<longrightarrow> v \<noteq> []"
      using member unfolding mem by blast
    then have "validate_address j \<and> u \<noteq> [] \<and> sorted_wrt (<) u \<and> list_all validate_address u" using assms by (auto simp: maps_ok_def)
    then show ?thesis using u sorted_set_remove [of u b] by (auto simp: list_all_iff)
  qed
  then have "maps_ok (without_pair_block a b m)" using assms rest by (auto simp: maps_ok_def)
  moreover have "sets_of (without_pair_block a b m) = set_step (UnblockSenderPair a b) (sets_of m)"
  proof -
    have "(\<exists>v. (j, v) \<in> set (sender_blocks (without_pair_block a b m)) \<and> r \<in> set v)
      \<longleftrightarrow> (j, r) \<noteq> (a, b) \<and> (\<exists>v. (j, v) \<in> set (sender_blocks m) \<and> r \<in> set v)" for j r
    proof (cases "j = a")
      case True
      have "r \<in> set u \<Longrightarrow> r \<noteq> b \<Longrightarrow> set_remove b u \<noteq> []" for u using set_set_remove [of b u] by force
      with True show ?thesis by (simp add: mem) (metis Diff_iff insert_iff empty_iff set_set_remove)
    qed (auto simp: mem)
    then show ?thesis by (auto simp: sets_of_def rest)
  qed
  ultimately show ?thesis ..
qed

lemma senders_of_pairs: "maps_ok m \<Longrightarrow> set (map fst (sender_blocks m)) = fst ` snd (sets_of m)"
  by (force simp: maps_ok_def sets_of_def image_iff neq_Nil_conv)

section \<open>Runs of requests\<close>

primrec admin_run :: "admin_env \<Rightarrow> config \<Rightarrow> (string option \<times> admin_call) list \<Rightarrow> admin_world \<Rightarrow> admin_call list \<times> admin_world" where
  "admin_run E c [] s = ([], s)"
| "admin_run E c (r # rs) s = (case admin_request E c r s of (reply, s) \<Rightarrow>
     case admin_run E c rs s of (calls, s) \<Rightarrow> (if fst reply = 200 then snd r # calls else calls, s))"

lemma recipient_step:
  assumes "maps_ok m"
  shows "validate_address a \<Longrightarrow> maps_ok (m\<lparr>blocked_recipients := set_insert a (blocked_recipients m)\<rparr>)"
    and "maps_ok (m\<lparr>blocked_recipients := set_remove a (blocked_recipients m)\<rparr>)"
  using assms sorted_set_insert sorted_set_remove by (auto simp: maps_ok_def list_all_iff)

lemma held_account_calls:
  "aw_maps (snd (rotate_password E c a s)) = aw_maps s" "aw_maps (snd (create_account E c a s)) = aw_maps s"
proof -
  have "held s (snd (rotate_password E c a s))"
    by (auto simp: rotate_password_def held.still intro!: held.and_then_at held.calculus held_operations split: option.splits)
  then show "aw_maps (snd (rotate_password E c a s)) = aw_maps s" by (simp add: held_def)
  have ab: "relates held (abandon d)" for d unfolding abandon_def by (intro held.calculus held_operations)
  have "held s (snd (create_account E c a s))"
    by (auto simp: create_account_def Let_def held.still intro!: held.or_else_at held.calculus held_operations ab split: option.splits)
  then show "aw_maps (snd (create_account E c a s)) = aw_maps s" by (simp add: held_def)
qed

lemma create_account_not_200: "fst (fst (create_account E c a s)) \<noteq> 200"
  by (auto simp: create_account_def Let_def or_else_def and_then_apply done_with_def abandon_def failed_def invalid_address_def
      split: option.splits sum.splits)

lemma delete_account_maps:
  "aw_maps (snd (delete_account E c a s)) = (if fst (fst (delete_account E c a s)) = 200
     then (aw_maps s)\<lparr>blocked_recipients := set_insert a (blocked_recipients (aw_maps s))\<rparr> else aw_maps s)
   \<and> (fst (fst (delete_account E c a s)) = 200 \<longrightarrow> validate_address a)"
proof (cases "maildir_path E c a s")
  case None
  then show ?thesis by (simp add: delete_account_def invalid_address_def)
next
  case (Some p)
  define rm where "rm = (if path_exists p s then fs_remove_dir_all p else done_with (Inr ()))"
  have "held s (snd (rm s))" by (simp add: rm_def relatesD held_operations held.done_with)
  then have "aw_maps (snd (rm s)) = aw_maps s" by (simp add: held_def)
  moreover have "validate_address a" using maildir_path_is [OF Some] ..
  moreover have "delete_account E c a s = or_else rm (\<lambda>_. done_with (failed ''account deletion failed'')) (\<lambda>_.
      and_then (change_maps E c (\<lambda>m. m\<lparr>blocked_recipients := set_insert a (blocked_recipients m)\<rparr>)) (\<lambda>_.
      done_with (200, JObj [(''address'', JStr a), (''deleted'', JBool True)]))) s"
    by (simp add: delete_account_def Some rm_def)
  ultimately show ?thesis
    by (auto simp: or_else_def and_then_apply done_with_def failed_def change_maps_maps split: sum.splits)
qed

lemma request_step:
  assumes "maps_ok (aw_maps s)" and r: "admin_request E c r s = (reply, t)"
  shows "maps_ok (aw_maps t) \<and> sets_of (aw_maps t) = (if fst reply = 200 then set_step (snd r) (sets_of (aw_maps s)) else sets_of (aw_maps s))"
proof -
  obtain auth call where rr: "r = (auth, call)" by (cases r)
  consider "fst reply = 401" "t = s" | "handler E c call s = (reply, t)"
    using r by (auto simp: admin_request_def rr require_admin_secret_def done_with_def split: option.splits if_splits)
  then show ?thesis
  proof cases
    case 2
    note ok = assms(1)
    have sets: "sets_of (m\<lparr>blocked_recipients := set_insert a (blocked_recipients m)\<rparr>) = (insert a (fst (sets_of m)), snd (sets_of m))"
      "sets_of (m\<lparr>blocked_recipients := set_remove a (blocked_recipients m)\<rparr>) = (fst (sets_of m) - {a}, snd (sets_of m))" for a m
      by (simp_all add: sets_of_def)
    have t: "t = snd (handler E c call s)" "reply = fst (handler E c call s)" using 2 by simp_all
    show ?thesis
    proof (cases call)
      case (RotatePassword a)
      then show ?thesis using ok held_account_calls(1) [of E c a s] by (cases "sets_of (aw_maps s)") (simp add: t rr)
    next
      case (CreateAccount a)
      then show ?thesis using ok held_account_calls(2) [of E c a s] create_account_not_200 [of E c a s] by (simp add: t rr)
    next
      case (DeleteAccount a)
      then show ?thesis using ok delete_account_maps [of E c a s] recipient_step(1) [OF ok, of a]
        by (cases "sets_of (aw_maps s)") (simp add: t rr sets split: if_splits)
    next
      case (BlockSenderPair a b)
      then show ?thesis using ok with_pair_block_sets [OF ok, of a b]
        by (auto simp: t rr block_sender_pair_def invalid_address_def done_with_def and_then_apply change_maps_maps)
    next
      case (UnblockSenderPair a b)
      then show ?thesis using ok without_pair_block_sets [OF ok, of a b]
        by (auto simp: t rr unblock_sender_pair_def invalid_address_def done_with_def and_then_apply change_maps_maps)
    next
      case (BlockRecipient a)
      then show ?thesis using ok recipient_step(1) [OF ok, of a]
        by (cases "sets_of (aw_maps s)") (auto simp: t rr block_recipient_def invalid_address_def done_with_def and_then_apply change_maps_maps sets)
    next
      case (UnblockRecipient a)
      then show ?thesis using ok recipient_step(2) [OF ok, of a]
        by (cases "sets_of (aw_maps s)") (auto simp: t rr unblock_recipient_def invalid_address_def done_with_def and_then_apply change_maps_maps sets)
    next
      case (Kick a)
      then show ?thesis using ok by (cases "sets_of (aw_maps s)") (simp add: t rr kick_def done_with_def and_then_apply run_command_def)
    next
      case (AccountExists a)
      then show ?thesis using ok by (cases "sets_of (aw_maps s)") (simp add: t rr account_exists_def split: option.splits)
    next
      case NoRoute
      then show ?thesis using ok by (cases "sets_of (aw_maps s)") (simp add: t rr done_with_def not_found_def)
    qed
  qed (use assms(1) in auto)
qed

lemma run_steps:
  assumes "maps_ok (aw_maps s)" "admin_run E c rs s = (calls, t)"
  shows "maps_ok (aw_maps t) \<and> sets_of (aw_maps t) = fold set_step calls (sets_of (aw_maps s))"
  using assms
proof (induction rs arbitrary: s calls t)
  case (Cons r rs)
  obtain reply u where r: "admin_request E c r s = (reply, u)" by fastforce
  obtain more t' where rest: "admin_run E c rs u = (more, t')" by fastforce
  have "maps_ok (aw_maps u)" and step: "sets_of (aw_maps u) = (if fst reply = 200 then set_step (snd r) (sets_of (aw_maps s)) else sets_of (aw_maps s))"
    using request_step [OF Cons.prems(1) r] by auto
  with Cons.IH [OF _ rest] Cons.prems(2) show ?case by (auto simp: r rest step)
qed simp

section \<open>The tables read back\<close>

text \<open>
  The format of a Postfix table: lines that are empty, begin with a number sign or with white space
  hold no entry of their own; the key is the first word.
\<close>

definition table_key :: "string \<Rightarrow> string option" where
  "table_key line = (if line = [] \<or> hd line = CHR ''#'' \<or> is_ascii_whitespace (hd line) then None
     else Some (takeWhile (\<lambda>b. \<not> is_ascii_whitespace b) line))"

definition table_keys :: "string \<Rightarrow> string list" where
  "table_keys content = List.map_filter table_key (split_on LF content)"

lemma split_map_text: "(\<And>l. l \<in> set ls \<Longrightarrow> LF \<notin> set l) \<Longrightarrow> split_on LF (map_text ls) = ls @ [[]]"
  by (induction ls) (simp_all add: map_text_def split_on_append_sep)

definition not_comment :: "string \<Rightarrow> bool" where
  "not_comment a \<longleftrightarrow> hd a \<noteq> CHR ''#''"

lemma validate_address_plain:
  assumes "validate_address a"
  shows "a \<noteq> []" "b \<in> set a \<Longrightarrow> \<not> is_ascii_whitespace b" "LF \<notin> set a"
proof -
  have "\<forall>b\<in>set a. \<not> is_ascii_whitespace b" using assms by (auto simp: validate_address_def list_ex_iff)
  moreover have "is_ascii_whitespace LF" by code_simp
  ultimately show "a \<noteq> []" "b \<in> set a \<Longrightarrow> \<not> is_ascii_whitespace b" "LF \<notin> set a"
    using assms by (auto simp: validate_address_def)
qed

lemma table_key_entry:
  assumes "validate_address a"
  shows "table_key (a @ CHR '' '' # rest) = (if not_comment a then Some a else None)"
proof -
  have sp: "is_ascii_whitespace (CHR '' '')" by code_simp
  have "takeWhile (\<lambda>b. \<not> is_ascii_whitespace b) (a @ CHR '' '' # rest) = a"
    using validate_address_plain(2) [OF assms] sp by (subst takeWhile_append2) auto
  moreover have "a \<noteq> []" "\<not> is_ascii_whitespace (hd a)"
    using validate_address_plain [OF assms] by auto
  ultimately show ?thesis by (simp add: table_key_def not_comment_def)
qed

lemma table_keys_text:
  assumes "\<And>a. a \<in> set as \<Longrightarrow> validate_address a" and "LF \<notin> set note"
  shows "table_keys (map_text (map_header # map (\<lambda>a. a @ CHR '' '' # note) as)) = filter not_comment as"
proof -
  have "LF \<notin> set map_header" by code_simp
  then have ls: "LF \<notin> set l" if "l \<in> set (map_header # map (\<lambda>a. a @ CHR '' '' # note) as)" for l
    using that assms validate_address_plain(3) by auto
  have nokey: "table_key map_header = None" "table_key [] = None" by (simp_all add: table_key_def map_header_def)
  have "List.map_filter table_key (map (\<lambda>a. a @ CHR '' '' # note) xs) = filter not_comment xs"
    if "set xs \<subseteq> set as" for xs
    using that assms(1) by (induction xs) (simp_all add: map_filter_simps table_key_entry)
  then have keys: "List.map_filter table_key (map (\<lambda>a. a @ CHR '' '' # note) as) = filter not_comment as" by blast
  have "split_on LF (map_text (map_header # map (\<lambda>a. a @ CHR '' '' # note) as)) = (map_header # map (\<lambda>a. a @ CHR '' '' # note) as) @ [[]]"
    by (rule split_map_text) (rule ls)
  then show ?thesis using keys by (simp add: table_keys_def map_filter_def nokey)
qed

lemma recipient_keys:
  assumes "maps_ok m"
  shows "table_keys (map_text (recipient_lines m)) = filter not_comment (blocked_recipients m)"
  using table_keys_text [of "blocked_recipients m" "''REJECT account suspended or deleted''"] assms
  by (simp add: recipient_lines_def maps_ok_def list_all_iff)

lemma sender_keys:
  assumes "maps_ok m"
  shows "table_keys (map_text (sender_lines m)) = filter not_comment (map fst (sender_blocks m))"
proof -
  have all: "filter (\<lambda>(_, recipients). recipients \<noteq> []) (sender_blocks m) = sender_blocks m"
    using assms by (auto simp: maps_ok_def intro: filter_True)
  have "map (\<lambda>(sender, _). sender @ '' REJECT blocked by moderation'') (sender_blocks m)
      = map (\<lambda>a. a @ CHR '' '' # ''REJECT blocked by moderation'') (map fst (sender_blocks m))"
    by (simp add: case_prod_beta)
  then have ls: "sender_lines m = map_header # map (\<lambda>a. a @ CHR '' '' # ''REJECT blocked by moderation'') (map fst (sender_blocks m))"
    by (simp add: sender_lines_def all)
  show ?thesis unfolding ls by (rule table_keys_text) (use assms in \<open>auto simp: maps_ok_def\<close>)
qed

section \<open>Writing without faults\<close>

definition faultless :: "admin_world \<Rightarrow> bool" where
  "faultless s \<longleftrightarrow> (\<forall>n\<ge>aw_tick s. aw_fault s n = None)"

definition file_text :: "string \<Rightarrow> admin_world \<Rightarrow> string option" where
  "file_text p s = (case node_at p s of Some (File _ c) \<Rightarrow> Some c | _ \<Rightarrow> None)"

definition calm :: "admin_world \<Rightarrow> admin_world \<Rightarrow> bool" where
  "calm s t \<longleftrightarrow> (faultless s \<longrightarrow> faultless t) \<and> (\<forall>p. file_text p s \<noteq> None \<longrightarrow> file_text p t \<noteq> None)"

interpretation calm: effect calm
  by unfold_locales (auto simp: calm_def)

lemma file_text_set_node: "file_text q (set_node p n s) = (if q = p then (case n of File _ c \<Rightarrow> Some c | _ \<Rightarrow> None) else file_text q s)"
  by (simp add: file_text_def node_at_set_node)

lemma file_text_tick [simp]: "file_text q (s\<lparr>aw_tick := t\<rparr>) = file_text q s"
  by (simp add: file_text_def)

lemma faultless_set_node [simp]: "faultless (set_node p n s) = faultless s"
  by (simp add: faultless_def set_node_def)

lemma faultless_tick: "faultless s \<Longrightarrow> faultless (s\<lparr>aw_tick := Suc (aw_tick s)\<rparr>)"
  by (simp add: faultless_def)

lemma calm_fs_op:
  assumes "\<And>s. calm s (snd (f s))"
  shows "relates calm (fs_op f)"
proof (rule relatesI)
  fix s :: admin_world
  have c: "calm s (s\<lparr>aw_tick := Suc (aw_tick s)\<rparr>)" by (simp add: calm_def faultless_tick)
  show "calm s (snd (fs_op f s))"
    by (rule disjE [OF fs_op_cases [of f s]]) (simp_all only: c calm.steps [OF c assms])
qed

lemma make_dirs_calm: "calm s (fold (\<lambda>d s. if node_at d s = None then set_node d (Dir (0, 0)) s else s) ps s)"
proof (induction ps arbitrary: s)
  case (Cons p ps)
  have "calm s (if node_at p s = None then set_node p (Dir (0, 0)) s else s)"
    by (auto simp: calm_def file_text_set_node) (simp add: file_text_def)
  from calm.steps [OF this Cons] show ?case by simp
qed (simp add: calm.still)

lemma calm_operations:
  "relates calm (fs_write p content)" "relates calm (fs_create_dir_all p)" "relates calm (run_command argv)"
  subgoal by (auto simp: fs_write_def calm_def file_text_set_node intro!: calm_fs_op split: option.splits fs_node.splits)
  subgoal by (auto simp: fs_create_dir_all_def make_dirs_calm calm.still intro!: calm_fs_op)
  by (simp add: relates_def calm_def run_command_def file_text_def node_at_def faultless_def)

lemma calm_save_maps: "calm s (snd (save_maps E path s))"
proof (cases "validated_path E path s")
  case (Some p)
  show ?thesis unfolding save_maps_def Some option.case
    by (intro calm.or_else_at) (auto split: option.splits intro!: calm.calculus calm_operations)
qed (simp add: save_maps_def calm.still)

lemma write_and_hash_writes:
  assumes "faultless s" "file_text path s \<noteq> None"
  shows "faultless (snd (write_and_hash path ls s))"
    and "file_text q (snd (write_and_hash path ls s)) = (if q = path then Some (map_text ls) else file_text q s)"
proof -
  have w: "fst (fs_write path x u) = Inr () \<and> faultless (snd (fs_write path x u))
      \<and> file_text q (snd (fs_write path x u)) = (if q = path then Some x else file_text q u)"
    if f: "faultless u" and g: "file_text path u \<noteq> None" for x u q
  proof -
    obtain own y where "node_at path u = Some (File own y)"
      using g by (auto simp: file_text_def split: option.splits fs_node.splits)
    moreover have "aw_fault u (aw_tick u) = None" using f by (simp add: faultless_def)
    ultimately show ?thesis
      using faultless_tick [OF f] by (simp add: fs_write_def fs_op_def Let_def file_text_set_node)
  qed
  define u where "u = snd (fs_write path [] s)"
  have u: "faultless u" "file_text path u \<noteq> None" "\<And>q. file_text q u = (if q = path then Some [] else file_text q s)"
    using w [OF assms] by (auto simp: u_def)
  have run: "snd (write_and_hash path ls s) = snd (run_command [''postmap'', path] (snd (fs_write path (map_text ls) u)))"
    using w [OF assms] w [OF u(1,2)]
    by (simp add: write_and_hash_def write_map_file_def or_else_def and_then_apply done_with_def u_def split: sum.splits)
  show "faultless (snd (write_and_hash path ls s))"
    using w [OF u(1,2)] by (simp add: run run_command_def faultless_def)
  show "file_text q (snd (write_and_hash path ls s)) = (if q = path then Some (map_text ls) else file_text q s)"
    using w [OF u(1,2), of _ q] u(3) [of q] by (simp add: run run_command_def file_text_def node_at_def)
qed

lemma change_maps_writes:
  assumes "faultless s" "file_text (cf_recipient_access_path c) s \<noteq> None" "file_text (cf_sender_access_path c) s \<noteq> None"
    and ne: "cf_recipient_access_path c \<noteq> cf_sender_access_path c"
  shows "file_text (cf_recipient_access_path c) (snd (change_maps E c f s)) = Some (map_text (recipient_lines (f (aw_maps s))))
    \<and> file_text (cf_sender_access_path c) (snd (change_maps E c f s)) = Some (map_text (sender_lines (f (aw_maps s))))"
proof -
  define t where "t = snd (save_maps E (cf_access_maps_path c) (s\<lparr>aw_maps := f (aw_maps s)\<rparr>))"
  have "calm s (s\<lparr>aw_maps := f (aw_maps s)\<rparr>)" by (simp add: calm_def faultless_def file_text_def)
  then have "calm s t" unfolding t_def using calm_save_maps calm.steps by blast
  then have t: "faultless t" "file_text (cf_recipient_access_path c) t \<noteq> None" "file_text (cf_sender_access_path c) t \<noteq> None"
    using assms(1-3) by (auto simp: calm_def)
  have m: "aw_maps t = f (aw_maps s)" by (simp add: t_def held_save_maps)
  define u where "u = snd (write_and_hash (cf_recipient_access_path c) (recipient_lines (f (aw_maps s))) t)"
  have u: "faultless u" "file_text (cf_sender_access_path c) u \<noteq> None" "aw_maps u = f (aw_maps s)"
    "file_text (cf_recipient_access_path c) u = Some (map_text (recipient_lines (f (aw_maps s))))"
    using write_and_hash_writes [OF t(1,2)] t(3) ne by (simp_all add: u_def held_write_and_hash m)
  have "snd (change_maps E c f s) = snd (trigger_postfix_reload_debounced c
      (snd (write_and_hash (cf_sender_access_path c) (sender_lines (f (aw_maps s))) u)))"
    by (simp add: change_maps_def and_then_apply write_postfix_maps_def m u(3) flip: t_def u_def)
  moreover have "file_text q (snd (trigger_postfix_reload_debounced c w)) = file_text q w" for q w
    by (simp add: trigger_postfix_reload_debounced_def run_command_def file_text_def node_at_def)
  ultimately show ?thesis using write_and_hash_writes(2) [OF u(1,2)] u(4) ne by simp
qed

end
