(* ===== verification/AdminClaims.thy ===== *)
theory AdminClaims
  imports AdminSafety
begin

text \<open>
  The properties of the relay's administration daemon, with witnesses.
\<close>

section \<open>A sample relay\<close>

definition sample_admin_env :: admin_env where
  "sample_admin_env = \<lparr>ae_canonicalize = (\<lambda>_. None), ae_lowercase = to_ascii_lowercase, ae_digest = (\<lambda>s. s),
     ae_url_safe_b64 = (\<lambda>s. s), ae_read_maps = (\<lambda>_. None), ae_show_maps = (\<lambda>_. []),
     ae_parse_json = (\<lambda>t. Some (JObj [(''domains'', JArr [JStr t])]))\<rparr>"

definition sample_config :: config where
  "sample_config = \<lparr>cf_listen_host = ''h'', cf_listen_port = 1, cf_admin_secret = ''s'', cf_vmail_home = ''/vmail'', cf_access_maps_path = ''/data/maps'',
     cf_recipient_access_path = ''/etc/r'', cf_sender_access_path = ''/etc/s'', cf_reload_debounce_secs = 5,
     cf_allowlist_url = ''u'', cf_allowlist_poll_interval_secs = 9,
     cf_transport_maps_path = ''/etc/t'', cf_sender_domains_path = ''/etc/d'', cf_tls_cert_path = ''/c'', cf_tls_key_path = ''/k'',
     cf_mail_domain = ''b.c'', cf_vmail_owner = (5, 5)\<rparr>"

definition sample_world :: "(nat \<Rightarrow> io_kind option) \<Rightarrow> admin_world" where
  "sample_world faults = \<lparr>aw_nodes = [(''/vmail'', Dir (0, 0)), (''/vmail/a@b.c'', Dir (5, 5)), (''/vmail/a@b.c/password'', File (5, 5) ''p''),
       (''/etc'', Dir (0, 0)), (''/etc/r'', File (0, 0) []), (''/etc/s'', File (0, 0) [])],
     aw_maps = no_maps, aw_now = 9, aw_last_reload = 0, aw_commands = [], aw_entropy = (\<lambda>_. ''w''), aw_tick = 0,
     aw_fault = faults, aw_exit = (\<lambda>_. Some 0)\<rparr>"

section \<open>The file system\<close>



text \<open>A creation that fails erases the account that was there.  When the first step of creating an
  account fails for one that exists, the answer is an error and the account's directory is gone, with
  its password and its mail.\<close>

theorem failed_creation_erases_the_account:
  assumes "validate_local_address raw (cf_mail_domain c)" and dir: "maildir_path E c (ae_lowercase E raw) s = Some dir"
    and exists: "dir_exists dir s" "dir \<noteq> ''/''" and fault: "aw_fault s = (\<lambda>n. if n = aw_tick s then Some k else None)"
  shows "fst (fst (create_account E c raw s)) = 500 \<and> (path_under dir q \<longrightarrow> node_at q (snd (create_account E c raw s)) = None)"
proof -
  define t where "t = s\<lparr>aw_tick := Suc (aw_tick s)\<rparr>"
  have p: "password_file_path E c (ae_lowercase E raw) s = Some (path_join dir ''password'')"
    using dir by (simp add: maildir_path_def password_file_path_def)
  have "fs_create_dir_all (path_join (path_join dir ''Maildir'') ''cur'') s = (Inl k, t)"
    by (simp add: fs_create_dir_all_def fs_op_def Let_def fault t_def)
  then have run: "create_account E c raw s = abandon dir t"
    using assms(1) by (simp add: create_account_def Let_def dir p or_else_def and_then_apply done_with_def)
  have "dir_exists dir (t\<lparr>aw_tick := Suc (aw_tick t)\<rparr>)" using exists by (simp add: t_def dir_exists_def)
  then show ?thesis
    by (simp add: run abandon_def and_then_apply fs_remove_dir_all_def fs_op_def Let_def fault t_def done_with_def failed_def
        node_at_remove [of _ _ "s\<lparr>aw_tick := _\<rparr>", simplified])
qed

theorem failed_creation_erases_the_account_witness:
  "node_at ''/vmail/a@b.c/password'' (snd (create_account sample_admin_env sample_config ''a@b.c''
      (sample_world (\<lambda>n. if n = 0 then Some OtherKind else None)))) = None"
proof -
  let ?s = "sample_world (\<lambda>n. if n = 0 then Some OtherKind else None)"
  have "validate_local_address ''a@b.c'' (cf_mail_domain sample_config)" by code_simp
  moreover have "maildir_path sample_admin_env sample_config (ae_lowercase sample_admin_env ''a@b.c'') ?s = Some ''/vmail/a@b.c''" by code_simp
  moreover have "dir_exists ''/vmail/a@b.c'' ?s" "path_under ''/vmail/a@b.c'' ''/vmail/a@b.c/password''" by code_simp+
  moreover have "aw_fault ?s = (\<lambda>n. if n = aw_tick ?s then Some OtherKind else None)" by (simp add: sample_world_def)
  ultimately show ?thesis
    using failed_creation_erases_the_account [of "''a@b.c''" sample_config sample_admin_env ?s "''/vmail/a@b.c''" OtherKind "''/vmail/a@b.c/password''"]
    by simp
qed

section \<open>The access maps\<close>

text \<open>C25. The access maps are two sets.  From empty maps, after any sequence of requests, the blocked
  recipients and the blocked pairs are what the calls that were answered with success ask for, in
  their order; refused, unauthorised and failed requests count for nothing.\<close>

theorem access_maps_refine_sets:
  assumes "aw_maps s = no_maps" and "admin_run E c rs s = (calls, t)"
  shows "sets_of (aw_maps t) = fold set_step calls ({}, {})"
proof -
  have "maps_ok (aw_maps s)" "sets_of (aw_maps s) = ({}, {})" by (simp_all add: assms(1) no_maps_def maps_ok_def sets_of_def)
  then show ?thesis using run_steps [OF _ assms(2)] by simp
qed

definition sample_requests :: "(string option \<times> admin_call) list" where
  "sample_requests = [(None, BlockRecipient ''a@b.c''), (Some ''Bearer s'', BlockRecipient ''x y''),
     (Some ''Bearer s'', BlockSenderPair ''#d@e.f'' ''a@b.c'')]"

theorem access_maps_refine_sets_witness:
  "sets_of (aw_maps (snd (admin_run sample_admin_env sample_config sample_requests (sample_world (\<lambda>_. None))))) = ({}, {(''#d@e.f'', ''a@b.c'')})"
proof -
  let ?r = "admin_run sample_admin_env sample_config sample_requests (sample_world (\<lambda>_. None))"
  have "fst ?r = [BlockSenderPair ''#d@e.f'' ''a@b.c'']" by code_simp
  then have "?r = ([BlockSenderPair ''#d@e.f'' ''a@b.c''], snd ?r)" by (metis prod.collapse)
  moreover have "aw_maps (sample_world (\<lambda>_. None)) = no_maps" by (simp add: sample_world_def)
  ultimately show ?thesis
    using access_maps_refine_sets [of "sample_world (\<lambda>_. None)" sample_admin_env sample_config sample_requests _ "snd ?r"] by fastforce
qed

text \<open>What is blocked is what Postfix reads.  After any sequence of requests from empty maps, a
  change of the maps in which nothing fails leaves tables whose keys are the blocked recipients and the
  blocked senders, no other line smuggled in by an address; only addresses that begin with a number
  sign are missing, since their lines are comments.\<close>

theorem postfix_reads_what_is_blocked:
  assumes "aw_maps s = no_maps" and "admin_run E c rs s = (calls, t)"
    and "faultless t" "file_text (cf_recipient_access_path c) t \<noteq> None" "file_text (cf_sender_access_path c) t \<noteq> None"
    and "cf_recipient_access_path c \<noteq> cf_sender_access_path c"
    and "admin_request E c (auth, call) t = (reply, u)" "fst reply = 200"
    and "call \<in> {BlockRecipient a, UnblockRecipient a, BlockSenderPair a b, UnblockSenderPair a b}"
  shows "\<exists>recipients senders. file_text (cf_recipient_access_path c) u = Some recipients \<and> file_text (cf_sender_access_path c) u = Some senders
    \<and> set (table_keys recipients) = {x \<in> fst (sets_of (aw_maps u)). not_comment x}
    \<and> set (table_keys senders) = {x \<in> fst ` snd (sets_of (aw_maps u)). not_comment x}"
proof -
  have "maps_ok (aw_maps s)" by (simp add: assms(1) no_maps_def maps_ok_def)
  then have "maps_ok (aw_maps t)" using run_steps [OF _ assms(2)] by blast
  then have ok: "maps_ok (aw_maps u)" using request_step [OF _ assms(7)] by blast
  have "handler E c call t = (reply, u)"
    using assms(7,8) by (auto simp: admin_request_def require_admin_secret_def done_with_def split: option.splits if_splits)
  then have "\<exists>f. u = snd (change_maps E c f t)"
    using assms(8,9) by (auto simp: block_recipient_def unblock_recipient_def block_sender_pair_def unblock_sender_pair_def
        invalid_address_def done_with_def and_then_apply split: if_splits)
  then obtain f where u: "u = snd (change_maps E c f t)" ..
  then have files: "file_text (cf_recipient_access_path c) u = Some (map_text (recipient_lines (aw_maps u)))"
    "file_text (cf_sender_access_path c) u = Some (map_text (sender_lines (aw_maps u)))"
    using change_maps_writes [OF assms(3-6), of E f] by (simp_all add: change_maps_maps)
  have "set (map fst (sender_blocks (aw_maps u))) = fst ` snd (sets_of (aw_maps u))" using senders_of_pairs [OF ok] .
  then show ?thesis using files recipient_keys [OF ok] sender_keys [OF ok] by (auto simp: sets_of_def)
qed

theorem postfix_reads_what_is_blocked_witness:
  "\<exists>r s. file_text ''/etc/r'' (snd (admin_request sample_admin_env sample_config (Some ''Bearer s'', BlockRecipient ''a@b.c'') (sample_world (\<lambda>_. None)))) = Some r
    \<and> file_text ''/etc/s'' (snd (admin_request sample_admin_env sample_config (Some ''Bearer s'', BlockRecipient ''a@b.c'') (sample_world (\<lambda>_. None)))) = Some s
    \<and> set (table_keys r) = {''a@b.c''}"
proof -
  let ?w = "sample_world (\<lambda>_. None)"
  let ?q = "admin_request sample_admin_env sample_config (Some ''Bearer s'', BlockRecipient ''a@b.c'') ?w"
  have "fst (fst ?q) = 200" "blocked_recipients (aw_maps (snd ?q)) = [''a@b.c'']" by code_simp+
  moreover have "admin_run sample_admin_env sample_config [] ?w = ([], ?w)" "aw_maps ?w = no_maps" "faultless ?w"
    by (simp_all add: sample_world_def faultless_def)
  moreover have "file_text ''/etc/r'' ?w \<noteq> None" "file_text ''/etc/s'' ?w \<noteq> None" by code_simp+
  ultimately have "\<exists>r s. file_text ''/etc/r'' (snd ?q) = Some r \<and> file_text ''/etc/s'' (snd ?q) = Some s
    \<and> set (table_keys r) = {x \<in> fst (sets_of (aw_maps (snd ?q))). not_comment x}"
    using postfix_reads_what_is_blocked [of ?w sample_admin_env sample_config "[]" "[]" ?w "Some ''Bearer s''" "BlockRecipient ''a@b.c''" "fst ?q" "snd ?q" "''a@b.c''" "[]"]
    by (simp add: sample_config_def) blast
  moreover have "{x \<in> fst (sets_of (aw_maps (snd ?q))). not_comment x} = {''a@b.c''}"
    using \<open>blocked_recipients (aw_maps (snd ?q)) = [''a@b.c'']\<close> by (auto simp: sets_of_def not_comment_def)
  ultimately show ?thesis by simp
qed

section \<open>The allowlist\<close>

text \<open>An allowlist is applied at most once.  When writing its tables fails the files stay as they
  were, and the same answer of the server never makes the daemon try again: the peers it names stay
  unreachable until the list changes.\<close>

theorem allowlist_that_failed_is_not_retried:
  assumes "\<And>n. aw_tick s \<le> n \<Longrightarrow> aw_fault s n \<noteq> None" and "poll_once E c response p s = (p', s')"
  shows "node_at q s' = node_at q s \<and> aw_commands s' = aw_commands s \<and> poll_once E c response p' t = (p', t)"
proof -
  have w: "\<exists>k. fs_write path x u = (Inl k, u\<lparr>aw_tick := Suc (aw_tick u)\<rparr>)"
    if f: "aw_fault u = aw_fault s" "aw_tick s \<le> aw_tick u" for path x u
    using assms(1) [OF f(2)] f(1) by (auto simp: fs_write_def fs_op_def Let_def)
  obtain k1 where w1: "fs_write (cf_transport_maps_path c) [] s = (Inl k1, s\<lparr>aw_tick := Suc (aw_tick s)\<rparr>)"
    using w [of s] by auto
  obtain k2 where w2: "fs_write (cf_sender_domains_path c) [] (s\<lparr>aw_tick := Suc (aw_tick s)\<rparr>)
      = (Inl k2, s\<lparr>aw_tick := Suc (Suc (aw_tick s))\<rparr>)"
    using w [of "s\<lparr>aw_tick := Suc (aw_tick s)\<rparr>"] by auto
  have "apply_allowlist c ds s = ((), s\<lparr>aw_tick := Suc (Suc (aw_tick s))\<rparr>)" for ds
    by (simp add: apply_allowlist_def write_map_file_def or_else_def and_then_apply w1 w2 done_with_def)
  then have applied: "and_then (apply_allowlist c ds) (\<lambda>_. done_with x) s = (x, s\<lparr>aw_tick := Suc (Suc (aw_tick s))\<rparr>)" for ds and x :: poll_state
    by (simp add: and_then_apply done_with_def)
  show ?thesis
  proof (cases "\<exists>ds etag. read_allowlist E response = Some (Fetched ds etag)")
    case True
    then obtain ds etag where r: "read_allowlist E response = Some (Fetched ds etag)" by blast
    have "p' = \<lparr>po_last = ds, po_etag = etag\<rparr> \<and> (s' = s \<or> s' = s\<lparr>aw_tick := Suc (Suc (aw_tick s))\<rparr>)"
      using assms(2) by (cases "ds = po_last p") (auto simp: poll_once_def r applied done_with_def)
    then show ?thesis by (auto simp: poll_once_def r done_with_def node_at_def)
  next
    case False
    then have "poll_once E c response p u = (p, u)" for p u
      by (auto simp: poll_once_def done_with_def split: option.splits fetch_outcome.splits)
    then show ?thesis using assms(2) by simp
  qed
qed

theorem allowlist_that_failed_is_not_retried_witness:
  "poll_once sample_admin_env sample_config (Some (200, None, ''peer.example''))
      (fst (poll_once sample_admin_env sample_config (Some (200, None, ''peer.example'')) \<lparr>po_last = [], po_etag = None\<rparr> (sample_world (\<lambda>_. Some OtherKind))))
      (sample_world (\<lambda>_. None))
    = (\<lparr>po_last = [''peer.example''], po_etag = None\<rparr>, sample_world (\<lambda>_. None))"
proof -
  let ?a = "poll_once sample_admin_env sample_config (Some (200, None, ''peer.example'')) \<lparr>po_last = [], po_etag = None\<rparr> (sample_world (\<lambda>_. Some OtherKind))"
  have fst: "fst ?a = \<lparr>po_last = [''peer.example''], po_etag = None\<rparr>" by code_simp
  have "aw_fault (sample_world (\<lambda>_. Some OtherKind)) n \<noteq> None" for n by (simp add: sample_world_def)
  then have "poll_once sample_admin_env sample_config (Some (200, None, ''peer.example'')) (fst ?a) (sample_world (\<lambda>_. None))
      = (fst ?a, sample_world (\<lambda>_. None))"
    by (intro allowlist_that_failed_is_not_retried [where p' = "fst ?a" and s' = "snd ?a" and q = "[]" and s = "sample_world (\<lambda>_. Some OtherKind)",
        THEN conjunct2, THEN conjunct2]) (assumption, rule prod.collapse [symmetric])
  then show ?thesis unfolding fst .
qed

end
