(* ===== verification/LocalActors.thy ===== *)
theory LocalActors
  imports Applications
begin

text \<open>
  The accounts of the instance itself: \<open>noombat-identity/src/registration.rs\<close> (registration,
  the ceilings on organisations, enrolment), \<open>keys.rs\<close>, and the functions of \<open>repo.rs\<close> that
  create, change, erase and purge local actors.
\<close>

section \<open>Parameters\<close>

record actor_keypair =
  kp_public_pem :: string
  kp_private_pem :: string
  kp_public_multibase :: string
  kp_private_base64 :: string

text \<open>
  \<open>rsa_keypair\<close> is the RSA generator and its PEM encoders on a seed, public half first;
  \<open>ed25519_public\<close> the public half of an Ed25519 secret; \<open>argon2_hash salt key\<close> the PHC string;
  \<open>psl_domain\<close> the public-suffix list's answer; \<open>window_start now (years, months, weeks, days,
  hours)\<close> is \<open>now() - make_interval(..)\<close>, \<open>None\<close> where PostgreSQL reports it out of range.
\<close>

record local_env = job_env +
  rsa_keypair :: "string \<Rightarrow> string + string \<times> string"
  ed25519_public :: "string \<Rightarrow> string"
  std_base64 :: "string \<Rightarrow> string"
  argon2_hash :: "string \<Rightarrow> string \<Rightarrow> string + string"
  psl_domain :: "string \<Rightarrow> string option"
  window_start :: "timestamp \<Rightarrow> int \<times> int \<times> int \<times> int \<times> int \<Rightarrow> timestamp option"

section \<open>Key material\<close>

definition generate_rsa_keypair :: "local_env \<Rightarrow> (string \<times> string) prog" where
  "generate_rsa_keypair L = bindE draw (\<lambda>seed. case rsa_keypair L seed of
     Inl e \<Rightarrow> throw (Internal e) | Inr pair \<Rightarrow> ret pair)"

definition generate_ed25519_keypair :: "('u, 'z) env_scheme \<Rightarrow> local_env \<Rightarrow> (string \<times> string) prog" where
  "generate_ed25519_keypair E L = bindE draw (\<lambda>secret_bytes.
     ret (CHR ''z'' # base58_encode E (ed25519_public L secret_bytes), std_base64 L secret_bytes))"

definition generate_keypair :: "('u, 'z) env_scheme \<Rightarrow> local_env \<Rightarrow> actor_keypair prog" where
  "generate_keypair E L =
     bindE (generate_rsa_keypair L) (\<lambda>(public_pem, private_pem).
     bindE (generate_ed25519_keypair E L) (\<lambda>(public_multibase, private_base64).
     ret \<lparr>kp_public_pem = public_pem, kp_private_pem = private_pem,
          kp_public_multibase = public_multibase, kp_private_base64 = private_base64\<rparr>))"

section \<open>Creating a local actor\<close>

record new_actor =
  na_type :: actor_type
  na_username :: string
  na_display_name :: "string option"
  na_domain :: string
  na_public_key_pem :: string
  na_private_key_pem :: string
  na_ed25519_public_key :: string
  na_ed25519_private_key :: string

definition new_actor_of :: "actor_type \<Rightarrow> string \<Rightarrow> string option \<Rightarrow> string \<Rightarrow> actor_keypair \<Rightarrow> new_actor" where
  "new_actor_of t username display_name domain k =
    \<lparr> na_type = t, na_username = username, na_display_name = display_name, na_domain = domain,
      na_public_key_pem = kp_public_pem k, na_private_key_pem = kp_private_pem k,
      na_ed25519_public_key = kp_public_multibase k, na_ed25519_private_key = kp_private_base64 k \<rparr>"

definition local_ap_id :: "string \<Rightarrow> string \<Rightarrow> string" where
  "local_ap_id domain username = ''https://'' @ domain @ ''/users/'' @ username"

text \<open>The actor the caller gets, with its keys in the clear.\<close>

definition created_actor :: "new_actor \<Rightarrow> uuid \<Rightarrow> timestamp \<Rightarrow> actor" where
  "created_actor p i now =
    \<lparr> a_id = i, a_type = na_type p, a_org_kind = None, a_ap_id = local_ap_id (na_domain p) (na_username p),
      a_username = na_username p, a_display_name = na_display_name p, a_headline = None, a_location = None,
      a_avatar_url = None, a_header_url = None, a_summary_md = None, a_summary_html = None,
      a_public_key_pem = na_public_key_pem p, a_public_key_id = None,
      a_private_key_pem = Some (na_private_key_pem p), a_ed25519_public_key = Some (na_ed25519_public_key p),
      a_ed25519_private_key = Some (na_ed25519_private_key p), a_domain = na_domain p, a_is_local = True,
      a_inbox_url = None, a_instance_role = RoleUser, a_status = StatusActive,
      a_chat_requires_reprovisioning = False, a_chatmail_addr = None, a_orcid = None, a_moved_to = None,
      a_privacy = default_privacy, a_created_at = now, a_updated_at = now \<rparr>"

text \<open>The row: the same with the keys sealed, and the defaults of the other columns.\<close>

definition created_row :: "actor \<Rightarrow> string \<Rightarrow> string \<Rightarrow> actor_row" where
  "created_row a sealed_rsa sealed_ed25519 = actor.extend
     (a\<lparr>a_private_key_pem := Some sealed_rsa, a_ed25519_private_key := Some sealed_ed25519\<rparr>)
     \<lparr> ar_shared_inbox_url = None, ar_sanitiser_version = 0, ar_auth_key_hash = None, ar_email = None,
       ar_email_verified_at = None, ar_chatmail_cred = None, ar_claimed_domain = None,
       ar_connections_visibility = ''private'', ar_following_visibility = ''private'',
       ar_followers_visibility = ''private'', ar_deletion_requested_at = None, ar_erased_at = None,
       ar_last_sign_in_at = None, ar_default_post_visibility = ''public'', ar_blur_sensitive_media = True \<rparr>"

text \<open>
  The unique indices a new local row can meet: the identifier, the username on the domain, and
  the one instance actor.
\<close>

definition holds_username :: "string \<Rightarrow> string \<Rightarrow> world \<Rightarrow> bool" where
  "holds_username domain username s =
     list_ex (\<lambda>a. a_username a = username \<and> a_domain a = domain \<and> a_is_local a) (w_actors s)"

definition is_instance_actor :: "actor_row \<Rightarrow> bool" where
  "is_instance_actor a = (a_is_local a \<and> a_type a = Application)"

definition actor_conflict :: "actor_row \<Rightarrow> world \<Rightarrow> bool" where
  "actor_conflict r s = (list_ex (\<lambda>a. a_ap_id a = a_ap_id r) (w_actors s)
     \<or> holds_username (a_domain r) (a_username r) s
     \<or> (a_type r = Application \<and> list_ex is_instance_actor (w_actors s)))"

text \<open>\<open>None\<close> is the database's code 23505, which one caller tells apart.\<close>

definition insert_actor :: "actor_row \<Rightarrow> unit option prog" where
  "insert_actor r = stmt (\<lambda>s. if actor_conflict r s then (Inr None, s)
     else (Inr (Some ()), s\<lparr>w_actors := w_actors s @ [r]\<rparr>))"

definition create_actor_on :: "('u, 'z) env_scheme \<Rightarrow> new_actor \<Rightarrow> actor option prog" where
  "create_actor_on E p =
    bindE new_uuid (\<lambda>i.
    bindE (seal_auto E (na_private_key_pem p)) (\<lambda>sealed_rsa.
    bindE (seal_auto E (na_ed25519_private_key p)) (\<lambda>sealed_ed25519.
    bindE (gets w_now) (\<lambda>now.
    let a = created_actor p i now in
    bindE (insert_actor (created_row a sealed_rsa sealed_ed25519)) (\<lambda>r. ret (map_option (\<lambda>_. a) r))))))"

definition create_actor :: "('u, 'z) env_scheme \<Rightarrow> new_actor \<Rightarrow> actor prog" where
  "create_actor E p = bindE (create_actor_on E p) (ok_or Database)"

section \<open>The instance actor\<close>

definition find_instance_actor :: "uuid option prog" where
  "find_instance_actor = query (\<lambda>s. map_option a_id (List.find is_instance_actor (w_actors s)))"

definition instance_actor_username :: "string \<Rightarrow> string" where
  "instance_actor_username domain = hd (split_on CHR '':'' domain)"

definition ensure_instance_actor :: "('u, 'z) env_scheme \<Rightarrow> local_env \<Rightarrow> string \<Rightarrow> uuid prog" where
  "ensure_instance_actor E L domain =
    bindE find_instance_actor (\<lambda>found. case found of Some i \<Rightarrow> ret i | None \<Rightarrow>
      bindE (generate_keypair E L) (\<lambda>k.
      bindE (attempt (create_actor E
        (new_actor_of Application (instance_actor_username domain) (Some domain) domain k))) (\<lambda>r. case r of
        Inr a \<Rightarrow> ret (a_id a)
      | Inl e \<Rightarrow> bindE find_instance_actor (\<lambda>again. case again of Some i \<Rightarrow> ret i | None \<Rightarrow> throw e))))"

section \<open>Registration\<close>

datatype registration_mode = RegOpen | RegApproval | RegClosed

definition mode_from_stored :: "string \<Rightarrow> registration_mode" where
  "mode_from_stored s = (if s = ''open'' then RegOpen else if s = ''approval'' then RegApproval else RegClosed)"

definition stored_mode :: "world \<Rightarrow> registration_mode" where
  "stored_mode s = (case at_settings (w_accounts s) of None \<Rightarrow> RegClosed
     | Some st \<Rightarrow> mode_from_stored (st_registration_mode st))"

definition registration_mode :: "registration_mode prog" where
  "registration_mode = query stored_mode"

definition is_ascii_lowercase :: "char \<Rightarrow> bool" where
  "is_ascii_lowercase c = (97 \<le> byte c \<and> byte c \<le> 122)"

definition validate_username :: "string \<Rightarrow> unit result" where
  "validate_username username =
    (if username = [] \<or> 30 < length username then Inl (BadRequest ''username must be 1-30 characters'')
     else if \<not> is_ascii_lowercase (hd username)
     then Inl (BadRequest ''username must begin with a lowercase letter'')
     else if \<not> list_all (\<lambda>c. is_ascii_lowercase c \<or> is_ascii_digit c \<or> c = CHR ''_'') (tl username)
     then Inl (BadRequest ''username may contain only lowercase letters, digits, and underscores'')
     else Inr ())"

definition validate_auth_key :: "string \<Rightarrow> unit result" where
  "validate_auth_key auth_key =
    (if length auth_key \<noteq> 64 then Inl (BadRequest ''auth_key must be 64 hex characters (32 bytes)'')
     else if \<not> list_all is_ascii_hexdigit auth_key then Inl (BadRequest ''auth_key must be hex-encoded'')
     else Inr ())"

definition hash_auth_key :: "local_env \<Rightarrow> string \<Rightarrow> string prog" where
  "hash_auth_key L auth_key = bindE draw (\<lambda>salt. case argon2_hash L salt auth_key of
     Inl e \<Rightarrow> throw (Internal (''Argon2id hashing failed: '' @ e)) | Inr h \<Rightarrow> ret h)"

text \<open>\<open>.map_err(..)\<close> with an error of the caller's own.\<close>

definition failing_as :: "(noombat_error \<Rightarrow> noombat_error) \<Rightarrow> 'a prog \<Rightarrow> 'a prog" where
  "failing_as f m = (\<lambda>s. case m s of (Inl e, t) \<Rightarrow> (Inl (f e), t) | (Inr x, t) \<Rightarrow> (Inr x, t))"

definition hash_failed :: "noombat_error \<Rightarrow> noombat_error" where
  "hash_failed e = Internal (''hash failed: internal error: '' @ (case e of Internal m \<Rightarrow> m | _ \<Rightarrow> []))"

definition username_taken :: "string \<Rightarrow> string \<Rightarrow> bool prog" where
  "username_taken domain username = query (holds_username domain username)"

text \<open>A transaction whose \<open>begin\<close> and \<open>commit\<close> report failures of their own.\<close>

definition transaction_reporting :: "'a prog \<Rightarrow> 'a prog" where
  "transaction_reporting m = (\<lambda>s.
     case bindE (failing_as (\<lambda>_. Internal ''transaction begin failed'') (execute id)) (\<lambda>_.
          bindE m (\<lambda>x. bindE (failing_as (\<lambda>_. Internal ''transaction commit failed'') (execute id)) (\<lambda>_. ret x))) s of
       (Inr x, t) \<Rightarrow> (Inr x, t)
     | (Inl e, t) \<Rightarrow> (Inl e, s\<lparr>w_tick := w_tick t, w_next_id := w_next_id t, w_entropy := w_entropy t,
         w_log := w_log t\<rparr>))"

record register_request =
  rq_username :: string
  rq_display_name :: "string option"
  rq_email :: "string option"
  rq_auth_key :: string

record register_response =
  rs_actor_id :: uuid
  rs_username :: string
  rs_ap_id :: string
  rs_awaiting_approval :: bool

definition admitted_as :: "registration_mode \<Rightarrow> actor_status" where
  "admitted_as mode = (if mode = RegApproval then StatusPending else StatusActive)"

definition register_actor :: "('u, 'z) env_scheme \<Rightarrow> new_actor \<Rightarrow> string \<Rightarrow> actor_status \<Rightarrow> actor prog" where
  "register_actor E p auth_key_hash status = transaction_reporting (
    bindE (create_actor_on E p) (\<lambda>made.
    bindE (ok_or (ActorAlreadyExists (na_username p)) made) (\<lambda>a.
    bindE (execute (update_actor_row (a_id a) (\<lambda>r. r\<lparr>ar_auth_key_hash := Some auth_key_hash, a_status := status\<rparr>))) (\<lambda>_.
    ret a))))"

definition register :: "('u, 'z) env_scheme \<Rightarrow> local_env \<Rightarrow> string \<Rightarrow> register_request \<Rightarrow> register_response prog" where
  "register E L domain req =
    bindE registration_mode (\<lambda>mode.
    if mode = RegClosed then throw Forbidden
    else
      bindE (of_result (validate_username (rq_username req))) (\<lambda>_.
      bindE (of_result (validate_auth_key (rq_auth_key req))) (\<lambda>_.
      bindE (ok_or (BadRequest ''email is required: a password account with no address cannot be recovered'')
        (rq_email req)) (\<lambda>email.
      bindE (of_result (qualify email ''email'')) (\<lambda>_.
      bindE (username_taken domain (rq_username req)) (\<lambda>taken.
      if taken then throw (ActorAlreadyExists (rq_username req))
      else
        bindE (generate_keypair E L) (\<lambda>k.
        bindE (failing_as hash_failed (hash_auth_key L (rq_auth_key req))) (\<lambda>auth_key_hash.
        bindE (register_actor E (new_actor_of Individual (rq_username req) (rq_display_name req) domain k)
          auth_key_hash (admitted_as mode)) (\<lambda>a.
        ret \<lparr>rs_actor_id = a_id a, rs_username = a_username a, rs_ap_id = a_ap_id a,
             rs_awaiting_approval = (mode = RegApproval)\<rparr>)))))))))"

section \<open>The ceilings on organisations\<close>

datatype period_unit = Hours | Days | Weeks | Months | Years

record period =
  pd_amount :: int
  pd_unit :: period_unit

definition period_unit_parse :: "string \<Rightarrow> period_unit option" where
  "period_unit_parse raw = (if raw = ''hours'' then Some Hours else if raw = ''days'' then Some Days
     else if raw = ''weeks'' then Some Weeks else if raw = ''months'' then Some Months
     else if raw = ''years'' then Some Years else None)"

definition period_display :: "period \<Rightarrow> string" where
  "period_display p = (let u = (case pd_unit p of Hours \<Rightarrow> ''hour'' | Days \<Rightarrow> ''day'' | Weeks \<Rightarrow> ''week''
       | Months \<Rightarrow> ''month'' | Years \<Rightarrow> ''year'') in
     if pd_amount p = 1 then u else show_int (pd_amount p) @ '' '' @ u @ ''s'')"

definition interval_args :: "period \<Rightarrow> int \<times> int \<times> int \<times> int \<times> int" where
  "interval_args p = (let n = pd_amount p in case pd_unit p of
       Hours \<Rightarrow> (0, 0, 0, 0, n) | Days \<Rightarrow> (0, 0, 0, n, 0) | Weeks \<Rightarrow> (0, 0, n, 0, 0)
     | Months \<Rightarrow> (0, n, 0, 0, 0) | Years \<Rightarrow> (n, 0, 0, 0, 0))"

record organization_policy =
  op_enabled :: bool
  op_rate_limit_count :: int
  op_rate_limit_period :: period
  op_concurrent_cap :: int
  op_period_cap_count :: int
  op_cap_period :: period

definition default_policy :: organization_policy where
  "default_policy = \<lparr>op_enabled = True, op_rate_limit_count = 1,
     op_rate_limit_period = \<lparr>pd_amount = 7, pd_unit = Days\<rparr>, op_concurrent_cap = 5,
     op_period_cap_count = 10, op_cap_period = \<lparr>pd_amount = 1, pd_unit = Years\<rparr>\<rparr>"

definition period_or :: "period \<Rightarrow> int \<Rightarrow> string \<Rightarrow> period" where
  "period_or fallback amount raw = \<lparr>pd_amount = amount,
     pd_unit = (case period_unit_parse raw of Some u \<Rightarrow> u | None \<Rightarrow> pd_unit fallback)\<rparr>"

definition stored_policy :: "world \<Rightarrow> organization_policy" where
  "stored_policy s = (case at_settings (w_accounts s) of None \<Rightarrow> default_policy
   | Some st \<Rightarrow>
      \<lparr> op_enabled = st_organization_enabled st, op_rate_limit_count = st_organization_rate_count st,
        op_rate_limit_period = period_or (op_rate_limit_period default_policy)
          (st_organization_rate_amount st) (st_organization_rate_unit st),
        op_concurrent_cap = st_organization_concurrent_cap st,
        op_period_cap_count = st_organization_period_cap_count st,
        op_cap_period = period_or (op_cap_period default_policy)
          (st_organization_period_cap_amount st) (st_organization_period_cap_unit st) \<rparr>)"

definition enrolments_since :: "uuid \<Rightarrow> timestamp \<Rightarrow> world \<Rightarrow> int" where
  "enrolments_since owner t s = int (length (filter (\<lambda>x. oe_owner x = owner \<and> t < oe_created_at x)
     (at_enrolments (w_accounts s))))"

definition enrolments_within :: "local_env \<Rightarrow> uuid \<Rightarrow> period \<Rightarrow> int prog" where
  "enrolments_within L owner_id p = stmt (\<lambda>s. case window_start L (w_now s) (interval_args p) of
     None \<Rightarrow> (Inl Database, s) | Some t \<Rightarrow> (Inr (enrolments_since owner_id t s), s))"

definition organizations_held :: "uuid \<Rightarrow> world \<Rightarrow> int" where
  "organizations_held owner s = int (length (filter (\<lambda>m. om_member m = owner \<and> om_role m = ''owner''
     \<and> om_accepted_at m \<noteq> None) (at_members (w_accounts s))))"

definition held_text :: "int \<Rightarrow> int \<Rightarrow> string" where
  "held_text held cap = ''you hold '' @ show_int held @ '' organisations and this instance allows ''
     @ show_int cap @ ''. Dissolve one before enrolling another''"

definition period_text :: "int \<Rightarrow> period \<Rightarrow> int \<Rightarrow> string" where
  "period_text recent p cap = ''you have enrolled '' @ show_int recent @ '' organisations in the past ''
     @ period_display p @ '' and this instance allows '' @ show_int cap"

definition rate_text :: "int \<Rightarrow> period \<Rightarrow> string" where
  "rate_text count p = ''this instance allows '' @ show_int count @ '' organisation(s) every ''
     @ period_display p @ '' per account''"

text \<open>One ceiling: a count of zero switches it off.\<close>

definition ceiling :: "int \<Rightarrow> int prog \<Rightarrow> (int \<Rightarrow> string) \<Rightarrow> unit prog" where
  "ceiling cap count refusal = (if 0 < cap
     then bindE count (\<lambda>n. if cap \<le> n then throw (QuotaExceeded (refusal n)) else ret ())
     else ret ())"

definition enforce_organization_policy :: "local_env \<Rightarrow> uuid \<Rightarrow> unit prog" where
  "enforce_organization_policy L owner_id =
    bindE (query stored_policy) (\<lambda>policy.
    if \<not> op_enabled policy then throw Forbidden
    else
      bindE (execute id) (\<lambda>_.
      bindE (ceiling (op_concurrent_cap policy) (query (organizations_held owner_id))
        (\<lambda>held. held_text held (op_concurrent_cap policy))) (\<lambda>_.
      bindE (ceiling (op_period_cap_count policy) (enrolments_within L owner_id (op_cap_period policy))
        (\<lambda>recent. period_text recent (op_cap_period policy) (op_period_cap_count policy))) (\<lambda>_.
      ceiling (op_rate_limit_count policy) (enrolments_within L owner_id (op_rate_limit_period policy))
        (\<lambda>recent. rate_text (op_rate_limit_count policy) (op_rate_limit_period policy))))))"

section \<open>Enrolling an organisation\<close>

definition trim_end_dots :: "string \<Rightarrow> string" where
  "trim_end_dots t = rev (dropWhile (\<lambda>c. c = CHR ''.'') (rev t))"

definition registrable_domain :: "local_env \<Rightarrow> string \<Rightarrow> string option" where
  "registrable_domain L host = psl_domain L (to_ascii_lowercase (trim_end_dots (trim host)))"

definition on_accounts :: "(account_tables \<Rightarrow> account_tables) \<Rightarrow> world \<Rightarrow> world" where
  "on_accounts f s = s\<lparr>w_accounts := f (w_accounts s)\<rparr>"

definition is_member_row :: "uuid \<Rightarrow> uuid \<Rightarrow> member_row \<Rightarrow> bool" where
  "is_member_row organization member m = (om_organization m = organization \<and> om_member m = member)"

definition insert_owner :: "uuid \<Rightarrow> uuid \<Rightarrow> unit prog" where
  "insert_owner organization owner = execute_if
     (\<lambda>s. actor_exists organization s \<and> actor_exists owner s
        \<and> \<not> list_ex (is_member_row organization owner) (at_members (w_accounts s)))
     (\<lambda>s. on_accounts (\<lambda>t. t\<lparr>at_members := at_members t @ [\<lparr>om_organization = organization, om_member = owner,
        om_role = ''owner'', om_accepted_at = Some (w_now s)\<rparr>]\<rparr>) s)"

definition insert_enrolment :: "uuid \<Rightarrow> uuid \<Rightarrow> unit prog" where
  "insert_enrolment owner organization = execute_if
     (\<lambda>s. actor_exists organization s \<and> actor_exists owner s)
     (\<lambda>s. on_accounts (\<lambda>t. t\<lparr>at_enrolments := at_enrolments t @ [\<lparr>oe_owner = owner,
        oe_organization = Some organization, oe_created_at = w_now s\<rparr>]\<rparr>) s)"

definition claim_domain :: "local_env \<Rightarrow> uuid \<Rightarrow> string option \<Rightarrow> unit prog" where
  "claim_domain L i claimed = (case claimed of None \<Rightarrow> ret () | Some raw \<Rightarrow>
     bindE (ok_or (BadRequest (raw @ '' is not a registrable domain'')) (registrable_domain L raw)) (\<lambda>domain.
     execute (update_actor_row i (\<lambda>a. a\<lparr>ar_claimed_domain := Some domain\<rparr>))))"

definition enrol_organization ::
  "('u, 'z) env_scheme \<Rightarrow> local_env \<Rightarrow> string \<Rightarrow> uuid \<Rightarrow> string \<Rightarrow> string option \<Rightarrow> string option \<Rightarrow> org_kind option \<Rightarrow> actor prog" where
  "enrol_organization E L domain owner_id username display_name claimed_domain org_kind =
    bindE (of_result (validate_username username)) (\<lambda>_.
    bindE (username_taken domain username) (\<lambda>taken.
    if taken then throw (ActorAlreadyExists username)
    else
      bindE (generate_keypair E L) (\<lambda>k.
      bindE (transaction_reporting (
        bindE (enforce_organization_policy L owner_id) (\<lambda>_.
        bindE (create_actor E (new_actor_of Organization username display_name domain k)) (\<lambda>a.
        bindE (claim_domain L (a_id a) claimed_domain) (\<lambda>_.
        bindE (case org_kind of None \<Rightarrow> ret ()
               | Some kind \<Rightarrow> execute (update_actor_row (a_id a) (\<lambda>r. r\<lparr>a_org_kind := Some kind\<rparr>))) (\<lambda>_.
        bindE (insert_owner (a_id a) owner_id) (\<lambda>_.
        bindE (insert_enrolment owner_id (a_id a)) (\<lambda>_. ret a)))))))) (\<lambda>a.
      ret (a\<lparr>a_org_kind := org_kind\<rparr>)))))"

section \<open>Changing a local actor\<close>

text \<open>An \<open>UPDATE\<close> of the actors that meet a condition, with the number of rows it hit.\<close>

definition update_actors :: "(actor_row \<Rightarrow> bool) \<Rightarrow> (world \<Rightarrow> actor_row \<Rightarrow> actor_row) \<Rightarrow> nat prog" where
  "update_actors P f = stmt (\<lambda>s. (Inr (length (filter P (w_actors s))),
     s\<lparr>w_actors := map (\<lambda>a. if P a then f s a else a) (w_actors s)\<rparr>))"

definition set_instance_role :: "account_env \<Rightarrow> uuid \<Rightarrow> instance_role \<Rightarrow> unit prog" where
  "set_instance_role A actor_id role =
    bindE (update_actors (\<lambda>a. a_id a = actor_id \<and> a_is_local a)
      (\<lambda>s a. a\<lparr>a_instance_role := role, a_updated_at := w_now s\<rparr>)) (\<lambda>affected.
    if affected = 0 then throw (ActorNotFound (show_uuid A actor_id)) else ret ())"

definition count_admins :: "int prog" where
  "count_admins = query (\<lambda>s. int (length (filter (\<lambda>a. a_is_local a \<and> a_instance_role a = RoleAdmin) (w_actors s))))"

definition set_actor_status :: "('u, 'z) env_scheme \<Rightarrow> uuid \<Rightarrow> actor_status \<Rightarrow> actor prog" where
  "set_actor_status E actor_id status =
    bindE (update_actors (\<lambda>a. a_id a = actor_id \<and> a_is_local a)
      (\<lambda>s a. a\<lparr>a_status := status, a_updated_at := w_now s\<rparr>)) (\<lambda>affected.
    if affected = 0 then throw (NotFound ''actor'' actor_id) else find_by_id E actor_id)"

definition set_org_kind :: "('u, 'z) env_scheme \<Rightarrow> uuid \<Rightarrow> org_kind \<Rightarrow> actor prog" where
  "set_org_kind E actor_id kind =
    bindE (update_actors (\<lambda>a. a_id a = actor_id \<and> a_is_local a \<and> a_type a = Organization)
      (\<lambda>s a. a\<lparr>a_org_kind := Some kind, a_updated_at := w_now s\<rparr>)) (\<lambda>affected.
    if affected = 0 then throw (NotFound ''organization'' actor_id) else find_by_id E actor_id)"

record update_actor_request =
  ua_display_name :: "string option option"
  ua_headline :: "string option option"
  ua_location :: "string option option"
  ua_summary_md :: "string option option"
  ua_summary_html :: "string option option"
  ua_avatar_url :: "string option option"
  ua_header_url :: "string option option"

definition patched :: "'a option \<Rightarrow> 'a \<Rightarrow> 'a" where
  "patched p current = (case p of Some v \<Rightarrow> v | None \<Rightarrow> current)"

definition update_actor :: "('u, 'z) env_scheme \<Rightarrow> uuid \<Rightarrow> update_actor_request \<Rightarrow> actor prog" where
  "update_actor E actor_id params =
    bindE (find_by_id E actor_id) (\<lambda>current.
    if \<not> a_is_local current then throw (BadRequest ''cannot update a remote actor'')
    else
      bindE (update_actors (\<lambda>a. a_id a = actor_id \<and> a_is_local a) (\<lambda>s a. a
        \<lparr> a_display_name := patched (ua_display_name params) (a_display_name current),
          a_headline := patched (ua_headline params) (a_headline current),
          a_location := patched (ua_location params) (a_location current),
          a_summary_md := patched (ua_summary_md params) (a_summary_md current),
          a_summary_html := patched (ua_summary_html params) (a_summary_html current),
          a_avatar_url := patched (ua_avatar_url params) (a_avatar_url current),
          a_header_url := patched (ua_header_url params) (a_header_url current),
          a_updated_at := w_now s \<rparr>)) (\<lambda>_.
      find_by_id E actor_id))"

section \<open>Local posts and the social graph\<close>

record new_post =
  np_actor_id :: uuid
  np_ap_id :: string
  np_post_type :: string
  np_title :: "string option"
  np_featured_image_url :: "string option"
  np_featured_image_alt :: "string option"
  np_sensitive :: bool
  np_content_md :: string
  np_content_html :: string
  np_in_reply_to :: "string option"
  np_visibility :: string
  np_ap_object :: json

definition local_post_row :: "new_post \<Rightarrow> uuid \<Rightarrow> post_row" where
  "local_post_row p i =
    \<lparr> p_id = i, p_actor_id = np_actor_id p, p_ap_id = np_ap_id p, p_post_type = np_post_type p,
      p_title = np_title p, p_featured_image_url = np_featured_image_url p,
      p_featured_image_alt = np_featured_image_alt p, p_sensitive = np_sensitive p,
      p_content_md = Some (np_content_md p), p_content_html = np_content_html p, p_sanitiser_version = 0,
      p_in_reply_to = np_in_reply_to p, p_canonical_uri = None, p_visibility = np_visibility p,
      p_ap_object = np_ap_object p, p_integrity_proof_verified = None, p_relayed_unverified = False \<rparr>"

definition create_local_post :: "new_post \<Rightarrow> (uuid \<times> string \<times> json) prog" where
  "create_local_post p = bindE new_uuid (\<lambda>i.
     bindE (execute_if (\<lambda>s. post_columns_ok (np_post_type p) (np_visibility p) (np_featured_image_url p)
          (np_featured_image_alt p) \<and> post_by_ap_id (np_ap_id p) s = None \<and> actor_exists (np_actor_id p) s)
        (\<lambda>s. s\<lparr>w_posts := w_posts s @ [local_post_row p i]\<rparr>)) (\<lambda>_.
     ret (i, np_ap_id p, np_ap_object p)))"

definition public_posts_of :: "uuid \<Rightarrow> world \<Rightarrow> post_row list" where
  "public_posts_of i s = filter (\<lambda>p. p_actor_id p = i \<and> p_visibility p = ''public'') (w_posts s)"

definition count_public_posts :: "uuid \<Rightarrow> int prog" where
  "count_public_posts i = query (\<lambda>s. int (length (public_posts_of i s)))"

text \<open>\<open>ORDER BY created_at DESC LIMIT .. OFFSET ..\<close>: a table holds its rows in the order they were made.\<close>

definition latest_page :: "nat \<Rightarrow> nat \<Rightarrow> 'a list \<Rightarrow> 'a list" where
  "latest_page limit offset rows = take limit (drop offset (rev rows))"

definition list_public_posts :: "uuid \<Rightarrow> nat \<Rightarrow> nat \<Rightarrow> (uuid \<times> string \<times> json) list prog" where
  "list_public_posts i limit offset = query (\<lambda>s.
     map (\<lambda>p. (p_id p, p_ap_id p, p_ap_object p)) (latest_page limit offset (public_posts_of i s)))"

definition followers_of :: "uuid \<Rightarrow> world \<Rightarrow> follow_row list" where
  "followers_of i s = filter (\<lambda>f. f_following f = i \<and> f_accepted f) (w_follows s)"

definition followed_by :: "uuid \<Rightarrow> world \<Rightarrow> follow_row list" where
  "followed_by i s = filter (\<lambda>f. f_follower f = i \<and> f_accepted f) (w_follows s)"

definition count_followers :: "uuid \<Rightarrow> int prog" where
  "count_followers i = query (\<lambda>s. int (length (followers_of i s)))"

definition count_following :: "uuid \<Rightarrow> int prog" where
  "count_following i = query (\<lambda>s. int (length (followed_by i s)))"

definition ap_ids_of :: "world \<Rightarrow> uuid list \<Rightarrow> string list" where
  "ap_ids_of s ids = List.map_filter (\<lambda>i. map_option a_ap_id (actor_by_id i s)) ids"

definition list_follower_ap_ids :: "uuid \<Rightarrow> nat \<Rightarrow> nat \<Rightarrow> string list prog" where
  "list_follower_ap_ids i limit offset = query (\<lambda>s. take limit (drop offset
     (ap_ids_of s (rev (map f_follower (followers_of i s))))))"

definition list_following_ap_ids :: "uuid \<Rightarrow> nat \<Rightarrow> nat \<Rightarrow> string list prog" where
  "list_following_ap_ids i limit offset = query (\<lambda>s. take limit (drop offset
     (ap_ids_of s (rev (map f_following (followed_by i s))))))"

section \<open>Erasing and purging\<close>

definition erased_privacy :: actor_privacy where
  "erased_privacy = \<lparr> discoverable = False, indexable = False, require_follow_approval = True,
     federate_profile = False, chatmail_visible = False, show_followers_count = False,
     priv_cv_download = CvSelfOnly \<rparr>"

definition erased_row :: "timestamp \<Rightarrow> actor_row \<Rightarrow> actor_row" where
  "erased_row now a = a
    \<lparr> a_display_name := None, a_headline := None, a_location := None, a_avatar_url := None,
      a_header_url := None, a_summary_md := None, a_summary_html := None, a_chatmail_addr := None,
      ar_chatmail_cred := None, ar_auth_key_hash := None, a_ed25519_private_key := None, a_orcid := None,
      a_status := StatusSuspended,
      ar_erased_at := (case ar_erased_at a of Some t \<Rightarrow> Some t | None \<Rightarrow> Some now),
      a_privacy := erased_privacy, a_updated_at := now \<rparr>"

definition on_profile :: "(profile_tables \<Rightarrow> profile_tables) \<Rightarrow> world \<Rightarrow> world" where
  "on_profile f s = s\<lparr>w_profile := f (w_profile s)\<rparr>"

text \<open>A delete from one of the tables that nothing else reads.\<close>

definition delete_owned :: "string \<Rightarrow> uuid \<Rightarrow> world \<Rightarrow> world" where
  "delete_owned table i s = s\<lparr>w_owned := filter (\<lambda>(t, j). \<not> (t = table \<and> j = i)) (w_owned s)\<rparr>"

text \<open>The statements of the erasure after the first two, in their order.\<close>

definition erasing_profile :: "uuid \<Rightarrow> (world \<Rightarrow> world) list" where
  "erasing_profile i =
    [ on_profile (\<lambda>t. t\<lparr>pt_work := filter (\<lambda>x. sr_actor x \<noteq> i) (pt_work t)\<rparr>),
      on_profile (\<lambda>t. t\<lparr>pt_education := filter (\<lambda>x. sr_actor x \<noteq> i) (pt_education t)\<rparr>),
      on_profile (\<lambda>t. t\<lparr>pt_skills := filter (\<lambda>x. sk_actor x \<noteq> i) (pt_skills t)\<rparr>),
      on_profile (\<lambda>t. t\<lparr>pt_articles := filter (\<lambda>x. sa_actor x \<noteq> i) (pt_articles t)\<rparr>),
      on_profile (\<lambda>t. t\<lparr>pt_links := filter (\<lambda>x. vl_actor x \<noteq> i) (pt_links t)\<rparr>),
      on_profile (\<lambda>t. t\<lparr>pt_sections := filter (\<lambda>x. sr_actor x \<noteq> i) (pt_sections t)\<rparr>),
      on_jobs (delete_applications_where (\<lambda>a. ja_applicant a = i)),
      (\<lambda>s. s\<lparr>w_aliases := filter (\<lambda>x. al_actor x \<noteq> i) (w_aliases s)\<rparr>) ]"

definition erasing_relations :: "uuid \<Rightarrow> (world \<Rightarrow> world) list" where
  "erasing_relations i =
    [ (\<lambda>s. s\<lparr>w_follows := filter (\<lambda>f. f_follower f \<noteq> i \<and> f_following f \<noteq> i) (w_follows s)\<rparr>),
      (\<lambda>s. s\<lparr>w_blocks := filter (\<lambda>b. b_actor b \<noteq> i \<and> b_target b \<noteq> i) (w_blocks s)\<rparr>),
      (\<lambda>s. s\<lparr>w_mutes := filter (\<lambda>b. b_actor b \<noteq> i \<and> b_target b \<noteq> i) (w_mutes s)\<rparr>),
      (\<lambda>s. s\<lparr>w_likes := filter (\<lambda>r. r_actor r \<noteq> i) (w_likes s)\<rparr>),
      (\<lambda>s. s\<lparr>w_boosts := filter (\<lambda>r. r_actor r \<noteq> i) (w_boosts s)\<rparr>),
      (\<lambda>s. s\<lparr>w_media := filter (\<lambda>m. ma_actor m \<noteq> i) (w_media s)\<rparr>),
      delete_posts_where (\<lambda>p. p_actor_id p = i),
      on_jobs (delete_jobs_where (\<lambda>j. jb_actor_id j = i)),
      (\<lambda>s. s\<lparr>w_deliveries := filter (\<lambda>d. d_actor_id d \<noteq> i) (w_deliveries s)\<rparr>),
      (\<lambda>s. s\<lparr>w_reports := filter (\<lambda>r. rp_reporter r \<noteq> i) (w_reports s)\<rparr>) ]"

definition names_a_target :: "report_row \<Rightarrow> bool" where
  "names_a_target r = (rp_target_actor r \<noteq> None \<or> rp_target_post r \<noteq> None \<or> rp_target_chat_addr r \<noteq> None)"

definition forget_target :: "uuid \<Rightarrow> report_row \<Rightarrow> report_row" where
  "forget_target i r = (if rp_target_actor r = Some i then r\<lparr>rp_target_actor := None\<rparr> else r)"

text \<open>The update of the reports meets the check \<open>report_names_a_target\<close>.\<close>

definition clear_report_targets :: "uuid \<Rightarrow> unit prog" where
  "clear_report_targets i = execute_if (\<lambda>s. list_all (\<lambda>r. names_a_target (forget_target i r)) (w_reports s))
     (\<lambda>s. s\<lparr>w_reports := map (forget_target i) (w_reports s)\<rparr>)"

definition erasing_rest :: "uuid \<Rightarrow> (world \<Rightarrow> world) list" where
  "erasing_rest i =
    [ (\<lambda>s. s\<lparr>w_reports := map (\<lambda>r. if rp_resolved_by r = Some i then r\<lparr>rp_resolved_by := None\<rparr> else r) (w_reports s)\<rparr>),
      delete_owned ''event_rsvps'' i, delete_owned ''events'' i, delete_owned ''group_memberships'' i,
      id, (\<lambda>s. s\<lparr>w_hashtag_follows := filter (\<lambda>(j, t). j \<noteq> i) (w_hashtag_follows s)\<rparr>) ]"

definition tombstone_actor :: "('u, 'z) env_scheme \<Rightarrow> uuid \<Rightarrow> actor prog" where
  "tombstone_actor E actor_id =
    bindE (find_by_id E actor_id) (\<lambda>a.
    if \<not> a_is_local a then throw (BadRequest ''cannot delete a remote actor'')
    else transaction (
      bindE (execute (\<lambda>s. s\<lparr>w_tombstones := List.insert (a_ap_id a) (w_tombstones s)\<rparr>)) (\<lambda>_.
      bindE (execute (\<lambda>s. update_actor_row actor_id (erased_row (w_now s)) s)) (\<lambda>_.
      bindE (for_each execute (erasing_profile actor_id)) (\<lambda>_.
      bindE (for_each execute (erasing_relations actor_id)) (\<lambda>_.
      bindE (clear_report_targets actor_id) (\<lambda>_.
      bindE (for_each execute (erasing_rest actor_id)) (\<lambda>_. ret a))))))))"

text \<open>
  The check \<open>confirmation_names_an_organisation\<close>: the reference of a confirmed claim of
  employment cannot be set to null, which is what the foreign key does when its target goes.
\<close>

definition confirms_someone :: "uuid \<Rightarrow> world \<Rightarrow> bool" where
  "confirms_someone i s = list_ex (\<lambda>x. wx_organization_id x = Some i \<and> wx_confirmed_at x \<noteq> None \<and> sr_actor x \<noteq> i)
     (pt_work (w_profile s))"

definition purge_stmt :: "uuid \<Rightarrow> nat prog" where
  "purge_stmt i = stmt (\<lambda>s. let P = (\<lambda>a. a_id a = i \<and> ar_erased_at a \<noteq> None) in
     if list_ex P (w_actors s) \<and> confirms_someone i s then (Inl Database, s)
     else (Inr (length (filter P (w_actors s))), delete_actor_rows P s))"

definition purge_tombstoned_actor :: "uuid \<Rightarrow> unit prog" where
  "purge_tombstoned_actor actor_id = bindE (purge_stmt actor_id) (\<lambda>n.
     if n = 0 then throw (NotFound ''actor'' actor_id) else ret ())"

end
