(* ===== verification/Sidecar.thy ===== *)
theory Sidecar
  imports LocalActors ChatAdmin MoveFlag
begin

text \<open>
  The processes the instance calls on: \<open>noombat-chat/src/admin_client.rs\<close>, the HTTP client of the
  mail relay's sidecar (modelled in \<open>ChatAdmin\<close>), with \<open>provision.rs\<close>'s use of it; the block list of
  \<open>relay.rs\<close> and the reports of \<open>report.rs\<close>; the durable removal of \<open>search_sync.rs\<close>; and the
  deletion of media objects.
\<close>

section \<open>Parameters\<close>

text \<open>
  \<open>sc_send log\<close> is what the sidecar answers to the last request of the log, a status and a body,
  or the text of a failed connection; the readers of the bodies are \<open>serde_json\<close>'s, and so may
  fail with a text.
\<close>

record sidecar =
  sc_base_url :: string
  sc_send :: "(string \<times> string) list \<Rightarrow> string + nat \<times> string"
  sc_show_status :: "nat \<Rightarrow> string"
  sc_read_account :: "string \<Rightarrow> string + string \<times> string"
  sc_read_exists :: "string \<Rightarrow> string + string \<times> bool"

text \<open>
  \<open>bk_search s index id\<close> says whether the search backend takes a change to a document, \<open>None\<close>
  where no backend is configured; \<open>bk_store s key\<close> whether the media store removes an object.
\<close>

record backends =
  bk_search :: "(world \<Rightarrow> string \<Rightarrow> string \<Rightarrow> bool) option"
  bk_store :: "world \<Rightarrow> string \<Rightarrow> bool"
  bk_sidecar :: "sidecar option"

section \<open>The client of the sidecar\<close>

definition unsafe_byte :: "char \<Rightarrow> bool" where
  "unsafe_byte b = (b = CHR ''/'' \<or> b = CHR 0x5C \<or> b = CHR ''?'' \<or> b = CHR ''#'' \<or> b = CHR ''%'' \<or> b = CHR '';''
     \<or> is_ascii_whitespace b \<or> is_ascii_control b)"

definition segment_ok :: "string \<Rightarrow> bool" where
  "segment_ok v = (v \<noteq> [] \<and> \<not> list_ex unsafe_byte v \<and> \<not> contains_str ''..'' v)"

definition check_segment :: "string \<Rightarrow> unit prog" where
  "check_segment v = (if segment_ok v then ret ()
     else throw (BadRequest ''chatmail address contains a character that cannot appear in a request path''))"

definition trim_end_slashes :: "string \<Rightarrow> string" where
  "trim_end_slashes t = rev (dropWhile (\<lambda>c. c = CHR ''/'') (rev t))"

definition transport_is_confidential :: "('u, 'z) env_scheme \<Rightarrow> string \<Rightarrow> bool" where
  "transport_is_confidential E base_url = (case url_parse E base_url of Inl _ \<Rightarrow> False
     | Inr u \<Rightarrow> url_scheme E u = ''https'')"

definition new_client :: "('u, 'z) env_scheme \<Rightarrow> string option \<Rightarrow> string option \<Rightarrow> (string \<times> string) option" where
  "new_client E base_url admin_secret = (case base_url of None \<Rightarrow> None | Some b \<Rightarrow>
     (case admin_secret of None \<Rightarrow> None | Some k \<Rightarrow>
       let base = trim_end_slashes b in
       if transport_is_confidential E base then Some (base, k) else None))"

text \<open>One request: it is in the log whatever becomes of it.\<close>

definition sidecar_request :: "sidecar \<Rightarrow> string \<Rightarrow> string \<Rightarrow> (nat \<times> string) prog" where
  "sidecar_request C verb path = (\<lambda>s. let log = w_sidecar s @ [(verb, sc_base_url C @ path)] in
     case sc_send C log of
       Inl e \<Rightarrow> (Inl (Internal (''admin sidecar request failed: '' @ e)), s\<lparr>w_sidecar := log\<rparr>)
     | Inr reply \<Rightarrow> (Inr reply, s\<lparr>w_sidecar := log\<rparr>))"

definition is_success :: "nat \<Rightarrow> bool" where
  "is_success status = (200 \<le> status \<and> status \<le> 299)"

definition account_path :: "string \<Rightarrow> string" where
  "account_path address = ''/admin/v1/accounts/'' @ address"

definition recipient_path :: "string \<Rightarrow> string" where
  "recipient_path address = ''/admin/v1/access-maps/recipients/'' @ address @ ''/block''"

definition pair_path :: "string \<Rightarrow> string \<Rightarrow> string" where
  "pair_path sender recipient = ''/admin/v1/access-maps/senders/'' @ sender @ ''/block-to/'' @ recipient"

text \<open>A call that must succeed, and the reading of its body.\<close>

definition checked_request :: "sidecar \<Rightarrow> string \<Rightarrow> string \<Rightarrow> string \<Rightarrow> string prog" where
  "checked_request C name verb path =
    bindE (sidecar_request C verb path) (\<lambda>(status, body).
    if \<not> is_success status
    then throw (Internal (''admin sidecar '' @ name @ '' returned '' @ sc_show_status C status @ '': '' @ body))
    else ret body)"

definition parsed :: "(string \<Rightarrow> string + 'a) \<Rightarrow> string \<Rightarrow> 'a prog" where
  "parsed f body = (case f body of Inl e \<Rightarrow> throw (Internal (''admin sidecar response parse error: '' @ e))
     | Inr x \<Rightarrow> ret x)"

definition client_rotate_password :: "sidecar \<Rightarrow> string \<Rightarrow> (string \<times> string) prog" where
  "client_rotate_password C address = bindE (check_segment address) (\<lambda>_.
     bindE (checked_request C ''rotate-password'' ''POST'' (account_path address @ ''/rotate-password'')) (parsed (sc_read_account C)))"

definition client_create_account :: "sidecar \<Rightarrow> string \<Rightarrow> (string \<times> string) prog" where
  "client_create_account C address = bindE (check_segment address) (\<lambda>_.
     bindE (checked_request C ''create-account'' ''PUT'' (account_path address)) (parsed (sc_read_account C)))"

definition client_delete_account :: "sidecar \<Rightarrow> string \<Rightarrow> unit prog" where
  "client_delete_account C address = bindE (check_segment address) (\<lambda>_.
     bindE (checked_request C ''delete-account'' ''DELETE'' (account_path address)) (\<lambda>_. ret ()))"

text \<open>These report a refusal in the log only.\<close>

definition client_kick_sessions :: "sidecar \<Rightarrow> string \<Rightarrow> unit prog" where
  "client_kick_sessions C address = bindE (check_segment address) (\<lambda>_.
     bindE (sidecar_request C ''POST'' (account_path address @ ''/kick'')) (\<lambda>_. ret ()))"

definition client_block_recipient :: "sidecar \<Rightarrow> string \<Rightarrow> unit prog" where
  "client_block_recipient C address = bindE (check_segment address) (\<lambda>_.
     bindE (sidecar_request C ''POST'' (recipient_path address)) (\<lambda>_. ret ()))"

definition client_unblock_recipient :: "sidecar \<Rightarrow> string \<Rightarrow> unit prog" where
  "client_unblock_recipient C address = bindE (check_segment address) (\<lambda>_.
     bindE (sidecar_request C ''DELETE'' (recipient_path address)) (\<lambda>_. ret ()))"

definition client_block_sender_pair :: "sidecar \<Rightarrow> string \<Rightarrow> string \<Rightarrow> unit prog" where
  "client_block_sender_pair C sender recipient = bindE (check_segment sender) (\<lambda>_. bindE (check_segment recipient) (\<lambda>_.
     bindE (sidecar_request C ''POST'' (pair_path sender recipient)) (\<lambda>_. ret ())))"

definition client_unblock_sender_pair :: "sidecar \<Rightarrow> string \<Rightarrow> string \<Rightarrow> unit prog" where
  "client_unblock_sender_pair C sender recipient = bindE (check_segment sender) (\<lambda>_. bindE (check_segment recipient) (\<lambda>_.
     bindE (sidecar_request C ''DELETE'' (pair_path sender recipient)) (\<lambda>_. ret ())))"

definition client_account_exists :: "sidecar \<Rightarrow> string \<Rightarrow> bool prog" where
  "client_account_exists C address = bindE (check_segment address) (\<lambda>_.
     bindE (sidecar_request C ''GET'' (account_path address @ ''/exists'')) (\<lambda>(status, body).
     if \<not> is_success status then ret False
     else bindE (parsed (sc_read_exists C) body) (\<lambda>(address, present). ret present)))"

text \<open>
  The sidecar's table of routes (\<open>router.rs\<close>): the call a method and a path reach, \<open>None\<close> where the
  path is known and the method is not.  The client percent-encodes what a path may not hold and
  the router decodes it again, so a segment arrives as it was given.
\<close>

definition accounts_prefix :: "string list" where
  "accounts_prefix = [[], ''admin'', ''v1'', ''accounts'']"

definition recipients_prefix :: "string list" where
  "recipients_prefix = [[], ''admin'', ''v1'', ''access-maps'', ''recipients'']"

definition senders_prefix :: "string list" where
  "senders_prefix = [[], ''admin'', ''v1'', ''access-maps'', ''senders'']"

fun account_route :: "string \<Rightarrow> string list \<Rightarrow> admin_call option" where
  "account_route verb [a] = (if a = [] then Some NoRoute else if verb = ''DELETE'' then Some (DeleteAccount a)
     else if verb = ''PUT'' then Some (CreateAccount a) else None)"
| "account_route verb [a, b] = (if a = [] then Some NoRoute
     else if b = ''rotate-password'' then (if verb = ''POST'' then Some (RotatePassword a) else None)
     else if b = ''kick'' then (if verb = ''POST'' then Some (Kick a) else None)
     else if b = ''exists'' then (if verb = ''GET'' then Some (AccountExists a) else None)
     else Some NoRoute)"
| "account_route verb _ = Some NoRoute"

fun recipient_route :: "string \<Rightarrow> string list \<Rightarrow> admin_call option" where
  "recipient_route verb [a, b] = (if a = [] \<or> b \<noteq> ''block'' then Some NoRoute
     else if verb = ''POST'' then Some (BlockRecipient a)
     else if verb = ''DELETE'' then Some (UnblockRecipient a) else None)"
| "recipient_route verb _ = Some NoRoute"

fun sender_route :: "string \<Rightarrow> string list \<Rightarrow> admin_call option" where
  "sender_route verb [a, b, c] = (if a = [] \<or> b \<noteq> ''block-to'' \<or> c = [] then Some NoRoute
     else if verb = ''POST'' then Some (BlockSenderPair a c)
     else if verb = ''DELETE'' then Some (UnblockSenderPair a c) else None)"
| "sender_route verb _ = Some NoRoute"

definition route_of :: "string \<Rightarrow> string \<Rightarrow> admin_call option" where
  "route_of verb path =
    (let ps = filter (\<lambda>p. p \<noteq> ''.'') (split_on CHR ''/'' (takeWhile (\<lambda>c. c \<notin> set ''?#'') path)) in
     if take 4 ps = accounts_prefix then account_route verb (drop 4 ps)
     else if take 5 ps = recipients_prefix then recipient_route verb (drop 5 ps)
     else if take 5 ps = senders_prefix then sender_route verb (drop 5 ps)
     else Some NoRoute)"

text \<open>The client's method for each of the sidecar's calls.\<close>

fun client_run :: "sidecar \<Rightarrow> admin_call \<Rightarrow> unit prog" where
  "client_run C (RotatePassword a) = bindE (client_rotate_password C a) (\<lambda>_. ret ())"
| "client_run C (Kick a) = client_kick_sessions C a"
| "client_run C (DeleteAccount a) = client_delete_account C a"
| "client_run C (CreateAccount a) = bindE (client_create_account C a) (\<lambda>_. ret ())"
| "client_run C (AccountExists a) = bindE (client_account_exists C a) (\<lambda>_. ret ())"
| "client_run C (BlockRecipient a) = client_block_recipient C a"
| "client_run C (UnblockRecipient a) = client_unblock_recipient C a"
| "client_run C (BlockSenderPair a b) = client_block_sender_pair C a b"
| "client_run C (UnblockSenderPair a b) = client_unblock_sender_pair C a b"
| "client_run C NoRoute = ret ()"

section \<open>The search backend and the media store\<close>

definition search_remove :: "(world \<Rightarrow> string \<Rightarrow> string \<Rightarrow> bool) \<Rightarrow> string \<Rightarrow> string \<Rightarrow> unit prog" where
  "search_remove takes index i = (\<lambda>s. if takes s index i
     then (Inr (), s\<lparr>w_index := filter (\<lambda>d. d \<noteq> (index, i)) (w_index s)\<rparr>) else (Inl (Internal []), s))"

definition search_put :: "(world \<Rightarrow> string \<Rightarrow> string \<Rightarrow> bool) \<Rightarrow> string \<Rightarrow> string \<Rightarrow> unit prog" where
  "search_put takes index i = (\<lambda>s. if takes s index i
     then (Inr (), s\<lparr>w_index := List.insert (index, i) (w_index s)\<rparr>) else (Inl (Internal []), s))"

definition mark_removed :: "string \<Rightarrow> string \<Rightarrow> unit prog" where
  "mark_removed index i = execute (\<lambda>s. s\<lparr>w_search_ops := map (\<lambda>x. if so_index x = index \<and> so_document_id x = i
     \<and> so_operation x = ''remove'' then x\<lparr>so_state := ''succeeded''\<rparr> else x) (w_search_ops s)\<rparr>)"

definition remove_from_index_durably :: "backends \<Rightarrow> string \<Rightarrow> string \<Rightarrow> unit prog" where
  "remove_from_index_durably B index i =
    bindE (ignore_errors (enqueue_removal index i)) (\<lambda>_. case bk_search B of
      None \<Rightarrow> ret ()
    | Some takes \<Rightarrow> bindE (attempt (search_remove takes index i)) (\<lambda>r. case r of
        Inr _ \<Rightarrow> ignore_errors (mark_removed index i)
      | Inl _ \<Rightarrow> ret ()))"

definition store_delete :: "backends \<Rightarrow> string \<Rightarrow> unit prog" where
  "store_delete B key = (\<lambda>s. if bk_store B s key
     then (Inr (), s\<lparr>w_objects := filter (\<lambda>k. k \<noteq> key) (w_objects s)\<rparr>) else (Inl (Internal []), s))"

definition post_object_keys :: "uuid \<Rightarrow> string list prog" where
  "post_object_keys post_id = bindE (attempt (query (\<lambda>s. map ma_key (filter (\<lambda>m. ma_post m = Some post_id) (w_media s))))) (\<lambda>r.
     ret (case r of Inr keys \<Rightarrow> keys | Inl _ \<Rightarrow> []))"

definition purge_objects :: "backends \<Rightarrow> string list \<Rightarrow> unit prog" where
  "purge_objects B keys = for_each (\<lambda>key. ignore_errors (store_delete B key)) keys"

section \<open>Chat blocks and chat reports\<close>

text \<open>\<open>.unwrap_or(false)\<close>: a failed query answers no.\<close>

definition is_sender_blocked :: "uuid \<Rightarrow> string \<Rightarrow> bool prog" where
  "is_sender_blocked actor_id sender_addr = bindE (attempt (query (\<lambda>s. (actor_id, sender_addr) \<in> set (w_chat_blocks s)))) (\<lambda>r.
     ret (r = Inr True))"

definition block_sender :: "uuid \<Rightarrow> string \<Rightarrow> unit prog" where
  "block_sender actor_id blocked_addr = execute_if
     (\<lambda>s. (actor_id, blocked_addr) \<in> set (w_chat_blocks s) \<or> actor_exists actor_id s)
     (\<lambda>s. s\<lparr>w_chat_blocks := (if (actor_id, blocked_addr) \<in> set (w_chat_blocks s) then w_chat_blocks s
        else w_chat_blocks s @ [(actor_id, blocked_addr)])\<rparr>)"

definition unblock_sender :: "uuid \<Rightarrow> string \<Rightarrow> unit prog" where
  "unblock_sender actor_id blocked_addr = execute (\<lambda>s. s\<lparr>w_chat_blocks :=
     filter (\<lambda>b. b \<noteq> (actor_id, blocked_addr)) (w_chat_blocks s)\<rparr>)"

datatype chat_report_reason = ChatSpam | ChatHarassment | ChatIllegal | ChatImpersonation | ChatOther

definition chat_reason_as_str :: "chat_report_reason \<Rightarrow> string" where
  "chat_reason_as_str r = (case r of ChatSpam \<Rightarrow> ''spam'' | ChatHarassment \<Rightarrow> ''harassment''
     | ChatIllegal \<Rightarrow> ''illegal'' | ChatImpersonation \<Rightarrow> ''impersonation'' | ChatOther \<Rightarrow> ''other'')"

record chat_report_request =
  cq_target_addr :: string
  cq_message_content :: "string option"
  cq_message_date :: "timestamp option"
  cq_reason :: chat_report_reason
  cq_comment :: "string option"

definition MAX_QUOTED_MESSAGE :: nat where "MAX_QUOTED_MESSAGE = 8192"

definition MAX_COMMENT :: nat where "MAX_COMMENT = 2000"

definition within :: "string \<Rightarrow> nat \<Rightarrow> string option \<Rightarrow> unit prog" where
  "within field limit text = (case text of None \<Rightarrow> ret () | Some t \<Rightarrow> if limit < length t
     then throw (BadRequest (field @ '' must be at most '' @ show_nat limit @ '' bytes'')) else ret ())"

definition submit_report :: "uuid \<Rightarrow> chat_report_request \<Rightarrow> uuid prog" where
  "submit_report reporter_id req =
    bindE (of_result (qualify (cq_target_addr req) ''target_addr'')) (\<lambda>_.
    bindE (within ''message_content'' MAX_QUOTED_MESSAGE (cq_message_content req)) (\<lambda>_.
    bindE (within ''comment'' MAX_COMMENT (cq_comment req)) (\<lambda>_.
    bindE new_uuid (\<lambda>i.
    bindE (insert_report \<lparr>rp_id = i, rp_reporter = reporter_id, rp_target_actor = None, rp_target_post = None,
      rp_target_chat_addr = Some (cq_target_addr req), rp_message = cq_message_content req,
      rp_message_at = cq_message_date req, rp_reason = chat_reason_as_str (cq_reason req),
      rp_comment = cq_comment req, rp_forwarded = False, rp_status = ''open'', rp_resolved_by = None,
      rp_resolution_note = None, rp_resolved_at = None\<rparr>) (\<lambda>_. ret i)))))"

end
