(* ===== verification/Moderation.thy ===== *)
theory Moderation
  imports Sidecar
begin

text \<open>
  \<open>noombat-api/src/routes/moderation.rs\<close>: suspension, the resolution of reports, reports made by
  users and their forwarding, and a moderator's reading of an application.
\<close>

definition require_moderator :: "viewer option \<Rightarrow> viewer prog" where
  "require_moderator viewer = (case viewer of None \<Rightarrow> throw Forbidden
     | Some v \<Rightarrow> if viewer_may_moderate v then ret v else throw Forbidden)"

section \<open>Suspension\<close>

definition suspend_delete :: "string \<Rightarrow> timestamp \<Rightarrow> json" where
  "suspend_delete ap_id now = JObj [(''@context'', default_context), (''id'', JStr (ap_id @ ''#suspend-'' @ show_int now)),
     (''type'', JStr ''Delete''), (''actor'', JStr ap_id), (''object'', JStr ap_id)]"

definition shut_mailbox :: "backends \<Rightarrow> string option \<Rightarrow> unit prog" where
  "shut_mailbox B addr = (case addr of None \<Rightarrow> ret () | Some address \<Rightarrow> (case bk_sidecar B of None \<Rightarrow> ret ()
     | Some C \<Rightarrow>
         bindE (ignore_errors (client_rotate_password C address)) (\<lambda>_.
         bindE (ignore_errors (client_kick_sessions C address)) (\<lambda>_.
         ignore_errors (client_block_recipient C address)))))"

definition execute_suspension :: "('u, 'z) env_scheme \<Rightarrow> account_env \<Rightarrow> backends \<Rightarrow> uuid \<Rightarrow> unit prog" where
  "execute_suspension E A B actor_id =
    bindE (set_actor_status E actor_id StatusSuspended) (\<lambda>a.
    bindE (case bk_search B of None \<Rightarrow> ret ()
      | Some takes \<Rightarrow> ignore_errors (search_remove takes ''profiles'' (show_uuid A actor_id))) (\<lambda>_.
    bindE (shut_mailbox B (a_chatmail_addr a)) (\<lambda>_.
    bindE (gets w_now) (\<lambda>now.
    bindE (attempt (get_follower_inboxes actor_id)) (\<lambda>r. case r of Inl e \<Rightarrow> ret ()
    | Inr inboxes \<Rightarrow> for_each (\<lambda>inbox. ignore_errors (enqueue_delivery actor_id (suspend_delete (a_ap_id a) now) inbox)) inboxes)))))"

definition suspend_actor :: "('u, 'z) env_scheme \<Rightarrow> account_env \<Rightarrow> backends \<Rightarrow> viewer option \<Rightarrow> uuid \<Rightarrow> unit prog" where
  "suspend_actor E A B viewer actor_id =
     bindE (require_moderator viewer) (\<lambda>_. execute_suspension E A B actor_id)"

definition unsuspend_actor :: "('u, 'z) env_scheme \<Rightarrow> account_env \<Rightarrow> backends \<Rightarrow> viewer option \<Rightarrow> uuid \<Rightarrow> unit prog" where
  "unsuspend_actor E A B viewer actor_id =
    bindE (require_moderator viewer) (\<lambda>_.
    bindE (set_actor_status E actor_id StatusActive) (\<lambda>a.
    bindE (case (a_chatmail_addr a, bk_sidecar B) of
        (Some address, Some C) \<Rightarrow> ignore_errors (client_unblock_recipient C address) | _ \<Rightarrow> ret ()) (\<lambda>_.
    bindE (execute (\<lambda>s. update_actor_row actor_id (\<lambda>r. r\<lparr>a_chat_requires_reprovisioning := True,
        a_updated_at := w_now s\<rparr>) s)) (\<lambda>_.
    if discoverable (a_privacy a)
    then (case bk_search B of None \<Rightarrow> ret () | Some takes \<Rightarrow>
      bindE (attempt (find_by_id E actor_id)) (\<lambda>r. case r of Inl e \<Rightarrow> ret ()
        | Inr fresh \<Rightarrow> ignore_errors (search_put takes ''profiles'' (show_uuid A actor_id))))
    else ret ()))))"

section \<open>Reports of chat messages\<close>

datatype report_action = Dismiss | Warn | BlockSender | BlockSenderPair | Suspend

record resolve_request =
  rr_action :: report_action
  rr_note :: "string option"
  rr_target_actor_id :: "uuid option"
  rr_recipient_addr :: "string option"

definition report_row_of :: "uuid \<Rightarrow> world \<Rightarrow> report_row option" where
  "report_row_of i s = List.find (\<lambda>r. rp_id r = i) (w_reports s)"

text \<open>The row a moderator's resolution leaves.\<close>

definition mark_resolved :: "string \<Rightarrow> uuid \<Rightarrow> string option \<Rightarrow> uuid \<Rightarrow> unit prog" where
  "mark_resolved status moderator_id note report_id = execute_if
     (\<lambda>s. report_row_of report_id s = None \<or> actor_exists moderator_id s)
     (\<lambda>s. s\<lparr>w_reports := map (\<lambda>r. if rp_id r = report_id
       then r\<lparr>rp_status := status, rp_resolved_by := Some moderator_id, rp_resolution_note := note,
              rp_resolved_at := Some (w_now s)\<rparr> else r) (w_reports s)\<rparr>)"

definition chat_enforcement ::
  "('u, 'z) env_scheme \<Rightarrow> account_env \<Rightarrow> backends \<Rightarrow> resolve_request \<Rightarrow> uuid \<Rightarrow> string \<Rightarrow> unit prog" where
  "chat_enforcement E A B body reporter_id target_addr = (case rr_action body of
     Dismiss \<Rightarrow> ret ()
   | Warn \<Rightarrow> ret ()
   | BlockSender \<Rightarrow> block_sender reporter_id target_addr
   | BlockSenderPair \<Rightarrow>
       bindE (ok_or (BadRequest ''recipient_addr required for block_sender_pair'') (rr_recipient_addr body)) (\<lambda>recipient.
       bindE (of_result (qualify recipient ''recipient_addr'')) (\<lambda>_.
       bindE (ok_or (ServiceUnavailable ''chatmail admin sidecar not configured'') (bk_sidecar B)) (\<lambda>C.
       client_block_sender_pair C target_addr recipient)))
   | Suspend \<Rightarrow>
       bindE (ok_or (BadRequest ''target_actor_id required for suspend action'') (rr_target_actor_id body)) (\<lambda>i.
       execute_suspension E A B i))"

definition resolve_chat_report ::
  "('u, 'z) env_scheme \<Rightarrow> account_env \<Rightarrow> backends \<Rightarrow> viewer option \<Rightarrow> uuid \<Rightarrow> resolve_request \<Rightarrow> string prog" where
  "resolve_chat_report E A B viewer report_id body =
    bindE (require_moderator viewer) (\<lambda>moderator.
    bindE (query (\<lambda>s. Option.bind (report_row_of report_id s) (\<lambda>r.
      map_option (\<lambda>addr. (rp_reporter r, addr, rp_status r)) (rp_target_chat_addr r)))) (\<lambda>found.
    bindE (ok_or (NotFound ''chat report'' report_id) found) (\<lambda>(reporter_id, target_addr, status).
    if status \<noteq> ''open'' then throw (BadRequest ''report is already resolved'')
    else
      bindE (chat_enforcement E A B body reporter_id target_addr) (\<lambda>_.
      let resolution = (if rr_action body = Dismiss then ''dismissed'' else ''resolved'') in
      bindE (mark_resolved resolution (v_actor_id moderator) (rr_note body) report_id) (\<lambda>_. ret resolution)))))"

text \<open>Rows are in the order they were made; the queue is the oldest hundred.\<close>

definition list_chat_reports :: "viewer option \<Rightarrow> report_row list prog" where
  "list_chat_reports viewer = bindE (require_moderator viewer) (\<lambda>_.
     query (\<lambda>s. take 100 (filter (\<lambda>r. rp_status r = ''open'' \<and> rp_target_chat_addr r \<noteq> None) (w_reports s))))"

definition list_reports :: "viewer option \<Rightarrow> report_row list prog" where
  "list_reports viewer = bindE (require_moderator viewer) (\<lambda>_.
     query (\<lambda>s. take 100 (filter (\<lambda>r. rp_status r = ''open'') (w_reports s))))"

section \<open>Reports made by users\<close>

record create_report_request =
  cr_target_actor_id :: "uuid option"
  cr_target_post_id :: "uuid option"
  cr_reason :: string
  cr_comment :: "string option"
  cr_forward :: bool

definition is_open_report :: "uuid \<Rightarrow> uuid \<Rightarrow> report_row \<Rightarrow> bool" where
  "is_open_report reporter target r = (rp_reporter r = reporter \<and> rp_target_actor r = Some target \<and> rp_status r = ''open'')"

definition reported_posts :: "uuid \<Rightarrow> uuid \<Rightarrow> world \<Rightarrow> string list" where
  "reported_posts reporter target s = List.map_filter (\<lambda>r. if is_open_report reporter target r
     then Option.bind (rp_target_post r) (\<lambda>i. map_option p_ap_id (List.find (\<lambda>p. p_id p = i) (w_posts s)))
     else None) (w_reports s)"

definition forward_flag :: "('u, 'z) env_scheme \<Rightarrow> uuid \<Rightarrow> uuid \<Rightarrow> string \<Rightarrow> string option \<Rightarrow> unit prog" where
  "forward_flag E reporter_id target_actor_id reason comment =
    bindE (find_by_id E target_actor_id) (\<lambda>target.
    if a_is_local target then ret ()
    else
      bindE find_local_signing_actor (\<lambda>instance_actor_id.
      bindE (find_by_id E instance_actor_id) (\<lambda>instance_actor.
      bindE (query (reported_posts reporter_id target_actor_id)) (\<lambda>posts.
      bindE (forward_report instance_actor_id (a_ap_id instance_actor) (a_ap_id target) posts reason comment) (\<lambda>_.
      execute (\<lambda>s. s\<lparr>w_reports := map (\<lambda>r. if is_open_report reporter_id target_actor_id r
        then r\<lparr>rp_forwarded := True\<rparr> else r) (w_reports s)\<rparr>))))))"

definition create_report :: "('u, 'z) env_scheme \<Rightarrow> viewer option \<Rightarrow> create_report_request \<Rightarrow> uuid prog" where
  "create_report E viewer body =
    bindE (ok_or Forbidden viewer) (\<lambda>reporter.
    if cr_target_actor_id body = None \<and> cr_target_post_id body = None
    then throw (BadRequest ''either target_actor_id or target_post_id is required'')
    else if cr_reason body \<notin> set (known_reasons @ [''other''])
    then throw (BadRequest ''invalid reason: expected one of spam, harassment, illegal, impersonation, other'')
    else
      bindE new_uuid (\<lambda>i.
      bindE (insert_report \<lparr>rp_id = i, rp_reporter = v_actor_id reporter, rp_target_actor = cr_target_actor_id body,
        rp_target_post = cr_target_post_id body, rp_target_chat_addr = None, rp_message = None, rp_message_at = None,
        rp_reason = cr_reason body, rp_comment = cr_comment body, rp_forwarded = False, rp_status = ''open'',
        rp_resolved_by = None, rp_resolution_note = None, rp_resolved_at = None\<rparr>) (\<lambda>_.
      bindE (case (cr_forward body, cr_target_actor_id body) of
          (True, Some target) \<Rightarrow> ignore_errors (forward_flag E (v_actor_id reporter) target (cr_reason body) (cr_comment body))
        | _ \<Rightarrow> ret ()) (\<lambda>_. ret i))))"

section \<open>Resolving a report\<close>

datatype ap_report_action = ApDismiss | ApWarn | ApRemoveContent | ApSilence | ApSuspend

definition remove_content :: "backends \<Rightarrow> uuid \<Rightarrow> unit prog" where
  "remove_content B post_id =
    bindE (post_object_keys post_id) (\<lambda>keys.
    bindE (execute (delete_posts_where (\<lambda>p. p_id p = post_id))) (\<lambda>_.
    purge_objects B keys))"

definition ap_enforcement ::
  "('u, 'z) env_scheme \<Rightarrow> account_env \<Rightarrow> backends \<Rightarrow> ap_report_action \<Rightarrow> uuid option \<Rightarrow> uuid option \<Rightarrow> unit prog" where
  "ap_enforcement E A B action target_actor target_post = (case action of
     ApDismiss \<Rightarrow> ret ()
   | ApWarn \<Rightarrow> ret ()
   | ApRemoveContent \<Rightarrow> (case target_post of None \<Rightarrow> ret () | Some i \<Rightarrow> remove_content B i)
   | ApSilence \<Rightarrow> (case target_actor of None \<Rightarrow> ret ()
       | Some i \<Rightarrow> bindE (set_actor_status E i StatusSilenced) (\<lambda>_. ret ()))
   | ApSuspend \<Rightarrow> (case target_actor of None \<Rightarrow> ret () | Some i \<Rightarrow> execute_suspension E A B i))"

definition resolve_report ::
  "('u, 'z) env_scheme \<Rightarrow> account_env \<Rightarrow> backends \<Rightarrow> viewer option \<Rightarrow> uuid \<Rightarrow> ap_report_action \<Rightarrow> string option \<Rightarrow> unit prog" where
  "resolve_report E A B viewer report_id action note =
    bindE (require_moderator viewer) (\<lambda>moderator.
    bindE (query (report_row_of report_id)) (\<lambda>found.
    bindE (ok_or (NotFound ''report'' report_id) found) (\<lambda>row.
    if rp_status row \<noteq> ''open'' then throw (BadRequest ''report is already resolved'')
    else
      bindE (ap_enforcement E A B action (rp_target_actor row) (rp_target_post row)) (\<lambda>_.
      mark_resolved (if action = ApDismiss then ''dismissed'' else ''resolved'') (v_actor_id moderator) note report_id))))"

section \<open>Reading an application\<close>

definition insert_review :: "uuid \<Rightarrow> uuid \<Rightarrow> string \<Rightarrow> unit prog" where
  "insert_review application_id reader_id reason = execute_if
     (\<lambda>s. list_ex (\<lambda>a. ja_id a = application_id) (jt_applications (w_jobs s)) \<and> actor_exists reader_id s)
     (\<lambda>s. on_jobs (\<lambda>t. t\<lparr>jt_accesses := jt_accesses t @ [\<lparr>ac_application = application_id, ac_grant = None,
        ac_reader = Some reader_id, ac_kind = ''moderator_review'', ac_outcome = ''disclosed'',
        ac_reason = Some reason, ac_occurred_at = w_now s\<rparr>]\<rparr>) s)"

definition review_job_application :: "viewer option \<Rightarrow> uuid \<Rightarrow> string \<Rightarrow> application_row prog" where
  "review_job_application viewer application_id reason =
    bindE (require_moderator viewer) (\<lambda>moderator.
    let reason = trim reason in
    if reason = [] then throw (BadRequest ''reason must not be empty'')
    else transaction (
      bindE (query (\<lambda>s. List.find (\<lambda>a. ja_id a = application_id) (jt_applications (w_jobs s)))) (\<lambda>found.
      bindE (ok_or (NotFound ''application'' application_id) found) (\<lambda>application.
      bindE (insert_review application_id (v_actor_id moderator) reason) (\<lambda>_. ret application)))))"

end
