(* ===== verification/Profiles.thy ===== *)
theory Profiles
  imports LocalActors Authorisation
begin

text \<open>
  The sections of a profile and the claims they make: \<open>noombat-identity/src/profile.rs\<close>
  (employment, education, skills, publications, custom sections, the confirmation of a claim of
  employment by the organisation it names) and \<open>verification.rs\<close> (links back to a profile, and
  the control of a domain they prove).
\<close>

section \<open>Parameters\<close>

text \<open>
  \<open>show_date\<close> and \<open>show_rfc3339\<close> are chrono's; \<open>rel_me_hrefs\<close> is the HTML parser with the
  selector \<open>a[rel~=me][href], link[rel~=me][href]\<close>, and \<open>fetch_page\<close> the client: \<open>None\<close> where
  the request fails or the status is no success.
\<close>

record profile_env = local_env +
  show_date :: "int \<Rightarrow> string"
  show_rfc3339 :: "timestamp \<Rightarrow> string"
  rel_me_hrefs :: "string \<Rightarrow> string list"
  fetch_page :: "string \<Rightarrow> string option"

section \<open>Shared steps\<close>

definition validate_section_visibility :: "string \<Rightarrow> unit result" where
  "validate_section_visibility v = (if v \<in> set [''public'', ''followers'', ''connections'', ''private''] then Inr ()
     else Inl (BadRequest (''visibility must be '' @ quoted ''public'' @ '', '' @ quoted ''followers'' @ '', ''
       @ quoted ''connections'' @ '', or '' @ quoted ''private'')))"

definition visibility_filter :: "section_visibility \<Rightarrow> string list" where
  "visibility_filter m = (case m of
     SecPrivate \<Rightarrow> [''public'', ''followers'', ''connections'', ''private'']
   | SecConnections \<Rightarrow> [''public'', ''followers'', ''connections'']
   | SecFollowers \<Rightarrow> [''public'', ''followers'']
   | SecPublic \<Rightarrow> [''public''])"

definition render_optional_markdown :: "profile_env \<Rightarrow> string option \<Rightarrow> (string option \<times> string option) prog" where
  "render_optional_markdown P input = (case input of
     Some md \<Rightarrow> bindE (of_result (render_markdown P md)) (\<lambda>html. ret (Some md, Some html))
   | None \<Rightarrow> ret (None, None))"

definition or_public :: "string option \<Rightarrow> string" where
  "or_public v = (case v of Some t \<Rightarrow> t | None \<Rightarrow> ''public'')"

definition opt_str :: "string option \<Rightarrow> json" where
  "opt_str v = (case v of Some t \<Rightarrow> JStr t | None \<Rightarrow> JNull)"

definition row_of :: "uuid \<Rightarrow> uuid \<Rightarrow> 'a section_row_scheme \<Rightarrow> bool" where
  "row_of actor_id i x = (sr_id x = i \<and> sr_actor x = actor_id)"

definition shown :: "uuid \<Rightarrow> section_visibility \<Rightarrow> 'a section_row_scheme \<Rightarrow> bool" where
  "shown actor_id m x = (sr_actor x = actor_id \<and> sr_visibility x \<in> set (visibility_filter m))"

text \<open>A \<open>DELETE\<close> whose caller reports that it hit no row.\<close>

definition deleting :: "string \<Rightarrow> uuid \<Rightarrow> (world \<Rightarrow> nat) \<Rightarrow> (world \<Rightarrow> world) \<Rightarrow> unit prog" where
  "deleting entity i hits f = bindE (stmt (\<lambda>s. (Inr (hits s), f s))) (\<lambda>n.
     if n = 0 then throw (NotFound entity i) else ret ())"

text \<open>\<open>UPDATE .. RETURNING\<close> read with \<open>fetch_one\<close>: no row is an error of the driver.\<close>

definition updating :: "('a \<Rightarrow> bool) \<Rightarrow> (world \<Rightarrow> 'a \<Rightarrow> bool) \<Rightarrow> ('a \<Rightarrow> 'a) \<Rightarrow> (world \<Rightarrow> 'a list) \<Rightarrow> ('a list \<Rightarrow> world \<Rightarrow> world) \<Rightarrow> 'a prog" where
  "updating P check f rows put = stmt (\<lambda>s. case List.find P (rows s) of None \<Rightarrow> (Inl Database, s)
     | Some x \<Rightarrow> if \<not> check s (f x) then (Inl Database, s)
         else (Inr (f x), put (map (\<lambda>x. if P x then f x else x) (rows s)) s))"

section \<open>Employment\<close>

abbreviation work_rows :: "world \<Rightarrow> work_row list" where
  "work_rows s \<equiv> pt_work (w_profile s)"

definition put_work :: "work_row list \<Rightarrow> world \<Rightarrow> world" where
  "put_work xs = on_profile (\<lambda>t. t\<lparr>pt_work := xs\<rparr>)"

record new_work_experience =
  nw_title :: string
  nw_organization :: string
  nw_organization_id :: "uuid option"
  nw_start_date :: int
  nw_end_date :: "int option"
  nw_description_md :: "string option"
  nw_sort_order :: "int option"
  nw_visibility :: "string option"

definition is_confirmed :: "work_row \<Rightarrow> bool" where
  "is_confirmed x = (wx_confirmed_at x \<noteq> None)"

definition organization_ap_id :: "uuid option \<Rightarrow> string option prog" where
  "organization_ap_id organization_id = (case organization_id of None \<Rightarrow> ret None
     | Some i \<Rightarrow> query (\<lambda>s. map_option a_ap_id (actor_by_id i s)))"

definition work_ap_object ::
  "profile_env \<Rightarrow> uuid \<Rightarrow> string \<Rightarrow> string \<Rightarrow> string option \<Rightarrow> timestamp option \<Rightarrow> int \<Rightarrow> int option \<Rightarrow> string option \<Rightarrow> json" where
  "work_ap_object P i title organization org_ap_id confirmed_at start_date end_date html = JObj
    [(''type'', JStr ''noombat:WorkExperience''), (''id'', JStr (show_uuid P i)),
     (''schema:roleName'', JStr title), (''schema:worksFor'', JStr organization),
     (''noombat:organizationId'', opt_str org_ap_id),
     (''noombat:organizationConfirmed'', JBool (confirmed_at \<noteq> None)),
     (''noombat:organizationConfirmedAt'', opt_str (map_option (show_rfc3339 P) confirmed_at)),
     (''schema:startDate'', JStr (show_date P start_date)),
     (''schema:endDate'', opt_str (map_option (show_date P) end_date)), (''content'', opt_str html)]"

text \<open>The foreign keys and the checks of the table.\<close>

definition names_confirmer :: "work_row \<Rightarrow> bool" where
  "names_confirmer x = (wx_confirmed_at x = None \<or> (wx_organization_id x \<noteq> None \<and> wx_confirmed_via x \<noteq> None))"

definition work_row_ok :: "world \<Rightarrow> work_row \<Rightarrow> bool" where
  "work_row_ok s x = (actor_exists (sr_actor x) s
     \<and> (case wx_organization_id x of None \<Rightarrow> True | Some i \<Rightarrow> actor_exists i s) \<and> names_confirmer x)"

definition create_work_experience :: "profile_env \<Rightarrow> uuid \<Rightarrow> new_work_experience \<Rightarrow> work_row prog" where
  "create_work_experience P actor_id params =
    bindE new_uuid (\<lambda>i.
    let visibility = or_public (nw_visibility params) in
    bindE (of_result (validate_section_visibility visibility)) (\<lambda>_.
    bindE (render_optional_markdown P (nw_description_md params)) (\<lambda>(md, html).
    bindE (organization_ap_id (nw_organization_id params)) (\<lambda>org_ap_id.
    let x = \<lparr> sr_id = i, sr_actor = actor_id, sr_description_md = md, sr_description_html = html,
        sr_sort_order = (case nw_sort_order params of Some n \<Rightarrow> n | None \<Rightarrow> 0), sr_visibility = visibility,
        sr_ap_object = work_ap_object P i (nw_title params) (nw_organization params) org_ap_id None
          (nw_start_date params) (nw_end_date params) html,
        wx_title = nw_title params, wx_organization = nw_organization params,
        wx_organization_id = nw_organization_id params, wx_confirmed_at = None, wx_confirmed_via = None,
        wx_start_date = nw_start_date params, wx_end_date = nw_end_date params \<rparr> in
    bindE (execute_if (\<lambda>s. work_row_ok s x) (\<lambda>s. put_work (work_rows s @ [x]) s)) (\<lambda>_. ret x)))))"

definition list_work_experiences :: "uuid \<Rightarrow> section_visibility \<Rightarrow> work_row list prog" where
  "list_work_experiences actor_id m = query (\<lambda>s. sort_key sr_sort_order (sort_key (\<lambda>x. - wx_start_date x)
     (filter (shown actor_id m) (work_rows s))))"

definition delete_work_experience :: "uuid \<Rightarrow> uuid \<Rightarrow> unit prog" where
  "delete_work_experience actor_id i = deleting ''experience'' i
     (\<lambda>s. length (filter (row_of actor_id i) (work_rows s)))
     (\<lambda>s. put_work (filter (\<lambda>x. \<not> row_of actor_id i x) (work_rows s)) s)"

record update_work_request =
  uw_title :: "string option"
  uw_organization :: "string option"
  uw_organization_id :: "uuid option option"
  uw_start_date :: "int option"
  uw_end_date :: "int option option"
  uw_description_md :: "string option option"
  uw_sort_order :: "int option"
  uw_visibility :: "string option"

definition check_visibility :: "string option \<Rightarrow> unit prog" where
  "check_visibility v = (case v of None \<Rightarrow> ret () | Some t \<Rightarrow> of_result (validate_section_visibility t))"

text \<open>The columns the update writes, from the row read before it.\<close>

definition edited_work ::
  "profile_env \<Rightarrow> update_work_request \<Rightarrow> work_row \<Rightarrow> string option \<times> string option \<Rightarrow> string option \<Rightarrow> work_row \<Rightarrow> work_row" where
  "edited_work P params current rendered org_ap_id x =
    (let title = patched (uw_title params) (wx_title current);
         organization = patched (uw_organization params) (wx_organization current);
         organization_id = patched (uw_organization_id params) (wx_organization_id current);
         start_date = patched (uw_start_date params) (wx_start_date current);
         end_date = patched (uw_end_date params) (wx_end_date current);
         employer_changed = (organization \<noteq> wx_organization current \<or> organization_id \<noteq> wx_organization_id current);
         confirmed_at = (if employer_changed then None else wx_confirmed_at current) in
     x\<lparr> sr_description_md := fst rendered, sr_description_html := snd rendered,
        sr_sort_order := patched (uw_sort_order params) (sr_sort_order current),
        sr_visibility := patched (uw_visibility params) (sr_visibility current),
        sr_ap_object := work_ap_object P (sr_id x) title organization org_ap_id confirmed_at start_date end_date (snd rendered),
        wx_title := title, wx_organization := organization, wx_organization_id := organization_id,
        wx_confirmed_at := confirmed_at,
        wx_confirmed_via := (if employer_changed then None else wx_confirmed_via current),
        wx_start_date := start_date, wx_end_date := end_date \<rparr>)"

definition update_work_experience :: "profile_env \<Rightarrow> uuid \<Rightarrow> uuid \<Rightarrow> update_work_request \<Rightarrow> work_row prog" where
  "update_work_experience P actor_id i params =
    bindE (check_visibility (uw_visibility params)) (\<lambda>_.
    bindE (query (\<lambda>s. List.find (row_of actor_id i) (work_rows s))) (\<lambda>found.
    bindE (ok_or (NotFound ''experience'' i) found) (\<lambda>current.
    bindE (render_optional_markdown P (patched (uw_description_md params) (sr_description_md current))) (\<lambda>rendered.
    bindE (organization_ap_id (patched (uw_organization_id params) (wx_organization_id current))) (\<lambda>org_ap_id.
    updating (row_of actor_id i) work_row_ok (edited_work P params current rendered org_ap_id) work_rows put_work)))))"

datatype confirmed_via = ByOrganisation | ByDomainEmail

definition confirmed_via_as_str :: "confirmed_via \<Rightarrow> string" where
  "confirmed_via_as_str v = (case v of ByOrganisation \<Rightarrow> ''organisation'' | ByDomainEmail \<Rightarrow> ''domain-email'')"

definition claim_of :: "uuid \<Rightarrow> uuid \<Rightarrow> work_row \<Rightarrow> bool" where
  "claim_of i organization_id x = (sr_id x = i \<and> wx_organization_id x = Some organization_id)"

definition set_employment_confirmation :: "profile_env \<Rightarrow> uuid \<Rightarrow> uuid \<Rightarrow> confirmed_via option \<Rightarrow> work_row prog" where
  "set_employment_confirmation P i organization_id via =
    bindE (query (\<lambda>s. List.find (claim_of i organization_id) (work_rows s))) (\<lambda>found.
    bindE (ok_or (NotFound ''employment claim'' i) found) (\<lambda>current.
    bindE (gets w_now) (\<lambda>now.
    let confirmed_at = map_option (\<lambda>_. now) via in
    bindE (organization_ap_id (Some organization_id)) (\<lambda>org_ap_id.
    updating (claim_of i organization_id) (\<lambda>_. names_confirmer) (\<lambda>x. x
      \<lparr> wx_confirmed_at := confirmed_at, wx_confirmed_via := map_option confirmed_via_as_str via,
        sr_ap_object := work_ap_object P (sr_id current) (wx_title current) (wx_organization current) org_ap_id
          confirmed_at (wx_start_date current) (wx_end_date current) (sr_description_html current) \<rparr>)
      work_rows put_work))))"

definition confirm_employment :: "profile_env \<Rightarrow> uuid \<Rightarrow> uuid \<Rightarrow> confirmed_via \<Rightarrow> work_row prog" where
  "confirm_employment P i organization_id via = set_employment_confirmation P i organization_id (Some via)"

definition withdraw_employment_confirmation :: "profile_env \<Rightarrow> uuid \<Rightarrow> uuid \<Rightarrow> work_row prog" where
  "withdraw_employment_confirmation P i organization_id = set_employment_confirmation P i organization_id None"

definition list_employment_claims :: "uuid \<Rightarrow> work_row list prog" where
  "list_employment_claims organization_id = query (\<lambda>s. sort_key (\<lambda>x. if is_confirmed x then 1 else (0::nat))
     (sort_key (\<lambda>x. - wx_start_date x) (filter (\<lambda>x. wx_organization_id x = Some organization_id) (work_rows s))))"

section \<open>Education\<close>

abbreviation education_rows :: "world \<Rightarrow> education_row list" where
  "education_rows s \<equiv> pt_education (w_profile s)"

definition put_education :: "education_row list \<Rightarrow> world \<Rightarrow> world" where
  "put_education xs = on_profile (\<lambda>t. t\<lparr>pt_education := xs\<rparr>)"

record new_education =
  ne_institution :: string
  ne_degree :: "string option"
  ne_field_of_study :: "string option"
  ne_start_date :: int
  ne_end_date :: "int option"
  ne_description_md :: "string option"
  ne_sort_order :: "int option"
  ne_visibility :: "string option"

definition create_education_entry :: "profile_env \<Rightarrow> uuid \<Rightarrow> new_education \<Rightarrow> education_row prog" where
  "create_education_entry P actor_id params =
    bindE new_uuid (\<lambda>i.
    let visibility = or_public (ne_visibility params) in
    bindE (of_result (validate_section_visibility visibility)) (\<lambda>_.
    bindE (render_optional_markdown P (ne_description_md params)) (\<lambda>(md, html).
    let x = \<lparr> sr_id = i, sr_actor = actor_id, sr_description_md = md, sr_description_html = html,
        sr_sort_order = (case ne_sort_order params of Some n \<Rightarrow> n | None \<Rightarrow> 0), sr_visibility = visibility,
        sr_ap_object = JObj [(''type'', JStr ''noombat:EducationEntry''),
          (''schema:alumniOf'', JStr (ne_institution params)),
          (''schema:credentialCategory'', opt_str (ne_degree params)),
          (''noombat:fieldOfStudy'', opt_str (ne_field_of_study params))],
        ed_institution = ne_institution params, ed_degree = ne_degree params,
        ed_field_of_study = ne_field_of_study params, ed_start_date = ne_start_date params,
        ed_end_date = ne_end_date params \<rparr> in
    bindE (execute_if (actor_exists actor_id) (\<lambda>s. put_education (education_rows s @ [x]) s)) (\<lambda>_. ret x))))"

definition list_education_entries :: "uuid \<Rightarrow> section_visibility \<Rightarrow> education_row list prog" where
  "list_education_entries actor_id m = query (\<lambda>s. sort_key sr_sort_order (sort_key (\<lambda>x. - ed_start_date x)
     (filter (shown actor_id m) (education_rows s))))"

definition delete_education_entry :: "uuid \<Rightarrow> uuid \<Rightarrow> unit prog" where
  "delete_education_entry actor_id i = deleting ''education'' i
     (\<lambda>s. length (filter (row_of actor_id i) (education_rows s)))
     (\<lambda>s. put_education (filter (\<lambda>x. \<not> row_of actor_id i x) (education_rows s)) s)"

record update_education_request =
  ue_institution :: "string option"
  ue_degree :: "string option option"
  ue_field_of_study :: "string option option"
  ue_start_date :: "int option"
  ue_end_date :: "int option option"
  ue_description_md :: "string option option"
  ue_sort_order :: "int option"
  ue_visibility :: "string option"

definition edited_education ::
  "profile_env \<Rightarrow> update_education_request \<Rightarrow> education_row \<Rightarrow> string option \<times> string option \<Rightarrow> education_row \<Rightarrow> education_row" where
  "edited_education P params current rendered x =
    (let institution = patched (ue_institution params) (ed_institution current);
         degree = patched (ue_degree params) (ed_degree current);
         field = patched (ue_field_of_study params) (ed_field_of_study current);
         start_date = patched (ue_start_date params) (ed_start_date current);
         end_date = patched (ue_end_date params) (ed_end_date current) in
     x\<lparr> sr_description_md := fst rendered, sr_description_html := snd rendered,
        sr_sort_order := patched (ue_sort_order params) (sr_sort_order current),
        sr_visibility := patched (ue_visibility params) (sr_visibility current),
        sr_ap_object := JObj [(''type'', JStr ''noombat:EducationEntry''), (''id'', JStr (show_uuid P (sr_id x))),
          (''schema:alumniOf'', JStr institution), (''schema:credentialCategory'', opt_str degree),
          (''noombat:fieldOfStudy'', opt_str field), (''schema:startDate'', JStr (show_date P start_date)),
          (''schema:endDate'', opt_str (map_option (show_date P) end_date)), (''content'', opt_str (snd rendered))],
        ed_institution := institution, ed_degree := degree, ed_field_of_study := field,
        ed_start_date := start_date, ed_end_date := end_date \<rparr>)"

definition update_education_entry :: "profile_env \<Rightarrow> uuid \<Rightarrow> uuid \<Rightarrow> update_education_request \<Rightarrow> education_row prog" where
  "update_education_entry P actor_id i params =
    bindE (check_visibility (ue_visibility params)) (\<lambda>_.
    bindE (query (\<lambda>s. List.find (row_of actor_id i) (education_rows s))) (\<lambda>found.
    bindE (ok_or (NotFound ''education'' i) found) (\<lambda>current.
    bindE (render_optional_markdown P (patched (ue_description_md params) (sr_description_md current))) (\<lambda>rendered.
    updating (row_of actor_id i) (\<lambda>_ _. True) (edited_education P params current rendered) education_rows put_education))))"

section \<open>Skills\<close>

abbreviation skill_rows :: "world \<Rightarrow> skill_row list" where
  "skill_rows s \<equiv> pt_skills (w_profile s)"

definition put_skills :: "skill_row list \<Rightarrow> world \<Rightarrow> world" where
  "put_skills xs = on_profile (\<lambda>t. t\<lparr>pt_skills := xs\<rparr>)"

text \<open>
  \<open>INSERT .. ON CONFLICT DO UPDATE .. RETURNING\<close>: the row that conflicts is updated, else the
  new one is added.
\<close>

definition upserting ::
  "('a \<Rightarrow> bool) \<Rightarrow> ('a \<Rightarrow> 'a) \<Rightarrow> 'a \<Rightarrow> (world \<Rightarrow> bool) \<Rightarrow> (world \<Rightarrow> 'a list) \<Rightarrow> ('a list \<Rightarrow> world \<Rightarrow> world) \<Rightarrow> 'a prog" where
  "upserting P f x ok rows put = stmt (\<lambda>s. case List.find P (rows s) of
     Some y \<Rightarrow> (Inr (f y), put (map (\<lambda>y. if P y then f y else y) (rows s)) s)
   | None \<Rightarrow> if ok s then (Inr x, put (rows s @ [x]) s) else (Inl Database, s))"

definition add_skill :: "uuid \<Rightarrow> string \<Rightarrow> string option \<Rightarrow> skill_row prog" where
  "add_skill actor_id name visibility =
    (let vis = or_public visibility in
     if vis \<noteq> ''public'' \<and> vis \<noteq> ''private''
     then throw (BadRequest (''skill visibility must be '' @ quoted ''public'' @ '' or '' @ quoted ''private''))
     else
       bindE new_uuid (\<lambda>i.
       upserting (\<lambda>x. sk_actor x = actor_id \<and> sk_name x = name) (\<lambda>x. x\<lparr>sk_visibility := vis\<rparr>)
         \<lparr>sk_id = i, sk_actor = actor_id, sk_name = name, sk_visibility = vis\<rparr>
         (actor_exists actor_id) skill_rows put_skills))"

text \<open>The order of the names is the database's collation, which is left open.\<close>

definition list_skills :: "uuid \<Rightarrow> section_visibility \<Rightarrow> skill_row list prog" where
  "list_skills actor_id m = query (\<lambda>s. filter (\<lambda>x. sk_actor x = actor_id
     \<and> sk_visibility x \<in> set (visibility_filter m)) (skill_rows s))"

definition delete_skill :: "uuid \<Rightarrow> uuid \<Rightarrow> unit prog" where
  "delete_skill actor_id i = (let P = (\<lambda>x. sk_id x = i \<and> sk_actor x = actor_id) in
     deleting ''skill'' i (\<lambda>s. length (filter P (skill_rows s)))
       (\<lambda>s. put_skills (filter (\<lambda>x. \<not> P x) (skill_rows s)) s))"

section \<open>Publications\<close>

abbreviation article_rows :: "world \<Rightarrow> article_row list" where
  "article_rows s \<equiv> pt_articles (w_profile s)"

definition put_articles :: "article_row list \<Rightarrow> world \<Rightarrow> world" where
  "put_articles xs = on_profile (\<lambda>t. t\<lparr>pt_articles := xs\<rparr>)"

record new_article =
  nr_doi :: string
  nr_title :: string
  nr_authors :: json
  nr_abstract_md :: "string option"
  nr_journal :: "string option"
  nr_publisher :: "string option"
  nr_published_date :: "int option"
  nr_doi_metadata :: json
  nr_visibility :: "string option"

definition create_scholarly_article :: "profile_env \<Rightarrow> uuid \<Rightarrow> new_article \<Rightarrow> article_row prog" where
  "create_scholarly_article P actor_id params =
    bindE new_uuid (\<lambda>i.
    let visibility = or_public (nr_visibility params) in
    bindE (of_result (validate_section_visibility visibility)) (\<lambda>_.
    bindE (render_optional_markdown P (nr_abstract_md params)) (\<lambda>(md, html).
    bindE (gets w_now) (\<lambda>now.
    upserting (\<lambda>x. sa_actor x = actor_id \<and> sa_doi x = nr_doi params)
      (\<lambda>x. x\<lparr>sa_title := nr_title params, sa_authors := nr_authors params,
             sa_doi_metadata := nr_doi_metadata params, sa_fetched_at := now\<rparr>)
      \<lparr> sa_id = i, sa_actor = actor_id, sa_doi = nr_doi params, sa_title = nr_title params,
        sa_authors = nr_authors params, sa_abstract_md = md, sa_abstract_html = html,
        sa_journal = nr_journal params, sa_publisher = nr_publisher params,
        sa_published_date = nr_published_date params, sa_doi_metadata = nr_doi_metadata params,
        sa_fetched_at = now, sa_visibility = visibility,
        sa_ap_object = JObj [(''type'', JStr ''noombat:ScholarlyArticle''),
          (''schema:identifier'', JObj [(''type'', JStr ''PropertyValue''),
            (''schema:propertyID'', JStr ''DOI''), (''value'', JStr (nr_doi params))]),
          (''name'', JStr (nr_title params))] \<rparr>
      (actor_exists actor_id) article_rows put_articles))))"

definition list_scholarly_articles :: "uuid \<Rightarrow> section_visibility \<Rightarrow> article_row list prog" where
  "list_scholarly_articles actor_id m = query (\<lambda>s.
     sort_key (\<lambda>x. case sa_published_date x of None \<Rightarrow> 1 | Some _ \<Rightarrow> (0::nat))
     (sort_key (\<lambda>x. case sa_published_date x of None \<Rightarrow> 0 | Some d \<Rightarrow> - d)
     (filter (\<lambda>x. sa_actor x = actor_id \<and> sa_visibility x \<in> set (visibility_filter m)) (article_rows s))))"

definition delete_scholarly_article :: "uuid \<Rightarrow> uuid \<Rightarrow> unit prog" where
  "delete_scholarly_article actor_id i = (let P = (\<lambda>x. sa_id x = i \<and> sa_actor x = actor_id) in
     deleting ''publication'' i (\<lambda>s. length (filter P (article_rows s)))
       (\<lambda>s. put_articles (filter (\<lambda>x. \<not> P x) (article_rows s)) s))"

definition update_actor_privacy :: "uuid \<Rightarrow> actor_privacy \<Rightarrow> unit prog" where
  "update_actor_privacy actor_id privacy = bindE (update_actors (\<lambda>a. a_id a = actor_id \<and> a_is_local a)
     (\<lambda>s a. a\<lparr>a_privacy := privacy, a_updated_at := w_now s\<rparr>)) (\<lambda>_. ret ())"

section \<open>Custom sections\<close>

text \<open>The Markdown of a custom section is its content.\<close>

abbreviation custom_rows :: "world \<Rightarrow> custom_row list" where
  "custom_rows s \<equiv> pt_sections (w_profile s)"

definition put_sections :: "custom_row list \<Rightarrow> world \<Rightarrow> world" where
  "put_sections xs = on_profile (\<lambda>t. t\<lparr>pt_sections := xs\<rparr>)"

record new_custom_section =
  nc_section_type :: string
  nc_title :: string
  nc_content_md :: "string option"
  nc_data :: "json option"
  nc_sort_order :: "int option"
  nc_visibility :: "string option"

definition create_custom_section :: "profile_env \<Rightarrow> uuid \<Rightarrow> new_custom_section \<Rightarrow> custom_row prog" where
  "create_custom_section P actor_id params =
    bindE new_uuid (\<lambda>i.
    let visibility = or_public (nc_visibility params) in
    bindE (of_result (validate_section_visibility visibility)) (\<lambda>_.
    bindE (render_optional_markdown P (nc_content_md params)) (\<lambda>(md, html).
    bindE (gets w_now) (\<lambda>now.
    let x = \<lparr> sr_id = i, sr_actor = actor_id, sr_description_md = md, sr_description_html = html,
        sr_sort_order = (case nc_sort_order params of Some n \<Rightarrow> n | None \<Rightarrow> 0), sr_visibility = visibility,
        sr_ap_object = JObj [(''type'', JStr ''noombat:CustomSection''), (''id'', JStr (show_uuid P i)),
          (''noombat:sectionType'', JStr (nc_section_type params)), (''name'', JStr (nc_title params)),
          (''content'', opt_str html)],
        cs_section_type = nc_section_type params, cs_title = nc_title params, cs_data = nc_data params,
        cs_created_at = now \<rparr> in
    bindE (execute_if (actor_exists actor_id) (\<lambda>s. put_sections (custom_rows s @ [x]) s)) (\<lambda>_. ret x)))))"

definition list_custom_sections :: "uuid \<Rightarrow> section_visibility \<Rightarrow> custom_row list prog" where
  "list_custom_sections actor_id m = query (\<lambda>s. sort_key sr_sort_order (sort_key (\<lambda>x. - cs_created_at x)
     (filter (shown actor_id m) (custom_rows s))))"

definition delete_custom_section :: "uuid \<Rightarrow> uuid \<Rightarrow> unit prog" where
  "delete_custom_section actor_id i = deleting ''custom_section'' i
     (\<lambda>s. length (filter (row_of actor_id i) (custom_rows s)))
     (\<lambda>s. put_sections (filter (\<lambda>x. \<not> row_of actor_id i x) (custom_rows s)) s)"

section \<open>Links back to a profile\<close>

abbreviation link_rows :: "world \<Rightarrow> link_row list" where
  "link_rows s \<equiv> pt_links (w_profile s)"

definition put_links :: "link_row list \<Rightarrow> world \<Rightarrow> world" where
  "put_links xs = on_profile (\<lambda>t. t\<lparr>pt_links := xs\<rparr>)"

definition add_link :: "uuid \<Rightarrow> string \<Rightarrow> link_row prog" where
  "add_link actor_id url =
    bindE new_uuid (\<lambda>i.
    bindE (gets w_now) (\<lambda>now.
    upserting (\<lambda>x. vl_actor x = actor_id \<and> vl_url x = url) (\<lambda>x. x\<lparr>vl_last_checked := now\<rparr>)
      \<lparr>vl_id = i, vl_actor = actor_id, vl_url = url, vl_verified_at = None, vl_last_checked = now,
       vl_visibility = ''public''\<rparr>
      (actor_exists actor_id) link_rows put_links))"

definition list_links :: "uuid \<Rightarrow> link_row list prog" where
  "list_links actor_id = query (\<lambda>s. filter (\<lambda>x. vl_actor x = actor_id) (link_rows s))"

definition delete_link :: "uuid \<Rightarrow> uuid \<Rightarrow> unit prog" where
  "delete_link actor_id i = (let P = (\<lambda>x. vl_id x = i \<and> vl_actor x = actor_id) in
     deleting ''verified_link'' i (\<lambda>s. length (filter P (link_rows s)))
       (\<lambda>s. put_links (filter (\<lambda>x. \<not> P x) (link_rows s)) s))"

text \<open>\<open>split_once("://")\<close>.\<close>

fun after_scheme :: "string \<Rightarrow> string option" where
  "after_scheme [] = None"
| "after_scheme (c # cs) = (case strip_prefix ''://'' (c # cs) of Some r \<Rightarrow> Some r | None \<Rightarrow> after_scheme cs)"

definition drop_suffix :: "string \<Rightarrow> string \<Rightarrow> string" where
  "drop_suffix t x = (case strip_suffix t x of Some y \<Rightarrow> y | None \<Rightarrow> x)"

definition normalise_back_link :: "string \<Rightarrow> string" where
  "normalise_back_link url =
    (let u = trim url;
         rest = (case after_scheme u of Some r \<Rightarrow> r | None \<Rightarrow> u);
         authority = to_ascii_lowercase (takeWhile (\<lambda>c. c \<noteq> CHR ''/'') rest);
         path = dropWhile (\<lambda>c. c \<noteq> CHR ''/'') rest in
     drop_suffix '':80'' (drop_suffix '':443'' authority)
       @ drop_suffix ''/'' (hd (split_on CHR ''#'' path)))"

definition check_rel_me :: "profile_env \<Rightarrow> string \<Rightarrow> string list \<Rightarrow> bool" where
  "check_rel_me P html profile_urls =
     list_ex (\<lambda>href. normalise_back_link href \<in> set (map normalise_back_link profile_urls)) (rel_me_hrefs P html)"

definition mark_checked :: "uuid \<Rightarrow> bool \<Rightarrow> unit prog" where
  "mark_checked i verified = execute (\<lambda>s. put_links (map (\<lambda>x. if vl_id x = i
     then x\<lparr>vl_verified_at := (if verified then Some (w_now s) else None), vl_last_checked := w_now s\<rparr>
     else x) (link_rows s)) s)"

definition verify_link :: "profile_env \<Rightarrow> link_row \<Rightarrow> string list \<Rightarrow> bool prog" where
  "verify_link P link profile_urls = (case fetch_page P (vl_url link) of
     None \<Rightarrow> bindE (mark_checked (vl_id link) False) (\<lambda>_. ret False)
   | Some html \<Rightarrow> let verified = check_rel_me P html profile_urls in
       bindE (mark_checked (vl_id link) verified) (\<lambda>_. ret verified))"

definition DAY :: timestamp where "DAY = 24 * 3600 * 1000"

definition reverify_one :: "profile_env \<Rightarrow> string \<Rightarrow> link_row \<Rightarrow> uuid list prog" where
  "reverify_one P domain link =
    bindE (query (\<lambda>s. map_option a_username (actor_by_id (vl_actor link) s))) (\<lambda>username. case username of
      None \<Rightarrow> ret []
    | Some u \<Rightarrow>
        bindE (attempt (verify_link P link
          [''https://'' @ domain @ ''/users/'' @ u, ''https://'' @ domain @ ''/@'' @ u])) (\<lambda>r.
        let is_verified = (r = Inr True) in
        ret (if (vl_verified_at link \<noteq> None) \<noteq> is_verified then [vl_actor link] else [])))"

primrec collecting :: "('a \<Rightarrow> 'b list prog) \<Rightarrow> 'a list \<Rightarrow> 'b list prog" where
  "collecting f [] = ret []"
| "collecting f (x # xs) = bindE (f x) (\<lambda>ys. bindE (collecting f xs) (\<lambda>zs. ret (ys @ zs)))"

definition reverify_stale_links :: "profile_env \<Rightarrow> string \<Rightarrow> int \<Rightarrow> uuid list prog" where
  "reverify_stale_links P domain max_age_days =
    bindE (query (\<lambda>s. take 50 (filter (\<lambda>x. vl_last_checked x < w_now s - max_age_days * DAY) (link_rows s)))) (\<lambda>links.
    bindE (collecting (reverify_one P domain) links) (\<lambda>changed. ret (remdups (sort changed))))"

section \<open>Control of a domain\<close>

definition url_authority :: "string \<Rightarrow> string" where
  "url_authority rest = takeWhile (\<lambda>c. c \<notin> set ''/?#'') rest"

definition registrable_domain_of_url :: "profile_env \<Rightarrow> string \<Rightarrow> string option" where
  "registrable_domain_of_url P url =
    (let rest = (case after_scheme url of Some r \<Rightarrow> r | None \<Rightarrow> url);
         authority = url_authority rest;
         host = (case rsplit_once CHR ''@'' authority of Some (_, h) \<Rightarrow> h | None \<Rightarrow> authority) in
     registrable_domain (local_env.truncate P) (hd (split_on CHR '':'' host)))"

definition verified_urls :: "uuid \<Rightarrow> world \<Rightarrow> string list" where
  "verified_urls i s = map vl_url (filter (\<lambda>x. vl_actor x = i \<and> vl_verified_at x \<noteq> None) (link_rows s))"

definition controls_claimed_domain :: "profile_env \<Rightarrow> uuid \<Rightarrow> bool prog" where
  "controls_claimed_domain P actor_id =
    bindE (query (\<lambda>s. Option.bind (actor_by_id actor_id s) ar_claimed_domain)) (\<lambda>stored.
    case Option.bind stored (registrable_domain (local_env.truncate P)) of
      None \<Rightarrow> ret False
    | Some claimed \<Rightarrow>
        bindE (query (verified_urls actor_id)) (\<lambda>urls.
        ret (list_ex (\<lambda>u. registrable_domain_of_url P u = Some claimed) urls)))"

definition lapsed :: "world \<Rightarrow> job_row \<Rightarrow> bool" where
  "lapsed s j = (jb_published_at j \<noteq> None
     \<and> list_ex (\<lambda>a. a_id a = jb_actor_id j \<and> a_type a = Organization \<and> verified_urls (a_id a) s = []) (w_actors s))"

definition demote_lapsed_organizations :: "uuid list prog" where
  "demote_lapsed_organizations = stmt (\<lambda>s. (Inr (map jb_id (filter (lapsed s) (jt_jobs (w_jobs s)))),
     on_jobs (\<lambda>t. t\<lparr>jt_jobs := map (\<lambda>j. if lapsed s j then j\<lparr>jb_published_at := None\<rparr> else j) (jt_jobs t)\<rparr>) s))"

end
