(* ===== verification/Organizations.thy ===== *)
theory Organizations
  imports Profiles
begin

text \<open>
  Organisations and those who act for them: the routes of \<open>noombat-api/src/routes/organization.rs\<close>
  and \<open>jobs.rs\<close>, and \<open>jobs_federation.rs\<close>, which publicises a posting to the organisation's
  followers and withdraws it.  The candidate search is a call of the search backend and is not
  here; nor are the fire-and-forget calls that index a posting.
\<close>

section \<open>Standing\<close>

definition require_viewer :: "viewer option \<Rightarrow> viewer prog" where
  "require_viewer viewer = ok_or Forbidden viewer"

text \<open>A failed query and a role that does not decode are internal errors.\<close>

definition member_role_of :: "uuid \<Rightarrow> uuid \<Rightarrow> organization_role option prog" where
  "member_role_of organization_id actor_id =
    bindE (failing_as (\<lambda>_. Internal ''database'') (query (member_role organization_id actor_id))) (\<lambda>r. case r of
      None \<Rightarrow> ret None
    | Some text \<Rightarrow> bindE (ok_or (Internal ''database'') (organization_role_of text)) (\<lambda>role. ret (Some role)))"

definition require_owner :: "uuid \<Rightarrow> uuid \<Rightarrow> unit prog" where
  "require_owner organization_id actor_id =
    (if actor_id = organization_id then ret ()
     else bindE (member_role_of organization_id actor_id) (\<lambda>role.
       if role = Some OrgOwner then ret () else throw Forbidden))"

record standing =
  sg_role :: "organization_role option"
  sg_access :: posting_access
  sg_is_creator :: bool
  sg_is_listed :: bool

definition posting_access_of :: "string \<Rightarrow> posting_access option" where
  "posting_access_of t = (if t = ''creator_only'' then Some CreatorOnly
     else if t = ''all_recruiters'' then Some AllRecruiters
     else if t = ''listed'' then Some Listed else None)"

definition posting_access_str :: "posting_access \<Rightarrow> string" where
  "posting_access_str a = (case a of CreatorOnly \<Rightarrow> ''creator_only'' | AllRecruiters \<Rightarrow> ''all_recruiters''
     | Listed \<Rightarrow> ''listed'')"

definition posting_row :: "uuid \<Rightarrow> world \<Rightarrow> job_row option" where
  "posting_row i s = List.find (\<lambda>j. jb_id j = i) (jt_jobs (w_jobs s))"

definition posting_readers :: "uuid \<Rightarrow> (posting_access \<times> uuid option) prog" where
  "posting_readers posting_id =
    bindE (failing_as (\<lambda>_. Internal ''database'') (query (posting_row posting_id))) (\<lambda>r. case r of
      None \<Rightarrow> throw (Internal ''database'')
    | Some j \<Rightarrow> bindE (ok_or (Internal ''database'') (posting_access_of (jb_readers j))) (\<lambda>access.
        ret (access, jb_created_by j)))"

definition company_standing :: "uuid \<Rightarrow> uuid \<Rightarrow> uuid \<Rightarrow> standing prog" where
  "company_standing organization_id posting_id actor_id =
    bindE (posting_readers posting_id) (\<lambda>(access, created_by).
    let is_creator = (created_by = Some actor_id) in
    if actor_id = organization_id
    then ret \<lparr>sg_role = Some OrgOwner, sg_access = access, sg_is_creator = is_creator, sg_is_listed = True\<rparr>
    else
      bindE (member_role_of organization_id actor_id) (\<lambda>role.
      bindE (failing_as (\<lambda>_. Internal ''database'')
        (query (\<lambda>s. (posting_id, actor_id) \<in> set (jt_readers (w_jobs s))))) (\<lambda>listed.
      ret \<lparr>sg_role = role, sg_access = access, sg_is_creator = is_creator, sg_is_listed = listed\<rparr>)))"

definition may_read_applications :: "standing \<Rightarrow> bool" where
  "may_read_applications g =
     may_access_job_applications (sg_role g) (sg_access g) (sg_is_creator g) (sg_is_listed g)"

section \<open>Who reads the applications to a posting\<close>

definition list_posting_readers :: "viewer option \<Rightarrow> uuid \<Rightarrow> (posting_access \<times> uuid list \<times> bool) prog" where
  "list_posting_readers viewer job_id =
    bindE (require_viewer viewer) (\<lambda>v.
    bindE (get_job job_id) (\<lambda>job.
    bindE (company_standing (jb_actor_id job) job_id (v_actor_id v)) (\<lambda>g.
    if \<not> may_read_applications g then throw Forbidden
    else
      bindE (query (\<lambda>s. map snd (filter (\<lambda>(j, m). j = job_id) (jt_readers (w_jobs s))))) (\<lambda>members.
      ret (sg_access g, members, may_delegate_posting (sg_role g) (sg_is_creator g))))))"

definition is_member :: "uuid \<Rightarrow> uuid \<Rightarrow> world \<Rightarrow> bool" where
  "is_member organization_id member_id s = list_ex (\<lambda>m. is_member_row organization_id member_id m \<and> om_accepted_at m \<noteq> None)
     (at_members (w_accounts s))"

definition check_member :: "account_env \<Rightarrow> uuid \<Rightarrow> uuid \<Rightarrow> unit prog" where
  "check_member A organization_id member_id = bindE (query (is_member organization_id member_id)) (\<lambda>b.
     if b then ret () else throw (BadRequest (show_uuid A member_id @ '' is not a member of this organisation'')))"

definition insert_reader :: "uuid \<Rightarrow> uuid \<Rightarrow> unit prog" where
  "insert_reader job_id member_id = execute_if
     (\<lambda>s. (job_id, member_id) \<in> set (jt_readers (w_jobs s)) \<or> (posting_row job_id s \<noteq> None \<and> actor_exists member_id s))
     (on_jobs (\<lambda>t. t\<lparr>jt_readers := (if (job_id, member_id) \<in> set (jt_readers t) then jt_readers t
        else jt_readers t @ [(job_id, member_id)])\<rparr>))"

definition set_posting_readers :: "account_env \<Rightarrow> viewer option \<Rightarrow> uuid \<Rightarrow> posting_access \<Rightarrow> uuid list \<Rightarrow> unit prog" where
  "set_posting_readers A viewer job_id access members =
    bindE (require_viewer viewer) (\<lambda>v.
    bindE (get_job job_id) (\<lambda>job.
    bindE (company_standing (jb_actor_id job) job_id (v_actor_id v)) (\<lambda>g.
    if \<not> may_delegate_posting (sg_role g) (sg_is_creator g) then throw Forbidden
    else
      bindE (for_each (check_member A (jb_actor_id job)) members) (\<lambda>_.
      transaction (
        bindE (execute (on_jobs (\<lambda>t. t\<lparr>jt_jobs := map (\<lambda>j. if jb_id j = job_id
            then j\<lparr>jb_readers := posting_access_str access\<rparr> else j) (jt_jobs t)\<rparr>))) (\<lambda>_.
        bindE (execute (on_jobs (\<lambda>t. t\<lparr>jt_readers := filter (\<lambda>(j, m). j \<noteq> job_id) (jt_readers t)\<rparr>))) (\<lambda>_.
        for_each (insert_reader job_id) members)))))))"

section \<open>Claims of employment\<close>

definition employment_claims :: "viewer option \<Rightarrow> uuid \<Rightarrow> work_row list prog" where
  "employment_claims viewer organization_id =
     bindE (require_acts_for organization_id viewer) (\<lambda>_. list_employment_claims organization_id)"

definition confirm_employment_route :: "profile_env \<Rightarrow> viewer option \<Rightarrow> uuid \<Rightarrow> uuid \<Rightarrow> work_row prog" where
  "confirm_employment_route P viewer organization_id i = bindE (require_acts_for organization_id viewer) (\<lambda>_.
     confirm_employment P i organization_id ByOrganisation)"

definition withdraw_employment_route :: "profile_env \<Rightarrow> viewer option \<Rightarrow> uuid \<Rightarrow> uuid \<Rightarrow> work_row prog" where
  "withdraw_employment_route P viewer organization_id i = bindE (require_acts_for organization_id viewer) (\<lambda>_.
     withdraw_employment_confirmation P i organization_id)"

section \<open>Enrolment and declaration\<close>

record enrol_request =
  eq_username :: string
  eq_display_name :: "string option"
  eq_claimed_domain :: "string option"
  eq_org_kind :: "org_kind option"

definition enrol_route ::
  "('u, 'z) env_scheme \<Rightarrow> local_env \<Rightarrow> string \<Rightarrow> viewer option \<Rightarrow> enrol_request \<Rightarrow> actor prog" where
  "enrol_route E L domain viewer body = bindE (require_viewer viewer) (\<lambda>v.
     enrol_organization E L domain (v_actor_id v) (trim (eq_username body)) (eq_display_name body)
       (eq_claimed_domain body) (eq_org_kind body))"

definition declare_org_kind :: "('u, 'z) env_scheme \<Rightarrow> viewer option \<Rightarrow> uuid \<Rightarrow> org_kind \<Rightarrow> actor prog" where
  "declare_org_kind E viewer organization_id kind = bindE (require_viewer viewer) (\<lambda>v.
     bindE (require_owner organization_id (v_actor_id v)) (\<lambda>_. set_org_kind E organization_id kind))"

section \<open>Membership\<close>

definition list_members :: "viewer option \<Rightarrow> uuid \<Rightarrow> (string \<times> organization_role \<times> bool) list prog" where
  "list_members viewer organization_id = bindE (require_acts_for organization_id viewer) (\<lambda>_.
     stmt (\<lambda>s. let rows = List.map_filter (\<lambda>m. if om_organization m = organization_id
           then map_option (\<lambda>a. (a_username a, organization_role_of (om_role m), om_accepted_at m \<noteq> None))
             (actor_by_id (om_member m) s) else None) (at_members (w_accounts s)) in
       if list_ex (\<lambda>(u, r, b). r = None) rows then (Inl Database, s)
       else (Inr (map (\<lambda>(u, r, b). (u, the r, b)) rows), s)))"

text \<open>The number of rows \<open>INSERT .. ON CONFLICT DO NOTHING\<close> made.\<close>

definition insert_invitation :: "uuid \<Rightarrow> uuid \<Rightarrow> nat prog" where
  "insert_invitation organization_id invitee = stmt (\<lambda>s.
     if list_ex (is_member_row organization_id invitee) (at_members (w_accounts s)) then (Inr 0, s)
     else if \<not> actor_exists organization_id s \<or> \<not> actor_exists invitee s then (Inl Database, s)
     else (Inr 1, on_accounts (\<lambda>t. t\<lparr>at_members := at_members t @ [\<lparr>om_organization = organization_id,
       om_member = invitee, om_role = ''recruiter'', om_accepted_at = None\<rparr>]\<rparr>) s))"

definition invite_member :: "('u, 'z) env_scheme \<Rightarrow> viewer option \<Rightarrow> uuid \<Rightarrow> string \<Rightarrow> unit prog" where
  "invite_member E viewer organization_id username =
    bindE (require_viewer viewer) (\<lambda>v.
    bindE (require_owner organization_id (v_actor_id v)) (\<lambda>_.
    bindE (find_local_by_username E (trim username)) (\<lambda>invitee.
    if a_type invitee \<noteq> Individual
    then throw (BadRequest ''only a person can be invited to act for an organisation'')
    else if a_id invitee = organization_id
    then throw (BadRequest ''an organisation cannot be invited to act for itself'')
    else
      bindE (insert_invitation organization_id (a_id invitee)) (\<lambda>n.
      if n = 0 then throw (BadRequest ''that account is already a member of this organisation, or already invited'')
      else ret ()))))"

definition outstanding :: "uuid \<Rightarrow> uuid \<Rightarrow> member_row \<Rightarrow> bool" where
  "outstanding organization_id member_id m = (is_member_row organization_id member_id m \<and> om_accepted_at m = None)"

definition accept_stmt :: "uuid \<Rightarrow> uuid \<Rightarrow> nat prog" where
  "accept_stmt organization_id member_id = stmt (\<lambda>s.
     (Inr (length (filter (outstanding organization_id member_id) (at_members (w_accounts s)))),
      on_accounts (\<lambda>t. t\<lparr>at_members := map (\<lambda>m. if outstanding organization_id member_id m
        then m\<lparr>om_accepted_at := Some (w_now s)\<rparr> else m) (at_members t)\<rparr>) s))"

definition accept_invitation :: "viewer option \<Rightarrow> uuid \<Rightarrow> unit prog" where
  "accept_invitation viewer organization_id =
    bindE (require_viewer viewer) (\<lambda>v.
    bindE (accept_stmt organization_id (v_actor_id v)) (\<lambda>n.
    if n = 0 then throw (ActorNotFound ''no outstanding invitation for this account'') else ret ()))"

definition removable :: "uuid \<Rightarrow> uuid \<Rightarrow> member_row \<Rightarrow> bool" where
  "removable organization_id member_id m = (is_member_row organization_id member_id m \<and> om_role m \<noteq> ''owner'')"

definition remove_stmt :: "uuid \<Rightarrow> uuid \<Rightarrow> nat prog" where
  "remove_stmt organization_id member_id = stmt (\<lambda>s.
     (Inr (length (filter (removable organization_id member_id) (at_members (w_accounts s)))),
      on_accounts (\<lambda>t. t\<lparr>at_members := filter (\<lambda>m. \<not> removable organization_id member_id m) (at_members t)\<rparr>) s))"

definition remove_member :: "('u, 'z) env_scheme \<Rightarrow> viewer option \<Rightarrow> uuid \<Rightarrow> string \<Rightarrow> unit prog" where
  "remove_member E viewer organization_id username =
    bindE (require_viewer viewer) (\<lambda>v.
    bindE (find_local_by_username E (trim username)) (\<lambda>target.
    bindE (if a_id target \<noteq> v_actor_id v then require_owner organization_id (v_actor_id v) else ret ()) (\<lambda>_.
    bindE (remove_stmt organization_id (a_id target)) (\<lambda>n.
    if n = 0 then throw (ActorNotFound ''no removable membership for that account in this organisation'') else ret ()))))"

section \<open>Applications to a posting\<close>

definition list_job_applications ::
  "viewer option \<Rightarrow> uuid \<Rightarrow> (application_row \<times> string \<times> string option) list prog" where
  "list_job_applications viewer job_id =
    bindE (require_viewer viewer) (\<lambda>v.
    bindE (get_job job_id) (\<lambda>job.
    bindE (company_standing (jb_actor_id job) job_id (v_actor_id v)) (\<lambda>g.
    if \<not> may_read_applications g then throw Forbidden
    else query (\<lambda>s. List.map_filter (\<lambda>a. if ja_job a = Some job_id
        then map_option (\<lambda>r. (a, a_username r, a_display_name r)) (actor_by_id (ja_applicant a) s) else None)
        (sort_key (\<lambda>a. - ja_created_at a) (jt_applications (w_jobs s)))))))"

definition valid_statuses :: "string list" where
  "valid_statuses = [''submitted'', ''reviewed'', ''shortlisted'', ''rejected'', ''withdrawn'']"

definition application_of :: "uuid \<Rightarrow> uuid \<Rightarrow> application_row \<Rightarrow> bool" where
  "application_of job_id app_id a = (ja_id a = app_id \<and> ja_job a = Some job_id)"

definition set_application_status :: "uuid \<Rightarrow> uuid \<Rightarrow> string \<Rightarrow> nat prog" where
  "set_application_status job_id app_id status = stmt (\<lambda>s.
     (Inr (length (filter (application_of job_id app_id) (jt_applications (w_jobs s)))),
      on_jobs (\<lambda>t. t\<lparr>jt_applications := map (\<lambda>a. if application_of job_id app_id a
        then a\<lparr>ja_status := status, ja_updated_at := w_now s\<rparr> else a) (jt_applications t)\<rparr>) s))"

definition update_job_application_status :: "viewer option \<Rightarrow> uuid \<Rightarrow> uuid \<Rightarrow> string \<Rightarrow> unit prog" where
  "update_job_application_status viewer job_id app_id status =
    bindE (require_viewer viewer) (\<lambda>v.
    if status \<notin> set valid_statuses
    then throw (BadRequest (''invalid status: '' @ status
      @ '' (expected one of: submitted, reviewed, shortlisted, rejected, withdrawn)''))
    else
      bindE (get_job job_id) (\<lambda>job.
      bindE (company_standing (jb_actor_id job) job_id (v_actor_id v)) (\<lambda>g.
      if \<not> may_read_applications g then throw Forbidden
      else
        bindE (set_application_status job_id app_id status) (\<lambda>n.
        if n = 0 then throw (NotFound ''application'' app_id) else ret ()))))"

section \<open>Publicising a posting\<close>

definition escape_char :: "char \<Rightarrow> string" where
  "escape_char c = (if c = CHR ''&'' then ''&amp;'' else if c = CHR ''<'' then ''&lt;''
     else if c = CHR ''>'' then ''&gt;'' else if c = CHR 0x22 then ''&quot;''
     else if c = CHR 0x27 then ''&#x27;'' else [c])"

text \<open>
  The chain of replacements takes the ampersand first, so no replacement meets another's output
  and it is one pass over the characters.
\<close>

definition escape :: "string \<Rightarrow> string" where
  "escape input = concat (map escape_char input)"

definition PUBLIC_COLLECTION :: json where
  "PUBLIC_COLLECTION = JArr [JStr ''https://www.w3.org/ns/activitystreams#Public'']"

definition posting_place :: "job_posting \<Rightarrow> string" where
  "posting_place job = (case jb_location job of
     Some place \<Rightarrow> if jb_remote job then place @ '' (remote)'' else place
   | None \<Rightarrow> if jb_remote job then ''Remote'' else [])"

definition posting_heading :: "job_posting \<Rightarrow> string" where
  "posting_heading job = (if posting_place job = [] then ''<p><b>'' @ escape (jb_title job) @ ''</b></p>''
     else ''<p><b>'' @ escape (jb_title job) @ ''</b> ('' @ escape (posting_place job) @ '')</p>'')"

definition publicising_note :: "profile_env \<Rightarrow> actor \<Rightarrow> job_posting \<Rightarrow> string \<Rightarrow> json" where
  "publicising_note P organisation job domain =
    (let listing_url = ''https://'' @ domain @ ''/jobs/'' @ show_uuid P (jb_id job);
         link = ''<p><a href='' @ [CHR 0x22] @ listing_url @ [CHR 0x22] @ ''>'' @ listing_url @ ''</a></p>'';
         cc = JArr [JStr (a_ap_id organisation @ ''/followers'')];
         note = JObj [(''id'', JStr (jb_ap_id job @ ''#note'')), (''type'', JStr ''Note''),
           (''attributedTo'', JStr (a_ap_id organisation)),
           (''content'', JStr (posting_heading job @ link)), (''url'', JStr listing_url),
           (''canonicalUri'', JStr listing_url),
           (''published'', JStr (show_rfc3339 P (jb_created_at job))),
           (''to'', PUBLIC_COLLECTION), (''cc'', cc)] in
     JObj [(''@context'', default_context), (''id'', JStr (jb_ap_id job @ ''#create-note'')),
       (''type'', JStr ''Create''), (''actor'', JStr (a_ap_id organisation)), (''object'', note),
       (''to'', PUBLIC_COLLECTION), (''cc'', cc)])"

definition withdrawing_delete :: "string \<Rightarrow> string \<Rightarrow> json" where
  "withdrawing_delete organisation_ap_id job_ap_id = JObj
    [(''@context'', default_context), (''id'', JStr (job_ap_id @ ''#delete-note'')), (''type'', JStr ''Delete''),
     (''actor'', JStr organisation_ap_id), (''object'', JStr (job_ap_id @ ''#note'')), (''to'', PUBLIC_COLLECTION)]"

definition deliver_to_followers :: "actor \<Rightarrow> json \<Rightarrow> unit prog" where
  "deliver_to_followers organisation activity =
    bindE (attempt (get_follower_inboxes (a_id organisation))) (\<lambda>r. case r of
      Inl e \<Rightarrow> ret ()
    | Inr inboxes \<Rightarrow> for_each (\<lambda>inbox. ignore_errors (enqueue_delivery (a_id organisation) activity inbox)) inboxes)"

definition resolve_organisation :: "('u, 'z) env_scheme \<Rightarrow> actor \<Rightarrow> job_posting \<Rightarrow> actor option prog" where
  "resolve_organisation E author job =
    (if jb_actor_id job = a_id author then ret (Some author)
     else bindE (attempt (find_by_id E (jb_actor_id job))) (\<lambda>r.
       ret (case r of Inr a \<Rightarrow> Some a | Inl _ \<Rightarrow> None)))"

definition announce_published :: "('u, 'z) env_scheme \<Rightarrow> profile_env \<Rightarrow> string \<Rightarrow> actor \<Rightarrow> job_posting \<Rightarrow> unit prog" where
  "announce_published E P domain author job =
    (if jb_published_at job = None then ret ()
     else bindE (resolve_organisation E author job) (\<lambda>r. case r of None \<Rightarrow> ret ()
       | Some organisation \<Rightarrow> deliver_to_followers organisation (publicising_note P organisation job domain)))"

definition announce_one_withdrawn :: "('u, 'z) env_scheme \<Rightarrow> uuid \<Rightarrow> unit prog" where
  "announce_one_withdrawn E job_id =
    bindE (attempt (get_job job_id)) (\<lambda>r. case r of Inl e \<Rightarrow> ret ()
    | Inr job \<Rightarrow> bindE (attempt (find_by_id E (jb_actor_id job))) (\<lambda>q. case q of Inl e \<Rightarrow> ret ()
      | Inr organisation \<Rightarrow>
          deliver_to_followers organisation (withdrawing_delete (a_ap_id organisation) (jb_ap_id job))))"

definition announce_withdrawn :: "('u, 'z) env_scheme \<Rightarrow> uuid list \<Rightarrow> unit prog" where
  "announce_withdrawn E job_ids = for_each (announce_one_withdrawn E) job_ids"

section \<open>Routes of the postings\<close>

definition list_jobs_route :: "org_kind option \<Rightarrow> nat \<Rightarrow> nat \<Rightarrow> job_posting list prog" where
  "list_jobs_route kind limit offset = list_published_jobs kind limit offset"

definition list_user_jobs :: "('u, 'z) env_scheme \<Rightarrow> string \<Rightarrow> nat \<Rightarrow> nat \<Rightarrow> job_posting list prog" where
  "list_user_jobs E username limit offset = bindE (find_local_by_username E username) (\<lambda>a.
     list_jobs_by_actor (a_id a) limit offset)"

definition create_job_route ::
  "('u, 'z) env_scheme \<Rightarrow> profile_env \<Rightarrow> string \<Rightarrow> viewer option \<Rightarrow> string \<Rightarrow> new_job_posting \<Rightarrow> job_posting prog" where
  "create_job_route E P domain viewer username params =
    bindE (require_local_actor E viewer username) (\<lambda>a.
    bindE (if a_type a = Organization
      then bindE (controls_claimed_domain P (a_id a)) (\<lambda>b. if b then ret () else throw Forbidden)
      else ret ()) (\<lambda>_.
    if a_type a = Organization \<and> a_org_kind a = None
    then throw (BadRequest ''declare whether this organisation is an employer or an agency before posting'')
    else
      bindE (create_job (job_env.truncate P) (a_id a) (map_option v_actor_id viewer) domain params) (\<lambda>job.
      bindE (announce_published E P domain a job) (\<lambda>_. ret job))))"

definition patch_job_route :: "profile_env \<Rightarrow> viewer option \<Rightarrow> uuid \<Rightarrow> update_job_posting \<Rightarrow> job_posting prog" where
  "patch_job_route P viewer i params =
    bindE (get_job i) (\<lambda>job.
    bindE (require_acts_for (jb_actor_id job) viewer) (\<lambda>_.
    update_job (job_env.truncate P) (jb_actor_id job) i params))"

definition delete_job_route :: "('u, 'z) env_scheme \<Rightarrow> viewer option \<Rightarrow> uuid \<Rightarrow> unit prog" where
  "delete_job_route E viewer i =
    bindE (get_job i) (\<lambda>job.
    bindE (require_acts_for (jb_actor_id job) viewer) (\<lambda>_.
    bindE (delete_job (jb_actor_id job) i) (\<lambda>_.
    if jb_published_at job = None then ret ()
    else bindE (find_by_id E (jb_actor_id job)) (\<lambda>organisation.
      deliver_to_followers organisation (withdrawing_delete (a_ap_id organisation) (jb_ap_id job))))))"

end
