(* ===== verification/Erasure.thy ===== *)
theory Erasure
  imports Moderation Organizations
begin

text \<open>
  The end of an account: the request and its cancellation and the export
  (\<open>noombat-api/src/routes/account.rs\<close>), the worker that erases and purges (\<open>erasure.rs\<close>), the
  deletion of mailboxes it owes (\<open>chatmail_ops.rs\<close>) and the broadcast of the \<open>Delete\<close>
  (\<open>noombat-federation/src/delete.rs\<close>).
\<close>

section \<open>Deleting mailboxes\<close>

definition MAX_OP_ATTEMPTS :: int where "MAX_OP_ATTEMPTS = 8"

text \<open>Seconds; the shift is of an unsigned 64-bit number by at most six.\<close>

definition op_backoff :: "int \<Rightarrow> int" where
  "op_backoff attempts = min (30 * 2 ^ nat (max 0 (min attempts 6))) 3600"

definition op_for :: "string \<Rightarrow> chatmail_op \<Rightarrow> bool" where
  "op_for address x = (co_address x = address)"

definition enqueue_delete :: "uuid \<Rightarrow> string \<Rightarrow> unit prog" where
  "enqueue_delete actor_id address = stmt (\<lambda>s.
     if list_ex (op_for address) (w_chatmail_ops s) then (Inr (), s)
     else if \<not> actor_exists actor_id s then (Inl Database, s)
     else (Inr (), s\<lparr>w_chatmail_ops := w_chatmail_ops s @ [\<lparr>co_id = w_next_id s, co_actor = Some actor_id,
       co_address = address, co_state = ''pending'', co_attempts = 0, co_last_error = None,
       co_next_attempt = w_now s\<rparr>], w_next_id := Suc (w_next_id s)\<rparr>))"

definition pending_for :: "uuid \<Rightarrow> world \<Rightarrow> bool" where
  "pending_for i s = list_ex (\<lambda>x. co_actor x = Some i \<and> co_state x = ''pending'') (w_chatmail_ops s)"

definition settled_for :: "uuid \<Rightarrow> bool prog" where
  "settled_for actor_id = query (\<lambda>s. \<not> pending_for actor_id s)"

definition by_next_attempt :: "chatmail_op list \<Rightarrow> chatmail_op list" where
  "by_next_attempt xs = sort_key co_next_attempt xs"

definition pending_ops :: "chatmail_op list prog" where
  "pending_ops = query (\<lambda>s. take 200 (by_next_attempt (filter (\<lambda>x. co_state x = ''pending'') (w_chatmail_ops s))))"

definition failed_ops :: "chatmail_op list prog" where
  "failed_ops = query (\<lambda>s. take 200 (rev (filter (\<lambda>x. co_state x = ''failed'') (w_chatmail_ops s))))"

definition on_op :: "uuid \<Rightarrow> (chatmail_op \<Rightarrow> chatmail_op) \<Rightarrow> world \<Rightarrow> world" where
  "on_op i f s = s\<lparr>w_chatmail_ops := map (\<lambda>x. if co_id x = i then f x else x) (w_chatmail_ops s)\<rparr>"

definition mark_succeeded :: "uuid \<Rightarrow> unit prog" where
  "mark_succeeded i = ignore_errors (execute (on_op i (\<lambda>x. x\<lparr>co_state := ''succeeded'',
     co_attempts := co_attempts x + 1, co_last_error := None\<rparr>)))"

definition mark_failed :: "uuid \<Rightarrow> int \<Rightarrow> string \<Rightarrow> unit prog" where
  "mark_failed i attempts reason = (let next_count = attempts + 1 in
     ignore_errors (execute (\<lambda>s. on_op i (\<lambda>x. x\<lparr>co_attempts := next_count, co_last_error := Some reason,
       co_state := (if MAX_OP_ATTEMPTS \<le> next_count then ''failed'' else ''pending''),
       co_next_attempt := w_now s + 1000 * op_backoff next_count\<rparr>) s)))"

text \<open>The \<open>Display\<close> of the errors the client returns.\<close>

definition error_text :: "noombat_error \<Rightarrow> string" where
  "error_text e = (case e of BadRequest m \<Rightarrow> ''bad request: '' @ m | Internal m \<Rightarrow> ''internal error: '' @ m | _ \<Rightarrow> [])"

text \<open>One operation; the answer is whether it is counted as done.\<close>

definition drain_one :: "sidecar \<Rightarrow> chatmail_op \<Rightarrow> bool prog" where
  "drain_one C x =
    bindE (attempt (client_delete_account C (co_address x))) (\<lambda>r. case r of
      Inl e \<Rightarrow> bindE (mark_failed (co_id x) (co_attempts x) (error_text e)) (\<lambda>_. ret False)
    | Inr _ \<Rightarrow>
        bindE (attempt (client_account_exists C (co_address x))) (\<lambda>q. case q of
          Inr False \<Rightarrow> bindE (mark_succeeded (co_id x)) (\<lambda>_. ret True)
        | Inr True \<Rightarrow> bindE (mark_failed (co_id x) (co_attempts x)
            ''the sidecar accepted the deletion and the account still exists'') (\<lambda>_. ret False)
        | Inl e \<Rightarrow> bindE (mark_failed (co_id x) (co_attempts x) (''liveness probe failed: '' @ error_text e)) (\<lambda>_. ret False)))"

definition op_due :: "world \<Rightarrow> chatmail_op \<Rightarrow> bool" where
  "op_due s x = (co_state x = ''pending'' \<and> co_next_attempt x \<le> w_now s)"

primrec counting :: "('a \<Rightarrow> bool prog) \<Rightarrow> 'a list \<Rightarrow> nat prog" where
  "counting f [] = ret 0"
| "counting f (x # xs) = bindE (f x) (\<lambda>b. bindE (counting f xs) (\<lambda>n. ret (if b then Suc n else n)))"

definition drain :: "backends \<Rightarrow> nat prog" where
  "drain B = (case bk_sidecar B of None \<Rightarrow> ret 0 | Some C \<Rightarrow>
     bindE (attempt (query (\<lambda>s. take 50 (by_next_attempt (filter (op_due s) (w_chatmail_ops s)))))) (\<lambda>r. case r of
       Inl e \<Rightarrow> ret 0
     | Inr due_ops \<Rightarrow> counting (drain_one C) due_ops))"

section \<open>The broadcast\<close>

definition delete_activity :: "string \<Rightarrow> timestamp \<Rightarrow> json" where
  "delete_activity ap_id now = JObj [(''@context'', default_context), (''id'', JStr (ap_id @ ''#delete-'' @ show_int now)),
     (''type'', JStr ''Delete''), (''actor'', JStr ap_id), (''object'', JStr ap_id), (''to'', PUBLIC_COLLECTION)]"

definition broadcast_delete :: "actor \<Rightarrow> string list \<Rightarrow> unit prog" where
  "broadcast_delete a inboxes = (if inboxes = [] then ret ()
     else bindE (gets w_now) (\<lambda>now.
       for_each (\<lambda>inbox. ignore_errors (enqueue_delivery (a_id a) (delete_activity (a_ap_id a) now) inbox)) inboxes))"

section \<open>Erasing one account\<close>

text \<open>\<open>.unwrap_or_default()\<close>.\<close>

definition or_none :: "'a list prog \<Rightarrow> 'a list prog" where
  "or_none m = bindE (attempt m) (\<lambda>r. ret (case r of Inr xs \<Rightarrow> xs | Inl _ \<Rightarrow> []))"

definition owe_mailbox :: "uuid \<Rightarrow> unit prog" where
  "owe_mailbox actor_id =
    bindE (attempt (query (\<lambda>s. Option.bind (actor_by_id actor_id s) a_chatmail_addr))) (\<lambda>r. case r of
      Inr (Some address) \<Rightarrow> ignore_errors (enqueue_delete actor_id address)
    | _ \<Rightarrow> ret ())"

definition erase_actor :: "('u, 'z) env_scheme \<Rightarrow> account_env \<Rightarrow> backends \<Rightarrow> uuid \<Rightarrow> actor prog" where
  "erase_actor E A B actor_id =
    bindE (or_none (get_follower_inboxes actor_id)) (\<lambda>inboxes.
    bindE (or_none (query (\<lambda>s. map p_id (filter (\<lambda>p. p_actor_id p = actor_id) (w_posts s))))) (\<lambda>indexed_posts.
    bindE (or_none (query (\<lambda>s. map jb_id (filter (\<lambda>j. jb_actor_id j = actor_id) (jt_jobs (w_jobs s)))))) (\<lambda>indexed_jobs.
    bindE (or_none (query (\<lambda>s. map ma_key (filter (\<lambda>m. ma_actor m = actor_id) (w_media s))))) (\<lambda>media_keys.
    bindE (owe_mailbox actor_id) (\<lambda>_.
    bindE (tombstone_actor E actor_id) (\<lambda>pre_tombstone.
    bindE (purge_objects B media_keys) (\<lambda>_.
    bindE (execute (update_actor_row actor_id (\<lambda>a. a\<lparr>ar_deletion_requested_at := None\<rparr>))) (\<lambda>_.
    bindE (broadcast_delete pre_tombstone inboxes) (\<lambda>_.
    bindE (remove_from_index_durably B ''profiles'' (show_uuid A actor_id)) (\<lambda>_.
    bindE (for_each (\<lambda>i. remove_from_index_durably B ''posts'' (show_uuid A i)) indexed_posts) (\<lambda>_.
    bindE (for_each (\<lambda>i. remove_from_index_durably B ''jobs'' (show_uuid A i)) indexed_jobs) (\<lambda>_.
    ret pre_tombstone))))))))))))"

section \<open>The worker\<close>

definition erasure_due :: "int \<Rightarrow> world \<Rightarrow> actor_row \<Rightarrow> bool" where
  "erasure_due grace_days s a = (a_is_local a \<and> (case ar_deletion_requested_at a of None \<Rightarrow> False
     | Some t \<Rightarrow> t < w_now s - grace_days * DAY))"

definition due_for_erasure :: "int \<Rightarrow> uuid list prog" where
  "due_for_erasure grace_days = query (\<lambda>s. map a_id (filter (erasure_due grace_days s) (w_actors s)))"

definition TOMBSTONE_RETENTION_DAYS :: int where "TOMBSTONE_RETENTION_DAYS = 30"

definition purge_due :: "world \<Rightarrow> actor_row \<Rightarrow> bool" where
  "purge_due s a = (case ar_erased_at a of None \<Rightarrow> False | Some t \<Rightarrow>
     (\<not> list_ex (\<lambda>d. d_actor_id d = a_id a) (w_deliveries s) \<and> \<not> pending_for (a_id a) s)
     \<or> t < w_now s - TOMBSTONE_RETENTION_DAYS * DAY)"

text \<open>The count of the calls that succeeded; a failure is left for the next sweep.\<close>

definition succeeded :: "'a prog \<Rightarrow> bool prog" where
  "succeeded m = bindE (attempt m) (\<lambda>r. ret (\<not> isl r))"

definition purge_retained :: "nat prog" where
  "purge_retained =
    bindE (attempt (query (\<lambda>s. take 200 (map a_id (filter (purge_due s) (w_actors s)))))) (\<lambda>r. case r of
      Inl e \<Rightarrow> ret 0
    | Inr ids \<Rightarrow> counting (\<lambda>i. succeeded (purge_tombstoned_actor i)) ids)"

definition sweep :: "('u, 'z) env_scheme \<Rightarrow> account_env \<Rightarrow> backends \<Rightarrow> int \<Rightarrow> nat prog" where
  "sweep E A B grace_days =
    bindE (attempt (due_for_erasure grace_days)) (\<lambda>r. case r of
      Inl e \<Rightarrow> ret 0
    | Inr ids \<Rightarrow> counting (\<lambda>i. succeeded (erase_actor E A B i)) ids)"

text \<open>One turn of the worker's loop.\<close>

definition worker_turn :: "('u, 'z) env_scheme \<Rightarrow> account_env \<Rightarrow> backends \<Rightarrow> int \<Rightarrow> unit prog" where
  "worker_turn E A B grace_days = bindE (sweep E A B grace_days) (\<lambda>_. bindE purge_retained (\<lambda>_. ret ()))"

section \<open>The account's own routes\<close>

definition require_actor :: "viewer option \<Rightarrow> (uuid \<times> string) prog" where
  "require_actor viewer = bindE (ok_or Forbidden viewer) (\<lambda>v. ret (v_actor_id v, v_username v))"

definition request_deletion :: "viewer option \<Rightarrow> unit prog" where
  "request_deletion viewer =
    bindE (require_actor viewer) (\<lambda>(actor_id, username).
    bindE (query (actor_by_id actor_id)) (\<lambda>found.
    bindE (ok_or Database found) (\<lambda>row.
    if ar_deletion_requested_at row \<noteq> None then throw (BadRequest ''deletion already requested'')
    else execute (\<lambda>s. update_actor_row actor_id (\<lambda>a. a\<lparr>ar_deletion_requested_at := Some (w_now s),
      a_updated_at := w_now s\<rparr>) s))))"

definition cancel_deletion :: "viewer option \<Rightarrow> unit prog" where
  "cancel_deletion viewer =
    bindE (require_actor viewer) (\<lambda>(actor_id, username).
    bindE (update_actors (\<lambda>a. a_id a = actor_id \<and> ar_deletion_requested_at a \<noteq> None)
      (\<lambda>s a. a\<lparr>ar_deletion_requested_at := None, a_updated_at := w_now s\<rparr>)) (\<lambda>n.
    if n = 0 then throw (BadRequest ''no pending deletion to cancel'') else ret ()))"

definition job_application_accesses :: "viewer option \<Rightarrow> uuid \<Rightarrow> (timestamp \<times> string \<times> string \<times> string option) list prog" where
  "job_application_accesses viewer application_id =
    bindE (require_actor viewer) (\<lambda>(actor_id, username).
    bindE (query (\<lambda>s. list_ex (\<lambda>a. ja_id a = application_id \<and> ja_applicant a = actor_id) (jt_applications (w_jobs s)))) (\<lambda>owned.
    if \<not> owned then throw (NotFound ''application'' application_id)
    else query (\<lambda>s. map (\<lambda>x. (ac_occurred_at x, ac_kind x, ac_outcome x, ac_reason x))
      (sort_key (\<lambda>x. - ac_occurred_at x) (filter (\<lambda>x. ac_application x = application_id) (jt_accesses (w_jobs s)))))))"

text \<open>
  The export, file by file.  A statement that names a column its table does not have fails
  whatever the database holds: \<open>scholarly_articles\<close> has no \<open>sort_order\<close>, and \<open>group_memberships\<close>
  no \<open>actor_id\<close>.  Where the model keeps only the owners of a table's rows, so does the archive.
\<close>

record exported_profile =
  xp_id :: uuid
  xp_type :: actor_type
  xp_org_kind :: "org_kind option"
  xp_ap_id :: string
  xp_username :: string
  xp_display_name :: "string option"
  xp_avatar_url :: "string option"
  xp_header_url :: "string option"
  xp_summary_md :: "string option"
  xp_summary_html :: "string option"
  xp_domain :: string
  xp_is_local :: bool
  xp_instance_role :: instance_role
  xp_status :: actor_status
  xp_chatmail_addr :: "string option"
  xp_orcid :: "string option"
  xp_moved_to :: "string option"
  xp_headline :: "string option"
  xp_privacy :: actor_privacy
  xp_created_at :: timestamp
  xp_updated_at :: timestamp

definition exported_profile_of :: "actor_row \<Rightarrow> exported_profile" where
  "exported_profile_of a =
    \<lparr> xp_id = a_id a, xp_type = a_type a, xp_org_kind = a_org_kind a, xp_ap_id = a_ap_id a,
      xp_username = a_username a, xp_display_name = a_display_name a, xp_avatar_url = a_avatar_url a,
      xp_header_url = a_header_url a, xp_summary_md = a_summary_md a, xp_summary_html = a_summary_html a,
      xp_domain = a_domain a, xp_is_local = a_is_local a, xp_instance_role = a_instance_role a,
      xp_status = a_status a, xp_chatmail_addr = a_chatmail_addr a, xp_orcid = a_orcid a,
      xp_moved_to = a_moved_to a, xp_headline = a_headline a, xp_privacy = a_privacy a,
      xp_created_at = a_created_at a, xp_updated_at = a_updated_at a \<rparr>"

record export_archive =
  ex_actor :: exported_profile
  ex_work_experiences :: "work_row list"
  ex_education_entries :: "education_row list"
  ex_skills :: "skill_row list"
  ex_scholarly_articles :: "article_row list"
  ex_custom_sections :: "custom_row list"
  ex_posts :: "post_row list"
  ex_followers :: "follow_row list"
  ex_following :: "follow_row list"
  ex_group_memberships :: "(string \<times> uuid) list"
  ex_event_rsvps :: "(string \<times> uuid) list"
  ex_verified_links :: "link_row list"
  ex_blocks :: "block_row list"
  ex_mutes :: "mute_row list"
  ex_job_applications :: "application_row list"

definition no_such_column :: "'a list prog" where
  "no_such_column = stmt (\<lambda>s. (Inl Database, s))"

definition owned_in :: "string \<Rightarrow> uuid \<Rightarrow> world \<Rightarrow> (string \<times> uuid) list" where
  "owned_in table i s = filter (\<lambda>x. x = (table, i)) (w_owned s)"

definition export_data :: "viewer option \<Rightarrow> export_archive prog" where
  "export_data viewer =
    bindE (require_actor viewer) (\<lambda>(i, username).
    bindE (query (actor_by_id i)) (\<lambda>found.
    bindE (ok_or Database found) (\<lambda>row.
    bindE (or_none (query (\<lambda>s. sort_key sr_sort_order (filter (\<lambda>x. sr_actor x = i) (work_rows s))))) (\<lambda>work.
    bindE (or_none (query (\<lambda>s. sort_key sr_sort_order (filter (\<lambda>x. sr_actor x = i) (education_rows s))))) (\<lambda>education.
    bindE (or_none (query (\<lambda>s. filter (\<lambda>x. sk_actor x = i) (skill_rows s)))) (\<lambda>skills.
    bindE (or_none no_such_column) (\<lambda>articles.
    bindE (or_none (query (\<lambda>s. sort_key sr_sort_order (filter (\<lambda>x. sr_actor x = i) (custom_rows s))))) (\<lambda>sections.
    bindE (or_none (query (\<lambda>s. filter (\<lambda>p. p_actor_id p = i) (w_posts s)))) (\<lambda>posts.
    bindE (or_none (query (followers_of i))) (\<lambda>followers.
    bindE (or_none (query (followed_by i))) (\<lambda>following.
    bindE (or_none no_such_column) (\<lambda>memberships.
    bindE (or_none (query (owned_in ''event_rsvps'' i))) (\<lambda>rsvps.
    bindE (or_none (query (\<lambda>s. filter (\<lambda>x. vl_actor x = i) (link_rows s)))) (\<lambda>links.
    bindE (or_none (query (\<lambda>s. filter (\<lambda>b. b_actor b = i) (w_blocks s)))) (\<lambda>blocks.
    bindE (or_none (query (\<lambda>s. filter (\<lambda>b. b_actor b = i) (w_mutes s)))) (\<lambda>mutes.
    bindE (or_none (query (\<lambda>s. filter (\<lambda>a. ja_applicant a = i) (jt_applications (w_jobs s))))) (\<lambda>applications.
    ret \<lparr> ex_actor = exported_profile_of row, ex_work_experiences = work, ex_education_entries = education, ex_skills = skills,
      ex_scholarly_articles = articles, ex_custom_sections = sections, ex_posts = posts,
      ex_followers = followers, ex_following = following, ex_group_memberships = memberships,
      ex_event_rsvps = rsvps, ex_verified_links = links, ex_blocks = blocks, ex_mutes = mutes,
      ex_job_applications = applications \<rparr>)))))))))))))))))"

end
