(* ===== verification/LocalSafety.thy ===== *)
theory LocalSafety
  imports Erasure
begin

text \<open>
  What the operations on local accounts leave alone: programs that write no table, programs
  that write none when they fail, and the effect of a successful transaction.
\<close>

named_theorems quiet_intros
named_theorems atomic_intros

section \<open>The tables\<close>

text \<open>A world without what no transaction undoes.\<close>

definition tables :: "world \<Rightarrow> world" where
  "tables s = s\<lparr>w_tick := 0, w_next_id := 0, w_entropy := (\<lambda>n. []), w_log := []\<rparr>"

lemma tables_simps [simp]:
  "tables (s\<lparr>w_tick := n\<rparr>) = tables s" "tables (s\<lparr>w_next_id := i\<rparr>) = tables s"
  "tables (s\<lparr>w_entropy := g\<rparr>) = tables s" "tables (s\<lparr>w_log := l\<rparr>) = tables s"
  by (simp_all add: tables_def)

lemma tables_of [simp]:
  "w_actors (tables s) = w_actors s"
  "w_accounts (tables s) = w_accounts s"
  "w_reports (tables s) = w_reports s"
  "w_now (tables s) = w_now s"
  "w_jobs (tables s) = w_jobs s"
  "w_profile (tables s) = w_profile s"
  "w_posts (tables s) = w_posts s"
  "w_follows (tables s) = w_follows s"
  "w_deliveries (tables s) = w_deliveries s"
  "w_chatmail_ops (tables s) = w_chatmail_ops s"
  "w_sidecar (tables s) = w_sidecar s"
  "w_media (tables s) = w_media s"
  "w_objects (tables s) = w_objects s"
  "w_index (tables s) = w_index s"
  "w_fault (tables s) = w_fault s"
  "w_search_ops (tables s) = w_search_ops s"
  by (simp_all add: tables_def)

lemma tables_eqD:
  assumes "tables t = tables s"
  shows "w_actors t = w_actors s"
    "w_accounts t = w_accounts s"
    "w_reports t = w_reports s"
    "w_now t = w_now s"
    "w_jobs t = w_jobs s"
    "w_profile t = w_profile s"
    "w_posts t = w_posts s"
    "w_follows t = w_follows s"
    "w_deliveries t = w_deliveries s"
    "w_chatmail_ops t = w_chatmail_ops s"
    "w_sidecar t = w_sidecar s"
    "w_media t = w_media s"
    "w_objects t = w_objects s"
    "w_index t = w_index s"
    "w_fault t = w_fault s"
    "w_search_ops t = w_search_ops s"
  by (metis tables_of assms)+

section \<open>Programs that only read\<close>

definition quiet :: "'a prog \<Rightarrow> bool" where
  "quiet m \<longleftrightarrow> (\<forall>s. tables (snd (m s)) = tables s)"

lemma quietD: "quiet m \<Longrightarrow> m s = (r, t) \<Longrightarrow> tables t = tables s"
  by (metis quiet_def snd_conv)

lemma quiet_keeps: "(\<And>T. keeps (\<lambda>s. tables s = T) m) \<Longrightarrow> quiet m"
  unfolding quiet_def keeps_def by blast

lemma keeps_quiet: "quiet m \<Longrightarrow> keeps (\<lambda>s. tables s = T) m"
  by (simp add: quiet_def keeps_def)

lemma quiet_pure [quiet_intros]:
  "quiet (ret x)" "quiet (throw e)" "quiet (of_result r)" "quiet (gets f)" "quiet (ok_or e v)"
  by (rule quiet_keeps, intro keeps_intros)+

lemma quiet_draw [quiet_intros]: "quiet draw"
  by (simp add: quiet_def draw_def)

lemma quiet_new_uuid [quiet_intros]: "quiet new_uuid"
  by (simp add: quiet_def new_uuid_def)

lemma quiet_query [quiet_intros]: "quiet (query f)"
  by (simp add: quiet_def query_def stmt_def Let_def)

lemma quiet_execute_id [quiet_intros]: "quiet (execute id)"
  by (simp add: quiet_def execute_def stmt_def Let_def)

lemma quiet_bindE [quiet_intros]: "quiet m \<Longrightarrow> (\<And>x. quiet (f x)) \<Longrightarrow> quiet (bindE m f)"
  by (rule quiet_keeps, rule keeps_bindE) (auto intro: keeps_quiet)

lemma quiet_attempt [quiet_intros]: "quiet m \<Longrightarrow> quiet (attempt m)"
  by (rule quiet_keeps, rule keeps_attempt) (auto intro: keeps_quiet)

lemma quiet_failing_as [quiet_intros]: "quiet m \<Longrightarrow> quiet (failing_as g m)"
  by (auto simp: quiet_def failing_as_def split: prod.splits sum.splits) (metis snd_conv)+

lemma quiet_if [quiet_intros]: "quiet m \<Longrightarrow> quiet n \<Longrightarrow> quiet (if c then m else n)"
  by simp

lemma quiet_option [quiet_intros]:
  "quiet m \<Longrightarrow> (\<And>x. quiet (f x)) \<Longrightarrow> quiet (case v of None \<Rightarrow> m | Some x \<Rightarrow> f x)"
  by (cases v) auto

lemma quiet_sum [quiet_intros]:
  "(\<And>x. quiet (f x)) \<Longrightarrow> (\<And>x. quiet (g x)) \<Longrightarrow> quiet (case v of Inl x \<Rightarrow> f x | Inr x \<Rightarrow> g x)"
  by (cases v) auto

lemma quiet_prod [quiet_intros]: "(\<And>x y. quiet (f x y)) \<Longrightarrow> quiet (case v of (x, y) \<Rightarrow> f x y)"
  by (cases v) auto

lemma quiet_let [quiet_intros]: "quiet (f x) \<Longrightarrow> quiet (let y = x in f y)"
  by simp

section \<open>Programs that write nothing when they fail\<close>

definition atomic :: "'a prog \<Rightarrow> bool" where
  "atomic m \<longleftrightarrow> (\<forall>s e t. m s = (Inl e, t) \<longrightarrow> tables t = tables s)"

lemma atomicD: "atomic m \<Longrightarrow> m s = (Inl e, t) \<Longrightarrow> tables t = tables s"
  by (simp add: atomic_def)

lemma atomic_quiet [atomic_intros]: "quiet m \<Longrightarrow> atomic m"
  by (auto simp: atomic_def dest: quietD)

lemma atomic_after [atomic_intros]: "quiet m \<Longrightarrow> (\<And>x. atomic (f x)) \<Longrightarrow> atomic (bindE m f)"
  by (fastforce simp: atomic_def bindE_def split: prod.splits sum.splits dest: quietD)

lemma atomic_ret [atomic_intros]: "atomic m \<Longrightarrow> atomic (bindE m (\<lambda>x. ret (f x)))"
  by (auto simp: atomic_def bindE_def ret_def split: prod.splits sum.splits)

lemma atomic_if [atomic_intros]: "atomic m \<Longrightarrow> atomic n \<Longrightarrow> atomic (if c then m else n)"
  by simp

lemma atomic_option [atomic_intros]:
  "atomic m \<Longrightarrow> (\<And>x. atomic (f x)) \<Longrightarrow> atomic (case v of None \<Rightarrow> m | Some x \<Rightarrow> f x)"
  by (cases v) auto

lemma atomic_prod [atomic_intros]: "(\<And>x y. atomic (f x y)) \<Longrightarrow> atomic (case v of (x, y) \<Rightarrow> f x y)"
  by (cases v) auto

lemma atomic_transaction [atomic_intros]: "atomic (transaction m)"
  by (auto simp: atomic_def transaction_def split: prod.splits sum.splits)

lemma atomic_transaction_reporting [atomic_intros]: "atomic (transaction_reporting m)"
  by (auto simp: atomic_def transaction_reporting_def split: prod.splits sum.splits)

lemma failing_as_Inr [simp]: "failing_as g m s = (Inr x, t) \<longleftrightarrow> m s = (Inr x, t)"
  by (auto simp: failing_as_def split: prod.splits sum.splits)

lemma transaction_reporting_Inr:
  assumes "transaction_reporting m s = (Inr x, t)"
  obtains v where "m (s\<lparr>w_tick := Suc (w_tick s)\<rparr>) = (Inr x, v)" "t = v\<lparr>w_tick := Suc (w_tick v)\<rparr>"
  using assms by (auto simp: transaction_reporting_def bindE_Inr execute_Inr split: prod.splits sum.splits)

section \<open>Registration and enrolment\<close>

lemma quiet_seal_auto [quiet_intros]: "quiet (seal_auto E x)"
  unfolding seal_auto_def by (intro quiet_intros)

lemma quiet_keypair [quiet_intros]: "quiet (generate_keypair E L)"
  unfolding generate_keypair_def generate_rsa_keypair_def generate_ed25519_keypair_def by (intro quiet_intros)

lemma quiet_hash [quiet_intros]: "quiet (hash_auth_key L key)"
  unfolding hash_auth_key_def by (intro quiet_intros)

lemma quiet_mode [quiet_intros]: "quiet registration_mode" "quiet (username_taken domain username)"
  unfolding registration_mode_def username_taken_def by (intro quiet_intros)+

lemma atomic_register: "atomic (register E L domain req)"
  unfolding register_def register_actor_def by (intro atomic_intros quiet_intros)

lemma atomic_enrol: "atomic (enrol_organization E L domain owner username name claimed kind)"
  unfolding enrol_organization_def by (intro atomic_intros quiet_intros)

text \<open>An update of a table is an update of the tables.\<close>

lemma tables_upd:
  "tables (s\<lparr>w_actors := x\<rparr>) = (tables s)\<lparr>w_actors := x\<rparr>"
  "tables (s\<lparr>w_accounts := y\<rparr>) = (tables s)\<lparr>w_accounts := y\<rparr>"
  "tables (update_actor_row i f s) = (tables s)\<lparr>w_actors := map (\<lambda>a. if a_id a = i then f a else a) (w_actors s)\<rparr>"
  by (simp_all add: tables_def update_actor_row_def)

lemma actor_conflict_cong: "w_actors t = w_actors s \<Longrightarrow> actor_conflict r t = actor_conflict r s"
  by (simp add: actor_conflict_def holds_username_def)

text \<open>What a successful creation appends.\<close>

lemma create_actor_on_Some:
  assumes "create_actor_on E p s = (Inr (Some a), t)"
  obtains r k1 k2 where "tables t = (tables s)\<lparr>w_actors := w_actors s @ [r]\<rparr>" "\<not> actor_conflict r s"
    "a = created_actor p (w_next_id s) (w_now s)" "r = created_row a k1 k2"
proof -
  obtain k1 v1 where k1: "seal_auto E (na_private_key_pem p) (s\<lparr>w_next_id := Suc (w_next_id s)\<rparr>) = (Inr k1, v1)"
    using assms by (auto simp: create_actor_on_def bindE_Inr new_uuid_def)
  then obtain k2 v2 where k2: "seal_auto E (na_ed25519_private_key p) v1 = (Inr k2, v2)"
    using assms by (auto simp: create_actor_on_def bindE_Inr new_uuid_def)
  let ?a = "created_actor p (w_next_id s) (w_now v2)" let ?r = "created_row ?a k1 k2"
  have eq: "tables v2 = tables s"
    using quietD [OF quiet_seal_auto k1] quietD [OF quiet_seal_auto k2] by simp
  note same = tables_eqD(1,4) [OF eq]
  have "insert_actor ?r v2 = (Inr (Some ()), t)" and a: "a = ?a"
    using assms k1 k2
    by (auto simp: create_actor_on_def bindE_Inr bindE_run new_uuid_def Let_def map_option_case split: option.splits)
  then have free: "\<not> actor_conflict ?r (v2\<lparr>w_tick := Suc (w_tick v2)\<rparr>)"
    and t: "t = v2\<lparr>w_tick := Suc (w_tick v2), w_actors := w_actors v2 @ [?r]\<rparr>"
    by (auto simp: insert_actor_def stmt_def Let_def split: if_splits)
  have "\<not> actor_conflict ?r s"
    using free actor_conflict_cong [of "v2\<lparr>w_tick := Suc (w_tick v2)\<rparr>" s] same by simp
  moreover have "tables t = (tables s)\<lparr>w_actors := w_actors s @ [?r]\<rparr>"
    unfolding t by (simp add: tables_upd eq same)
  ultimately show thesis using that a same by metis
qed

lemma created_fields [simp]:
  "a_id (created_row a k1 k2) = a_id a" "a_username (created_row a k1 k2) = a_username a"
  "a_is_local (created_row a k1 k2) = a_is_local a" "a_status (created_row a k1 k2) = a_status a"
  "a_ap_id (created_row a k1 k2) = a_ap_id a" "a_domain (created_row a k1 k2) = a_domain a"
  "a_type (created_row a k1 k2) = a_type a" "ar_erased_at (created_row a k1 k2) = None"
  by (simp_all add: created_row_def actor.extend_def)

lemma created_actor_fields [simp]:
  "a_id (created_actor p i now) = i" "a_username (created_actor p i now) = na_username p"
  "a_is_local (created_actor p i now)" "a_status (created_actor p i now) = StatusActive"
  "a_ap_id (created_actor p i now) = local_ap_id (na_domain p) (na_username p)"
  "a_domain (created_actor p i now) = na_domain p" "a_type (created_actor p i now) = na_type p"
  by (simp_all add: created_actor_def)

lemma new_actor_of_fields [simp]:
  "na_type (new_actor_of ty u n d k) = ty" "na_username (new_actor_of ty u n d k) = u"
  "na_domain (new_actor_of ty u n d k) = d"
  by (simp_all add: new_actor_of_def)

text \<open>The row a registration leaves.\<close>

definition registered_row :: "string \<Rightarrow> register_request \<Rightarrow> registration_mode \<Rightarrow> actor_row \<Rightarrow> bool" where
  "registered_row domain req mode r = (a_username r = rq_username req \<and> a_domain r = domain \<and> a_is_local r
     \<and> a_type r = Individual \<and> a_status r = admitted_as mode \<and> ar_auth_key_hash r \<noteq> None
     \<and> a_ap_id r = local_ap_id domain (rq_username req))"

lemma register_actor_Inr:
  assumes "register_actor E p h status s = (Inr a, t)" and fresh: "\<forall>r\<in>set (w_actors s). a_id r < w_next_id s"
  obtains r where "tables t = (tables s)\<lparr>w_actors := w_actors s @ [r]\<rparr>" "a = created_actor p (w_next_id s) (w_now s)"
    "\<exists>k1 k2. r = (created_row a k1 k2)\<lparr>ar_auth_key_hash := Some h, a_status := status\<rparr>" "\<not> holds_username (na_domain p) (na_username p) s"
proof -
  let ?s = "s\<lparr>w_tick := Suc (w_tick s)\<rparr>"
  obtain v where v: "bindE (create_actor_on E p) (\<lambda>made. bindE (ok_or (ActorAlreadyExists (na_username p)) made) (\<lambda>a.
      bindE (execute (update_actor_row (a_id a) (\<lambda>r. r\<lparr>ar_auth_key_hash := Some h, a_status := status\<rparr>))) (\<lambda>_. ret a))) ?s = (Inr a, v)"
    and t: "tables t = tables v"
    by (rule transaction_reporting_Inr [OF assms(1) [unfolded register_actor_def]]) simp
  from v obtain made u where u: "create_actor_on E p ?s = (Inr made, u)" and made: "made = Some a"
    and v': "v = update_actor_row (a_id a) (\<lambda>r. r\<lparr>ar_auth_key_hash := Some h, a_status := status\<rparr>) (u\<lparr>w_tick := Suc (w_tick u)\<rparr>)"
    by (auto simp: bindE_Inr execute_Inr ok_or_def split: option.splits)
  obtain r k1 k2 where r: "tables u = (tables ?s)\<lparr>w_actors := w_actors ?s @ [r]\<rparr>" "\<not> actor_conflict r ?s"
    "a = created_actor p (w_next_id ?s) (w_now ?s)" "r = created_row a k1 k2"
    using create_actor_on_Some [OF u [unfolded made]] by metis
  have acts: "w_actors u = w_actors s @ [r]"
    using arg_cong [OF r(1), of w_actors] by simp
  have others: "map (\<lambda>x. if a_id x = a_id a then f x else x) (w_actors s) = w_actors s" for f
    using fresh r(3) by (intro map_idI) auto
  have "tables t = (tables s)\<lparr>w_actors := w_actors s @ [r\<lparr>ar_auth_key_hash := Some h, a_status := status\<rparr>]\<rparr>"
    using t r(1,4) by (simp add: v' tables_upd acts others)
  moreover have "\<not> holds_username (na_domain p) (na_username p) s"
    using r(2-4) by (simp add: actor_conflict_def holds_username_def)
  ultimately show thesis using that r(3,4) by auto
qed

lemma of_result_ends: "of_result r s = (Inr x, t) \<longleftrightarrow> r = Inr x \<and> t = s"
  by (auto simp: of_result_def)

lemma ok_or_Inr: "ok_or e v s = (Inr x, t) \<longleftrightarrow> v = Some x \<and> t = s"
  by (cases v) auto

lemma quiet_steps:
  assumes "bindE m f s = (r, t)" and "quiet m" and "r = Inr y"
  obtains x u where "m s = (Inr x, u)" "tables u = tables s" "f x u = (Inr y, t)"
  using assms by (auto simp: bindE_Inr dest: quietD)

lemma stored_mode_cong: "w_accounts t = w_accounts s \<Longrightarrow> stored_mode t = stored_mode s"
  by (simp add: stored_mode_def)

lemma holds_username_cong: "w_actors t = w_actors s \<Longrightarrow> holds_username d u t = holds_username d u s"
  by (simp add: holds_username_def)

text \<open>The counter of identifiers moves only where one is drawn.\<close>

definition steady :: "'a prog \<Rightarrow> bool" where
  "steady m \<longleftrightarrow> (\<forall>n. keeps (\<lambda>s. w_next_id s = n) m)"

lemma steadyD: "steady m \<Longrightarrow> m s = (r, t) \<Longrightarrow> w_next_id t = w_next_id s"
  by (metis (mono_tags) keeps_def snd_conv steady_def)

lemma steady_query: "steady (query f)" and steady_draw: "steady draw"
  by (simp_all add: steady_def keeps_def query_def stmt_def draw_def Let_def)

lemma steady_bindE: "steady m \<Longrightarrow> (\<And>x. steady (f x)) \<Longrightarrow> steady (bindE m f)"
  unfolding steady_def by (blast intro: keeps_bindE)

lemma steady_pure: "steady (ret x)" "steady (throw e)"
  by (simp_all add: steady_def keeps_ret keeps_throw)

lemma steady_cases:
  "(\<And>x. steady (g x)) \<Longrightarrow> (\<And>x. steady (h x)) \<Longrightarrow> steady (case v of Inl x \<Rightarrow> g x | Inr x \<Rightarrow> h x)"
  "(\<And>x y. steady (k x y)) \<Longrightarrow> steady (case w of (x, y) \<Rightarrow> k x y)"
  by (cases v, auto) (cases w, auto)

lemmas steady_intros = steady_query steady_draw steady_bindE steady_pure steady_cases

lemma steady_keypair: "steady (generate_keypair E L)" and steady_hash: "steady (hash_auth_key L key)"
  unfolding generate_keypair_def generate_rsa_keypair_def generate_ed25519_keypair_def hash_auth_key_def
  by (intro steady_intros)+

lemma hash_auth_key_Inr: "hash_auth_key L key s = (Inr h, t) \<Longrightarrow> \<exists>salt. argon2_hash L salt key = Inr h"
  by (auto simp: hash_auth_key_def bindE_Inr draw_def split: sum.splits)

text \<open>A successful registration: what it found, and the one row it adds.\<close>

lemma register_Inr:
  assumes run: "register E L domain req s = (Inr resp, t)" and fresh: "\<forall>r\<in>set (w_actors s). a_id r < w_next_id s"
  obtains h salt k1 k2 k r where "stored_mode s \<noteq> RegClosed" "argon2_hash L salt (rq_auth_key req) = Inr h"
    "r = (created_row (created_actor (new_actor_of Individual (rq_username req) (rq_display_name req) domain k)
        (w_next_id s) (w_now s)) k1 k2)\<lparr>ar_auth_key_hash := Some h, a_status := admitted_as (stored_mode s)\<rparr>"
    "tables t = (tables s)\<lparr>w_actors := w_actors s @ [r]\<rparr>" "\<not> holds_username domain (rq_username req) s"
    "resp = \<lparr>rs_actor_id = w_next_id s, rs_username = rq_username req, rs_ap_id = local_ap_id domain (rq_username req),
      rs_awaiting_approval = (stored_mode s = RegApproval)\<rparr>"
proof -
  let ?s = "s\<lparr>w_tick := Suc (w_tick s)\<rparr>" let ?s' = "?s\<lparr>w_tick := Suc (Suc (w_tick s))\<rparr>"
  let ?mode = "stored_mode s"
  have mode: "stored_mode ?s = ?mode" by (rule stored_mode_cong) simp
  have open_: "?mode \<noteq> RegClosed"
    using run mode by (auto simp: register_def registration_mode_def bindE_Inr query_Inr)
  obtain k u h v a w where k: "generate_keypair E L ?s' = (Inr k, u)" and h: "hash_auth_key L (rq_auth_key req) u = (Inr h, v)"
    and a: "register_actor E (new_actor_of Individual (rq_username req) (rq_display_name req) domain k) h (admitted_as ?mode) v = (Inr a, t)"
    and resp: "resp = \<lparr>rs_actor_id = a_id a, rs_username = a_username a, rs_ap_id = a_ap_id a,
      rs_awaiting_approval = (?mode = RegApproval)\<rparr>"
    using run open_ mode
    by (auto simp: register_def registration_mode_def username_taken_def bindE_Inr query_Inr of_result_ends ok_or_Inr split: if_splits)
  have eq: "tables v = tables s" and next_id: "w_next_id v = w_next_id s"
    using quietD [OF quiet_keypair k] quietD [OF quiet_hash h] steadyD [OF steady_keypair k] steadyD [OF steady_hash h] by simp_all
  note same = tables_eqD [OF eq]
  have "\<forall>r\<in>set (w_actors v). a_id r < w_next_id v" using fresh same(1) next_id by simp
  then obtain r where r: "tables t = (tables v)\<lparr>w_actors := w_actors v @ [r]\<rparr>"
      "a = created_actor (new_actor_of Individual (rq_username req) (rq_display_name req) domain k) (w_next_id v) (w_now v)"
      "\<exists>k1 k2. r = (created_row a k1 k2)\<lparr>ar_auth_key_hash := Some h, a_status := admitted_as ?mode\<rparr>"
      "\<not> holds_username domain (rq_username req) v"
    using register_actor_Inr [OF a] by (metis new_actor_of_fields(2,3))
  obtain salt where salt: "argon2_hash L salt (rq_auth_key req) = Inr h" using hash_auth_key_Inr [OF h] by blast
  have "\<not> holds_username domain (rq_username req) s" using r(4) holds_username_cong [OF same(1)] by simp
  then show thesis using that [OF open_ salt] r resp by (auto simp: eq same next_id)
qed

end
