(* ===== verification/LocalClaims.thy ===== *)
theory LocalClaims
  imports LocalSafety AccountClaims
begin

text \<open>
  The properties of registration, enrolment, moderation and erasure, with witnesses on the
  instance of \<open>Samples\<close>.
\<close>

section \<open>Parameters of the witnesses\<close>

definition sample_local_env :: local_env where
  "sample_local_env = job_env.extend sample_jobs_env
     \<lparr> rsa_keypair = (\<lambda>seed. Inr (''public'', ''private'')), ed25519_public = (\<lambda>b. b), std_base64 = (\<lambda>b. b),
       argon2_hash = (\<lambda>salt key. Inr key), psl_domain = Some,
       window_start = (\<lambda>now (y, m, w, d, h). Some (now - (((y * 365 + m * 30 + w * 7 + d) * 24 + h) * 3600000))) \<rparr>"

lemma sample_local_simps [simp]:
  "rsa_keypair sample_local_env = (\<lambda>seed. Inr (''public'', ''private''))"
  "argon2_hash sample_local_env = (\<lambda>salt key. Inr key)"
  "argon2_verify sample_local_env = (\<lambda>key hash. key = hash)"
  "ed25519_public sample_local_env = (\<lambda>b. b)" "std_base64 sample_local_env = (\<lambda>b. b)"
  "psl_domain sample_local_env = Some" "show_uuid sample_local_env = show_nat"
  "window_start sample_local_env = (\<lambda>now (y, m, w, d, h). Some (now - (((y * 365 + m * 30 + w * 7 + d) * 24 + h) * 3600000)))"
  by (simp_all add: sample_local_env_def job_env.extend_def sample_jobs_env_def)

definition sample_key :: string where
  "sample_key = replicate 64 CHR ''a''"

definition carol_request :: register_request where
  "carol_request = \<lparr>rq_username = ''carol'', rq_display_name = None, rq_email = Some ''carol@mail.example'',
     rq_auth_key = sample_key\<rparr>"

definition sample_settings :: "string \<Rightarrow> settings_row" where
  "sample_settings mode = \<lparr>st_registration_mode = mode, st_organization_enabled = True,
     st_organization_rate_count = 1, st_organization_rate_amount = 7, st_organization_rate_unit = ''days'',
     st_organization_concurrent_cap = 5, st_organization_period_cap_count = 10,
     st_organization_period_cap_amount = 1, st_organization_period_cap_unit = ''years''\<rparr>"

definition open_world :: "string \<Rightarrow> world" where
  "open_world mode = sample_world\<lparr>w_actors := [alice\<lparr>a_domain := ''home.example''\<rparr>, bob],
     w_accounts := sample_accounts\<lparr>at_settings := Some (sample_settings mode)\<rparr>\<rparr>"

lemma sample_registration:
  "\<not> isl (fst (register sample_env sample_local_env ''home.example'' carol_request (open_world ''approval'')))"
  by code_simp

section \<open>Registration and sign-in\<close>

lemma sign_in_run:
  assumes "List.find (may_sign_in (lr_username req)) (w_actors s) = Some a" and "ar_auth_key_hash a = Some h"
    and "argon2_verify A (lr_auth_key req) h" and "\<not> totp_verified (a_id a) s" and "no_fault s"
  shows "\<exists>v. verify_credentials E A req s = (Inr (a_id a, a_username a, a_instance_role a, False), v)"
proof -
  have "query (\<lambda>s. List.find (may_sign_in (lr_username req)) (w_actors s)) s = (Inr (Some a), ticked s)"
    using assms(1,5) by (simp add: query_def stmt_def Let_def no_fault_def)
  moreover have "\<not> totp_verified (a_id a) (ticked s)" using assms(4) by (simp add: totp_verified_def)
  ultimately show ?thesis
    using assms(2,3) unfolding verify_credentials_def by (simp add: bindE_def totp_enrolled_run ret_def)
qed

lemma sign_in_refused:
  assumes "List.find (may_sign_in (lr_username req)) (w_actors s) = None" and "no_fault s"
  shows "fst (verify_credentials E A req s) = Inl Forbidden"
  using assms unfolding verify_credentials_def
  by (simp add: bindE_def query_def stmt_def Let_def no_fault_def ok_or_def throw_def)

lemma find_last: "(\<forall>x\<in>set xs. \<not> P x) \<Longrightarrow> List.find P (xs @ [y]) = (if P y then Some y else None)"
  by (induction xs) auto

lemma quiet_find_by_id [quiet_intros]: "quiet (find_by_id E i)"
  unfolding find_by_id_def by (intro quiet_intros)

lemma update_actors_Inr: "no_fault s \<Longrightarrow> update_actors P f s = (Inr (length (filter P (w_actors s))),
    (ticked s)\<lparr>w_actors := map (\<lambda>a. if P a then f (ticked s) a else a) (w_actors s)\<rparr>)"
  by (simp add: update_actors_def stmt_def Let_def no_fault_def)

lemma set_actor_status_tables:
  assumes "no_fault s"
  shows "\<exists>g. w_actors (snd (set_actor_status E i st s)) = map (\<lambda>a. if a_id a = i \<and> a_is_local a then g a else a) (w_actors s)
      \<and> g = (\<lambda>a. a\<lparr>a_status := st, a_updated_at := w_now s\<rparr>)"
    and "w_accounts (snd (set_actor_status E i st s)) = w_accounts s" and "no_fault (snd (set_actor_status E i st s))"
proof -
  let ?u = "snd (update_actors (\<lambda>a. a_id a = i \<and> a_is_local a) (\<lambda>s a. a\<lparr>a_status := st, a_updated_at := w_now s\<rparr>) s)"
  have "tables (snd (set_actor_status E i st s)) = tables ?u"
    using quiet_find_by_id [of E i] unfolding set_actor_status_def
    by (simp add: bindE_def update_actors_Inr [OF assms] quiet_def throw_def)
  note eq = tables_eqD [OF this]
  show "\<exists>g. w_actors (snd (set_actor_status E i st s)) = map (\<lambda>a. if a_id a = i \<and> a_is_local a then g a else a) (w_actors s)
      \<and> g = (\<lambda>a. a\<lparr>a_status := st, a_updated_at := w_now s\<rparr>)"
    and "w_accounts (snd (set_actor_status E i st s)) = w_accounts s" and "no_fault (snd (set_actor_status E i st s))"
    using eq assms by (simp_all add: update_actors_Inr no_fault_def)
qed

text \<open>What the sign-in of the account of a registration answers.\<close>

definition signs_in :: "('u, 'z) env_scheme \<Rightarrow> local_env \<Rightarrow> register_request \<Rightarrow> register_response \<Rightarrow> world \<Rightarrow> bool" where
  "signs_in E L req resp s = (fst (verify_credentials E (account_env.truncate L)
       \<lparr>lr_username = rq_username req, lr_auth_key = rq_auth_key req, lr_totp_code = None\<rparr> s)
     = Inr (rs_actor_id resp, rq_username req, RoleUser, False))"

definition sign_in_forbidden :: "('u, 'z) env_scheme \<Rightarrow> local_env \<Rightarrow> register_request \<Rightarrow> world \<Rightarrow> bool" where
  "sign_in_forbidden E L req s = (fst (verify_credentials E (account_env.truncate L)
       \<lparr>lr_username = rq_username req, lr_auth_key = rq_auth_key req, lr_totp_code = None\<rparr> s) = Inl Forbidden)"

text \<open>Argon2id verifies what it hashed.\<close>

definition argon2_correct :: "local_env \<Rightarrow> bool" where
  "argon2_correct L \<longleftrightarrow> (\<forall>salt key h. argon2_hash L salt key = Inr h \<longrightarrow> argon2_verify L key h)"

text \<open>What the schema keeps of a world: identifiers are below the counter, local rows are of the one domain.\<close>

definition accounts_fresh :: "string \<Rightarrow> world \<Rightarrow> bool" where
  "accounts_fresh domain s \<longleftrightarrow> (\<forall>r\<in>set (w_actors s). a_id r < w_next_id s \<and> (a_is_local r \<longrightarrow> a_domain r = domain))
     \<and> (\<forall>x\<in>set (at_totp (w_accounts s)). tt_actor x < w_next_id s)"

lemma created_role [simp]: "a_instance_role (created_row (created_actor p i now) k1 k2) = RoleUser"
  by (simp add: created_row_def created_actor_def actor.extend_def)

lemma new_account_signs_in:
  assumes "w_actors u = xs @ [b]" and "\<forall>a\<in>set xs. \<not> may_sign_in (rq_username req) a" and "may_sign_in (rq_username req) b"
    and "ar_auth_key_hash b = Some h" and "argon2_hash L salt (rq_auth_key req) = Inr h" and "argon2_correct L"
    and "\<not> totp_verified (a_id b) u" and "no_fault u" and "a_instance_role b = RoleUser" and "rs_actor_id resp = a_id b"
  shows "signs_in E L req resp u"
proof -
  let ?req = "\<lparr>lr_username = rq_username req, lr_auth_key = rq_auth_key req, lr_totp_code = None\<rparr>"
  have "argon2_verify (account_env.truncate L) (rq_auth_key req) h"
    using assms(5,6) by (simp add: argon2_correct_def account_env.truncate_def)
  moreover have "List.find (may_sign_in (rq_username req)) (w_actors u) = Some b"
    using find_last [OF assms(2), of b] assms(1,3) by simp
  moreover have "a_username b = rq_username req" using assms(3) by (simp add: may_sign_in_def)
  ultimately show ?thesis
    using sign_in_run [of ?req u b h "account_env.truncate L" E] assms by (auto simp: signs_in_def)
qed

text \<open>C29. An account registered on an open instance signs in with its key at once.  On an instance that asks
  for approval its sign-in is forbidden until a moderator makes it active, and then the same key opens it.\<close>

theorem registered_account_signs_in_once_admitted:
  assumes run: "register E L domain req s = (Inr resp, t)" and "accounts_fresh domain s"
    and "argon2_correct L" and "no_fault s"
  shows "if stored_mode s = RegApproval
    then sign_in_forbidden E L req t \<and> signs_in E L req resp (snd (set_actor_status E (rs_actor_id resp) StatusActive t))
    else signs_in E L req resp t"
proof -
  have fresh: "\<forall>r\<in>set (w_actors s). a_id r < w_next_id s" using assms(2) by (simp add: accounts_fresh_def)
  obtain h salt k1 k2 k r where "stored_mode s \<noteq> RegClosed" and h: "argon2_hash L salt (rq_auth_key req) = Inr h"
    and r: "r = (created_row (created_actor (new_actor_of Individual (rq_username req) (rq_display_name req) domain k)
        (w_next_id s) (w_now s)) k1 k2)\<lparr>ar_auth_key_hash := Some h, a_status := admitted_as (stored_mode s)\<rparr>"
    and t: "tables t = (tables s)\<lparr>w_actors := w_actors s @ [r]\<rparr>" and free: "\<not> holds_username domain (rq_username req) s"
    and resp: "resp = \<lparr>rs_actor_id = w_next_id s, rs_username = rq_username req, rs_ap_id = local_ap_id domain (rq_username req),
      rs_awaiting_approval = (stored_mode s = RegApproval)\<rparr>"
    by (rule register_Inr [OF run fresh])
  let ?req = "\<lparr>lr_username = rq_username req, lr_auth_key = rq_auth_key req, lr_totp_code = None\<rparr>"
  have acts: "w_actors t = w_actors s @ [r]" and acc: "w_accounts t = w_accounts s" and flt: "no_fault t"
    using arg_cong [OF t, of w_actors] arg_cong [OF t, of w_accounts] arg_cong [OF t, of w_fault] assms(4)
    by (simp_all add: no_fault_def)
  have none: "\<forall>a\<in>set (w_actors s). \<not> may_sign_in (rq_username req) a"
    using free assms(2) by (auto simp: may_sign_in_def holds_username_def accounts_fresh_def list_ex_iff)
  have totp: "\<not> totp_verified (w_next_id s) u" if "w_accounts u = w_accounts s" for u
    using assms(2) that by (auto simp: totp_verified_def accounts_fresh_def list_ex_iff)
  have ok: "signs_in E L req resp u" if "w_actors u = map g (w_actors s) @ [b]" "\<forall>a. a_id a \<noteq> w_next_id s \<longrightarrow> g a = a"
      "may_sign_in (rq_username req) b" "ar_auth_key_hash b = Some h" "a_id b = w_next_id s" "a_instance_role b = RoleUser"
      "w_accounts u = w_accounts s" "no_fault u" for u g b
  proof -
    have "map g (w_actors s) = w_actors s" using that(2) fresh by (intro map_idI) auto
    then show ?thesis
      using new_account_signs_in [OF _ none that(3,4) h assms(3), of u resp] totp [OF that(7)] that resp by simp
  qed
  show ?thesis
  proof (cases "stored_mode s = RegApproval")
    case False
    then show ?thesis using ok [of t id r] acts acc flt
      by (simp add: r may_sign_in_def admitted_as_def)
  next
    case True
    have "\<not> may_sign_in (rq_username req) r" using True by (simp add: r may_sign_in_def admitted_as_def)
    then have "List.find (may_sign_in (rq_username req)) (w_actors t) = None" using find_last [OF none, of r] acts by simp
    then have "sign_in_forbidden E L req t"
      using sign_in_refused [of ?req t E "account_env.truncate L"] flt by (simp add: sign_in_forbidden_def)
    moreover have "signs_in E L req resp (snd (set_actor_status E (w_next_id s) StatusActive t))"
      using set_actor_status_tables [OF flt, of E "w_next_id s" StatusActive] acts acc
      by (intro ok [of _ "\<lambda>a. if a_id a = w_next_id s \<and> a_is_local a then a\<lparr>a_status := StatusActive, a_updated_at := w_now t\<rparr> else a"
            "r\<lparr>a_status := StatusActive, a_updated_at := w_now t\<rparr>"])
        (auto simp: r may_sign_in_def)
    ultimately show ?thesis using True resp by simp
  qed
qed

theorem registered_account_signs_in_once_admitted_witness:
  "\<exists>resp t. register sample_env sample_local_env ''home.example'' carol_request (open_world ''approval'') = (Inr resp, t)
     \<and> sign_in_forbidden sample_env sample_local_env carol_request t
     \<and> signs_in sample_env sample_local_env carol_request resp
         (snd (set_actor_status sample_env (rs_actor_id resp) StatusActive t))"
proof -
  obtain resp t where run: "register sample_env sample_local_env ''home.example'' carol_request (open_world ''approval'') = (Inr resp, t)"
    using sample_registration not_isl_fst by blast
  moreover have "accounts_fresh ''home.example'' (open_world ''approval'')"
    by (simp add: accounts_fresh_def open_world_def sample_world_def sample_accounts_def sample_rows)
  moreover have "argon2_correct sample_local_env" by (simp add: argon2_correct_def)
  moreover have "no_fault (open_world ''approval'')" "stored_mode (open_world ''approval'') = RegApproval"
    by (simp_all add: no_fault_def open_world_def sample_world_def stored_mode_def sample_settings_def mode_from_stored_def)
  ultimately show ?thesis
    using registered_account_signs_in_once_admitted [OF run] by auto
qed

text \<open>C30. A registration or an enrolment that fails, at whatever step and for whatever reason, has written
  to no table.\<close>

theorem failed_registration_leaves_no_trace:
  assumes "register E L domain req s = (Inl e, t) \<or> enrol_organization E L domain owner username name claimed kind s = (Inl e, t)"
  shows "tables t = tables s"
  using assms atomicD [OF atomic_register] atomicD [OF atomic_enrol] by blast

theorem failed_registration_leaves_no_trace_witness:
  "\<exists>e t. register sample_env sample_local_env ''home.example'' (carol_request\<lparr>rq_username := ''alice''\<rparr>) (open_world ''open'') = (Inl e, t)
     \<and> tables t = tables (open_world ''open'')"
proof -
  have "isl (fst (register sample_env sample_local_env ''home.example'' (carol_request\<lparr>rq_username := ''alice''\<rparr>) (open_world ''open'')))"
    by code_simp
  then obtain e t where "register sample_env sample_local_env ''home.example'' (carol_request\<lparr>rq_username := ''alice''\<rparr>) (open_world ''open'') = (Inl e, t)"
    by (cases "register sample_env sample_local_env ''home.example'' (carol_request\<lparr>rq_username := ''alice''\<rparr>) (open_world ''open'')")
      (auto elim: isl_def [THEN iffD1, THEN exE])
  then show ?thesis using failed_registration_leaves_no_trace by blast
qed

end
