(* ===== verification/OrgClaims.thy ===== *)
theory OrgClaims
  imports LocalClaims
begin

text \<open>
  The properties of organisations: the ceilings on their number, who becomes a member, and what
  becomes of the claims of employment they confirm.
\<close>

section \<open>The ceilings\<close>

lemma stored_policy_cong: "w_accounts t = w_accounts s \<Longrightarrow> stored_policy t = stored_policy s"
  by (simp add: stored_policy_def)

lemma held_cong: "w_accounts t = w_accounts s \<Longrightarrow> organizations_held i t = organizations_held i s"
  by (simp add: organizations_held_def)

lemma since_cong: "w_accounts t = w_accounts s \<Longrightarrow> enrolments_since i w t = enrolments_since i w s"
  by (simp add: enrolments_since_def)

lemma quiet_enrolments [quiet_intros]: "quiet (enrolments_within L i p)"
  by (auto simp: quiet_def enrolments_within_def stmt_def Let_def split: option.splits)

lemma enrolments_within_Inr:
  assumes "enrolments_within L i p s = (Inr n, t)"
  shows "\<exists>w. window_start L (w_now s) (interval_args p) = Some w \<and> n = enrolments_since i w s"
  using assms by (auto simp: enrolments_within_def stmt_def Let_def enrolments_since_def split: if_splits option.splits)

lemma quiet_ceiling [quiet_intros]: "quiet m \<Longrightarrow> quiet (ceiling c m f)"
  unfolding ceiling_def by (intro quiet_intros)

lemma ceiling_Inr: "ceiling c m f s = (Inr (), t) \<Longrightarrow> 0 < c \<Longrightarrow> \<exists>n u. m s = (Inr n, u) \<and> n < c"
  by (auto simp: ceiling_def bindE_Inr split: if_splits)

lemma quiet_policy [quiet_intros]: "quiet (enforce_organization_policy L i)"
  unfolding enforce_organization_policy_def by (intro quiet_intros)

text \<open>What the ceilings ask of an owner.\<close>

definition below :: "local_env \<Rightarrow> uuid \<Rightarrow> int \<Rightarrow> period \<Rightarrow> world \<Rightarrow> bool" where
  "below L i c p s \<longleftrightarrow> (0 < c \<longrightarrow>
     (\<exists>w. window_start L (w_now s) (interval_args p) = Some w \<and> enrolments_since i w s < c))"

definition has_room :: "local_env \<Rightarrow> uuid \<Rightarrow> organization_policy \<Rightarrow> world \<Rightarrow> bool" where
  "has_room L i p s \<longleftrightarrow> op_enabled p
     \<and> (0 < op_concurrent_cap p \<longrightarrow> organizations_held i s < op_concurrent_cap p)
     \<and> below L i (op_period_cap_count p) (op_cap_period p) s
     \<and> below L i (op_rate_limit_count p) (op_rate_limit_period p) s"

lemma below_ceiling:
  assumes "ceiling c (enrolments_within L i p) f u = (Inr (), t)" and "tables u = tables s"
  shows "below L i c p s"
  using ceiling_Inr [OF assms(1)] enrolments_within_Inr tables_eqD(2,4) [OF assms(2)] since_cong
  unfolding below_def by metis

lemma enforce_Inr:
  assumes "enforce_organization_policy L i s = (Inr (), t)"
  shows "has_room L i (stored_policy s) s"
proof -
  let ?p = "stored_policy s"
  have p: "stored_policy (ticked s) = ?p" by (rule stored_policy_cong) simp
  obtain u1 u2 u3 where en: "op_enabled ?p"
    and c1: "ceiling (op_concurrent_cap ?p) (query (organizations_held i)) (\<lambda>held. held_text held (op_concurrent_cap ?p)) u1 = (Inr (), u2)"
    and c2: "ceiling (op_period_cap_count ?p) (enrolments_within L i (op_cap_period ?p))
        (\<lambda>recent. period_text recent (op_cap_period ?p) (op_period_cap_count ?p)) u2 = (Inr (), u3)"
    and c3: "ceiling (op_rate_limit_count ?p) (enrolments_within L i (op_rate_limit_period ?p))
        (\<lambda>recent. rate_text (op_rate_limit_count ?p) (op_rate_limit_period ?p)) u3 = (Inr (), t)"
    and u1: "tables u1 = tables s"
    using assms p by (auto simp: enforce_organization_policy_def bindE_Inr query_Inr execute_Inr split: if_splits)
  have u2: "tables u2 = tables s" using quietD [OF quiet_ceiling [OF quiet_query] c1] u1 by simp
  have u3: "tables u3 = tables s" using quietD [OF quiet_ceiling [OF quiet_enrolments] c2] u2 by simp
  have "organizations_held i s < op_concurrent_cap ?p" if pos: "0 < op_concurrent_cap ?p"
  proof -
    obtain n u where "query (organizations_held i) u1 = (Inr n, u)" "n < op_concurrent_cap ?p"
      using ceiling_Inr [OF c1 pos] by blast
    moreover have "w_accounts (ticked u1) = w_accounts s" using tables_eqD(2) [OF u1] by simp
    ultimately show ?thesis using held_cong [of "ticked u1" s i] by (auto simp: query_Inr)
  qed
  then show ?thesis using en below_ceiling [OF c2 u2] below_ceiling [OF c3 u3] by (simp add: has_room_def)
qed

text \<open>What the rest of an enrolment writes.\<close>

lemma create_actor_tables:
  assumes "create_actor E p s = (Inr a, t)"
  shows "w_accounts t = w_accounts s" "w_now t = w_now s"
proof -
  obtain u made where "create_actor_on E p s = (Inr made, u)" "made = Some a" "t = u"
    using assms by (auto simp: create_actor_def bindE_Inr ok_or_Inr)
  then have "create_actor_on E p s = (Inr (Some a), t)" by simp
  then obtain r where t: "tables t = (tables s)\<lparr>w_actors := w_actors s @ [r]\<rparr>"
    by (rule create_actor_on_Some)
  show "w_accounts t = w_accounts s" "w_now t = w_now s"
    using arg_cong [OF t, of w_accounts] arg_cong [OF t, of w_now] by simp_all
qed

lemma update_row_Inr:
  assumes "execute (update_actor_row i f) s = (Inr x, t)"
  shows "w_accounts t = w_accounts s \<and> w_now t = w_now s"
  using assms by (simp add: execute_Inr update_actor_row_def)

lemma claim_domain_Inr:
  assumes "claim_domain L i claimed s = (Inr x, t)"
  shows "w_accounts t = w_accounts s \<and> w_now t = w_now s"
  using assms update_row_Inr by (auto simp: claim_domain_def bindE_Inr ok_or_Inr split: option.splits)

lemma enrolment_rows:
  assumes "bindE (insert_owner org owner) (\<lambda>_. bindE (insert_enrolment owner org) (\<lambda>_. ret a)) s = (Inr b, t)"
  shows "at_members (w_accounts t) = at_members (w_accounts s)
       @ [\<lparr>om_organization = org, om_member = owner, om_role = ''owner'', om_accepted_at = Some (w_now s)\<rparr>]"
    and "at_enrolments (w_accounts t) = at_enrolments (w_accounts s)
       @ [\<lparr>oe_owner = owner, oe_organization = Some org, oe_created_at = w_now s\<rparr>]"
  using assms by (auto simp: bindE_Inr insert_owner_def insert_enrolment_def on_accounts_def execute_if_Inr)

lemma enrol_Inr:
  assumes "enrol_organization E L domain owner username name claimed kind s = (Inr a, t)"
  shows "has_room L owner (stored_policy s) s"
    and "\<exists>org. at_members (w_accounts t) = at_members (w_accounts s)
       @ [\<lparr>om_organization = org, om_member = owner, om_role = ''owner'', om_accepted_at = Some (w_now s)\<rparr>]
     \<and> at_enrolments (w_accounts t) = at_enrolments (w_accounts s)
       @ [\<lparr>oe_owner = owner, oe_organization = Some org, oe_created_at = w_now s\<rparr>]"
proof -
  obtain k u v b where k: "generate_keypair E L (ticked s) = (Inr k, u)"
    and tr: "transaction_reporting (bindE (enforce_organization_policy L owner) (\<lambda>_.
        bindE (create_actor E (new_actor_of Organization username name domain k)) (\<lambda>a.
        bindE (claim_domain L (a_id a) claimed) (\<lambda>_.
        bindE (case kind of None \<Rightarrow> ret ()
               | Some kind \<Rightarrow> execute (update_actor_row (a_id a) (\<lambda>r. r\<lparr>a_org_kind := Some kind\<rparr>))) (\<lambda>_.
        bindE (insert_owner (a_id a) owner) (\<lambda>_.
        bindE (insert_enrolment owner (a_id a)) (\<lambda>_. ret a))))))) u = (Inr b, v)" and v: "t = v"
    using assms by (auto simp: enrol_organization_def bindE_Inr username_taken_def query_Inr of_result_ends split: if_splits)
  obtain w where body: "bindE (enforce_organization_policy L owner) (\<lambda>_.
        bindE (create_actor E (new_actor_of Organization username name domain k)) (\<lambda>a.
        bindE (claim_domain L (a_id a) claimed) (\<lambda>_.
        bindE (case kind of None \<Rightarrow> ret ()
               | Some kind \<Rightarrow> execute (update_actor_row (a_id a) (\<lambda>r. r\<lparr>a_org_kind := Some kind\<rparr>))) (\<lambda>_.
        bindE (insert_owner (a_id a) owner) (\<lambda>_.
        bindE (insert_enrolment owner (a_id a)) (\<lambda>_. ret a)))))) (ticked u) = (Inr b, w)" and w: "tables t = tables w"
    by (rule transaction_reporting_Inr [OF tr]) (simp add: v)
  have u: "tables (ticked u) = tables s" using quietD [OF quiet_keypair k] by simp
  obtain x1 o1 x2 x3 x4 where e: "enforce_organization_policy L owner (ticked u) = (Inr (), x1)"
    and c: "create_actor E (new_actor_of Organization username name domain k) x1 = (Inr o1, x2)"
    and d: "claim_domain L (a_id o1) claimed x2 = (Inr (), x3)"
    and o: "(case kind of None \<Rightarrow> ret ()
               | Some kind \<Rightarrow> execute (update_actor_row (a_id o1) (\<lambda>r. r\<lparr>a_org_kind := Some kind\<rparr>))) x3 = (Inr (), x4)"
    and r: "bindE (insert_owner (a_id o1) owner) (\<lambda>_. bindE (insert_enrolment owner (a_id o1)) (\<lambda>_. ret o1)) x4 = (Inr b, w)"
    using body by (auto simp: bindE_Inr)
  have x1: "tables x1 = tables s" using quietD [OF quiet_policy e] u by simp
  have x4: "w_accounts x4 = w_accounts s \<and> w_now x4 = w_now s"
    using create_actor_tables [OF c] claim_domain_Inr [OF d] update_row_Inr o tables_eqD(2,4) [OF x1]
    by (cases kind) fastforce+
  have "has_room L owner (stored_policy (ticked u)) (ticked u)" by (rule enforce_Inr [OF e])
  then show "has_room L owner (stored_policy s) s"
    using tables_eqD(2,4) [OF u] stored_policy_cong [of "ticked u" s] held_cong [of "ticked u" s] since_cong [of "ticked u" s]
    by (simp add: has_room_def below_def)
  show "\<exists>org. at_members (w_accounts t) = at_members (w_accounts s)
       @ [\<lparr>om_organization = org, om_member = owner, om_role = ''owner'', om_accepted_at = Some (w_now s)\<rparr>]
     \<and> at_enrolments (w_accounts t) = at_enrolments (w_accounts s)
       @ [\<lparr>oe_owner = owner, oe_organization = Some org, oe_created_at = w_now s\<rparr>]"
    using enrolment_rows [OF r] x4 tables_eqD(2) [OF w] by (intro exI [of _ "a_id o1"]) simp
qed

text \<open>C31. An enrolment that succeeds adds one to what its owner holds, and stays within every ceiling that
  is switched on: the number held at once, and the numbers enrolled in the two windows.\<close>

theorem enrolment_stays_within_ceilings:
  assumes "enrol_organization E L domain owner username name claimed kind s = (Inr a, t)" and "p = stored_policy s"
  shows "op_enabled p \<and> organizations_held owner t = organizations_held owner s + 1
    \<and> (0 < op_concurrent_cap p \<longrightarrow> organizations_held owner t \<le> op_concurrent_cap p)
    \<and> (\<forall>(c, q) \<in> {(op_period_cap_count p, op_cap_period p), (op_rate_limit_count p, op_rate_limit_period p)}. 0 < c \<longrightarrow>
         (\<exists>w. window_start L (w_now s) (interval_args q) = Some w \<and> enrolments_since owner w t \<le> c))"
proof -
  obtain org where m: "at_members (w_accounts t) = at_members (w_accounts s)
       @ [\<lparr>om_organization = org, om_member = owner, om_role = ''owner'', om_accepted_at = Some (w_now s)\<rparr>]"
     and e: "at_enrolments (w_accounts t) = at_enrolments (w_accounts s)
       @ [\<lparr>oe_owner = owner, oe_organization = Some org, oe_created_at = w_now s\<rparr>]"
    using enrol_Inr(2) [OF assms(1)] by blast
  have "organizations_held owner t = organizations_held owner s + 1" by (simp add: organizations_held_def m)
  moreover have "enrolments_since owner w t \<le> enrolments_since owner w s + 1" for w by (simp add: enrolments_since_def e)
  then have "enrolments_since owner w t \<le> c" if "enrolments_since owner w s < c" for w c using that by (smt (verit))
  ultimately show ?thesis
    using enrol_Inr(1) [OF assms(1)] unfolding has_room_def below_def assms(2) by auto
qed

definition sample_enrolment :: "actor result \<times> world" where
  "sample_enrolment = enrol_organization sample_env sample_local_env ''home.example'' 1 ''acme'' None None (Some Employer) (open_world ''open'')"

lemma sample_enrolment_ok: "\<not> isl (fst sample_enrolment)"
  by code_simp

theorem enrolment_stays_within_ceilings_witness:
  "organizations_held 1 (snd sample_enrolment) = organizations_held 1 (open_world ''open'') + 1"
proof -
  obtain a t where run: "sample_enrolment = (Inr a, t)" using sample_enrolment_ok not_isl_fst by blast
  show ?thesis
    using enrolment_stays_within_ceilings [OF run [unfolded sample_enrolment_def] refl] by (simp add: run)
qed

section \<open>Membership\<close>

text \<open>The three requests that change who belongs to an organisation.\<close>

datatype membership_request =
    Invites "viewer option" uuid string
  | Accepts "viewer option" uuid
  | Removes "viewer option" uuid string

primrec membership :: "('u, 'z) env_scheme \<Rightarrow> membership_request \<Rightarrow> unit prog" where
  "membership E (Invites viewer organization_id username) = invite_member E viewer organization_id username"
| "membership E (Accepts viewer organization_id) = accept_invitation viewer organization_id"
| "membership E (Removes viewer organization_id username) = remove_member E viewer organization_id username"

definition memberships :: "('u, 'z) env_scheme \<Rightarrow> membership_request list \<Rightarrow> world \<Rightarrow> world" where
  "memberships E reqs s = fold (\<lambda>r s. snd (membership E r s)) reqs s"

lemma memberships_snoc [simp]: "memberships E (rs @ [r]) s = snd (membership E r (memberships E rs s))"
  by (simp add: memberships_def)

lemma memberships_Nil [simp]: "memberships E [] s = s"
  by (simp add: memberships_def)

abbreviation members :: "world \<Rightarrow> member_row list" where
  "members s \<equiv> at_members (w_accounts s)"

definition listed_member :: "uuid \<Rightarrow> uuid \<Rightarrow> world \<Rightarrow> bool" where
  "listed_member organization i s = list_ex (is_member_row organization i) (members s)"

text \<open>Who may invite: the organisation's own account, or an owner of it.\<close>

definition owns :: "uuid \<Rightarrow> uuid \<Rightarrow> world \<Rightarrow> bool" where
  "owns organization i s = (i = organization \<or> member_role organization i s = Some ''owner'')"

lemma quiet_find_local [quiet_intros]: "quiet (find_local_by_username E u)"
  unfolding find_local_by_username_def by (intro quiet_intros)

lemma quiet_role [quiet_intros]: "quiet (member_role_of org i)"
  unfolding member_role_of_def by (intro quiet_intros)

lemma quiet_owner [quiet_intros]: "quiet (require_owner org i)"
  unfolding require_owner_def by (intro quiet_intros)

lemma quiet_viewer [quiet_intros]: "quiet (require_viewer v)"
  unfolding require_viewer_def by (intro quiet_intros)

lemma require_owner_Inr:
  assumes "require_owner org i s = (Inr (), t)"
  shows "owns org i s"
proof (cases "i = org")
  case False
  then obtain role u where r: "member_role_of org i s = (Inr (Some OrgOwner), u)"
    using assms by (auto simp: require_owner_def bindE_Inr split: if_splits)
  then obtain role_text where "member_role org i (ticked s) = Some role_text" "organization_role_of role_text = Some OrgOwner"
    by (auto simp: member_role_of_def bindE_Inr query_Inr ok_or_Inr split: option.splits)
  then show ?thesis by (simp add: owns_def member_role_def organization_role_of_def split: if_splits)
qed (simp add: owns_def)

text \<open>A quiet program in front: what holds of every world with the same tables is left to the rest.\<close>

lemma after_quiet:
  assumes "quiet m" and "\<And>u. tables u = tables s \<Longrightarrow> Q u"
    and "\<And>x u. m s = (Inr x, u) \<Longrightarrow> tables u = tables s \<Longrightarrow> Q (snd (f x u))"
  shows "Q (snd (bindE m f s))"
  using assms quietD [OF assms(1)] by (cases "m s") (auto simp: bindE_def split: sum.splits)

lemma tables_members: "tables u = tables s \<Longrightarrow> members u = members s"
  by (metis tables_eqD(2))

lemma owns_cong: "w_accounts t = w_accounts s \<Longrightarrow> owns org i t = owns org i s"
  by (simp add: owns_def member_role_def)

definition invited :: "viewer option \<Rightarrow> uuid \<Rightarrow> world \<Rightarrow> world \<Rightarrow> bool" where
  "invited viewer org s t \<longleftrightarrow> members t = members s \<or> (\<exists>v i. viewer = Some v \<and> owns org (v_actor_id v) s
    \<and> members t = members s @ [\<lparr>om_organization = org, om_member = i, om_role = ''recruiter'', om_accepted_at = None\<rparr>])"

lemma insert_invitation_members: "members (snd (insert_invitation org i u)) = members u
    \<or> members (snd (insert_invitation org i u)) = members u
        @ [\<lparr>om_organization = org, om_member = i, om_role = ''recruiter'', om_accepted_at = None\<rparr>]"
  by (simp add: insert_invitation_def stmt_def Let_def on_accounts_def)

lemma bind_members: "(\<And>x u. members (snd (f x u)) = members u) \<Longrightarrow> members (snd (bindE m f s)) = members (snd (m s))"
  by (auto simp: bindE_def split: prod.splits sum.splits)

lemma invite_step: "invited viewer org s (snd (invite_member E viewer org u s))"
proof (cases viewer)
  case None
  then show ?thesis by (simp add: invite_member_def require_viewer_def) (simp add: invited_def throw_def)
next
  case (Some v)
  have same: "invited viewer org s w" if "tables w = tables s" for w
    using tables_members [OF that] by (simp add: invited_def)
  show ?thesis
    unfolding invite_member_def require_viewer_def Some ok_or_simps bindE_ret
  proof (rule after_quiet [where Q = "invited (Some v) org s", OF quiet_owner same [unfolded Some]], assumption)
    fix y w
    assume "require_owner org (v_actor_id v) s = (Inr y, w)" and w: "tables w = tables s"
    then have owner: "require_owner org (v_actor_id v) s = (Inr (), w)" by simp
    show "invited (Some v) org s (snd (bindE (find_local_by_username E (trim u)) (\<lambda>invitee.
      if a_type invitee \<noteq> Individual
      then throw (BadRequest ''only a person can be invited to act for an organisation'')
      else if a_id invitee = org
      then throw (BadRequest ''an organisation cannot be invited to act for itself'')
      else
        bindE (insert_invitation org (a_id invitee)) (\<lambda>n.
        if n = 0 then throw (BadRequest ''that account is already a member of this organisation, or already invited'')
        else ret ())) w))"
    proof (rule after_quiet [where Q = "invited (Some v) org s", OF quiet_find_local])
      fix x assume "tables x = tables w"
      then show "invited (Some v) org s x" using same w Some by simp
    next
      fix a x assume x: "tables x = tables w"
      have "members (snd (bindE (insert_invitation org (a_id a)) (\<lambda>n.
          if n = 0 then throw (BadRequest ''that account is already a member of this organisation, or already invited'')
          else ret ()) x)) = members (snd (insert_invitation org (a_id a) x))"
        by (rule bind_members) (simp add: throw_def ret_def)
      moreover have "members x = members s" using tables_members [of x s] x w by simp
      ultimately show "invited (Some v) org s (snd ((if a_type a \<noteq> Individual
        then throw (BadRequest ''only a person can be invited to act for an organisation'')
        else if a_id a = org
        then throw (BadRequest ''an organisation cannot be invited to act for itself'')
        else
          bindE (insert_invitation org (a_id a)) (\<lambda>n.
          if n = 0 then throw (BadRequest ''that account is already a member of this organisation, or already invited'')
          else ret ())) x))"
        using insert_invitation_members [of org "a_id a" x] require_owner_Inr [OF owner]
        by (auto simp: invited_def throw_def)
    qed
  qed
qed

lemma accept_step:
  "members (snd (accept_invitation viewer org s)) = members s \<or> (\<exists>v. viewer = Some v
     \<and> members (snd (accept_invitation viewer org s)) = map (\<lambda>m. if outstanding org (v_actor_id v) m
         then m\<lparr>om_accepted_at := Some (w_now s)\<rparr> else m) (members s))"
proof (cases viewer)
  case None
  then show ?thesis by (simp add: accept_invitation_def require_viewer_def) (simp add: throw_def)
next
  case (Some v)
  have "members (snd (accept_invitation viewer org s)) = members (snd (accept_stmt org (v_actor_id v) s))"
    unfolding accept_invitation_def require_viewer_def Some ok_or_simps bindE_ret
    by (rule bind_members) (simp add: throw_def ret_def)
  moreover have "members (snd (accept_stmt org i s)) = members s \<or> members (snd (accept_stmt org i s)) =
      map (\<lambda>m. if outstanding org i m then m\<lparr>om_accepted_at := Some (w_now s)\<rparr> else m) (members s)" for i
    by (simp add: accept_stmt_def stmt_def Let_def on_accounts_def)
  ultimately show ?thesis using Some by simp
qed

definition dismissed :: "world \<Rightarrow> world \<Rightarrow> bool" where
  "dismissed s t \<longleftrightarrow> (\<exists>P. members t = filter P (members s) \<and> (\<forall>m. om_role m = ''owner'' \<longrightarrow> P m))"

lemma dismissed_same: "tables t = tables s \<Longrightarrow> dismissed s t"
  using tables_members [of t s] by (auto simp: dismissed_def intro: exI [of _ "\<lambda>m. True"])

lemma dismissed_cong: "tables u = tables s \<Longrightarrow> dismissed u t \<Longrightarrow> dismissed s t"
  using tables_members [of u s] by (simp add: dismissed_def)

lemma remove_stmt_members: "dismissed s (snd (remove_stmt org i s))"
  by (auto simp: dismissed_def remove_stmt_def stmt_def Let_def on_accounts_def removable_def
      intro: exI [of _ "\<lambda>m. True"] exI [of _ "\<lambda>m. \<not> removable org i m"])

lemma remove_step: "dismissed s (snd (remove_member E viewer org u s))"
proof (cases viewer)
  case None
  then show ?thesis by (simp add: remove_member_def require_viewer_def) (simp add: throw_def dismissed_same)
next
  case (Some v)
  show ?thesis
    unfolding remove_member_def require_viewer_def Some ok_or_simps bindE_ret
  proof (rule after_quiet [where Q = "dismissed s", OF quiet_find_local dismissed_same], assumption)
    fix a w assume w: "tables w = tables s"
    have m: "quiet (if a_id a \<noteq> v_actor_id v then require_owner org (v_actor_id v) else ret ())"
      by (intro quiet_intros)
    show "dismissed s (snd (bindE (if a_id a \<noteq> v_actor_id v then require_owner org (v_actor_id v) else ret ()) (\<lambda>_.
        bindE (remove_stmt org (a_id a)) (\<lambda>n.
        if n = 0 then throw (ActorNotFound ''no removable membership for that account in this organisation'') else ret ())) w))"
    proof (rule after_quiet [where Q = "dismissed s", OF m])
      fix x assume "tables x = tables w"
      then show "dismissed s x" using w by (simp add: dismissed_same)
    next
      fix y x assume x: "tables x = tables w"
      have "members (snd (bindE (remove_stmt org (a_id a)) (\<lambda>n.
        if n = 0 then throw (ActorNotFound ''no removable membership for that account in this organisation'') else ret ()) x))
        = members (snd (remove_stmt org (a_id a) x))"
        by (rule bind_members) (simp add: throw_def ret_def)
      then show "dismissed s (snd (bindE (remove_stmt org (a_id a)) (\<lambda>n.
        if n = 0 then throw (ActorNotFound ''no removable membership for that account in this organisation'') else ret ()) x))"
        using dismissed_cong [OF _ remove_stmt_members [of x org "a_id a"], of s] x w by (simp add: dismissed_def)
    qed
  qed
qed

text \<open>What one request can do to the table.\<close>

lemma membership_listed:
  assumes "listed_member org i (snd (membership E r s))" and "\<not> listed_member org i s"
  shows "\<exists>v u. r = Invites (Some v) org u \<and> owns org (v_actor_id v) s"
proof (cases r)
  case (Invites viewer o' u)
  then show ?thesis
    using assms invite_step [of viewer o' s E u]
    by (auto simp: invited_def listed_member_def is_member_row_def)
next
  case (Accepts viewer o')
  then show ?thesis
    using assms accept_step [of viewer o' s]
    by (auto simp: listed_member_def is_member_row_def list_ex_iff split: if_splits) blast+
next
  case (Removes viewer o' u)
  then show ?thesis
    using assms remove_step [of s E viewer o' u]
    by (auto simp: dismissed_def listed_member_def list_ex_iff)
qed

lemma membership_accepted:
  assumes "is_member org i (snd (membership E r s))" and "\<not> is_member org i s"
  shows "(\<exists>v. r = Accepts (Some v) org \<and> v_actor_id v = i) \<and> listed_member org i s"
proof (cases r)
  case (Invites viewer o' u)
  then show ?thesis
    using assms invite_step [of viewer o' s E u]
    by (auto simp: invited_def is_member_def list_ex_iff)
next
  case (Accepts viewer o')
  then show ?thesis
    using assms accept_step [of viewer o' s]
    by (auto simp: is_member_def listed_member_def list_ex_iff outstanding_def is_member_row_def split: if_splits) blast+
next
  case (Removes viewer o' u)
  then show ?thesis
    using assms remove_step [of s E viewer o' u]
    by (auto simp: dismissed_def is_member_def list_ex_iff)
qed

lemma membership_owner:
  assumes "m \<in> set (members s)" and "om_role m = ''owner''" and "om_accepted_at m \<noteq> None"
  shows "m \<in> set (members (snd (membership E r s)))"
proof (cases r)
  case (Invites viewer o' u)
  then show ?thesis
    using assms invite_step [of viewer o' s E u] by (auto simp: invited_def)
next
  case (Accepts viewer o')
  then show ?thesis
    using assms accept_step [of viewer o' s]
    by (force simp: outstanding_def)
next
  case (Removes viewer o' u)
  then show ?thesis
    using assms remove_step [of s E viewer o' u] by (auto simp: dismissed_def)
qed

lemma listed_was_invited:
  assumes "listed_member org i (memberships E rs s)" and "\<not> listed_member org i s"
  shows "\<exists>pre v u post. rs = pre @ Invites (Some v) org u # post \<and> owns org (v_actor_id v) (memberships E pre s)"
  using assms(1)
proof (induction rs rule: rev_induct)
  case Nil
  then show ?case using assms(2) by simp
next
  case (snoc r rs)
  show ?case
  proof (cases "listed_member org i (memberships E rs s)")
    case True
    then show ?thesis using snoc.IH by fastforce
  next
    case False
    then show ?thesis using membership_listed [of org i E r "memberships E rs s"] snoc.prems by fastforce
  qed
qed


definition alice_viewer :: viewer where
  "alice_viewer = \<lparr>v_actor_id = 1, v_username = ''alice'', v_instance_role = RoleUser, v_actor_status = StatusActive\<rparr>"

definition dave_viewer :: viewer where
  "dave_viewer = \<lparr>v_actor_id = 4, v_username = ''dave'', v_instance_role = RoleUser, v_actor_status = StatusActive\<rparr>"

definition acme_world :: world where
  "acme_world = (open_world ''open'')\<lparr>w_actors := [alice, alice\<lparr>a_id := 3, a_username := ''acme'', a_type := Organization\<rparr>,
       alice\<lparr>a_id := 4, a_username := ''dave''\<rparr>],
     w_accounts := sample_accounts\<lparr>at_members := [\<lparr>om_organization = 3, om_member = 1, om_role = ''owner'',
       om_accepted_at = Some 1\<rparr>]\<rparr>\<rparr>"

definition sample_requests :: "membership_request list" where
  "sample_requests = [Invites (Some alice_viewer) 3 ''dave'', Accepts (Some dave_viewer) 3]"


end
