(* ===== verification/ProfileClaims.thy ===== *)
theory ProfileClaims
  imports OrgClaims
begin

text \<open>
  The properties of profiles: who confirms a claim of employment, what editing it does to the
  confirmation, and what a list shows to whom.
\<close>

section \<open>Confirmed claims\<close>

text \<open>The requests that touch claims of employment, by their owners and by the organisations they name.\<close>

datatype claim_request =
    CreatesClaim uuid new_work_experience
  | EditsClaim uuid uuid update_work_request
  | DeletesClaim uuid uuid
  | ConfirmsClaim "viewer option" uuid uuid
  | WithdrawsClaim "viewer option" uuid uuid

primrec claim_step :: "profile_env \<Rightarrow> claim_request \<Rightarrow> world \<Rightarrow> world" where
  "claim_step P (CreatesClaim owner params) s = snd (create_work_experience P owner params s)"
| "claim_step P (EditsClaim owner i params) s = snd (update_work_experience P owner i params s)"
| "claim_step P (DeletesClaim owner i) s = snd (delete_work_experience owner i s)"
| "claim_step P (ConfirmsClaim viewer org i) s = snd (confirm_employment_route P viewer org i s)"
| "claim_step P (WithdrawsClaim viewer org i) s = snd (withdraw_employment_route P viewer org i s)"

definition claim_run :: "profile_env \<Rightarrow> claim_request list \<Rightarrow> world \<Rightarrow> world" where
  "claim_run P rs s = fold (claim_step P) rs s"

lemma claim_run_simps [simp]:
  "claim_run P [] s = s" "claim_run P (rs @ [r]) s = claim_step P r (claim_run P rs s)"
  by (simp_all add: claim_run_def)

text \<open>The claims that stand confirmed, with the organisation that each names.\<close>

definition claims_in :: "work_row set \<Rightarrow> (uuid \<times> uuid) set" where
  "claims_in X = {(sr_id x, org) | x org. x \<in> X \<and> is_confirmed x \<and> wx_organization_id x = Some org}"

definition confirmed_claims :: "world \<Rightarrow> (uuid \<times> uuid) set" where
  "confirmed_claims s = claims_in (set (work_rows s))"

lemma claims_in_mono: "X \<subseteq> Y \<Longrightarrow> claims_in X \<subseteq> claims_in Y"
  by (auto simp: claims_in_def)

lemma tables_work: "tables u = tables s \<Longrightarrow> work_rows u = work_rows s"
  by (metis tables_eqD(6))

lemma confirmed_cong: "tables u = tables s \<Longrightarrow> confirmed_claims u = confirmed_claims s"
  using tables_work [of u s] by (simp add: confirmed_claims_def)

lemma confirmed_same: "tables u = tables s \<Longrightarrow> confirmed_claims u \<subseteq> confirmed_claims s"
  using confirmed_cong [of u s] by simp

lemma put_work_rows [simp]: "work_rows (put_work xs s) = xs"
  by (simp add: put_work_def on_profile_def)

lemma work_rows_tick [simp]: "work_rows (s\<lparr>w_tick := n\<rparr>) = work_rows s"
  by simp

lemma updating_rows:
  "work_rows (snd (updating Q check f work_rows put_work s)) = work_rows s
   \<or> work_rows (snd (updating Q check f work_rows put_work s)) = map (\<lambda>x. if Q x then f x else x) (work_rows s)"
  by (auto simp: updating_def stmt_def Let_def split: option.split)

lemma updating_Inr:
  "updating Q check f work_rows put_work s = (Inr y, t) \<Longrightarrow> \<exists>x\<in>set (work_rows s). Q x \<and> y = f x"
  by (auto simp: updating_def stmt_def Let_def split: if_splits option.splits dest!: find_SomeD)

lemma quiet_render [quiet_intros]: "quiet (render_optional_markdown P v)"
  unfolding render_optional_markdown_def by (intro quiet_intros)

lemma quiet_org_id [quiet_intros]: "quiet (organization_ap_id v)"
  unfolding organization_ap_id_def by (intro quiet_intros)

lemma quiet_visibility [quiet_intros]: "quiet (check_visibility v)"
  unfolding check_visibility_def by (intro quiet_intros)

lemma quiet_acts_for [quiet_intros]: "quiet (require_acts_for org viewer)"
  unfolding require_acts_for_def by (intro quiet_intros)

text \<open>What the statement after the reads does, whatever the reads answer.\<close>

lemma edit_confirms_nothing:
  assumes "current \<in> set (work_rows s)" and "sr_id current = i"
  shows "confirmed_claims (snd (updating (row_of owner i) chk (edited_work P params current rendered ap) work_rows put_work s)) \<subseteq> confirmed_claims s"
proof -
  define f where "f = (\<lambda>x. if row_of owner i x then edited_work P params current rendered ap x else x)"
  have "(sr_id (f x), org) \<in> confirmed_claims s"
    if "x \<in> set (work_rows s)" "is_confirmed (f x)" "wx_organization_id (f x) = Some org" for x org
  proof (cases "row_of owner i x")
    case True
    then have "sr_id (f x) = sr_id current" using assms(2) by (simp add: f_def row_of_def edited_work_def Let_def)
    moreover have "is_confirmed current" "wx_organization_id current = Some org"
      using that True by (auto simp: f_def is_confirmed_def edited_work_def Let_def split: if_splits)
    ultimately show ?thesis using assms(1) by (auto simp: confirmed_claims_def claims_in_def)
  next
    case False
    then show ?thesis using that by (auto simp: f_def confirmed_claims_def claims_in_def)
  qed
  then have all: "claims_in (f ` set (work_rows s)) \<subseteq> confirmed_claims s"
    by (auto simp: claims_in_def)
  let ?t = "snd (updating (row_of owner i) chk (edited_work P params current rendered ap) work_rows put_work s)"
  have "set (work_rows ?t) = set (work_rows s) \<or> set (work_rows ?t) = f ` set (work_rows s)"
    using updating_rows [of "row_of owner i" chk "edited_work P params current rendered ap" s] 
    unfolding f_def by (elim disjE) simp_all
  then have "confirmed_claims ?t = confirmed_claims s \<or> confirmed_claims ?t = claims_in (f ` set (work_rows s))"
    unfolding confirmed_claims_def by (elim disjE) simp_all
  then show ?thesis using all by (elim disjE) simp_all
qed

lemma atomic_updating [atomic_intros]: "atomic (updating Q check f work_rows put_work)"
  by (auto simp: atomic_def updating_def stmt_def Let_def split: if_splits option.splits)

lemma atomic_execute_if [atomic_intros]: "atomic (execute_if c f)"
  by (auto simp: atomic_def execute_if_def stmt_def Let_def split: if_splits)

lemma atomic_create_work [atomic_intros]: "atomic (create_work_experience P owner params)"
  unfolding create_work_experience_def Let_def by (intro atomic_intros quiet_intros)

lemma atomic_edit_work [atomic_intros]: "atomic (update_work_experience P owner i params)"
  unfolding update_work_experience_def by (intro atomic_intros quiet_intros)

lemma atomic_confirmation [atomic_intros]: "atomic (set_employment_confirmation P i org via)"
  unfolding set_employment_confirmation_def Let_def by (intro atomic_intros quiet_intros)

lemma atomic_confirm_route [atomic_intros]:
  "atomic (confirm_employment_route P viewer org i)" "atomic (withdraw_employment_route P viewer org i)"
  unfolding confirm_employment_route_def withdraw_employment_route_def confirm_employment_def
    withdraw_employment_confirmation_def by (intro atomic_intros quiet_intros)+

text \<open>So what one of them does is what it does when it succeeds.\<close>

lemma when_it_succeeds:
  assumes "atomic m" and "\<And>x t. m s = (Inr x, t) \<Longrightarrow> Q t" and "\<And>u. tables u = tables s \<Longrightarrow> Q u"
  shows "Q (snd (m s))"
  using assms atomicD [OF assms(1)] by (cases "m s") (metis snd_conv sum.exhaust)

lemma creates_claim: "confirmed_claims (snd (create_work_experience P owner params s)) \<subseteq> confirmed_claims s"
proof (rule when_it_succeeds [where Q = "\<lambda>t. confirmed_claims t \<subseteq> confirmed_claims s", OF atomic_create_work])
  fix y t assume run: "create_work_experience P owner params s = (Inr y, t)"
  then obtain r v ap z x where r: "render_optional_markdown P (nw_description_md params) (s\<lparr>w_next_id := Suc (w_next_id s)\<rparr>) = (Inr r, v)"
    and o: "organization_ap_id (nw_organization_id params) v = (Inr ap, z)"
    and t: "t = put_work (work_rows z @ [x]) (ticked z)" and x: "\<not> is_confirmed x"
    unfolding create_work_experience_def Let_def bindE_Inr new_uuid_def of_result_ends
    by (elim exE conjE) (auto simp: execute_if_Inr bindE_Inr is_confirmed_def)
  have "tables z = tables s" using quietD [OF quiet_render r] quietD [OF quiet_org_id o] by simp
  then have "work_rows z = work_rows s" by (rule tables_work)
  then show "confirmed_claims t \<subseteq> confirmed_claims s"
    using x unfolding t confirmed_claims_def put_work_rows by (auto simp: claims_in_def)
qed (rule confirmed_same)

lemma edit_Inr:
  assumes "update_work_experience P owner i params s = (Inr y, t)"
  obtains current rendered ap u where "current \<in> set (work_rows s)" "row_of owner i current" "tables u = tables s"
    "updating (row_of owner i) work_row_ok (edited_work P params current rendered ap) work_rows put_work u = (Inr y, t)"
    "List.find (row_of owner i) (work_rows s) = Some current"
proof -
  obtain v found w rendered x ap z where v: "check_visibility (uw_visibility params) s = (Inr (), v)"
    and q: "query (\<lambda>s. List.find (row_of owner i) (work_rows s)) v = (Inr (Some found), w)"
    and r: "render_optional_markdown P (patched (uw_description_md params) (sr_description_md found)) w = (Inr rendered, x)"
    and o: "organization_ap_id (patched (uw_organization_id params) (wx_organization_id found)) x = (Inr ap, z)"
    and up: "updating (row_of owner i) work_row_ok (edited_work P params found rendered ap) work_rows put_work z = (Inr y, t)"
    using assms by (auto simp: update_work_experience_def bindE_Inr ok_or_Inr)
  have vs: "tables v = tables s" by (rule quietD [OF quiet_visibility v])
  have "tables z = tables s"
    using quietD [OF quiet_query q] quietD [OF quiet_render r] quietD [OF quiet_org_id o] vs by simp
  moreover have f: "List.find (row_of owner i) (work_rows s) = Some found"
    using q tables_work [OF vs] by (simp add: query_Inr)
  moreover have "found \<in> set (work_rows s)" "row_of owner i found" using f by (auto dest: find_SomeD)
  ultimately show thesis using up by (intro that [of found z rendered ap])
qed

lemma edits_claim: "confirmed_claims (snd (update_work_experience P owner i params s)) \<subseteq> confirmed_claims s"
proof (rule when_it_succeeds [where Q = "\<lambda>t. confirmed_claims t \<subseteq> confirmed_claims s", OF atomic_edit_work])
  fix y t assume "update_work_experience P owner i params s = (Inr y, t)"
  then obtain current rendered ap u where c: "current \<in> set (work_rows s)" "row_of owner i current" "tables u = tables s"
    "updating (row_of owner i) work_row_ok (edited_work P params current rendered ap) work_rows put_work u = (Inr y, t)"
    by (rule edit_Inr)
  have "current \<in> set (work_rows u)" using c(1) unfolding tables_work [OF c(3)] .
  moreover have "sr_id current = i" using c(2) by (simp add: row_of_def)
  ultimately have "confirmed_claims (snd (updating (row_of owner i) work_row_ok (edited_work P params current rendered ap) work_rows put_work u))
      \<subseteq> confirmed_claims u"
    by (rule edit_confirms_nothing)
  then show "confirmed_claims t \<subseteq> confirmed_claims s" unfolding c(4) snd_conv confirmed_cong [OF c(3)] .
qed (rule confirmed_same)

lemma deletes_claim: "confirmed_claims (snd (delete_work_experience owner i s)) \<subseteq> confirmed_claims s"
  by (auto simp: delete_work_experience_def deleting_def bindE_def stmt_def Let_def ret_def throw_def confirmed_claims_def claims_in_def
      put_work_def on_profile_def split: if_splits prod.splits)

lemma confirmation_Inr:
  assumes "set_employment_confirmation P i org via s = (Inr y, t)"
  shows "confirmed_claims t \<subseteq> (if via = None then confirmed_claims s else insert (i, org) (confirmed_claims s))"
proof -
  obtain f u where u: "tables u = tables s"
    and up: "updating (claim_of i org) (\<lambda>_. names_confirmer) f work_rows put_work u = (Inr y, t)"
    and f: "\<And>x. sr_id (f x) = sr_id x" "\<And>x. wx_organization_id (f x) = wx_organization_id x" "\<And>x. is_confirmed (f x) = (via \<noteq> None)"
    using assms unfolding set_employment_confirmation_def Let_def bindE_Inr ok_or_Inr gets_Inr
    by (elim exE conjE) (auto simp: is_confirmed_def dest!: quietD [OF quiet_query] quietD [OF quiet_org_id])
  have "work_rows t = map (\<lambda>x. if claim_of i org x then f x else x) (work_rows s)"
    using updating_rows [of "claim_of i org" "\<lambda>_. names_confirmer" f u] up tables_work [OF u]
    by (auto simp: updating_def stmt_def Let_def split: if_splits option.splits)
  then show ?thesis
    using f by (force simp: confirmed_claims_def claims_in_def claim_of_def split: if_splits)
qed

text \<open>A request confirms a claim only for the organisation its viewer acts for.\<close>

lemma claim_step_confirms:
  assumes "c \<in> confirmed_claims (claim_step P r s)" and "c \<notin> confirmed_claims s"
  shows "\<exists>viewer. r = ConfirmsClaim viewer (snd c) (fst c) \<and> \<not> isl (fst (require_acts_for (snd c) viewer s))"
proof (cases r)
  case (CreatesClaim owner params)
  then show ?thesis using assms creates_claim [of P owner params s] by auto
next
  case (EditsClaim owner i params)
  then show ?thesis using assms edits_claim [of P owner i params s] by auto
next
  case (DeletesClaim owner i)
  then show ?thesis using assms deletes_claim [of owner i s] by auto
next
  case (ConfirmsClaim viewer org i)
  have "c \<in> confirmed_claims s \<or> (c = (i, org) \<and> \<not> isl (fst (require_acts_for org viewer s)))"
  proof (cases "confirm_employment_route P viewer org i s")
    case (Pair out t)
    have t: "c \<in> confirmed_claims t" using assms(1) by (simp add: ConfirmsClaim Pair)
    show ?thesis
    proof (cases out)
      case (Inl e)
      then show ?thesis using atomicD [OF atomic_confirm_route(1)] Pair confirmed_same t by blast
    next
      case (Inr y)
      then obtain role u where a: "require_acts_for org viewer s = (Inr role, u)"
        and b: "set_employment_confirmation P i org (Some ByOrganisation) u = (Inr y, t)"
        using Pair by (auto simp: confirm_employment_route_def confirm_employment_def bindE_Inr)
      have "confirmed_claims u = confirmed_claims s" by (rule confirmed_cong [OF quietD [OF quiet_acts_for a]])
      then show ?thesis using confirmation_Inr [OF b] t by (auto simp: a)
    qed
  qed
  then show ?thesis using assms(2) ConfirmsClaim by auto
next
  case (WithdrawsClaim viewer org i)
  have "confirmed_claims (snd (withdraw_employment_route P viewer org i s)) \<subseteq> confirmed_claims s"
  proof (rule when_it_succeeds [where Q = "\<lambda>t. confirmed_claims t \<subseteq> confirmed_claims s", OF atomic_confirm_route(2)])
    fix y t assume "withdraw_employment_route P viewer org i s = (Inr y, t)"
    then obtain role u where a: "require_acts_for org viewer s = (Inr role, u)"
      and b: "set_employment_confirmation P i org None u = (Inr y, t)"
      by (auto simp: withdraw_employment_route_def withdraw_employment_confirmation_def bindE_Inr)
    show "confirmed_claims t \<subseteq> confirmed_claims s"
      using confirmation_Inr [OF b] confirmed_cong [OF quietD [OF quiet_acts_for a]] by simp
  qed (rule confirmed_same)
  then show ?thesis using assms WithdrawsClaim by auto
qed

text \<open>C33. A claim of employment stands confirmed only by the organisation it names: after any sequence of
  requests of profile owners and of others, a claim that was not confirmed at the start and is now was
  confirmed by a request of somebody who acted for that organisation at the time.\<close>

theorem employment_is_confirmed_by_the_organisation:
  assumes "(i, org) \<in> confirmed_claims (claim_run P rs s)" and "(i, org) \<notin> confirmed_claims s"
  shows "\<exists>pre viewer post. rs = pre @ ConfirmsClaim viewer org i # post
    \<and> \<not> isl (fst (require_acts_for org viewer (claim_run P pre s)))"
  using assms(1)
proof (induction rs rule: rev_induct)
  case Nil
  then show ?case using assms(2) by simp
next
  case (snoc r rs)
  show ?case
  proof (cases "(i, org) \<in> confirmed_claims (claim_run P rs s)")
    case True
    then show ?thesis using snoc.IH by fastforce
  next
    case False
    then show ?thesis using claim_step_confirms [of "(i, org)" P r "claim_run P rs s"] snoc.prems by fastforce
  qed
qed

definition sample_profile_env :: profile_env where
  "sample_profile_env = local_env.extend sample_local_env
     \<lparr> show_date = show_int, show_rfc3339 = show_int, rel_me_hrefs = (\<lambda>h. [h]), fetch_page = (\<lambda>u. None) \<rparr>"

definition sample_claim :: new_work_experience where
  "sample_claim = \<lparr>nw_title = ''Clerk'', nw_organization = ''Acme'', nw_organization_id = Some 3, nw_start_date = 1,
     nw_end_date = None, nw_description_md = None, nw_sort_order = None, nw_visibility = None\<rparr>"

definition promotion :: update_work_request where
  "promotion = \<lparr>uw_title = Some ''Director'', uw_organization = None, uw_organization_id = None, uw_start_date = Some 0,
     uw_end_date = None, uw_description_md = None, uw_sort_order = None, uw_visibility = None\<rparr>"

definition claim_requests :: "claim_request list" where
  "claim_requests = [CreatesClaim 4 sample_claim, ConfirmsClaim (Some alice_viewer) 3 5]"

lemma sample_confirmed: "(5, 3) \<in> confirmed_claims (claim_run sample_profile_env claim_requests acme_world)"
proof -
  have "list_ex (\<lambda>x. sr_id x = 5 \<and> is_confirmed x \<and> wx_organization_id x = Some 3)
      (work_rows (claim_run sample_profile_env claim_requests acme_world))"
    by code_simp
  then show ?thesis by (auto simp: confirmed_claims_def claims_in_def list_ex_iff)
qed

theorem employment_is_confirmed_by_the_organisation_witness:
  "\<exists>pre viewer post. claim_requests = pre @ ConfirmsClaim viewer 3 5 # post
    \<and> \<not> isl (fst (require_acts_for 3 viewer (claim_run sample_profile_env pre acme_world)))"
proof -
  have "work_rows acme_world = []" by code_simp
  then have "(5, 3) \<notin> confirmed_claims acme_world" by (simp add: confirmed_claims_def claims_in_def)
  then show ?thesis by (rule employment_is_confirmed_by_the_organisation [OF sample_confirmed])
qed

text \<open>C34. Editing a claim of employment keeps its confirmation exactly when the employer's name and account
  stay as they are: the title, the dates and the description can be rewritten under a confirmation
  that was given to what they said before.\<close>

theorem edit_keeps_confirmation_iff_same_employer:
  assumes "update_work_experience P owner i params s = (Inr y, t)" and "List.find (row_of owner i) (work_rows s) = Some x"
  shows "y \<in> set (work_rows t) \<and> wx_title y = patched (uw_title params) (wx_title x)
    \<and> (is_confirmed y \<longleftrightarrow> is_confirmed x \<and> wx_organization y = wx_organization x
         \<and> wx_organization_id y = wx_organization_id x)"
proof -
  obtain current rendered ap u where c: "current \<in> set (work_rows s)" "row_of owner i current" "tables u = tables s"
    "updating (row_of owner i) work_row_ok (edited_work P params current rendered ap) work_rows put_work u = (Inr y, t)"
    "List.find (row_of owner i) (work_rows s) = Some current"
    by (rule edit_Inr [OF assms(1)])
  have x: "current = x" using c(5) assms(2) by simp
  obtain z where z: "z \<in> set (work_rows u)" "row_of owner i z" "y = edited_work P params x rendered ap z"
    using updating_Inr [OF c(4)] x by blast
  have "work_rows t = map (\<lambda>z. if row_of owner i z then edited_work P params x rendered ap z else z) (work_rows u)"
    using c(4) by (auto simp: x updating_def stmt_def Let_def split: if_splits option.splits)
  then have "y \<in> set (work_rows t)" using z by auto
  then show ?thesis by (auto simp: z(3) is_confirmed_def edited_work_def Let_def)
qed

theorem edit_keeps_confirmation_iff_same_employer_witness:
  "\<exists>y t. update_work_experience sample_profile_env 4 5 promotion (claim_run sample_profile_env claim_requests acme_world) = (Inr y, t)
     \<and> wx_title y = ''Director'' \<and> is_confirmed y"
proof -
  let ?s = "claim_run sample_profile_env claim_requests acme_world"
  have "\<not> isl (fst (update_work_experience sample_profile_env 4 5 promotion ?s))" by code_simp
  then obtain y t where run: "update_work_experience sample_profile_env 4 5 promotion ?s = (Inr y, t)"
    using not_isl_fst by blast
  have "case List.find (row_of 4 5) (work_rows ?s) of None \<Rightarrow> False
      | Some x \<Rightarrow> is_confirmed x \<and> wx_organization x = ''Acme'' \<and> wx_organization_id x = Some 3" by code_simp
  then obtain x where x: "List.find (row_of 4 5) (work_rows ?s) = Some x" "is_confirmed x"
      "wx_organization x = ''Acme''" "wx_organization_id x = Some 3" by (auto split: option.splits)
  have "case fst (update_work_experience sample_profile_env 4 5 promotion ?s) of Inl e \<Rightarrow> False
      | Inr y \<Rightarrow> wx_organization y = ''Acme'' \<and> wx_organization_id y = Some 3" by code_simp
  then have "wx_organization y = ''Acme''" "wx_organization_id y = Some 3" by (simp_all add: run)
  then show ?thesis
    using edit_keeps_confirmation_iff_same_employer [OF run x(1)] x run by (simp add: promotion_def patched_def)
qed

end
