(* ===== verification/SidecarClaims.thy ===== *)
theory SidecarClaims
  imports LocalClaims
begin

text \<open>
  The properties of the calls the instance makes on the mail relay's daemon and of what moderation
  and the durable removal rest on.
\<close>

section \<open>What the client asks for\<close>

fun call_segments :: "admin_call \<Rightarrow> string list" where
  "call_segments (RotatePassword a) = [a]"
| "call_segments (Kick a) = [a]"
| "call_segments (DeleteAccount a) = [a]"
| "call_segments (CreateAccount a) = [a]"
| "call_segments (AccountExists a) = [a]"
| "call_segments (BlockRecipient a) = [a]"
| "call_segments (UnblockRecipient a) = [a]"
| "call_segments (ChatAdmin.BlockSenderPair a b) = [a, b]"
| "call_segments (UnblockSenderPair a b) = [a, b]"
| "call_segments NoRoute = []"

text \<open>The request each call makes.\<close>

fun call_request :: "admin_call \<Rightarrow> string \<times> string" where
  "call_request (RotatePassword a) = (''POST'', account_path a @ ''/rotate-password'')"
| "call_request (Kick a) = (''POST'', account_path a @ ''/kick'')"
| "call_request (DeleteAccount a) = (''DELETE'', account_path a)"
| "call_request (CreateAccount a) = (''PUT'', account_path a)"
| "call_request (AccountExists a) = (''GET'', account_path a @ ''/exists'')"
| "call_request (BlockRecipient a) = (''POST'', recipient_path a)"
| "call_request (UnblockRecipient a) = (''DELETE'', recipient_path a)"
| "call_request (ChatAdmin.BlockSenderPair a b) = (''POST'', pair_path a b)"
| "call_request (UnblockSenderPair a b) = (''DELETE'', pair_path a b)"
| "call_request NoRoute = ([], [])"

lemma request_log: "\<exists>r. sidecar_request C verb path s = (r, s\<lparr>w_sidecar := w_sidecar s @ [(verb, sc_base_url C @ path)]\<rparr>)"
  by (auto simp: sidecar_request_def Let_def split: sum.split)

lemma log_parsed [simp]: "w_sidecar (snd (parsed f x u)) = w_sidecar u"
  by (simp add: parsed_def throw_def ret_def split: sum.split)

lemma log_ret [simp]: "w_sidecar (snd (ret x u)) = w_sidecar u" "w_sidecar (snd (throw e u)) = w_sidecar u"
  by (simp_all add: ret_def throw_def)

lemma log_bind: "(\<And>x u. w_sidecar (snd (f x u)) = w_sidecar u) \<Longrightarrow> w_sidecar (snd (bindE m f s)) = w_sidecar (snd (m s))"
  by (auto simp: bindE_def split: prod.splits sum.splits)

lemma log_request [simp]:
  "w_sidecar (snd (sidecar_request C verb path s)) = w_sidecar s @ [(verb, sc_base_url C @ path)]"
  using request_log [of C verb path s] by auto

lemma log_checked_request [simp]:
  "w_sidecar (snd (checked_request C name verb path s)) = w_sidecar s @ [(verb, sc_base_url C @ path)]"
  unfolding checked_request_def by (subst log_bind) (simp_all split: prod.split)

lemma client_log:
  assumes "list_all segment_ok (call_segments call)" and "call \<noteq> NoRoute"
  shows "w_sidecar (snd (client_run C call s)) = w_sidecar s @ [(fst (call_request call), sc_base_url C @ snd (call_request call))]"
  using assms
  by (cases call)
    (simp_all add: client_rotate_password_def client_kick_sessions_def client_delete_account_def client_create_account_def
      client_account_exists_def client_block_recipient_def client_unblock_recipient_def client_block_sender_pair_def
      client_unblock_sender_pair_def check_segment_def log_bind split: prod.split)

lemma client_refused:
  assumes "\<not> list_all segment_ok (call_segments call)"
  shows "isl (fst (client_run C call s)) \<and> snd (client_run C call s) = s"
  using assms
  by (cases call)
    (auto simp: client_rotate_password_def client_kick_sessions_def client_delete_account_def client_create_account_def
      client_account_exists_def client_block_recipient_def client_unblock_recipient_def client_block_sender_pair_def
      client_unblock_sender_pair_def check_segment_def throw_def bindE_def ret_def)

section \<open>Where it arrives\<close>

lemma segment_bytes:
  assumes "segment_ok a"
  shows "CHR ''/'' \<notin> set a" "CHR ''?'' \<notin> set a" "CHR ''#'' \<notin> set a" "a \<noteq> []"
  using assms by (auto simp: segment_ok_def unsafe_byte_def list_ex_iff)

lemma keep_path: "CHR ''?'' \<notin> set p \<Longrightarrow> CHR ''#'' \<notin> set p \<Longrightarrow> takeWhile (\<lambda>c. c \<notin> set ''?#'') p = p"
  by (induction p) auto

lemma split_paths:
  assumes "CHR ''/'' \<notin> set a" and "CHR ''/'' \<notin> set b"
  shows "split_on CHR ''/'' (account_path a) = accounts_prefix @ [a]"
    "CHR ''/'' \<notin> set w \<Longrightarrow> split_on CHR ''/'' (account_path a @ CHR ''/'' # w) = accounts_prefix @ [a, w]"
    "split_on CHR ''/'' (recipient_path a) = recipients_prefix @ [a, ''block'']"
    "split_on CHR ''/'' (pair_path a b) = senders_prefix @ [a, ''block-to'', b]"
  using assms
  by (simp_all add: account_path_def recipient_path_def pair_path_def accounts_prefix_def recipients_prefix_def
      senders_prefix_def split_on_append_sep split_on_no_sep)

lemma routes_to:
  assumes "CHR ''?'' \<notin> set path" "CHR ''#'' \<notin> set path" and "''.'' \<notin> set rest"
  shows "split_on CHR ''/'' path = accounts_prefix @ rest \<Longrightarrow> route_of verb path = account_route verb rest"
    "split_on CHR ''/'' path = recipients_prefix @ rest \<Longrightarrow> route_of verb path = recipient_route verb rest"
    "split_on CHR ''/'' path = senders_prefix @ rest \<Longrightarrow> route_of verb path = sender_route verb rest"
proof -
  have "filter (\<lambda>p. p \<noteq> ''.'') rest = rest" using assms(3) by (induction rest) auto
  then show "split_on CHR ''/'' path = accounts_prefix @ rest \<Longrightarrow> route_of verb path = account_route verb rest"
    "split_on CHR ''/'' path = recipients_prefix @ rest \<Longrightarrow> route_of verb path = recipient_route verb rest"
    "split_on CHR ''/'' path = senders_prefix @ rest \<Longrightarrow> route_of verb path = sender_route verb rest"
    unfolding route_of_def Let_def keep_path [OF assms(1,2)]
    by (simp_all add: accounts_prefix_def recipients_prefix_def senders_prefix_def)
qed

lemma path_bytes:
  "c \<in> {CHR ''?'', CHR ''#''} \<Longrightarrow> c \<notin> set a \<Longrightarrow> c \<notin> set (account_path a)"
  "c \<in> {CHR ''?'', CHR ''#''} \<Longrightarrow> c \<notin> set a \<Longrightarrow> c \<notin> set (recipient_path a)"
  "c \<in> {CHR ''?'', CHR ''#''} \<Longrightarrow> c \<notin> set a \<Longrightarrow> c \<notin> set b \<Longrightarrow> c \<notin> set (pair_path a b)"
  by (auto simp: account_path_def recipient_path_def pair_path_def)

lemma reaches_account:
  assumes "segment_ok a" and "a \<noteq> ''.''"
  shows "route_of verb (account_path a) = account_route verb [a]"
    "w \<in> {''rotate-password'', ''kick'', ''exists''} \<Longrightarrow> route_of verb (account_path a @ CHR ''/'' # w) = account_route verb [a, w]"
    "route_of verb (recipient_path a) = recipient_route verb [a, ''block'']"
proof -
  note a = segment_bytes [OF assms(1)] assms(2)
  show "route_of verb (account_path a) = account_route verb [a]"
    by (rule routes_to(1)) (use a in \<open>simp_all add: path_bytes split_paths(1)\<close>)
  show "route_of verb (recipient_path a) = recipient_route verb [a, ''block'']"
    by (rule routes_to(2)) (use a in \<open>simp_all add: path_bytes split_paths(3)\<close>)
  assume w: "w \<in> {''rotate-password'', ''kick'', ''exists''}"
  then have "CHR ''/'' \<notin> set w" "CHR ''?'' \<notin> set w" "CHR ''#'' \<notin> set w" "w \<noteq> ''.''" by auto
  then show "route_of verb (account_path a @ CHR ''/'' # w) = account_route verb [a, w]"
    by (intro routes_to(1)) (use a in \<open>simp_all add: path_bytes split_paths(2)\<close>)
qed

lemma reaches_pair:
  assumes "segment_ok a" "segment_ok b" and "a \<noteq> ''.''" "b \<noteq> ''.''"
  shows "route_of verb (pair_path a b) = sender_route verb [a, ''block-to'', b]"
  by (rule routes_to(3))
    (use segment_bytes [OF assms(1)] segment_bytes [OF assms(2)] assms(3,4) in \<open>simp_all add: path_bytes split_paths(4)\<close>)

lemma reaches:
  assumes "list_all segment_ok (call_segments call)" and "''.'' \<notin> set (call_segments call)" and "call \<noteq> NoRoute"
  shows "route_of (fst (call_request call)) (snd (call_request call)) = Some call"
proof -
  have "route_of ''POST'' (pair_path a b) = Some (ChatAdmin.BlockSenderPair a b)"
      "route_of ''DELETE'' (pair_path a b) = Some (UnblockSenderPair a b)"
    if "segment_ok a" "segment_ok b" "a \<noteq> ''.''" "b \<noteq> ''.''" for a b
    using reaches_pair [OF that] segment_bytes(4) that(1,2) by simp_all
  then show ?thesis
    using assms by (cases call) (auto simp: reaches_account segment_bytes)
qed


definition sample_sidecar :: sidecar where
  "sample_sidecar = \<lparr>sc_base_url = ''https://mail.example'', sc_send = (\<lambda>log. Inr (200, [])), sc_show_status = show_nat,
     sc_read_account = (\<lambda>b. Inr ([], [])), sc_read_exists = (\<lambda>b. Inr ([], False))\<rparr>"


end
