(* ===== verification/ModerationClaims.thy ===== *)
theory ModerationClaims
  imports SidecarClaims
begin

text \<open>
  The properties of moderation: what a suspension shuts, and what a resolution leaves of a report.
\<close>

section \<open>What enforcement leaves alone\<close>

text \<open>
  A part of the world that neither the search backend, nor the mail relay, nor the queue of
  deliveries is in: the steps of a suspension that follow the change of status leave it alone.
\<close>

locale bystander =
  fixes proj :: "world \<Rightarrow> 'p"
  assumes tick: "proj (s\<lparr>w_tick := n\<rparr>) = proj s"
    and index: "proj (s\<lparr>w_index := x\<rparr>) = proj s"
    and queue: "proj (s\<lparr>w_deliveries := d, w_queue_seq := q\<rparr>) = proj s"
    and calls: "proj (s\<lparr>w_sidecar := l\<rparr>) = proj s"
begin

lemma keeps_quiet_query: "keeps (\<lambda>s. proj s = T) (query f)"
  by (simp add: keeps_def query_def stmt_def Let_def tick)

lemma keeps_search: "keeps (\<lambda>s. proj s = T) (search_remove takes i k)"
  by (simp add: keeps_def search_remove_def index)

lemma keeps_request: "keeps (\<lambda>s. proj s = T) (sidecar_request C verb path)"
  by (simp add: keeps_def sidecar_request_def Let_def calls split: sum.split)

lemma keeps_checked_request: "keeps (\<lambda>s. proj s = T) (checked_request C name verb path)"
  unfolding checked_request_def by (intro keeps_intros keeps_request)

lemma keeps_parsed: "keeps (\<lambda>s. proj s = T) (parsed f body)"
  unfolding parsed_def by (intro keeps_intros)

lemma keeps_segment: "keeps (\<lambda>s. proj s = T) (check_segment a)"
  unfolding check_segment_def by (intro keeps_intros)

lemma keeps_calls:
  "keeps (\<lambda>s. proj s = T) (client_rotate_password C a)" "keeps (\<lambda>s. proj s = T) (client_kick_sessions C a)"
  "keeps (\<lambda>s. proj s = T) (client_block_recipient C a)" "keeps (\<lambda>s. proj s = T) (client_block_sender_pair C a b)"
  unfolding client_rotate_password_def client_kick_sessions_def client_block_recipient_def client_block_sender_pair_def
  by (intro keeps_intros keeps_request keeps_checked_request keeps_parsed keeps_segment)+

lemma keeps_mailbox: "keeps (\<lambda>s. proj s = T) (shut_mailbox B a)"
  unfolding shut_mailbox_def by (intro keeps_intros keeps_calls)

lemma keeps_enqueue: "keeps (\<lambda>s. proj s = T) (enqueue_delivery i payload inbox)"
  by (auto simp: keeps_def enqueue_delivery_def execute_if_def stmt_def Let_def tick queue)

lemma keeps_inboxes: "keeps (\<lambda>s. proj s = T) (get_follower_inboxes i)"
  unfolding get_follower_inboxes_def by (rule keeps_quiet_query)

lemma suspension_changes_status_only:
  assumes "execute_suspension E A B i s = (Inr (), t)"
  shows "\<exists>a u. set_actor_status E i StatusSuspended s = (Inr a, u) \<and> proj t = proj u"
proof -
  obtain a u where a: "set_actor_status E i StatusSuspended s = (Inr a, u)"
    and rest: "bindE (case bk_search B of None \<Rightarrow> ret ()
        | Some takes \<Rightarrow> ignore_errors (search_remove takes ''profiles'' (show_uuid A i))) (\<lambda>_.
      bindE (shut_mailbox B (a_chatmail_addr a)) (\<lambda>_.
      bindE (gets w_now) (\<lambda>now.
      bindE (attempt (get_follower_inboxes i)) (\<lambda>r. case r of Inl e \<Rightarrow> ret ()
      | Inr inboxes \<Rightarrow> for_each (\<lambda>inbox. ignore_errors (enqueue_delivery i (suspend_delete (a_ap_id a) now) inbox)) inboxes)))) u = (Inr (), t)"
    (is "?m u = _")
    using assms by (auto simp: execute_suspension_def bindE_Inr)
  have "keeps (\<lambda>s. proj s = proj u) ?m"
    by (intro keeps_intros keeps_search keeps_mailbox keeps_inboxes keeps_enqueue)
  then show ?thesis using a rest keepsD [of "\<lambda>s. proj s = proj u" ?m u] by auto
qed

end

interpretation of_reports: bystander w_reports
  by unfold_locales simp_all

interpretation of_actors: bystander w_actors
  by unfold_locales simp_all

interpretation of_posts: bystander w_posts
  by unfold_locales simp_all

section \<open>Suspension\<close>

lemma update_actors_done: "update_actors Q f s = (Inr n, t) \<Longrightarrow> n = length (filter Q (w_actors s))
    \<and> w_actors t = map (\<lambda>a. if Q a then f (ticked s) a else a) (w_actors s) \<and> w_reports t = w_reports s
    \<and> w_posts t = w_posts s \<and> w_sidecar t = w_sidecar s"
  by (auto simp: update_actors_def stmt_def Let_def split: if_splits)

lemma quiet_fields:
  assumes "tables t = tables s"
  shows "w_sidecar t = w_sidecar s" "w_actors t = w_actors s" "w_reports t = w_reports s" "w_posts t = w_posts s"
  using tables_eqD [OF assms] by simp_all

lemma set_actor_status_Inr:
  assumes "set_actor_status E i st s = (Inr a, t)"
  shows "w_actors t = map (\<lambda>a. if a_id a = i \<and> a_is_local a then a\<lparr>a_status := st, a_updated_at := w_now s\<rparr> else a) (w_actors s)"
    and "w_reports t = w_reports s" "w_posts t = w_posts s" "w_sidecar t = w_sidecar s"
    and "\<exists>r\<in>set (w_actors t). a_id r = i \<and> into_actor E r = Inr a" and "list_ex (\<lambda>r. a_id r = i \<and> a_is_local r) (w_actors s)"
proof -
  obtain n u where u: "update_actors (\<lambda>a. a_id a = i \<and> a_is_local a) (\<lambda>s a. a\<lparr>a_status := st, a_updated_at := w_now s\<rparr>) s = (Inr n, u)"
    and n: "n \<noteq> 0" and f: "find_by_id E i u = (Inr a, t)"
    using assms by (auto simp: set_actor_status_def bindE_Inr split: if_splits)
  note d = update_actors_done [OF u] and q = quiet_fields [OF quietD [OF quiet_find_by_id f]]
  show "w_actors t = map (\<lambda>a. if a_id a = i \<and> a_is_local a then a\<lparr>a_status := st, a_updated_at := w_now s\<rparr> else a) (w_actors s)"
    and "w_reports t = w_reports s" "w_posts t = w_posts s" "w_sidecar t = w_sidecar s"
    using d q by simp_all
  show "\<exists>r\<in>set (w_actors t). a_id r = i \<and> into_actor E r = Inr a"
    using f q(2) by (auto simp: find_by_id_def bindE_Inr query_Inr of_result_ends split: option.splits dest!: find_SomeD)
  show "list_ex (\<lambda>r. a_id r = i \<and> a_is_local r) (w_actors s)"
    using n d by (auto simp: list_ex_iff filter_empty_conv)
qed

lemma marked_rows: "list_all (\<lambda>a. a_id a = i \<and> a_is_local a \<longrightarrow> a_status a = st)
    (map (\<lambda>a. if a_id a = i \<and> a_is_local a then a\<lparr>a_status := st, a_updated_at := now\<rparr> else a) xs)"
  by (induction xs) auto

lemma unmarked_rows: "map (\<lambda>a. (a_id a, if a_id a = i then st' else a_status a))
      (map (\<lambda>a. if a_id a = i \<and> a_is_local a then a\<lparr>a_status := st, a_updated_at := now\<rparr> else a) xs)
    = map (\<lambda>a. (a_id a, if a_id a = i then st' else a_status a)) xs"
  by (induction xs) simp_all

text \<open>C36. Only a moderator suspends.  Afterwards every row of the account is suspended and no sign-in is
  answered with it, whatever the key and the second factor, and no other account's status has changed.\<close>

theorem suspension_shuts_the_account_out:
  assumes run: "suspend_actor E A B viewer i s = (Inr (), t)"
  shows "(\<exists>v. viewer = Some v \<and> viewer_may_moderate v)
    \<and> list_all (\<lambda>a. a_id a = i \<and> a_is_local a \<longrightarrow> a_status a = StatusSuspended) (w_actors t)
    \<and> map (\<lambda>a. (a_id a, if a_id a = i then StatusSuspended else a_status a)) (w_actors t)
        = map (\<lambda>a. (a_id a, if a_id a = i then StatusSuspended else a_status a)) (w_actors s)
    \<and> (\<forall>req u. \<not> (\<exists>name role factor v. verify_credentials E A req (t\<lparr>w_fault := u\<rparr>) = (Inr (i, name, role, factor), v)))"
proof -
  obtain v where v: "viewer = Some v" "viewer_may_moderate v" and ex: "execute_suspension E A B i s = (Inr (), t)"
    using run by (auto simp: suspend_actor_def require_moderator_def bindE_Inr split: option.splits if_splits)
  obtain a u where st: "set_actor_status E i StatusSuspended s = (Inr a, u)" and t: "w_actors t = w_actors u"
    using of_actors.suspension_changes_status_only [OF ex] by blast
  have acts: "w_actors t = map (\<lambda>a. if a_id a = i \<and> a_is_local a then a\<lparr>a_status := StatusSuspended, a_updated_at := w_now s\<rparr> else a) (w_actors s)"
    using set_actor_status_Inr(1) [OF st] t by simp
  have all: "list_all (\<lambda>a. a_id a = i \<and> a_is_local a \<longrightarrow> a_status a = StatusSuspended) (w_actors t)"
    unfolding acts by (rule marked_rows)
  have "False" if c: "verify_credentials E A req (t\<lparr>w_fault := f\<rparr>) = (Inr (i, name, role, factor), w)" for req f name role factor w
  proof -
    obtain b where b: "List.find (may_sign_in (lr_username req)) (w_actors t) = Some b" "a_id b = i"
      using c by (auto simp: verify_credentials_def bindE_Inr query_Inr ok_or_Inr split: if_splits)
    then have "b \<in> set (w_actors t)" "may_sign_in (lr_username req) b" by (auto dest: find_SomeD)
    then show False using all b(2) by (auto simp: list_all_iff may_sign_in_def)
  qed
  moreover have "map (\<lambda>a. (a_id a, if a_id a = i then StatusSuspended else a_status a)) (w_actors t)
      = map (\<lambda>a. (a_id a, if a_id a = i then StatusSuspended else a_status a)) (w_actors s)"
    unfolding acts by (rule unmarked_rows)
  ultimately show ?thesis using v all by blast
qed

definition moderator :: viewer where
  "moderator = \<lparr>v_actor_id = 1, v_username = ''alice'', v_instance_role = RoleModerator, v_actor_status = StatusActive\<rparr>"

definition sample_backends :: backends where
  "sample_backends = \<lparr>bk_search = Some (\<lambda>s i k. True), bk_store = (\<lambda>s k. True), bk_sidecar = Some sample_sidecar\<rparr>"

theorem suspension_shuts_the_account_out_witness:
  "\<exists>t. suspend_actor sample_env sample_account_env sample_backends (Some moderator) 1 (open_world ''open'') = (Inr (), t)
     \<and> list_all (\<lambda>a. a_id a = 1 \<and> a_is_local a \<longrightarrow> a_status a = StatusSuspended) (w_actors t)"
proof -
  have "\<not> isl (fst (suspend_actor sample_env sample_account_env sample_backends (Some moderator) 1 (open_world ''open'')))"
    by code_simp
  then obtain t where "suspend_actor sample_env sample_account_env sample_backends (Some moderator) 1 (open_world ''open'') = (Inr (), t)"
    using not_isl_fst by (metis (full_types) unit.exhaust)
  then show ?thesis using suspension_shuts_the_account_out [of sample_env sample_account_env sample_backends "Some moderator" 1 "open_world ''open''" t]
    by blast
qed

section \<open>Reports\<close>

lemma keeps_purge: "keeps P (purge_objects B keys)" if "\<And>key. keeps P (store_delete B key)"
  unfolding purge_objects_def by (intro keeps_intros that)

text \<open>What enforcement leaves of the reports: all of them, except those about a post it removes.\<close>

lemma enforcement_reports:
  assumes "ap_enforcement E A B action target_actor target_post s = (Inr (), t)"
  shows "w_reports t = (case (action, target_post) of
      (ApRemoveContent, Some i) \<Rightarrow> filter (\<lambda>r. \<not> (case rp_target_post r of None \<Rightarrow> False | Some j \<Rightarrow> list_ex (\<lambda>p. p_id p = i \<and> p_id p = j) (w_posts s))) (w_reports s)
    | _ \<Rightarrow> w_reports s)"
proof (cases action)
  case ApRemoveContent
  show ?thesis
  proof (cases target_post)
    case (Some i)
    obtain keys u where keys: "post_object_keys i s = (Inr keys, u)"
      and d: "\<exists>v. execute (delete_posts_where (\<lambda>p. p_id p = i)) u = (Inr (), v) \<and> purge_objects B keys v = (Inr (), t)"
      using assms by (auto simp: ap_enforcement_def remove_content_def ApRemoveContent Some bindE_Inr)
    then obtain v where v: "execute (delete_posts_where (\<lambda>p. p_id p = i)) u = (Inr (), v)" "purge_objects B keys v = (Inr (), t)"
      by blast
    have "keeps (\<lambda>w. w_reports w = w_reports v) (purge_objects B keys)"
      by (rule keeps_purge) (simp add: keeps_def store_delete_def)
    then have "w_reports t = w_reports v" using keepsD [of "\<lambda>w. w_reports w = w_reports v" "purge_objects B keys" v] v(2) by simp
    moreover have "quiet (post_object_keys i)" unfolding post_object_keys_def by (intro quiet_intros)
    then have "tables u = tables s" using keys by (rule quietD)
    then have "w_reports u = w_reports s" "w_posts u = w_posts s" by (rule quiet_fields)+
    ultimately show ?thesis
      using v(1) by (simp add: ApRemoveContent Some execute_Inr delete_posts_where_def Let_def)
  qed (use assms ApRemoveContent in \<open>simp add: ap_enforcement_def\<close>)
next
  case ApSilence
  then show ?thesis
    using assms by (auto simp: ap_enforcement_def bindE_Inr split: option.splits dest: set_actor_status_Inr(2))
next
  case ApSuspend
  show ?thesis
  proof (cases target_actor)
    case (Some i)
    then have "execute_suspension E A B i s = (Inr (), t)" using assms ApSuspend by (simp add: ap_enforcement_def)
    then obtain a u where "set_actor_status E i StatusSuspended s = (Inr a, u)" "w_reports t = w_reports u"
      using of_reports.suspension_changes_status_only by blast
    then show ?thesis using ApSuspend by (auto dest: set_actor_status_Inr(2))
  qed (use assms ApSuspend in \<open>simp add: ap_enforcement_def\<close>)
qed (use assms in \<open>simp_all add: ap_enforcement_def\<close>)

lemma find_mapped: "(\<And>r. rp_id (g r) = rp_id r) \<Longrightarrow> report_row_of i (s\<lparr>w_reports := map g xs\<rparr>)
    = map_option g (List.find (\<lambda>r. rp_id r = i) xs)"
  unfolding report_row_of_def by (simp, induction xs) auto

lemma report_after_enforcement:
  assumes e: "ap_enforcement E A B action (rp_target_actor r) (rp_target_post r) s' = (Inr (), w)"
    and same: "w_reports s' = w_reports s" "w_posts s' = w_posts s"
    and ids: "distinct (map rp_id (w_reports s))" and r: "report_row_of i s = Some r"
  shows "report_row_of i w = (if action = ApRemoveContent \<and> (\<exists>p. rp_target_post r = Some p \<and> list_ex (\<lambda>x. p_id x = p) (w_posts s))
    then None else Some r)"
proof -
  define gone where "gone j = list_ex (\<lambda>x. p_id x = j) (w_posts s)" for j
  note reports = enforcement_reports [OF e, unfolded same]
  have id: "rp_id r = i" and mem: "r \<in> set (w_reports s)"
    using r by (auto simp: report_row_of_def dest: find_SomeD)
  have one: "x = r" if "x \<in> set (w_reports s)" "rp_id x = i" for x
    using that ids id mem by (auto simp: distinct_map dest: inj_onD)
  have "report_row_of i w = (if action = ApRemoveContent \<and> (\<exists>p. rp_target_post r = Some p \<and> gone p) then None else Some r)"
  proof (cases "action = ApRemoveContent \<and> rp_target_post r \<noteq> None")
    case True
    then obtain p where p: "rp_target_post r = Some p" by blast
    have reps: "w_reports w = filter (\<lambda>x. \<not> (case rp_target_post x of None \<Rightarrow> False | Some j \<Rightarrow> p = j \<and> gone p)) (w_reports s)"
      using reports True p by (auto simp: gone_def list_ex_iff intro!: filter_cong split: option.splits)
    show ?thesis
    proof (cases "gone p")
      case True
      then show ?thesis using reps p \<open>action = ApRemoveContent \<and> rp_target_post r \<noteq> None\<close>
        by (auto simp: report_row_of_def find_None_iff dest!: one)
    next
      case False
      then have "w_reports w = w_reports s" using reps by (auto simp: filter_id_conv split: option.splits)
      then show ?thesis using r p False by (simp add: report_row_of_def)
    qed
  next
    case False
    then have "w_reports w = w_reports s" using reports by (auto split: ap_report_action.splits option.splits)
    then show ?thesis using r False by (auto simp: report_row_of_def)
  qed
  then show ?thesis by (simp add: gone_def)
qed

text \<open>C37. A resolution takes an open report and a moderator, and leaves the row resolved, with who resolved it
  and what they noted: except when it removes the post the report names, when the row goes with the post
  and nothing of the resolution is kept.\<close>

theorem resolution_is_recorded_unless_it_removes_the_post:
  assumes run: "resolve_report E A B viewer i action note s = (Inr (), t)" and ids: "distinct (map rp_id (w_reports s))"
  shows "\<exists>v r now. viewer = Some v \<and> viewer_may_moderate v \<and> report_row_of i s = Some r \<and> rp_status r = ''open''
    \<and> report_row_of i t = (if action = ApRemoveContent \<and> (\<exists>p. rp_target_post r = Some p \<and> list_ex (\<lambda>x. p_id x = p) (w_posts s))
        then None
        else Some (r\<lparr>rp_status := (if action = ApDismiss then ''dismissed'' else ''resolved''),
          rp_resolved_by := Some (v_actor_id v), rp_resolution_note := note, rp_resolved_at := Some now\<rparr>))"
proof -
  obtain v r w where v: "viewer = Some v" "viewer_may_moderate v" and r: "report_row_of i s = Some r" "rp_status r = ''open''"
    and e: "ap_enforcement E A B action (rp_target_actor r) (rp_target_post r) (ticked s) = (Inr (), w)"
    and m: "mark_resolved (if action = ApDismiss then ''dismissed'' else ''resolved'') (v_actor_id v) note i w = (Inr (), t)"
    using run by (auto simp: resolve_report_def require_moderator_def bindE_Inr query_Inr ok_or_Inr report_row_of_def
        split: option.splits if_splits)
  let ?g = "\<lambda>x. if rp_id x = i then x\<lparr>rp_status := (if action = ApDismiss then ''dismissed'' else ''resolved''),
        rp_resolved_by := Some (v_actor_id v), rp_resolution_note := note, rp_resolved_at := Some (w_now w)\<rparr> else x"
  have "t = (ticked w)\<lparr>w_reports := map ?g (w_reports w)\<rparr>" using m by (simp add: mark_resolved_def execute_if_Inr)
  then have t: "report_row_of i t = map_option ?g (report_row_of i w)"
    using find_mapped [of ?g i "w_reports w" "ticked w"] by (simp add: report_row_of_def)
  have id: "rp_id r = i" using r(1) by (auto simp: report_row_of_def dest: find_SomeD)
  have "report_row_of i w = (if action = ApRemoveContent \<and> (\<exists>p. rp_target_post r = Some p \<and> list_ex (\<lambda>x. p_id x = p) (w_posts s)) then None else Some r)"
    by (rule report_after_enforcement [OF e _ _ ids r(1)]) simp_all
  then have "report_row_of i t = (if action = ApRemoveContent \<and> (\<exists>p. rp_target_post r = Some p \<and> list_ex (\<lambda>x. p_id x = p) (w_posts s)) then None else Some (?g r))"
    using t by simp
  then show ?thesis
    by (intro exI [of _ v] exI [of _ r] exI [of _ "w_now w"]) (simp add: v r id)
qed

definition sample_reported :: report_row where
  "sample_reported = \<lparr>rp_id = 30, rp_reporter = 2, rp_target_actor = None, rp_target_post = Some 20,
     rp_target_chat_addr = None, rp_message = None, rp_message_at = None, rp_reason = ''spam'', rp_comment = None,
     rp_forwarded = False, rp_status = ''open'', rp_resolved_by = None, rp_resolution_note = None, rp_resolved_at = None\<rparr>"

definition reported_world :: world where
  "reported_world = (open_world ''open'')\<lparr>w_posts := [sample_post 20 2 ''https://home.example/posts/20''],
     w_reports := [sample_reported]\<rparr>"

abbreviation resolve_by_removal :: "unit prog" where
  "resolve_by_removal \<equiv> resolve_report sample_env sample_account_env sample_backends (Some moderator) 30 ApRemoveContent None"

theorem resolution_is_recorded_unless_it_removes_the_post_witness:
  "\<exists>t. resolve_by_removal reported_world = (Inr (), t) \<and> report_row_of 30 t = None"
proof -
  have "\<not> isl (fst (resolve_by_removal reported_world))" by code_simp
  then obtain t where t: "resolve_by_removal reported_world = (Inr (), t)"
    using not_isl_fst by (metis (full_types) unit.exhaust)
  have "distinct (map rp_id (w_reports reported_world))"
    and r: "report_row_of 30 reported_world = Some sample_reported" "rp_target_post sample_reported = Some 20"
    and p: "list_ex (\<lambda>x. p_id x = 20) (w_posts reported_world)"
    by code_simp+
  from resolution_is_recorded_unless_it_removes_the_post [OF t this(1)]
  show ?thesis using t r p by auto
qed

end
