(* ===== verification/ErasureClaims.thy ===== *)
theory ErasureClaims
  imports ModerationClaims
begin

text \<open>
  The properties of the erasure of an account: what its statements leave in the tables, which
  accounts they can never erase, and that the deletion of a mailbox settles.
\<close>

section \<open>What an erasure leaves\<close>

text \<open>No row of the account, nor one about it, in the tables the erasure clears.\<close>

definition nothing_of :: "uuid \<Rightarrow> world \<Rightarrow> bool" where
  "nothing_of i s \<longleftrightarrow>
     list_all (\<lambda>x. sr_actor x \<noteq> i) (pt_work (w_profile s)) \<and> list_all (\<lambda>x. sr_actor x \<noteq> i) (pt_education (w_profile s))
   \<and> list_all (\<lambda>x. sk_actor x \<noteq> i) (pt_skills (w_profile s)) \<and> list_all (\<lambda>x. sa_actor x \<noteq> i) (pt_articles (w_profile s))
   \<and> list_all (\<lambda>x. vl_actor x \<noteq> i) (pt_links (w_profile s)) \<and> list_all (\<lambda>x. sr_actor x \<noteq> i) (pt_sections (w_profile s))
   \<and> list_all (\<lambda>x. al_actor x \<noteq> i) (w_aliases s)
   \<and> list_all (\<lambda>f. f_follower f \<noteq> i \<and> f_following f \<noteq> i) (w_follows s)
   \<and> list_all (\<lambda>b. b_actor b \<noteq> i \<and> b_target b \<noteq> i) (w_blocks s) \<and> list_all (\<lambda>b. b_actor b \<noteq> i \<and> b_target b \<noteq> i) (w_mutes s)
   \<and> list_all (\<lambda>r. r_actor r \<noteq> i) (w_likes s) \<and> list_all (\<lambda>r. r_actor r \<noteq> i) (w_boosts s)
   \<and> list_all (\<lambda>m. ma_actor m \<noteq> i) (w_media s) \<and> list_all (\<lambda>p. p_actor_id p \<noteq> i) (w_posts s)
   \<and> list_all (\<lambda>j. jb_actor_id j \<noteq> i) (jt_jobs (w_jobs s)) \<and> list_all (\<lambda>a. ja_applicant a \<noteq> i) (jt_applications (w_jobs s))
   \<and> list_all (\<lambda>d. d_actor_id d \<noteq> i) (w_deliveries s)
   \<and> list_all (\<lambda>r. rp_reporter r \<noteq> i \<and> rp_target_actor r \<noteq> Some i \<and> rp_resolved_by r \<noteq> Some i) (w_reports s)"

lemma job_deletions [simp]:
  "jt_jobs (delete_jobs_where P t) = filter (\<lambda>j. \<not> P j) (jt_jobs t)" "jt_jobs (delete_applications_where Q t) = jt_jobs t"
  "jt_applications (delete_applications_where Q t) = filter (\<lambda>a. \<not> Q a) (jt_applications t)"
  "list_all (\<lambda>a. ja_applicant a \<noteq> i) (jt_applications (delete_jobs_where P t)) = list_all (\<lambda>a. ja_applicant a \<noteq> i) (jt_applications t)"
  by (auto simp: delete_jobs_where_def delete_applications_where_def Let_def list_all_iff split: option.splits)

lemma profile_erased:
  assumes "for_each execute (erasing_profile i) s = (Inr (), t)"
  shows "pt_work (w_profile t) = filter (\<lambda>x. sr_actor x \<noteq> i) (pt_work (w_profile s))"
    and "pt_education (w_profile t) = filter (\<lambda>x. sr_actor x \<noteq> i) (pt_education (w_profile s))"
    and "pt_skills (w_profile t) = filter (\<lambda>x. sk_actor x \<noteq> i) (pt_skills (w_profile s))"
    and "pt_articles (w_profile t) = filter (\<lambda>x. sa_actor x \<noteq> i) (pt_articles (w_profile s))"
    and "pt_links (w_profile t) = filter (\<lambda>x. vl_actor x \<noteq> i) (pt_links (w_profile s))"
    and "pt_sections (w_profile t) = filter (\<lambda>x. sr_actor x \<noteq> i) (pt_sections (w_profile s))"
    and "w_jobs t = delete_applications_where (\<lambda>a. ja_applicant a = i) (w_jobs s)"
    and "w_aliases t = filter (\<lambda>x. al_actor x \<noteq> i) (w_aliases s)"
    and "w_posts t = w_posts s" "w_actors t = w_actors s" "w_reports t = w_reports s" "w_tombstones t = w_tombstones s"
      "w_accounts t = w_accounts s"
  using assms by (simp_all add: erasing_profile_def bindE_Inr execute_Inr on_profile_def on_jobs_def)

lemma relations_erased:
  assumes "for_each execute (erasing_relations i) s = (Inr (), t)"
  shows "w_follows t = filter (\<lambda>f. f_follower f \<noteq> i \<and> f_following f \<noteq> i) (w_follows s)"
    and "w_blocks t = filter (\<lambda>b. b_actor b \<noteq> i \<and> b_target b \<noteq> i) (w_blocks s)"
    and "w_mutes t = filter (\<lambda>b. b_actor b \<noteq> i \<and> b_target b \<noteq> i) (w_mutes s)"
    and "list_all (\<lambda>r. r_actor r \<noteq> i) (w_likes t)" "list_all (\<lambda>r. r_actor r \<noteq> i) (w_boosts t)"
    and "list_all (\<lambda>m. ma_actor m \<noteq> i) (w_media t)"
    and "w_posts t = filter (\<lambda>p. p_actor_id p \<noteq> i) (w_posts s)"
    and "w_jobs t = delete_jobs_where (\<lambda>j. jb_actor_id j = i) (w_jobs s)"
    and "w_deliveries t = filter (\<lambda>d. d_actor_id d \<noteq> i) (w_deliveries s)"
    and "list_all (\<lambda>r. rp_reporter r \<noteq> i) (w_reports t)"
    and "w_actors t = w_actors s" "w_profile t = w_profile s" "w_aliases t = w_aliases s" "w_tombstones t = w_tombstones s"
      "w_accounts t = w_accounts s"
  using assms by (auto simp: erasing_relations_def bindE_Inr execute_Inr on_jobs_def delete_posts_where_def Let_def list_all_iff)

lemma reports_cleared:
  assumes "clear_report_targets i s = (Inr (), u)" and "for_each execute (erasing_rest i) u = (Inr (), t)"
  shows "w_reports t = map (\<lambda>r. if rp_resolved_by r = Some i then r\<lparr>rp_resolved_by := None\<rparr> else r) (map (forget_target i) (w_reports s))"
    and "list_all (\<lambda>r. names_a_target (forget_target i r)) (w_reports s)"
    and "w_profile t = w_profile s" "w_aliases t = w_aliases s" "w_follows t = w_follows s" "w_blocks t = w_blocks s"
      "w_mutes t = w_mutes s" "w_likes t = w_likes s" "w_boosts t = w_boosts s" "w_media t = w_media s" "w_posts t = w_posts s"
      "w_jobs t = w_jobs s" "w_deliveries t = w_deliveries s" "w_actors t = w_actors s" "w_tombstones t = w_tombstones s"
      "w_accounts t = w_accounts s"
  using assms by (simp_all add: clear_report_targets_def execute_if_Inr erasing_rest_def bindE_Inr execute_Inr delete_owned_def)

lemma forgotten:
  "rp_reporter (forget_target i r) = rp_reporter r" "rp_target_actor (forget_target i r) \<noteq> Some i"
  by (simp_all add: forget_target_def)

lemma unlinked: "list_all (\<lambda>r. rp_reporter r \<noteq> i) xs \<Longrightarrow> list_all (\<lambda>r. rp_reporter r \<noteq> i \<and> rp_target_actor r \<noteq> Some i \<and> rp_resolved_by r \<noteq> Some i)
    (map (\<lambda>r. if rp_resolved_by r = Some i then r\<lparr>rp_resolved_by := None\<rparr> else r) (map (forget_target i) xs))"
  by (induction xs) (simp_all add: forgotten)


text \<open>The witness erases \<open>alice\<close>, who wrote one of the two posts.\<close>

definition erasure_world :: world where
  "erasure_world = (open_world ''open'')\<lparr>w_posts := [sample_post 20 1 ''https://home.example/posts/20'',
     sample_post 21 2 ''https://remote.example/posts/21'']\<rparr>"


section \<open>Accounts that are never erased\<close>

text \<open>A report whose only target is the account.\<close>

definition only_about :: "uuid \<Rightarrow> report_row \<Rightarrow> bool" where
  "only_about i r = (rp_target_actor r = Some i \<and> rp_target_post r = None \<and> rp_target_chat_addr r = None \<and> rp_reporter r \<noteq> i)"

lemma about_not_forgotten: "only_about i r \<Longrightarrow> \<not> names_a_target (forget_target i r)"
  by (simp add: only_about_def forget_target_def names_a_target_def)

lemma relations_keep_report:
  assumes "for_each execute (erasing_relations i) s = (Inr (), t)" and "r \<in> set (w_reports s)" "only_about i r"
  shows "r \<in> set (w_reports t)"
  using assms by (simp add: erasing_relations_def bindE_Inr execute_Inr on_jobs_def delete_posts_where_def Let_def only_about_def)

lemma reported_not_tombstoned:
  assumes "r \<in> set (w_reports s)" "only_about i r"
  shows "isl (fst (tombstone_actor E i s))"
proof (rule ccontr)
  assume "\<not> isl (fst (tombstone_actor E i s))"
  then obtain a t where run: "tombstone_actor E i s = (Inr a, t)" using not_isl_fst by blast
  obtain u s1 s2 s3 s4 s5 where u: "find_by_id E i s = (Inr a, u)"
    and marked: "execute (\<lambda>s. s\<lparr>w_tombstones := List.insert (a_ap_id a) (w_tombstones s)\<rparr>) (ticked u) = (Inr (), s1)"
    and blank: "execute (\<lambda>s. update_actor_row i (erased_row (w_now s)) s) s1 = (Inr (), s2)"
    and p: "for_each execute (erasing_profile i) s2 = (Inr (), s3)"
    and r: "for_each execute (erasing_relations i) s3 = (Inr (), s4)" and c: "clear_report_targets i s4 = (Inr (), s5)"
    using run by (auto simp: tombstone_actor_def bindE_Inr split: if_splits dest!: transaction_Inr)
  have "w_reports s3 = w_reports s"
    using marked blank tables_eqD(3) [OF quietD [OF quiet_find_by_id u]] profile_erased(11) [OF p]
    by (simp add: execute_Inr update_actor_row_def)
  then have "r \<in> set (w_reports s4)" using relations_keep_report [OF r] assms by simp
  then show False using c about_not_forgotten [OF assms(2)] by (auto simp: clear_report_targets_def execute_if_Inr list_all_iff)
qed

lemma atomic_tombstone: "atomic (tombstone_actor E i)"
  unfolding tombstone_actor_def by (intro atomic_intros quiet_intros)

lemma or_none_answers:
  assumes "quiet m"
  shows "\<exists>xs u. or_none m s = (Inr xs, u) \<and> tables u = tables s"
proof -
  obtain r u where m: "m s = (r, u)" by (cases "m s") blast
  have "or_none m s = (Inr (case r of Inr xs \<Rightarrow> xs | Inl _ \<Rightarrow> []), u)"
    by (simp add: or_none_def attempt_def bindE_def m ret_def)
  then show ?thesis using quietD [OF assms m] by blast
qed

text \<open>What the mailbox of the account is owed before anything is erased.\<close>

definition mailbox_owed :: "uuid \<Rightarrow> world \<Rightarrow> world \<Rightarrow> bool" where
  "mailbox_owed i s t \<longleftrightarrow> (\<forall>address. no_fault s \<and> Option.bind (actor_by_id i s) a_chatmail_addr = Some address
     \<longrightarrow> list_ex (op_for address) (w_chatmail_ops t))"

lemma owing:
  "\<exists>u. owe_mailbox i s = (Inr (), u) \<and> w_actors u = w_actors s \<and> w_posts u = w_posts s \<and> w_reports u = w_reports s \<and> mailbox_owed i s u"
proof (cases "w_fault s (w_tick s)")
  case True
  then show ?thesis
    by (simp add: owe_mailbox_def bindE_def attempt_def query_def stmt_def Let_def ret_def mailbox_owed_def no_fault_def) blast
next
  case False
  show ?thesis
  proof (cases "Option.bind (actor_by_id i s) a_chatmail_addr")
    case None
    then show ?thesis using False
      by (simp add: owe_mailbox_def bindE_def attempt_def query_def stmt_def Let_def ret_def mailbox_owed_def actor_by_id_def)
  next
    case (Some address)
    then have "actor_exists i s"
      by (auto simp: actor_by_id_def actor_exists_def list_ex_iff bind_eq_Some_conv dest: find_SomeD)
    have ran: "owe_mailbox i s = ignore_errors (enqueue_delete i address) (ticked s)"
      using False Some by (simp add: owe_mailbox_def bindE_def attempt_def query_def stmt_def Let_def actor_by_id_def)
    show ?thesis
      unfolding ran using \<open>actor_exists i s\<close> Some
      by (simp add: ignore_errors_def bindE_def attempt_def ret_def enqueue_delete_def stmt_def Let_def mailbox_owed_def no_fault_def
          actor_exists_def op_for_def) blast
  qed
qed

text \<open>C39. An account that a report names and nothing else, made by someone else, is never erased: the erasure
  fails on every run and leaves the row and the posts as they were.  The deletion of its mailbox is
  owed by then all the same, so the mailbox goes and the account stays.\<close>

theorem reported_account_is_never_erased:
  assumes "list_ex (only_about i) (w_reports s)"
  shows "isl (fst (erase_actor E A B i s)) \<and> w_actors (snd (erase_actor E A B i s)) = w_actors s
    \<and> w_posts (snd (erase_actor E A B i s)) = w_posts s \<and> mailbox_owed i s (snd (erase_actor E A B i s))"
proof -
  obtain x1 s1 where 1: "or_none (get_follower_inboxes i) s = (Inr x1, s1)" "tables s1 = tables s"
    using or_none_answers [of "get_follower_inboxes i" s] by (auto simp: get_follower_inboxes_def intro: quiet_intros)
  obtain x2 s2 where 2: "or_none (query (\<lambda>s. map p_id (filter (\<lambda>p. p_actor_id p = i) (w_posts s)))) s1 = (Inr x2, s2)" "tables s2 = tables s1"
    using or_none_answers by (metis quiet_query)
  obtain x3 s3 where 3: "or_none (query (\<lambda>s. map jb_id (filter (\<lambda>j. jb_actor_id j = i) (jt_jobs (w_jobs s))))) s2 = (Inr x3, s3)" "tables s3 = tables s2"
    using or_none_answers by (metis quiet_query)
  obtain x4 s4 where 4: "or_none (query (\<lambda>s. map ma_key (filter (\<lambda>m. ma_actor m = i) (w_media s)))) s3 = (Inr x4, s4)" "tables s4 = tables s3"
    using or_none_answers by (metis quiet_query)
  note same = tables_eqD [OF 4(2) [unfolded 3(2) 2(2) 1(2)]]
  obtain s5 where 5: "owe_mailbox i s4 = (Inr (), s5)" and kept: "w_actors s5 = w_actors s4" "w_posts s5 = w_posts s4"
    "w_reports s5 = w_reports s4" and owed: "mailbox_owed i s4 s5"
    using owing [of i s4] by blast
  obtain r where "r \<in> set (w_reports s5)" "only_about i r" using assms kept same by (auto simp: list_ex_iff)
  then obtain e t where e: "tombstone_actor E i s5 = (Inl e, t)"
    using reported_not_tombstoned [of r s5 i E] by (cases "tombstone_actor E i s5") (auto simp: isl_def)
  note t = tables_eqD [OF atomicD [OF atomic_tombstone e]]
  have "erase_actor E A B i s = (Inl e, t)"
    unfolding erase_actor_def using 1(1) 2(1) 3(1) 4(1) 5 e by (simp add: bindE_def)
  moreover have "mailbox_owed i s t"
    using owed same t by (simp add: mailbox_owed_def no_fault_def actor_by_id_def)
  ultimately show ?thesis using t kept same by simp
qed

text \<open>The witness: \<open>bob\<close> reported \<open>alice\<close>, who has a mailbox.\<close>

definition grudge :: report_row where
  "grudge = sample_reported\<lparr>rp_target_actor := Some 1, rp_target_post := None\<rparr>"

definition grudge_world :: world where
  "grudge_world = erasure_world\<lparr>w_reports := [grudge],
     w_actors := [alice\<lparr>a_domain := ''home.example'', a_chatmail_addr := Some ''alice@mail.example''\<rparr>, bob]\<rparr>"

abbreviation erase_alice :: "actor prog" where
  "erase_alice \<equiv> erase_actor sample_env sample_account_env sample_backends 1"

theorem reported_account_is_never_erased_witness:
  "isl (fst (erase_alice grudge_world)) \<and> w_posts (snd (erase_alice grudge_world)) = w_posts grudge_world
   \<and> list_ex (op_for ''alice@mail.example'') (w_chatmail_ops (snd (erase_alice grudge_world)))"
proof -
  have "list_ex (only_about 1) (w_reports grudge_world)" by code_simp
  note this [THEN reported_account_is_never_erased, of sample_env sample_account_env sample_backends]
  moreover have "no_fault grudge_world"
    by (simp add: grudge_world_def erasure_world_def open_world_def sample_world_def no_fault_def)
  moreover have "Option.bind (actor_by_id 1 grudge_world) a_chatmail_addr = Some ''alice@mail.example''" by code_simp
  ultimately show ?thesis by (simp add: mailbox_owed_def)
qed

section \<open>Mailbox deletions settle\<close>

context bystander
begin

lemma keeps_deletion_calls:
  "keeps (\<lambda>s. proj s = T) (client_delete_account C a)" "keeps (\<lambda>s. proj s = T) (client_account_exists C a)"
  unfolding client_delete_account_def client_account_exists_def
  by (intro keeps_intros keeps_request keeps_checked_request keeps_parsed keeps_segment)+

end

interpretation of_mailboxes: bystander "\<lambda>s. (w_chatmail_ops s, w_fault s, w_now s)"
  by unfold_locales simp_all

text \<open>What an attempt at time \<open>now\<close> makes of the operation: it succeeded, or it counts one attempt more.\<close>

definition attempted :: "timestamp \<Rightarrow> chatmail_op \<Rightarrow> chatmail_op \<Rightarrow> bool" where
  "attempted now x y \<longleftrightarrow> co_id y = co_id x \<and> (co_state y = ''succeeded''
     \<or> co_attempts y = co_attempts x + 1 \<and> co_next_attempt y \<le> now + 3600000
       \<and> co_state y = (if MAX_OP_ATTEMPTS \<le> co_attempts y then ''failed'' else ''pending''))"

lemma op_backoff_hour: "op_backoff n \<le> 3600"
  by (simp add: op_backoff_def)

lemma marks_run:
  assumes "no_fault s"
  shows "\<exists>u. mark_succeeded i s = (Inr (), u) \<and> w_fault u = w_fault s \<and> w_now u = w_now s
      \<and> w_chatmail_ops u = map (\<lambda>y. if co_id y = i then y\<lparr>co_state := ''succeeded'', co_attempts := co_attempts y + 1, co_last_error := None\<rparr> else y) (w_chatmail_ops s)"
    and "\<exists>u. mark_failed i n why s = (Inr (), u) \<and> w_fault u = w_fault s \<and> w_now u = w_now s
      \<and> w_chatmail_ops u = map (\<lambda>y. if co_id y = i then y\<lparr>co_attempts := n + 1, co_last_error := Some why,
          co_state := (if MAX_OP_ATTEMPTS \<le> n + 1 then ''failed'' else ''pending''),
          co_next_attempt := w_now s + 1000 * op_backoff (n + 1)\<rparr> else y) (w_chatmail_ops s)"
  using assms
  by (simp_all add: mark_succeeded_def mark_failed_def Let_def ignore_errors_def attempt_def bindE_def ret_def execute_def stmt_def
      no_fault_def on_op_def)

lemma drain_one_attempts:
  assumes "no_fault s"
  shows "\<exists>b u g. drain_one C x s = (Inr b, u) \<and> w_fault u = w_fault s \<and> w_now u = w_now s
    \<and> w_chatmail_ops u = map (\<lambda>y. if co_id y = co_id x then g y else y) (w_chatmail_ops s)
    \<and> attempted (w_now s) x (g x)"
proof -
  let ?proj = "\<lambda>s. (w_chatmail_ops s, w_fault s, w_now s)"
  obtain r u where r: "client_delete_account C (co_address x) s = (r, u)" by (cases "client_delete_account C (co_address x) s") blast
  have u: "?proj u = ?proj s" using of_mailboxes.keeps_deletion_calls(1) r unfolding keeps_def by (metis snd_conv)
  obtain q v where q: "client_account_exists C (co_address x) u = (q, v)" by (cases "client_account_exists C (co_address x) u") blast
  have v: "?proj v = ?proj s" using of_mailboxes.keeps_deletion_calls(2) q u unfolding keeps_def by (metis snd_conv)
  have nf: "no_fault u" "no_fault v" using assms u v by (simp_all add: no_fault_def)
  have failing: "attempted (w_now s) x (x\<lparr>co_attempts := co_attempts x + 1, co_last_error := Some why,
          co_state := (if MAX_OP_ATTEMPTS \<le> co_attempts x + 1 then ''failed'' else ''pending''),
          co_next_attempt := w_now s + 1000 * op_backoff (co_attempts x + 1)\<rparr>)" for why
    using op_backoff_hour [of "co_attempts x + 1"] by (simp add: attempted_def)
  have success: "attempted (w_now s) x (x\<lparr>co_state := ''succeeded'', co_attempts := co_attempts x + 1, co_last_error := None\<rparr>)"
    by (simp add: attempted_def)
  show ?thesis
  proof (cases r)
    case (Inl e)
    obtain w where "mark_failed (co_id x) (co_attempts x) (error_text e) u = (Inr (), w)" and w: "w_fault w = w_fault u" "w_now w = w_now u"
      "w_chatmail_ops w = map (\<lambda>y. if co_id y = co_id x then y\<lparr>co_attempts := co_attempts x + 1, co_last_error := Some (error_text e),
          co_state := (if MAX_OP_ATTEMPTS \<le> co_attempts x + 1 then ''failed'' else ''pending''),
          co_next_attempt := w_now u + 1000 * op_backoff (co_attempts x + 1)\<rparr> else y) (w_chatmail_ops u)"
      using marks_run(2) [OF nf(1)] by blast
    then have "drain_one C x s = (Inr False, w)" by (simp add: drain_one_def bindE_def attempt_def r Inl ret_def)
    then show ?thesis using w u failing by fastforce
  next
    case (Inr y)
    show ?thesis
    proof (cases "q = Inr False")
      case True
      obtain w where "mark_succeeded (co_id x) v = (Inr (), w)" and w: "w_fault w = w_fault v" "w_now w = w_now v"
        "w_chatmail_ops w = map (\<lambda>y. if co_id y = co_id x then y\<lparr>co_state := ''succeeded'', co_attempts := co_attempts y + 1,
          co_last_error := None\<rparr> else y) (w_chatmail_ops v)"
        using marks_run(1) [OF nf(2)] by blast
      then have "drain_one C x s = (Inr True, w)" by (simp add: drain_one_def bindE_def attempt_def r q Inr True ret_def)
      then show ?thesis using w v success by fastforce
    next
      case False
      define why where "why = (case q of Inr _ \<Rightarrow> ''the sidecar accepted the deletion and the account still exists''
        | Inl e \<Rightarrow> ''liveness probe failed: '' @ error_text e)"
      obtain w where "mark_failed (co_id x) (co_attempts x) why v = (Inr (), w)" and w: "w_fault w = w_fault v" "w_now w = w_now v"
        "w_chatmail_ops w = map (\<lambda>y. if co_id y = co_id x then y\<lparr>co_attempts := co_attempts x + 1, co_last_error := Some why,
          co_state := (if MAX_OP_ATTEMPTS \<le> co_attempts x + 1 then ''failed'' else ''pending''),
          co_next_attempt := w_now v + 1000 * op_backoff (co_attempts x + 1)\<rparr> else y) (w_chatmail_ops v)"
        using marks_run(2) [OF nf(2)] by blast
      then have "drain_one C x s = (Inr False, w)"
        using False by (cases q) (auto simp: drain_one_def bindE_def attempt_def r q Inr ret_def why_def split: bool.splits)
      then show ?thesis using w v failing by fastforce
    qed
  qed
qed

lemma same_id: "distinct (map co_id xs) \<Longrightarrow> x \<in> set xs \<Longrightarrow> y \<in> set xs \<Longrightarrow> co_id x = co_id y \<Longrightarrow> x = y"
  by (auto simp: distinct_map dest: inj_onD)

lemma counting_attempts:
  assumes "no_fault s" and "distinct (map co_id (w_chatmail_ops s))"
    and "set xs \<subseteq> set (w_chatmail_ops s)" and "distinct (map co_id xs)"
  shows "\<exists>n u h. counting (drain_one C) xs s = (Inr n, u) \<and> w_fault u = w_fault s \<and> w_now u = w_now s
    \<and> w_chatmail_ops u = map h (w_chatmail_ops s)
    \<and> (\<forall>x\<in>set (w_chatmail_ops s). if x \<in> set xs then attempted (w_now s) x (h x) else h x = x)"
  using assms
proof (induction xs arbitrary: s)
  case Nil
  then show ?case by (auto simp: ret_def intro!: exI [of _ id])
next
  case (Cons x xs)
  let ?ops = "w_chatmail_ops s"
  obtain b u g where run: "drain_one C x s = (Inr b, u)" and u: "w_fault u = w_fault s" "w_now u = w_now s"
    and ops: "w_chatmail_ops u = map (\<lambda>y. if co_id y = co_id x then g y else y) ?ops" and g: "attempted (w_now s) x (g x)"
    using drain_one_attempts [OF Cons.prems(1), of C x] by blast
  have x: "x \<in> set ?ops" and fresh: "co_id x \<notin> co_id ` set xs" using Cons.prems by auto
  have only: "y = x" if "y \<in> set ?ops" "co_id y = co_id x" for y using same_id [OF Cons.prems(2) that(1) x that(2)] .
  define k where "k y = (if co_id y = co_id x then g y else y)" for y
  have ops: "w_chatmail_ops u = map k ?ops" unfolding ops k_def ..
  have kid: "co_id (k y) = co_id y" if "y \<in> set ?ops" for y
    using only [OF that] g by (auto simp: k_def attempted_def)
  then have ids: "map co_id (w_chatmail_ops u) = map co_id ?ops" by (simp add: ops)
  have other: "k y = y" if "y \<in> set ?ops" "y \<noteq> x" for y using only that by (auto simp: k_def)
  have sub: "set xs \<subseteq> set (w_chatmail_ops u)"
  proof
    fix z assume z: "z \<in> set xs"
    then have "z \<in> set ?ops" "z \<noteq> x" using Cons.prems(3) fresh by auto
    then show "z \<in> set (w_chatmail_ops u)" using other by (force simp: ops)
  qed
  have nf: "no_fault u" and dist: "distinct (map co_id (w_chatmail_ops u))" and rest: "distinct (map co_id xs)"
    using Cons.prems u ids by (simp_all add: no_fault_def)
  obtain n v h where run': "counting (drain_one C) xs u = (Inr n, v)" and v: "w_fault v = w_fault u" "w_now v = w_now u"
    and ops': "w_chatmail_ops v = map h (w_chatmail_ops u)"
    and h: "\<forall>y\<in>set (w_chatmail_ops u). if y \<in> set xs then attempted (w_now u) y (h y) else h y = y"
    using Cons.IH [OF nf dist sub rest] by blast
  have "if y \<in> set (x # xs) then attempted (w_now s) y (h (k y)) else h (k y) = y" if y: "y \<in> set ?ops" for y
  proof (cases "y = x")
    case True
    then have "k y \<notin> set xs" using kid [OF y] fresh by (metis image_eqI)
    moreover have "k y \<in> set (w_chatmail_ops u)" using y by (simp add: ops)
    ultimately have "h (k y) = k y" using h by auto
    then show ?thesis using True g by (simp add: k_def)
  next
    case False
    then have "k y = y" "y \<in> set (w_chatmail_ops u)" using other [OF y] y by (force simp: ops)+
    then show ?thesis using h False u by auto
  qed
  moreover have "counting (drain_one C) (x # xs) s = (Inr (if b then Suc n else n), v)"
    by (simp add: bindE_def run run' ret_def)
  ultimately show ?case using u v ops ops' by (intro exI [of _ "if b then Suc n else n"] exI [of _ v] exI [of _ "h \<circ> k"]) auto
qed

text \<open>The sweep of every hour: the operations that are due are attempted.\<close>

definition hourly_drain :: "backends \<Rightarrow> world \<Rightarrow> world" where
  "hourly_drain B s = snd (drain B (s\<lparr>w_now := w_now s + 3600000\<rparr>))"

text \<open>At most fifty operations wait, each for at most an hour and after at least \<open>n\<close> attempts.\<close>

definition waiting :: "nat \<Rightarrow> world \<Rightarrow> bool" where
  "waiting n s \<longleftrightarrow> no_fault s \<and> distinct (map co_id (w_chatmail_ops s))
     \<and> length (filter (\<lambda>x. co_state x = ''pending'') (w_chatmail_ops s)) \<le> 50
     \<and> list_all (\<lambda>x. co_state x = ''pending'' \<longrightarrow> int n \<le> co_attempts x \<and> (n \<noteq> 0 \<longrightarrow> co_attempts x < MAX_OP_ATTEMPTS)
         \<and> co_next_attempt x \<le> w_now s + 3600000) (w_chatmail_ops s)"

lemma fewer_pending:
  "(\<And>x. x \<in> set xs \<Longrightarrow> co_state (h x) = ''pending'' \<Longrightarrow> co_state x = ''pending'')
    \<Longrightarrow> length (filter (\<lambda>x. co_state x = ''pending'') (map h xs)) \<le> length (filter (\<lambda>x. co_state x = ''pending'') xs)"
  by (induction xs) (auto simp: le_SucI)

lemma waiting_step:
  assumes "waiting n s" and "bk_sidecar B = Some C"
  shows "waiting (Suc n) (hourly_drain B s)"
proof -
  let ?s = "s\<lparr>w_now := w_now s + 3600000, w_tick := Suc (w_tick s)\<rparr>" and ?ops = "w_chatmail_ops s"
  let ?due = "by_next_attempt (filter (\<lambda>x. co_state x = ''pending'') ?ops)"
  have nf: "no_fault s" and ids: "distinct (map co_id ?ops)"
    and few: "length (filter (\<lambda>x. co_state x = ''pending'') ?ops) \<le> 50"
    and each: "list_all (\<lambda>x. co_state x = ''pending'' \<longrightarrow> int n \<le> co_attempts x \<and> co_next_attempt x \<le> w_now s + 3600000) ?ops"
    using assms(1) by (auto simp: waiting_def list_all_iff)
  have "filter (op_due ?s) ?ops = filter (\<lambda>x. co_state x = ''pending'') ?ops"
    using each by (intro filter_cong) (auto simp: op_due_def list_all_iff)
  then have run: "drain B (s\<lparr>w_now := w_now s + 3600000\<rparr>) = counting (drain_one C) ?due ?s"
    using nf few assms(2) by (simp add: drain_def bindE_def attempt_def query_def stmt_def Let_def no_fault_def by_next_attempt_def)
  have due: "set ?due = {x \<in> set ?ops. co_state x = ''pending''}" "distinct (map co_id ?due)"
    using ids by (auto simp: by_next_attempt_def distinct_map intro: inj_on_subset)
  have same: "w_now ?s = w_now s + 3600000" "w_fault ?s = w_fault s" "w_chatmail_ops ?s = ?ops" by simp_all
  have sub: "set ?due \<subseteq> set ?ops" unfolding due(1) by blast
  have nf': "no_fault ?s" using nf by (simp add: no_fault_def)
  obtain m u h where u: "counting (drain_one C) ?due ?s = (Inr m, u)" "w_fault u = w_fault s" "w_now u = w_now s + 3600000"
    and ops: "w_chatmail_ops u = map h ?ops"
    and h: "\<forall>x\<in>set ?ops. if x \<in> set ?due then attempted (w_now s + 3600000) x (h x) else h x = x"
    using counting_attempts [of ?s ?due C, unfolded same] nf' ids sub due(2) by blast
  have hid: "co_id (h x) = co_id x" if "x \<in> set ?ops" for x
    using h that by (cases "x \<in> set ?due") (auto simp: attempted_def)
  have was: "co_state x = ''pending'' \<and> attempted (w_now s + 3600000) x (h x)" if "x \<in> set ?ops" "co_state (h x) = ''pending''" for x
    using h that due(1) by (cases "x \<in> set ?due") auto
  have "map co_id (map h ?ops) = map co_id ?ops" using hid by simp
  then have "distinct (map co_id (map h ?ops))" using ids by (simp only:)
  moreover have "length (filter (\<lambda>x. co_state x = ''pending'') (map h ?ops)) \<le> 50"
    using fewer_pending [of ?ops h] was few by fastforce
  moreover have "int (Suc n) \<le> co_attempts (h x) \<and> co_attempts (h x) < MAX_OP_ATTEMPTS \<and> co_next_attempt (h x) \<le> w_now u + 3600000"
    if "x \<in> set ?ops" "co_state (h x) = ''pending''" for x
    using was [OF that] each that u(3) by (auto simp: attempted_def list_all_iff split: if_splits)
  ultimately show ?thesis
    using nf u ids ops run by (simp add: waiting_def hourly_drain_def no_fault_def list_all_iff)
qed


definition owing_world :: world where
  "owing_world = sample_world\<lparr>w_chatmail_ops := [\<lparr>co_id = 40, co_actor = Some 1, co_address = ''alice@mail.example'',
     co_state = ''pending'', co_attempts = 0, co_last_error = None, co_next_attempt = 0\<rparr>]\<rparr>"


end
