(* ===== verification/Spec2Isabelle.thy ===== *)
theory Spec2Isabelle
  imports InboxClaims TrustClaims WorkClaims AccountClaims GrantClaims MailClaims AdminClaims
    ProfileClaims ErasureClaims
begin

text \<open>
  A model of noombat, a professional social network that speaks ActivityPub: its federation
  core, the policy code it rests on, accounts from their registration to their erasure, profiles,
  organisations, moderation, connections, job applications, and the mail filter and administration daemon of its Chatmail relay.

  \<^bold>\<open>The program.\<close> A request to \<open>/inbox\<close> or \<open>/users/{name}/inbox\<close>
  (\<open>noombat-api/src/routes/federation.rs\<close>) is checked for its digest, for a restriction of the
  sending domain and for the signature of a remote actor, whose document is fetched when it is not
  cached; then \<open>process_activity\<close> (\<open>noombat-federation/src/inbox.rs\<close>) binds the activity to that
  actor, verifies its integrity proof and calls one handler per activity type.  Handlers read and
  write PostgreSQL tables through \<open>noombat-identity/src/repo.rs\<close>, fetch further documents through
  a client guarded against server-side request forgery, and queue deliveries, index operations
  and image downloads for workers.

  Local accounts sign in with a key and a second factor (\<open>noombat-identity\<close>: \<open>login.rs\<close>, \<open>totp.rs\<close>,
  \<open>session.rs\<close>, \<open>email.rs\<close>); the middleware turns the token of a request into a \<open>viewer\<close>, and routes
  ask \<open>require_acts_for\<close> whom it acts for.  Two accounts connect by an invitation and its acceptance
  (\<open>connections.rs\<close>).  Applying to a posting (\<open>noombat-jobs\<close>) mints a capability, with which the
  employer opens the application until its budget is spent or the applicant takes it back.

  An account is registered (\<open>registration.rs\<close>), may enrol organisations up to ceilings, keeps a profile
  (\<open>profile.rs\<close>) whose employment claims an organisation confirms, and ends in an erasure (\<open>erasure.rs\<close>):
  its dependents and its row's content go, a \<open>Delete\<close> is queued for every follower, and the deletion of
  its mailbox is owed until the relay's daemon has done it (\<open>chatmail_ops.rs\<close>).  Moderators suspend accounts and
  resolve reports (\<open>moderation.rs\<close>).

  An instance may run a Chatmail relay (\<open>noombat-chatmail-admin\<close>).  Every message passes an SMTP proxy
  (\<open>filtermail.rs\<close>) that hands only encrypted mail on to the queue; a daemon (\<open>router.rs\<close>) creates and deletes
  mail accounts and maintains the tables Postfix reads.

  \<^bold>\<open>State and programs.\<close> The tables are the lists of rows of the record \<open>world\<close> (theory
  \<open>FedWorld\<close>), with the clock, the next identifier and the log of connections.  A function that
  takes a pool and returns a \<open>Result\<close> is a \<open>prog\<close>: from a world to a result and the world after
  it.  Every statement consults the oracle \<open>w_fault\<close> and may fail with \<open>Database\<close>; what was written
  before an error stays written, except inside \<open>transaction\<close>, which puts the tables back.  Random
  bytes are drawn from the stream \<open>w_entropy\<close>.  A \<open>SELECT\<close> with
  \<open>LIMIT 1\<close> and no order reads the first row.  The two halves of a \<open>try_join!\<close> run in the order
  they are written.  Handlers run one after the other: interleavings of two requests are not
  modelled, but for \<open>concurrent_refreshes_both_succeed\<close>, which interleaves two by their parts.
  Strings are UTF-8 bytes, UUIDs are natural numbers, time is in milliseconds.

  \<^bold>\<open>Parameters.\<close> What the repository does not contain is a field of \<open>env\<close> (\<open>HttpGuard\<close>),
  \<open>crypto\<close> (\<open>Envelope\<close>), \<open>route_env\<close> (\<open>InboxRoute\<close>), \<open>delivery_env\<close> (\<open>Delivery\<close>), \<open>account_env\<close>
  (\<open>Accounts\<close>), \<open>job_env\<close> (\<open>Applications\<close>), \<open>local_env\<close> (\<open>LocalActors\<close>), \<open>profile_env\<close> (\<open>Profiles\<close>), or of
  \<open>backends\<close> and \<open>sidecar\<close> (\<open>Sidecar\<close>): the URL parser, DNS and the network (functions
  of the connections made so far, so a peer may adapt its answers), the text parser of
  \<open>serde_json\<close> (\<open>parse_value\<close> keeps the last of two equal members, \<open>parse_struct\<close> refuses
  them), HTML sanitising, JCS, SHA-256, Ed25519, RSA, AES-GCM, Base64 and base58, JWT, Argon2id, TOTP codes,
  Markdown rendering, the CV document, and the rate limiter of the inbox.  The mail filter takes the MIME parser as an
  argument; the administration daemon takes \<open>admin_env\<close>, the resolution of links, the digest of the
  secret and the JSON codec.  A file operation that fails has no effect.  Properties that need their documented behaviour name it: \<open>aead_correct\<close>,
  \<open>signer_correct\<close>, \<open>jwt_round_trip\<close>.

  \<^bold>\<open>Theories.\<close>
    \<^item> \<open>Prelude\<close>: strings as Rust's standard library reads them, and the theorem collections.
    \<^item> \<open>CoreModel\<close>, \<open>Authorisation\<close>, \<open>NetGuard\<close>, \<open>EmailAddress\<close>, \<open>Envelope\<close>: \<open>noombat-core\<close>.  The visibility
      policy, private address ranges on machine words, address shape, secrets at rest.
    \<^item> \<open>Json\<close>: JSON values and \<open>noombat-ap\<close>: the documents and how serde reads them.
    \<^item> \<open>FedWorld\<close>: the tables and the program combinators, with the rules \<open>keeps\<close> and \<open>yields\<close>.
    \<^item> \<open>HttpGuard\<close>: \<open>http.rs\<close>, \<open>signed_fetch.rs\<close>.  Redirects are followed at most twice, which is
      the measure of \<open>send_from\<close>; an address literal has at most eight groups, the measure of
      \<open>read_groups\<close>.
    \<^item> \<open>Repo\<close>: \<open>repo.rs\<close>, \<open>hashtags.rs\<close>, \<open>delivery::enqueue\<close>, and the cascades of the schema.
    \<^item> \<open>SearchQueue\<close>: \<open>search_queue.rs\<close>, \<open>remote_indexing.rs\<close>, \<open>crosspost.rs\<close>.
    \<^item> \<open>InboxExtract\<close>: the readers of \<open>inbox.rs\<close> for URIs, content, images and tags.
    \<^item> \<open>ProofVerify\<close>: \<open>integrity_proof.rs\<close>.
    \<^item> \<open>InboxResolve\<close>: actors, signers and keys (\<open>inbox.rs\<close>, \<open>relay_verify.rs\<close>).
    \<^item> \<open>RelayVerify\<close>: \<open>relay.rs\<close> and the policies of \<open>relay_verify.rs\<close>.
    \<^item> \<open>InboxHandlers\<close>, \<open>MoveFlag\<close>: the handlers, the inbound Move and Flag, and the dispatcher.
    \<^item> \<open>InboxRoute\<close>: the request pipeline, up to \<open>deliver_all\<close> for a sequence of requests.
    \<^item> \<open>InboxInvariant\<close>: the contracts of the layers as locales.  A \<open>resolver_invariant\<close> is kept by
      fetching and storing actors, a \<open>handler_invariant\<close> by the statements of the handlers, an
      \<open>inbox_invariant\<close> by everything an activity of a given signer can do; \<open>statement_invariant\<close>
      asks for the single statements and is shown to give an \<open>inbox_invariant\<close>.
    \<^item> \<open>InboxSafety\<close>: their interpretations on concrete invariants of the tables.
    \<^item> \<open>InboxBehaviour\<close>: what the handlers do on their successful branches.
    \<^item> \<open>Delivery\<close>: \<open>delivery.rs\<close>, the worker that sends what was queued.  \<open>DeliveryProgress\<close> measures a
      queue by the attempts its rows have left and shows that every call lowers it.
    \<^item> \<open>Accounts\<close>: sessions, second factor, login, verified addresses, the viewer of a request, whom it
      acts for, and what blocks and mutes withhold.
    \<^item> \<open>Connections\<close>: \<open>connections.rs\<close> and its routes.  \<open>ConnectionGraph\<close> states the undirected graph the
      table is meant to be and shows that each statement does what the graph operation does.
    \<^item> \<open>Applications\<close>: postings, applications and capabilities of \<open>noombat-jobs\<close> with the routes, and
      the outgoing half of \<open>move_actor.rs\<close>.  \<open>GrantSafety\<close> has the locale \<open>grants_invariant\<close>, a contract
      of the statements that touch grants, and interprets it on an application that is closed and
      on a grant whose budget is being spent.
    \<^item> \<open>SmtpWire\<close>, \<open>FilterMail\<close>: \<open>filtermail.rs\<close>.  A connection is the list of chunks and failures its reads
      meet, the bytes sent on it, and the writes that will fail; \<open>converse\<close> is a partial function,
      shown total by the input that is left.  \<open>FilterSafety\<close> has the locale \<open>session_invariant\<close>, a contract of
      what a session may write, interpreted on a clean queue and on the limiter.
    \<^item> \<open>ChatAdmin\<close>: \<open>router.rs\<close>, \<open>access_maps.rs\<close>, \<open>allowlist.rs\<close>, \<open>config.rs\<close>, \<open>password.rs\<close> and the start of
      \<open>main.rs\<close>, over a map from paths to nodes in which every operation may fail.  \<open>AdminSafety\<close> has the
      locales \<open>effect\<close>, for relations every step of a handler keeps, and \<open>region\<close>, for the nodes it may change.
    \<^item> \<open>LocalActors\<close>: \<open>registration.rs\<close>, \<open>keys.rs\<close> and the operations of \<open>repo.rs\<close> on local actors.
    \<^item> \<open>Profiles\<close>: \<open>profile.rs\<close>, \<open>verification.rs\<close>.  \<open>Organizations\<close>: \<open>organization.rs\<close>, the routes of
      \<open>jobs.rs\<close> and \<open>jobs_federation.rs\<close>.
    \<^item> \<open>Sidecar\<close>: the client of the relay's daemon (\<open>admin_client.rs\<close>) against the daemon's table of routes,
      the search backend and the media store as things that may refuse.  \<open>Moderation\<close>: \<open>moderation.rs\<close>.
      \<open>Erasure\<close>: \<open>erasure.rs\<close>, \<open>chatmail_ops.rs\<close>, \<open>delete.rs\<close>, \<open>account.rs\<close>.
    \<^item> \<open>LocalSafety\<close>: which of these programs are \<open>quiet\<close> (write no table) or \<open>atomic\<close> (write none when
      they fail), and what a registration leaves.
    \<^item> \<open>Samples\<close>: a concrete environment, world and requests for the witnesses.
    \<^item> \<open>InboxClaims\<close>, \<open>TrustClaims\<close>, \<open>WorkClaims\<close>, \<open>AccountClaims\<close>, \<open>GrantClaims\<close>, \<open>MailClaims\<close>,
      \<open>AdminClaims\<close>, \<open>LocalClaims\<close>, \<open>OrgClaims\<close>, \<open>ProfileClaims\<close>, \<open>SidecarClaims\<close>, \<open>ModerationClaims\<close>, \<open>ErasureClaims\<close>:
      the properties of the inbox, of what it trusts, of the workers, of sessions, of applications and connections,
      of the relay, of registration, of organisations, of profiles, of the relay's client, of moderation and of
      erasure.  The locale \<open>bystander\<close> of \<open>ModerationClaims\<close> is a part of the world that calls to the search
      backend, the relay and the delivery queue leave alone; it is interpreted on the tables those calls must not touch.

  \<^bold>\<open>Not modelled.\<close> Backfill, the WebSocket chat, media processing, OAuth and the imports,
  Markdown and Typst, and the HTML pages of \<open>noombat-api\<close>; logging and metrics
  everywhere; the text that a database error adds to a message.
\<close>

end
